(* ===== verification/Js_Prelude.thy ===== *)
theory Js_Prelude
  imports Main "HOL-Library.Sublist" "HOL-Library.Multiset"
begin

text \<open>
  The fragment of the JavaScript standard library that the two web clients of Strom use, and the
  generic lemmas every other theory shares.

  A JavaScript string is a HOL \<open>string\<close>, read as the UTF-8 bytes of its text: the ASCII
  characters that the programs test for (\<open><\<close>, \<open>&\<close>, the dot, white space, ...) never occur inside
  a multi-byte sequence, so searching, splitting and replacing them is the same on bytes and on
  code units.  Case conversion and white space are the ASCII ones.  \<open>undefined\<close> and \<open>null\<close> are
  both \<open>None\<close>: every test of the sources treats them alike (\<open>== null\<close>, \<open>||\<close>, \<open>??\<close>, \<open>!x\<close>).
\<close>

named_theorems js_eval \<open>equations that evaluate the string operations on literals\<close>

section \<open>Values that may be missing\<close>

text \<open>\<open>a || b\<close> on strings: the empty string is falsy.\<close>

definition or_str :: "string \<Rightarrow> string \<Rightarrow> string" where
  "or_str a b = (if a = [] then b else a)"

text \<open>\<open>a || b\<close> where \<open>a\<close> may be \<open>undefined\<close>.\<close>

definition or_opt :: "string option \<Rightarrow> string \<Rightarrow> string" where
  "or_opt a b = (case a of None \<Rightarrow> b | Some s \<Rightarrow> or_str s b)"

text \<open>\<open>String(value)\<close> of a string that may be \<open>undefined\<close>.\<close>

definition js_String :: "string option \<Rightarrow> string" where
  "js_String v = (case v of None \<Rightarrow> ''undefined'' | Some s \<Rightarrow> s)"

definition truthy :: "string option \<Rightarrow> bool" where
  "truthy v = (case v of None \<Rightarrow> False | Some s \<Rightarrow> s \<noteq> [])"

lemma or_str_simps [simp, js_eval]:
  "or_str [] b = b"
  "or_str (c # a) b = c # a"
  by (simp_all add: or_str_def)

lemma or_opt_simps [simp, js_eval]:
  "or_opt None b = b"
  "or_opt (Some s) b = or_str s b"
  by (simp_all add: or_opt_def)

lemma js_String_simps [simp, js_eval]:
  "js_String None = ''undefined''"
  "js_String (Some s) = s"
  by (simp_all add: js_String_def)

lemma truthy_simps [simp, js_eval]:
  "truthy None = False"
  "truthy (Some s) = (s \<noteq> [])"
  by (simp_all add: truthy_def)

lemma or_opt_truthy: "truthy v \<Longrightarrow> or_opt v d = the v"
  by (cases v) (auto simp: or_str_def)

lemma or_opt_falsy: "\<not> truthy v \<Longrightarrow> or_opt v d = d"
  by (cases v) (auto simp: or_str_def)

section \<open>Characters\<close>

definition to_upper_char :: "char \<Rightarrow> char" where
  "to_upper_char c =
     (let n = (of_char c :: nat) in if 97 \<le> n \<and> n \<le> 122 then char_of (n - 32) else c)"

definition to_lower_char :: "char \<Rightarrow> char" where
  "to_lower_char c =
     (let n = (of_char c :: nat) in if 65 \<le> n \<and> n \<le> 90 then char_of (n + 32) else c)"

definition toUpperCase :: "string \<Rightarrow> string" where
  "toUpperCase s = map to_upper_char s"

definition toLowerCase :: "string \<Rightarrow> string" where
  "toLowerCase s = map to_lower_char s"

text \<open>The ASCII characters of JavaScript's white space and line terminators.\<close>

definition is_ws :: "char \<Rightarrow> bool" where
  "is_ws c \<longleftrightarrow> (of_char c :: nat) \<in> {9, 10, 11, 12, 13, 32}"

lemma to_lower_char_idem [simp]: "to_lower_char (to_lower_char c) = to_lower_char c"
  by (auto simp: to_lower_char_def Let_def)

lemma to_upper_char_idem [simp]: "to_upper_char (to_upper_char c) = to_upper_char c"
  by (auto simp: to_upper_char_def Let_def)

lemma toLowerCase_simps [simp, js_eval]:
  "toLowerCase [] = []"
  "toLowerCase (c # s) = to_lower_char c # toLowerCase s"
  by (simp_all add: toLowerCase_def)

lemma toUpperCase_simps [simp, js_eval]:
  "toUpperCase [] = []"
  "toUpperCase (c # s) = to_upper_char c # toUpperCase s"
  by (simp_all add: toUpperCase_def)

lemma toLowerCase_idem [simp]: "toLowerCase (toLowerCase s) = toLowerCase s"
  by (induction s) auto

lemma toUpperCase_idem [simp]: "toUpperCase (toUpperCase s) = toUpperCase s"
  by (induction s) auto

text \<open>
  \<open>s.length\<close> counts UTF-16 units: a byte that continues a character adds none, and the first byte of a
  character outside the basic plane adds two.
\<close>

definition unit_count :: "char \<Rightarrow> nat" where
  "unit_count c =
     (let n = (of_char c :: nat) in if 128 \<le> n \<and> n < 192 then 0 else if 240 \<le> n then 2 else 1)"

definition js_length :: "string \<Rightarrow> nat" where
  "js_length s = sum_list (map unit_count s)"

lemma js_length_simps [simp]:
  "js_length [] = 0"
  "js_length (c # s) = unit_count c + js_length s"
  "js_length (s @ t) = js_length s + js_length t"
  by (simp_all add: js_length_def)

lemma js_length_dropWhile: "js_length (dropWhile P s) \<le> js_length s"
  by (induction s) (auto intro: trans_le_add2)

lemma js_length_rev [simp]: "js_length (rev s) = js_length s"
  by (induction s) auto

section \<open>Searching\<close>

definition startsWith :: "string \<Rightarrow> string \<Rightarrow> bool" where
  "startsWith s p = (take (length p) s = p)"

fun js_includes :: "string \<Rightarrow> string \<Rightarrow> bool" where
  "js_includes [] p = (p = [])"
| "js_includes (c # s) p = (startsWith (c # s) p \<or> js_includes s p)"

lemma startsWith_prefix: "startsWith s p \<longleftrightarrow> prefix p s"
  unfolding startsWith_def by (metis append_eq_conv_conj prefix_def)

lemma startsWith_simps [simp, js_eval]:
  "startsWith s []"
  "\<not> startsWith [] (d # p)"
  "startsWith (c # s) (d # p) = (c = d \<and> startsWith s p)"
  by (auto simp: startsWith_prefix)

lemma includes_sublist: "js_includes s p \<longleftrightarrow> sublist p s"
  by (induction s p rule: js_includes.induct) (auto simp: startsWith_prefix sublist_Cons_right)

section \<open>Replacing and splitting\<close>

text \<open>\<open>s.replaceAll(c, r)\<close> for a one-character pattern.\<close>

definition replaceAll :: "char \<Rightarrow> string \<Rightarrow> string \<Rightarrow> string" where
  "replaceAll c r s = concat (map (\<lambda>x. if x = c then r else [x]) s)"

lemma replaceAll_simps [simp, js_eval]:
  "replaceAll c r [] = []"
  "replaceAll c r (x # s) = (if x = c then r else [x]) @ replaceAll c r s"
  by (simp_all add: replaceAll_def)

lemma replaceAll_append [simp]: "replaceAll c r (s @ t) = replaceAll c r s @ replaceAll c r t"
  by (simp add: replaceAll_def)

lemma replaceAll_absent: "c \<notin> set s \<Longrightarrow> replaceAll c r s = s"
  by (induction s) auto

text \<open>\<open>s.split(",")\<close>: the pieces between the occurrences of one character.\<close>

fun split1 :: "char \<Rightarrow> string \<Rightarrow> string list" where
  "split1 c [] = [[]]"
| "split1 c (x # s) =
     (if x = c then [] # split1 c s
      else (case split1 c s of [] \<Rightarrow> [[x]] | w # ws \<Rightarrow> (x # w) # ws))"

text \<open>
  \<open>s.split(/[...]+/)\<close>: the pieces between the maximal runs of separator characters.
\<close>

function split_runs :: "(char \<Rightarrow> bool) \<Rightarrow> string \<Rightarrow> string list" where
  "split_runs P s =
     takeWhile (\<lambda>c. \<not> P c) s #
       (case dropWhile (\<lambda>c. \<not> P c) s of
          [] \<Rightarrow> []
        | c # r \<Rightarrow> split_runs P (dropWhile P r))"
  by pat_completeness auto
termination
proof (relation "measure (\<lambda>(P, s). length s)")
  fix P :: "char \<Rightarrow> bool" and s r :: string and c
  assume "dropWhile (\<lambda>c. \<not> P c) s = c # r"
  then have "length (c # r) \<le> length s" by (metis length_dropWhile_le)
  moreover have "length (dropWhile P r) \<le> length r" by (rule length_dropWhile_le)
  ultimately show "((P, dropWhile P r), (P, s)) \<in> measure (\<lambda>(P, s). length s)" by simp
qed simp

declare split_runs.simps [simp del]

text \<open>\<open>xs.join(sep)\<close>.\<close>

fun join :: "string \<Rightarrow> string list \<Rightarrow> string" where
  "join sep [] = []"
| "join sep [w] = w"
| "join sep (w # v # ws) = w @ sep @ join sep (v # ws)"

definition trim :: "string \<Rightarrow> string" where
  "trim s = rev (dropWhile is_ws (rev (dropWhile is_ws s)))"

lemma split1_nonempty [simp]: "split1 c s \<noteq> []"
  by (induction s) (auto split: list.splits)

lemma join_Cons: "ws \<noteq> [] \<Longrightarrow> join sep (w # ws) = w @ sep @ join sep ws"
  by (cases ws) auto

lemma join_split1: "join [c] (split1 c s) = s"
proof (induction s)
  case (Cons x s)
  obtain w ws where w: "split1 c s = w # ws" by (cases "split1 c s") auto
  with Cons show ?case by (cases ws) auto
qed simp

lemma split1_no_sep: "w \<in> set (split1 c s) \<Longrightarrow> c \<notin> set w"
  by (induction s arbitrary: w) (auto split: if_splits list.splits)

lemma split_runs_no_sep: "w \<in> set (split_runs P s) \<Longrightarrow> x \<in> set w \<Longrightarrow> \<not> P x"
proof (induction P s arbitrary: w rule: split_runs.induct)
  case (1 P s)
  show ?case
  proof (cases "w = takeWhile (\<lambda>c. \<not> P c) s")
    case True
    with "1.prems" show ?thesis by (auto dest: set_takeWhileD)
  next
    case False
    with "1.prems" obtain c r where cr: "dropWhile (\<lambda>c. \<not> P c) s = c # r"
      and "w \<in> set (split_runs P (dropWhile P r))"
      by (cases "dropWhile (\<lambda>c. \<not> P c) s") (auto simp: split_runs.simps [of P s])
    with "1.IH" "1.prems" show ?thesis by blast
  qed
qed

lemma trim_subset: "set (trim s) \<subseteq> set s"
  by (auto simp: trim_def dest!: set_dropWhileD)

lemma js_length_trim: "js_length (trim s) \<le> js_length s"
  unfolding trim_def js_length_rev by (metis js_length_dropWhile js_length_rev order_trans)

lemma trim_idem [simp]: "trim (trim s) = trim s"
proof -
  have d: "dropWhile P (rev (dropWhile P (rev (dropWhile P t)))) =
      rev (dropWhile P (rev (dropWhile P t)))" for P :: "char \<Rightarrow> bool" and t
  proof (cases "dropWhile P t")
    case (Cons a u)
    then have a: "\<not> P a" by (metis hd_dropWhile list.discI list.sel(1))
    have "rev (dropWhile P (rev (a # u))) = a # rev (dropWhile P (rev u))"
      using a by (simp add: dropWhile_append3)
    with a Cons show ?thesis by simp
  next
    case Nil
    then show ?thesis by (simp only: rev.simps dropWhile.simps)
  qed
  show ?thesis by (simp add: trim_def d)
qed

section \<open>Lists and objects\<close>

text \<open>\<open>xs.find(p)\<close>; an object literal used as a table is an association list read by \<open>map_of\<close>.\<close>

abbreviation find_first :: "('a \<Rightarrow> bool) \<Rightarrow> 'a list \<Rightarrow> 'a option" where
  "find_first p xs \<equiv> List.find p xs"

lemma find_Some_mem: "List.find p xs = Some x \<Longrightarrow> x \<in> set xs \<and> p x"
  by (metis find_Some_iff nth_mem)

lemma find_ex: "(\<exists>x\<in>set xs. p x) \<longleftrightarrow> (\<exists>y. List.find p xs = Some y)"
  by (metis find_None_iff not_None_eq)

text \<open>\<open>xs.sort(cmp)\<close>, which is stable, for a comparison given as \<open>le\<close> (\<open>cmp(a, b) <= 0\<close>).\<close>

fun insert_by :: "('a \<Rightarrow> 'a \<Rightarrow> bool) \<Rightarrow> 'a \<Rightarrow> 'a list \<Rightarrow> 'a list" where
  "insert_by le x [] = [x]"
| "insert_by le x (y # ys) = (if le x y then x # y # ys else y # insert_by le x ys)"

fun sort_by :: "('a \<Rightarrow> 'a \<Rightarrow> bool) \<Rightarrow> 'a list \<Rightarrow> 'a list" where
  "sort_by le [] = []"
| "sort_by le (x # xs) = insert_by le x (sort_by le xs)"

lemma mset_insert_by [simp]: "mset (insert_by le x xs) = add_mset x (mset xs)"
  by (induction xs) auto

lemma mset_sort_by [simp]: "mset (sort_by le xs) = mset xs"
  by (induction xs) auto

lemma set_sort_by [simp]: "set (sort_by le xs) = set xs"
  by (metis mset_sort_by set_mset_mset)

lemma length_sort_by [simp]: "length (sort_by le xs) = length xs"
  by (metis mset_sort_by size_mset)

text \<open>
  The interface the programs rely on when they sort: a total preorder on the values that occur.
\<close>

locale comparator =
  fixes carrier :: "'a \<Rightarrow> bool"
    and le :: "'a \<Rightarrow> 'a \<Rightarrow> bool"
  assumes total: "carrier x \<Longrightarrow> carrier y \<Longrightarrow> le x y \<or> le y x"
    and trans: "carrier x \<Longrightarrow> carrier y \<Longrightarrow> carrier z \<Longrightarrow> le x y \<Longrightarrow> le y z \<Longrightarrow> le x z"
begin

lemma set_insert_by: "set (insert_by le x xs) = insert x (set xs)"
  by (metis mset_insert_by set_mset_add_mset_insert set_mset_mset)

lemma sorted_insert_by:
  "list_all carrier (x # xs) \<Longrightarrow> sorted_wrt le xs \<Longrightarrow> sorted_wrt le (insert_by le x xs)"
proof (induction xs)
  case (Cons y ys)
  have car: "carrier x" "carrier y" "\<And>z. z \<in> set ys \<Longrightarrow> carrier z"
    using Cons.prems(1) by (auto simp: list_all_iff)
  have yl: "\<And>z. z \<in> set ys \<Longrightarrow> le y z" using Cons.prems(2) by simp
  show ?case
  proof (cases "le x y")
    case True
    then have "le x z" if "z \<in> set ys" for z using trans [OF car(1,2)] car(3) yl that by blast
    with True Cons.prems(2) show ?thesis by simp
  next
    case False
    then have "le y x" using total [OF car(1,2)] by blast
    moreover have "sorted_wrt le (insert_by le x ys)" using Cons by simp
    ultimately show ?thesis using False yl by (simp add: set_insert_by)
  qed
qed simp

lemma sorted_sort_by: "list_all carrier xs \<Longrightarrow> sorted_wrt le (sort_by le xs)"
  by (induction xs) (auto intro!: sorted_insert_by simp: list_all_iff)

lemma insert_by_least: "(\<forall>y\<in>set xs. le x y) \<Longrightarrow> insert_by le x xs = x # xs"
  by (cases xs) auto

lemma sort_by_sorted: "sorted_wrt le xs \<Longrightarrow> sort_by le xs = xs"
  by (induction xs) (auto simp: insert_by_least)

lemma sort_by_idem: "list_all carrier xs \<Longrightarrow> sort_by le (sort_by le xs) = sort_by le xs"
  by (rule sort_by_sorted) (rule sorted_sort_by)

end

text \<open>
  The search loops of the programs: start with the first element and move on whenever an element is
  strictly closer.
\<close>

definition nearest :: "('a \<Rightarrow> 'd \<Rightarrow> bool) \<Rightarrow> ('a \<Rightarrow> 'd) \<Rightarrow> 'a \<Rightarrow> 'a list \<Rightarrow> 'a" where
  "nearest closer dist x xs =
     foldl (\<lambda>best y. if closer y (dist best) then y else best) x xs"

lemma nearest_mem: "nearest closer dist x xs \<in> insert x (set xs)"
  unfolding nearest_def by (induction xs rule: rev_induct) auto

lemma nearest_least:
  fixes key :: "'a \<Rightarrow> 'k :: linorder"
  assumes "\<And>y z. y \<in> insert x (set xs) \<Longrightarrow> z \<in> insert x (set xs) \<Longrightarrow>
      closer y (dist z) = (key y < key z)"
  shows "\<forall>y\<in>insert x (set xs). key (nearest closer dist x xs) \<le> key y"
  using assms
proof (induction xs rule: rev_induct)
  case (snoc y xs)
  have IH: "\<forall>z\<in>insert x (set xs). key (nearest closer dist x xs) \<le> key z"
    using snoc.prems by (intro snoc.IH) auto
  have "nearest closer dist x xs \<in> insert x (set xs)" by (rule nearest_mem)
  then have c: "closer y (dist (nearest closer dist x xs)) = (key y < key (nearest closer dist x xs))"
    by (intro snoc.prems) auto
  have n: "nearest closer dist x (xs @ [y]) =
      (if key y < key (nearest closer dist x xs) then y else nearest closer dist x xs)"
    using c by (simp add: nearest_def)
  show ?case
  proof
    fix z
    assume "z \<in> insert x (set (xs @ [y]))"
    then have "z = y \<or> z \<in> insert x (set xs)" by auto
    then show "key (nearest closer dist x (xs @ [y])) \<le> key z"
    proof
      assume "z = y"
      then show ?thesis unfolding n by (simp add: not_less)
    next
      assume "z \<in> insert x (set xs)"
      with IH have "key (nearest closer dist x xs) \<le> key z" by blast
      then show ?thesis unfolding n by (cases "key y < key (nearest closer dist x xs)") auto
    qed
  qed
qed (simp add: nearest_def)

text \<open>
  Whatever the comparison is, as long as it is a strict order, nothing that was looked at is closer
  than the one that was chosen.
\<close>

lemma nearest_minimal:
  assumes "\<And>y d. closer y d = lt (dist y) d" and "\<And>a. \<not> lt a a"
    and "\<And>a b c. lt a b \<Longrightarrow> lt b c \<Longrightarrow> lt a c"
  shows "\<forall>y\<in>insert x (set xs). \<not> closer y (dist (nearest closer dist x xs))"
proof (induction xs rule: rev_induct)
  case (snoc y xs)
  have c: "closer = (\<lambda>y. lt (dist y))" using assms(1) by blast
  let ?m = "nearest closer dist x xs"
  have n: "nearest closer dist x (xs @ [y]) = (if closer y (dist ?m) then y else ?m)"
    by (simp add: nearest_def)
  show ?case using snoc.IH assms(2,3) unfolding n unfolding c by auto
qed (simp add: nearest_def assms(1,2))

end
