(* ===== verification/Js_Number.thy ===== *)
theory Js_Number
  imports Js_Prelude Complex_Main "HOL-Library.Log_Nat"
begin

text \<open>
  JavaScript numbers.  A finite number is the rational it denotes; the arithmetic operations round
  to a significand of 53 bits, ties to even, as IEEE binary64 does (\<open>rnd53\<close>).  Not modelled: the
  sign of zero, which no program text here can observe, and the bounds on the exponent (no
  overflow to infinity and no subnormal numbers arise from the magnitudes the programs handle).

  The locale \<open>rounding\<close> states what the clients' proofs need of a rounding, and \<open>rnd53\<close> is its
  interpretation.
\<close>

section \<open>Rounding\<close>

text \<open>The laws of a rounding with 53 bits: monotone, exact on the safe integers, and close.\<close>

locale rounding =
  fixes rnd :: "rat \<Rightarrow> rat"
  assumes mono: "x \<le> y \<Longrightarrow> rnd x \<le> rnd y"
    and rnd_int: "\<bar>n\<bar> \<le> 2 ^ 53 \<Longrightarrow> rnd (of_int n) = of_int n"
    and close: "\<bar>rnd x - x\<bar> \<le> \<bar>x\<bar> / 2 ^ 53"
begin

lemma rnd_0 [simp]: "rnd 0 = 0"
  using rnd_int [of 0] by simp

lemma rnd_1 [simp]: "rnd 1 = 1"
  using rnd_int [of 1] by simp

lemma rnd_nonneg: "0 \<le> x \<Longrightarrow> 0 \<le> rnd x"
  using mono [of 0 x] by simp

lemma rnd_le_int: "x \<le> of_int n \<Longrightarrow> \<bar>n\<bar> \<le> 2 ^ 53 \<Longrightarrow> rnd x \<le> of_int n"
  using mono [of x "of_int n"] rnd_int [of n] by simp

lemma rnd_ge_int: "of_int n \<le> x \<Longrightarrow> \<bar>n\<bar> \<le> 2 ^ 53 \<Longrightarrow> of_int n \<le> rnd x"
  using mono [of "of_int n" x] rnd_int [of n] by simp

lemma close_nonneg:
  assumes "0 \<le> x"
  shows "x - x / 2 ^ 53 \<le> rnd x" and "rnd x \<le> x + x / 2 ^ 53"
proof -
  have "\<bar>rnd x - x\<bar> \<le> x / 2 ^ 53" using close [of x] assms by (simp only: abs_of_nonneg)
  then show "x - x / 2 ^ 53 \<le> rnd x" and "rnd x \<le> x + x / 2 ^ 53" by linarith+
qed

lemma rnd_pos: "0 < x \<Longrightarrow> 0 < rnd x"
proof -
  assume x: "0 < x"
  then have "0 < x - x / 2 ^ 53" by (simp add: field_simps)
  with close_nonneg [of x] x show ?thesis by linarith
qed

lemma rnd_eq_0 [simp]: "rnd x = 0 \<longleftrightarrow> x = 0"
proof
  assume r: "rnd x = 0"
  from close [of x] r have "\<bar>x\<bar> \<le> \<bar>x\<bar> / 2 ^ 53" by simp
  then show "x = 0" by (simp add: field_simps)
qed simp

text \<open>A value in an interval, rescaled to \<open>[0, h]\<close>, stays in \<open>[0, h]\<close>.\<close>

lemma ratio_in_unit:
  assumes "lo \<le> v" and "v \<le> hi"
  shows "0 \<le> rnd (rnd (v - lo) / rnd (hi - lo)) \<and> rnd (rnd (v - lo) / rnd (hi - lo)) \<le> 1"
proof -
  have n: "0 \<le> rnd (v - lo)" using assms by (simp add: rnd_nonneg)
  have m: "rnd (v - lo) \<le> rnd (hi - lo)" using assms by (intro mono) simp
  have q: "0 \<le> rnd (v - lo) / rnd (hi - lo)" using n m by simp
  have "rnd (v - lo) / rnd (hi - lo) \<le> 1"
    using n m by (cases "rnd (hi - lo) = 0") (auto simp: divide_le_eq_1 less_le)
  with q show ?thesis using rnd_nonneg [OF q] mono [of _ 1] by force
qed

lemma scaled_in_range:
  assumes "0 \<le> r" and "r \<le> 1" and "0 \<le> h" and "h \<le> 2 ^ 53"
  shows "0 \<le> rnd (r * of_int h) \<and> rnd (r * of_int h) \<le> of_int h"
proof
  show "0 \<le> rnd (r * of_int h)" using assms by (intro rnd_nonneg) simp
  have "r * of_int h \<le> of_int h" using assms by (simp add: mult_left_le_one_le)
  then show "rnd (r * of_int h) \<le> of_int h" using assms by (intro rnd_le_int) auto
qed

lemma flipped_in_range:
  assumes "0 \<le> a" and "a \<le> of_int h" and "0 \<le> h" and "h \<le> 2 ^ 53"
  shows "0 \<le> rnd (of_int h - a) \<and> rnd (of_int h - a) \<le> of_int h"
  using assms by (intro conjI rnd_nonneg rnd_le_int) auto

text \<open>The \<open>i\<close>-th of \<open>m\<close> equal steps over a width, computed with two roundings.\<close>

lemma spaced_close:
  assumes "0 \<le> w" and "0 < m" and "0 \<le> i" and "i \<le> m"
  shows "\<bar>rnd (i * rnd (w / m)) - i * w / m\<bar> \<le> w / 2 ^ 51"
proof -
  define q where "q = w / m"
  have q: "0 \<le> q" "i * q \<le> w"
    using assms by (simp_all add: q_def divide_le_eq mult_right_mono mult.commute)
  have "\<bar>i * rnd q - i * q\<bar> = i * \<bar>rnd q - q\<bar>"
    using assms(3) by (simp add: abs_mult flip: right_diff_distrib)
  also have "\<dots> \<le> i * (q / 2 ^ 53)"
    using close [of q] q(1) assms(3) by (intro mult_left_mono) simp_all
  also have "\<dots> \<le> w / 2 ^ 53" using q(2) by simp
  finally have a: "\<bar>i * rnd q - i * q\<bar> \<le> w / 2 ^ 53" .
  have "0 \<le> i * rnd q" using assms(3) q(1) by (simp add: rnd_nonneg)
  then have "\<bar>rnd (i * rnd q) - i * rnd q\<bar> \<le> i * rnd q / 2 ^ 53"
    using close [of "i * rnd q"] by simp
  moreover have "i * rnd q \<le> 2 * w" proof -
    have "w / 2 ^ 53 \<le> w" using assms(1) by simp
    with a q(2) show ?thesis by linarith
  qed
  ultimately have "\<bar>rnd (i * rnd q) - i * rnd q\<bar> \<le> 2 * w / 2 ^ 53"
    by (meson divide_right_mono order_trans zero_le_numeral zero_le_power)
  with a have "\<bar>rnd (i * rnd q) - i * q\<bar> \<le> 3 * w / 2 ^ 53" by linarith
  also have "\<dots> \<le> w / 2 ^ 51" using assms(1) by simp
  finally show ?thesis by (simp add: q_def)
qed

text \<open>The quotient of two safe integers never rounds across an integer.\<close>

lemma quotient_above:
  assumes "0 < b" and "0 \<le> a" and "a < 2 ^ 53" and "of_int n < of_int a / (of_int b :: rat)"
    and "0 \<le> n"
  shows "of_int n < rnd (of_int a / of_int b)"
proof -
  let ?q = "of_int a / of_int b :: rat"
  have "(of_int (n * b) :: rat) < of_int a" using assms by (simp add: field_simps)
  then have "n * b + 1 \<le> a" by (simp only: of_int_less_iff)
  then have "of_int n * of_int b + 1 \<le> (of_int a :: rat)"
    by (metis of_int_1 of_int_add of_int_le_iff of_int_mult)
  moreover have "0 < (of_int b :: rat)" using assms by simp
  ultimately have "(of_int n * of_int b + 1) / of_int b \<le> ?q" by (intro divide_right_mono) auto
  moreover have "(of_int n * of_int b + 1) / of_int b = of_int n + 1 / (of_int b :: rat)"
    using assms by (simp add: add_divide_distrib)
  ultimately have gap: "of_int n + 1 / of_int b \<le> ?q" by simp
  have "of_int a < (of_int (2 ^ 53) :: rat)" using assms(3) by (simp only: of_int_less_iff)
  then have "?q / 2 ^ 53 < 1 / of_int b" using assms by (simp add: field_simps)
  moreover have "?q - ?q / 2 ^ 53 \<le> rnd ?q" using assms by (intro close_nonneg) simp
  ultimately show ?thesis using gap by linarith
qed

lemma floor_quotient:
  assumes "0 < b" and "0 \<le> a" and "a < 2 ^ 53"
  shows "\<lfloor>rnd (of_int a / of_int b)\<rfloor> = a div b"
proof -
  let ?q = "of_int a / of_int b :: rat"
  have fl: "\<lfloor>?q\<rfloor> = a div b" by (rule floor_divide_of_int_eq)
  have bd: "0 \<le> a div b" "a div b \<le> a"
    using assms zdiv_mono2 [of a 1 b] by (simp_all add: pos_imp_zdiv_nonneg_iff)
  have "of_int (a div b) \<le> ?q" using fl by linarith
  then have lo: "of_int (a div b) \<le> rnd ?q" using bd assms by (intro rnd_ge_int) auto
  have "?q < of_int (a div b + 1)" using fl by linarith
  have "rnd ?q < of_int (a div b) + 1"
  proof -
    have "a + 1 \<le> (a div b + 1) * b"
    proof -
      have "a mod b < b" using assms(1) by simp
      moreover have "a div b * b + a mod b = a" by simp
      ultimately show ?thesis unfolding distrib_right by linarith
    qed
    then have "(of_int (a + 1) :: rat) \<le> of_int ((a div b + 1) * b)" by (simp only: of_int_le_iff)
    then have gap: "?q + 1 / of_int b \<le> of_int (a div b) + 1"
      using assms by (simp add: field_simps)
    have "of_int a < (of_int (2 ^ 53) :: rat)" using assms(3) by (simp only: of_int_less_iff)
    then have "?q / 2 ^ 53 < 1 / of_int b" using assms by (simp add: field_simps)
    moreover have "rnd ?q \<le> ?q + ?q / 2 ^ 53" using assms by (intro close_nonneg) simp
    ultimately show ?thesis using gap by linarith
  qed
  with lo show ?thesis by (simp add: floor_eq_iff)
qed

lemma ceiling_quotient:
  assumes "0 < b" and "0 \<le> a" and "a < 2 ^ 53"
  shows "\<lceil>rnd (of_int a / of_int b)\<rceil> = \<lceil>of_int a / (of_int b :: rat)\<rceil>"
proof -
  let ?q = "of_int a / of_int b :: rat"
  define c where "c = \<lceil>?q\<rceil>"
  have q0: "0 \<le> ?q" using assms by simp
  then have c0: "0 \<le> c" unfolding c_def by (metis ceiling_mono ceiling_zero)
  have "?q \<le> of_int a" using assms by (simp add: field_simps mult_le_cancel_left1)
  then have "c \<le> a" unfolding c_def by (simp add: ceiling_le_iff)
  have up: "rnd ?q \<le> of_int c"
    using c0 \<open>c \<le> a\<close> assms(3) by (intro rnd_le_int) (simp add: c_def, linarith)
  have "of_int c - 1 < rnd ?q"
  proof (cases "c = 0")
    case True
    then show ?thesis using rnd_nonneg [OF q0] by simp
  next
    case False
    have "of_int (c - 1) < ?q" unfolding c_def using ceiling_correct [of ?q] by simp
    then have "of_int (c - 1) < rnd ?q" using assms False c0 by (intro quotient_above) auto
    then show ?thesis by simp
  qed
  with up have "\<lceil>rnd ?q\<rceil> = c" by (simp add: ceiling_eq_iff)
  then show ?thesis by (simp add: c_def)
qed

end

text \<open>Round to the nearest integer, ties to even.\<close>

definition round_even :: "rat \<Rightarrow> int" where
  "round_even x =
     (let f = \<lfloor>x\<rfloor>; d = x - of_int f in
      if d < 1 / 2 then f else if 1 / 2 < d then f + 1 else if even f then f else f + 1)"

text \<open>The exponent of a positive rational: \<open>2 ^ ilog2 x \<le> x < 2 ^ (ilog2 x + 1)\<close>.\<close>

definition ilog2 :: "rat \<Rightarrow> int" where
  "ilog2 x =
     (let (p, q) = quotient_of x;
          k = int (floorlog 2 (nat p)) - int (floorlog 2 (nat q))
      in if 2 powi k \<le> x then k else k - 1)"

text \<open>The same on integers, halving instead of counting in unary when it is evaluated.\<close>

function int_bits :: "int \<Rightarrow> int" where
  "int_bits p = (if p \<le> 0 then 0 else 1 + int_bits (p div 2))"
  by pat_completeness auto
termination by (relation "measure nat") auto

declare int_bits.simps [simp del]

lemma int_bits_floorlog: "int_bits p = int (floorlog 2 (nat p))"
proof (induction p rule: int_bits.induct)
  case (1 p)
  show ?case
  proof (cases "p \<le> 0")
    case True
    then show ?thesis by (simp add: int_bits.simps [of p] floorlog_def)
  next
    case False
    then have "int_bits p = 1 + int (floorlog 2 (nat (p div 2)))"
      using 1 by (simp add: int_bits.simps [of p])
    also have "nat (p div 2) = nat p div 2" using False by (simp add: nat_div_distrib)
    also have "1 + int (floorlog 2 (nat p div 2)) = int (floorlog 2 (nat p))"
      using False compute_floorlog [of 2 "nat p"] by simp
    finally show ?thesis .
  qed
qed

lemma ilog2_code [code]:
  "ilog2 x =
     (let (p, q) = quotient_of x; k = int_bits p - int_bits q
      in if 2 powi k \<le> x then k else k - 1)"
  by (simp add: ilog2_def int_bits_floorlog)

definition rnd53_pos :: "rat \<Rightarrow> rat" where
  "rnd53_pos x =
     (let u = 2 powi (ilog2 x - 52) in of_int (round_even (x / u)) * u)"

definition rnd53 :: "rat \<Rightarrow> rat" where
  "rnd53 x = (if x = 0 then 0 else if x < 0 then - rnd53_pos (- x) else rnd53_pos x)"

lemma round_even_of_int [simp]: "round_even (of_int n) = n"
  by (simp add: round_even_def)

lemma round_even_close: "\<bar>of_int (round_even x) - x\<bar> \<le> 1 / 2"
  unfolding round_even_def Let_def abs_le_iff by (simp split: if_split) linarith

lemma round_even_mono: "x \<le> y \<Longrightarrow> round_even x \<le> round_even y"
proof -
  assume le: "x \<le> y"
  then consider "\<lfloor>x\<rfloor> = \<lfloor>y\<rfloor>" | "\<lfloor>x\<rfloor> + 1 \<le> \<lfloor>y\<rfloor>"
    using floor_mono [OF le] by linarith
  then show ?thesis
  proof cases
    case 1
    with le show ?thesis by (auto simp: round_even_def Let_def)
  next
    case 2
    have "round_even x \<le> \<lfloor>x\<rfloor> + 1" and "\<lfloor>y\<rfloor> \<le> round_even y"
      by (auto simp: round_even_def Let_def)
    with 2 show ?thesis by linarith
  qed
qed

lemma floorlog_powi_bounds:
  assumes "0 < n"
  shows "2 powi (int (floorlog 2 n) - 1) \<le> (of_nat n :: rat)"
    and "(of_nat n :: rat) < 2 powi int (floorlog 2 n)"
proof -
  have b: "2 ^ (floorlog 2 n - 1) \<le> n" "n < 2 ^ floorlog 2 n"
    using floorlog_bounds [of n 2] assms by auto
  with assms have pos: "0 < floorlog 2 n" by (cases "floorlog 2 n") auto
  have "(of_nat (2 ^ (floorlog 2 n - 1)) :: rat) \<le> of_nat n" using b(1) by (simp only: of_nat_le_iff)
  moreover have "int (floorlog 2 n) - 1 = int (floorlog 2 n - 1)" using pos by simp
  ultimately show "2 powi (int (floorlog 2 n) - 1) \<le> (of_nat n :: rat)"
    by (simp only: power_int_of_nat of_nat_power of_nat_numeral)
  have "(of_nat n :: rat) < of_nat (2 ^ floorlog 2 n)" using b(2) by (simp only: of_nat_less_iff)
  then show "(of_nat n :: rat) < 2 powi int (floorlog 2 n)" by simp
qed

lemma ilog2_bounds:
  assumes "0 < x"
  shows "2 powi ilog2 x \<le> x" and "x < 2 powi (ilog2 x + 1)"
proof -
  obtain p q where pq: "quotient_of x = (p, q)" by fastforce
  then have q: "0 < q" by (rule quotient_of_denom_pos)
  have x: "x = of_int p / of_int q" using pq by (rule quotient_of_div)
  with assms q have p: "0 < p" by (simp add: zero_less_divide_iff)
  define a where "a = int (floorlog 2 (nat p))"
  define b where "b = int (floorlog 2 (nat q))"
  have pb: "2 powi (a - 1) \<le> (of_int p :: rat)" "of_int p < (2 powi a :: rat)"
    using floorlog_powi_bounds [of "nat p"] p by (simp_all add: a_def of_nat_nat)
  have qb: "2 powi (b - 1) \<le> (of_int q :: rat)" "of_int q < (2 powi b :: rat)"
    using floorlog_powi_bounds [of "nat q"] q by (simp_all add: b_def of_nat_nat)
  have "(2 powi (a - 1) / 2 powi b :: rat) \<le> of_int p / of_int q"
    using pb qb p q by (intro frac_le) auto
  then have lo: "2 powi (a - b - 1) \<le> x" by (simp add: x power_int_diff)
  have "of_int p / of_int q < (2 powi a / 2 powi (b - 1) :: rat)"
    using pb qb p q by (intro frac_less) auto
  then have hi: "x < 2 powi (a - b + 1)" by (simp add: x power_int_diff power_int_add)
  have "ilog2 x = (if 2 powi (a - b) \<le> x then a - b else a - b - 1)"
    by (simp add: ilog2_def pq a_def b_def)
  then show "2 powi ilog2 x \<le> x" and "x < 2 powi (ilog2 x + 1)"
    using lo hi by (auto split: if_splits)
qed

lemma powi2_mono: "m \<le> n \<Longrightarrow> (2 powi m :: rat) \<le> 2 powi n"
  by (intro power_int_increasing) auto

lemma powi2_less: "(2 powi m :: rat) < 2 powi n \<Longrightarrow> m < n"
  by (metis linorder_not_le powi2_mono)

lemma ilog2_mono: "0 < x \<Longrightarrow> x \<le> y \<Longrightarrow> ilog2 x \<le> ilog2 y"
proof -
  assume x: "0 < x" and xy: "x \<le> y"
  from ilog2_bounds(1) [OF x] ilog2_bounds(2) [of y] x xy
  have "(2 powi ilog2 x :: rat) < 2 powi (ilog2 y + 1)" by linarith
  then show ?thesis using powi2_less by fastforce
qed

lemma significand_bounds:
  assumes "0 < x"
  shows "2 ^ 52 \<le> x / 2 powi (ilog2 x - 52)" and "x / 2 powi (ilog2 x - 52) < 2 ^ 53"
  using ilog2_bounds [OF assms] by (simp_all add: power_int_diff power_int_add field_simps)

lemma rnd53_pos_bounds:
  assumes "0 < x"
  shows "2 powi ilog2 x \<le> rnd53_pos x" and "rnd53_pos x \<le> 2 powi (ilog2 x + 1)"
proof -
  let ?u = "2 powi (ilog2 x - 52) :: rat"
  have u: "0 < ?u" by simp
  have "round_even (of_int (2 ^ 52)) \<le> round_even (x / ?u)"
    using significand_bounds(1) [OF assms] by (intro round_even_mono) simp
  then have "(of_int (2 ^ 52) :: rat) \<le> of_int (round_even (x / ?u))"
    by (simp only: of_int_le_iff round_even_of_int)
  then have "2 ^ 52 * ?u \<le> rnd53_pos x"
    using u by (simp add: rnd53_pos_def Let_def)
  then show "2 powi ilog2 x \<le> rnd53_pos x" by (simp add: power_int_diff)
  have "round_even (x / ?u) \<le> round_even (of_int (2 ^ 53))"
    using significand_bounds(2) [OF assms] by (intro round_even_mono) simp
  then have "of_int (round_even (x / ?u)) \<le> (of_int (2 ^ 53) :: rat)"
    by (simp only: of_int_le_iff round_even_of_int)
  then have "rnd53_pos x \<le> 2 ^ 53 * ?u"
    using u by (simp add: rnd53_pos_def Let_def)
  then show "rnd53_pos x \<le> 2 powi (ilog2 x + 1)" by (simp add: power_int_diff power_int_add)
qed

lemma rnd53_pos_mono: "0 < x \<Longrightarrow> x \<le> y \<Longrightarrow> rnd53_pos x \<le> rnd53_pos y"
proof (cases "ilog2 x = ilog2 y")
  case True
  assume "0 < x" "x \<le> y"
  then have "x / 2 powi (ilog2 y - 52) \<le> y / 2 powi (ilog2 y - 52)"
    by (intro divide_right_mono) auto
  with True show ?thesis by (simp add: rnd53_pos_def Let_def round_even_mono mult_right_mono)
next
  case False
  assume x: "0 < x" and xy: "x \<le> y"
  with False have "ilog2 x + 1 \<le> ilog2 y" using ilog2_mono [OF x xy] by simp
  then have "(2 powi (ilog2 x + 1) :: rat) \<le> 2 powi ilog2 y" by (rule powi2_mono)
  with rnd53_pos_bounds(2) [OF x] rnd53_pos_bounds(1) [of y] x xy show ?thesis by linarith
qed

lemma rnd53_pos_close:
  assumes "0 < x"
  shows "\<bar>rnd53_pos x - x\<bar> \<le> x / 2 ^ 53"
proof -
  let ?u = "2 powi (ilog2 x - 52) :: rat"
  have u: "0 < ?u" by simp
  have "rnd53_pos x - x = (of_int (round_even (x / ?u)) - x / ?u) * ?u"
    using u by (simp add: rnd53_pos_def Let_def algebra_simps)
  then have "\<bar>rnd53_pos x - x\<bar> = \<bar>of_int (round_even (x / ?u)) - x / ?u\<bar> * ?u"
    using u by (simp add: abs_mult)
  also have "\<dots> \<le> 1 / 2 * ?u" using u by (intro mult_right_mono round_even_close) auto
  also have "\<dots> = 2 powi ilog2 x / 2 ^ 53" by (simp add: power_int_diff)
  also have "\<dots> \<le> x / 2 ^ 53" using ilog2_bounds(1) [OF assms] by (intro divide_right_mono) auto
  finally show ?thesis .
qed

text \<open>A positive multiple of the unit in the last place is kept: in particular a safe integer.\<close>

lemma rnd53_pos_exact:
  assumes "x / 2 powi (ilog2 x - 52) = of_int m"
  shows "rnd53_pos x = x"
  unfolding rnd53_pos_def Let_def assms using assms by (simp add: field_simps)

lemma rnd53_pos_int:
  assumes "0 < n" and "n \<le> 2 ^ 53"
  shows "rnd53_pos (of_int n) = of_int n"
proof (cases "n = 2 ^ 53")
  case True
  have x: "(of_int n :: rat) = 2 powi 53" by (simp add: True)
  have a: "(2 powi 53 :: rat) < 2 powi (ilog2 (of_int n) + 1)"
    and b: "(2 powi ilog2 (of_int n) :: rat) < 2 powi 54"
    using ilog2_bounds [of "of_int n"] assms(1) x by simp_all
  from powi2_less [OF a] powi2_less [OF b] have "ilog2 (of_int n) = 53" by simp
  then show ?thesis by (intro rnd53_pos_exact [where m = "2 ^ 52"]) (simp add: True)
next
  case False
  with assms have "(of_int n :: rat) < of_int (2 ^ 53)" by (simp only: of_int_less_iff)
  with ilog2_bounds(1) [of "of_int n"] assms(1)
  have "(2 powi ilog2 (of_int n) :: rat) < 2 powi 53" by simp
  then have e: "ilog2 (of_int n) \<le> 52" using powi2_less by fastforce
  define k where "k = nat (52 - ilog2 (of_int n))"
  have "ilog2 (of_int n) - 52 = - int k" using e by (simp add: k_def)
  then have "of_int n / 2 powi (ilog2 (of_int n) - 52) = (of_int (n * 2 ^ k) :: rat)"
    by (simp add: power_int_minus divide_inverse)
  then show ?thesis by (rule rnd53_pos_exact)
qed

interpretation fl: rounding rnd53
proof
  fix x y :: rat
  assume xy: "x \<le> y"
  have pos: "0 < rnd53_pos z" if "0 < z" for z
    using rnd53_pos_bounds(1) [OF that] by (rule less_le_trans [rotated]) simp
  consider "x < 0" "y < 0" | "x < 0" "0 \<le> y" | "0 \<le> x" by linarith
  then show "rnd53 x \<le> rnd53 y"
  proof cases
    case 1
    with xy show ?thesis by (simp add: rnd53_def rnd53_pos_mono)
  next
    case 2
    with pos [of "- x"] pos [of y] show ?thesis by (auto simp: rnd53_def intro: order_trans [of _ 0])
  next
    case 3
    with xy pos [of y] show ?thesis by (auto simp: rnd53_def rnd53_pos_mono intro: less_imp_le)
  qed
next
  fix n :: int
  assume "\<bar>n\<bar> \<le> 2 ^ 53"
  then show "rnd53 (of_int n) = of_int n"
    using rnd53_pos_int [of n] rnd53_pos_int [of "- n"] by (auto simp: rnd53_def)
next
  fix x :: rat
  show "\<bar>rnd53 x - x\<bar> \<le> \<bar>x\<bar> / 2 ^ 53"
  proof (cases x "0 :: rat" rule: linorder_cases)
    case less
    have "\<bar>rnd53 x - x\<bar> = \<bar>rnd53_pos (- x) - (- x)\<bar>"
      using less by (simp add: rnd53_def abs_minus_commute add.commute)
    also have "\<dots> \<le> (- x) / 2 ^ 53" using less by (intro rnd53_pos_close) simp
    finally show ?thesis using less by simp
  next
    case greater
    then show ?thesis using rnd53_pos_close [of x] by (simp add: rnd53_def)
  qed (simp add: rnd53_def)
qed

text \<open>Scaling by a power of two commutes with rounding, so dividing by 1024 is exact.\<close>

lemma ilog2_unique: "0 < x \<Longrightarrow> 2 powi e \<le> x \<Longrightarrow> x < 2 powi (e + 1) \<Longrightarrow> ilog2 x = e"
proof -
  assume x: "0 < x" and e: "2 powi e \<le> x" "x < 2 powi (e + 1)"
  from e(1) ilog2_bounds(2) [OF x] have a: "(2 powi e :: rat) < 2 powi (ilog2 x + 1)" by linarith
  from e(2) ilog2_bounds(1) [OF x] have b: "(2 powi ilog2 x :: rat) < 2 powi (e + 1)" by linarith
  from powi2_less [OF a] powi2_less [OF b] show ?thesis by simp
qed

lemma ilog2_scale: "0 < x \<Longrightarrow> ilog2 (x / 2 ^ k) = ilog2 x - int k"
proof (rule ilog2_unique)
  assume x: "0 < x"
  show "2 powi (ilog2 x - int k) \<le> x / 2 ^ k"
    using ilog2_bounds(1) [OF x] by (simp add: power_int_diff divide_right_mono)
  have "2 powi (ilog2 x - int k + 1) = (2 powi (ilog2 x + 1) / 2 ^ k :: rat)"
    by (simp add: power_int_diff power_int_add)
  then show "x / 2 ^ k < 2 powi (ilog2 x - int k + 1)"
    using ilog2_bounds(2) [OF x] by (simp add: divide_strict_right_mono)
qed simp

lemma rnd53_scale: "rnd53 (x / 2 ^ k) = rnd53 x / 2 ^ k"
proof -
  have pos: "rnd53_pos (z / 2 ^ k) = rnd53_pos z / 2 ^ k" if "0 < z" for z
  proof -
    have u: "2 powi (ilog2 z - int k - 52) = (2 powi (ilog2 z - 52) / 2 ^ k :: rat)"
      by (simp add: power_int_diff)
    show ?thesis using that by (simp add: rnd53_pos_def Let_def ilog2_scale u)
  qed
  show ?thesis using pos [of x] pos [of "- x"] by (auto simp: rnd53_def divide_less_0_iff)
qed

section \<open>Numbers and their operations\<close>

datatype jsnum = Fin rat | PInf | NInf | NaN

abbreviation NInt :: "int \<Rightarrow> jsnum" where
  "NInt n \<equiv> Fin (of_int n)"

fun isFinite :: "jsnum \<Rightarrow> bool" where
  "isFinite (Fin x) = True"
| "isFinite _ = False"

fun num_neg :: "jsnum \<Rightarrow> jsnum" where
  "num_neg (Fin x) = Fin (- x)"
| "num_neg PInf = NInf"
| "num_neg NInf = PInf"
| "num_neg NaN = NaN"

fun num_add :: "jsnum \<Rightarrow> jsnum \<Rightarrow> jsnum" where
  "num_add (Fin x) (Fin y) = Fin (rnd53 (x + y))"
| "num_add NaN _ = NaN"
| "num_add _ NaN = NaN"
| "num_add PInf NInf = NaN"
| "num_add NInf PInf = NaN"
| "num_add PInf _ = PInf"
| "num_add _ PInf = PInf"
| "num_add NInf _ = NInf"
| "num_add _ NInf = NInf"

definition num_sub :: "jsnum \<Rightarrow> jsnum \<Rightarrow> jsnum" where
  "num_sub a b = num_add a (num_neg b)"

text \<open>The sign of a number, for the products and quotients with an infinity.\<close>

fun num_sgn :: "jsnum \<Rightarrow> int" where
  "num_sgn (Fin x) = (if x < 0 then - 1 else if x = 0 then 0 else 1)"
| "num_sgn PInf = 1"
| "num_sgn NInf = - 1"
| "num_sgn NaN = 0"

definition inf_of_sgn :: "int \<Rightarrow> jsnum" where
  "inf_of_sgn s = (if s < 0 then NInf else if s = 0 then NaN else PInf)"

fun num_mul :: "jsnum \<Rightarrow> jsnum \<Rightarrow> jsnum" where
  "num_mul (Fin x) (Fin y) = Fin (rnd53 (x * y))"
| "num_mul NaN _ = NaN"
| "num_mul _ NaN = NaN"
| "num_mul a b = inf_of_sgn (num_sgn a * num_sgn b)"

text \<open>Division by zero gives an infinity with the sign of the dividend, and \<open>0 / 0\<close> is NaN.\<close>

fun num_div :: "jsnum \<Rightarrow> jsnum \<Rightarrow> jsnum" where
  "num_div (Fin x) (Fin y) =
     (if y = 0 then inf_of_sgn (num_sgn (Fin x)) else Fin (rnd53 (x / y)))"
| "num_div NaN _ = NaN"
| "num_div _ NaN = NaN"
| "num_div (Fin x) _ = Fin 0"
| "num_div a (Fin y) = inf_of_sgn (num_sgn a * (if y < 0 then - 1 else 1))"
| "num_div _ _ = NaN"

text \<open>\<open>a % b\<close>: the remainder of truncating division, exact, with the sign of the dividend.\<close>

definition rat_trunc :: "rat \<Rightarrow> int" where
  "rat_trunc x = (if x < 0 then \<lceil>x\<rceil> else \<lfloor>x\<rfloor>)"

fun num_mod :: "jsnum \<Rightarrow> jsnum \<Rightarrow> jsnum" where
  "num_mod (Fin x) (Fin y) = (if y = 0 then NaN else Fin (x - of_int (rat_trunc (x / y)) * y))"
| "num_mod (Fin x) PInf = Fin x"
| "num_mod (Fin x) NInf = Fin x"
| "num_mod _ _ = NaN"

fun num_floor :: "jsnum \<Rightarrow> jsnum" where
  "num_floor (Fin x) = NInt \<lfloor>x\<rfloor>"
| "num_floor a = a"

fun num_ceil :: "jsnum \<Rightarrow> jsnum" where
  "num_ceil (Fin x) = NInt \<lceil>x\<rceil>"
| "num_ceil a = a"

text \<open>\<open>Math.round\<close>: ties towards plus infinity.\<close>

fun num_round :: "jsnum \<Rightarrow> jsnum" where
  "num_round (Fin x) = NInt \<lfloor>x + 1 / 2\<rfloor>"
| "num_round a = a"

fun num_abs :: "jsnum \<Rightarrow> jsnum" where
  "num_abs (Fin x) = Fin \<bar>x\<bar>"
| "num_abs NaN = NaN"
| "num_abs _ = PInf"

text \<open>\<open>a < b\<close> and \<open>a <= b\<close>: false when either is NaN.\<close>

fun num_less :: "jsnum \<Rightarrow> jsnum \<Rightarrow> bool" where
  "num_less (Fin x) (Fin y) = (x < y)"
| "num_less NaN _ = False"
| "num_less _ NaN = False"
| "num_less NInf b = (b \<noteq> NInf)"
| "num_less a PInf = (a \<noteq> PInf)"
| "num_less _ _ = False"

lemma num_less_irrefl: "\<not> num_less a a"
  by (cases a) simp_all

lemma num_less_trans: "num_less a b \<Longrightarrow> num_less b c \<Longrightarrow> num_less a c"
  by (cases a; cases b; cases c) simp_all

definition num_le :: "jsnum \<Rightarrow> jsnum \<Rightarrow> bool" where
  "num_le a b = (a \<noteq> NaN \<and> b \<noteq> NaN \<and> \<not> num_less b a)"

text \<open>\<open>a === b\<close>: NaN differs from everything.\<close>

definition num_eq :: "jsnum \<Rightarrow> jsnum \<Rightarrow> bool" where
  "num_eq a b = (a \<noteq> NaN \<and> a = b)"

text \<open>A number as a condition: zero and NaN are falsy.\<close>

definition num_truthy :: "jsnum \<Rightarrow> bool" where
  "num_truthy a = (a \<noteq> Fin 0 \<and> a \<noteq> NaN)"

definition num_or :: "jsnum \<Rightarrow> jsnum \<Rightarrow> jsnum" where
  "num_or a b = (if num_truthy a then a else b)"

text \<open>\<open>Math.min(...values)\<close> and \<open>Math.max(...values)\<close>: infinity of no values, NaN if one is NaN.\<close>

definition num_min2 :: "jsnum \<Rightarrow> jsnum \<Rightarrow> jsnum" where
  "num_min2 a b = (if a = NaN \<or> b = NaN then NaN else if num_less b a then b else a)"

definition num_max2 :: "jsnum \<Rightarrow> jsnum \<Rightarrow> jsnum" where
  "num_max2 a b = (if a = NaN \<or> b = NaN then NaN else if num_less a b then b else a)"

definition math_min :: "jsnum list \<Rightarrow> jsnum" where
  "math_min xs = foldl num_min2 PInf xs"

definition math_max :: "jsnum list \<Rightarrow> jsnum" where
  "math_max xs = foldl num_max2 NInf xs"

section \<open>Numbers as text\<close>

text \<open>Decimal digits of a natural number, most significant first.\<close>

function nat_dec :: "nat \<Rightarrow> string" where
  "nat_dec n = (if n < 10 then [char_of (48 + n)] else nat_dec (n div 10) @ [char_of (48 + n mod 10)])"
  by pat_completeness auto
termination
  by (relation "measure id") auto

declare nat_dec.simps [simp del]

definition int_dec :: "int \<Rightarrow> string" where
  "int_dec n = (if n < 0 then ''-'' @ nat_dec (nat (- n)) else nat_dec (nat n))"

text \<open>Put a decimal point before the last \<open>f\<close> digits, padding with zeros on the left.\<close>

definition point_digits :: "nat \<Rightarrow> nat \<Rightarrow> string" where
  "point_digits f n =
     (let m = nat_dec n;
          d = (if length m \<le> f then replicate (f + 1 - length m) (CHR ''0'') @ m else m);
          k = length d - f
      in if f = 0 then m else take k d @ ''.'' @ drop k d)"

text \<open>
  \<open>Number::toString\<close>.  Integers up to \<open>2 ^ 53\<close> print their decimal digits.  Any other finite
  number prints the shortest decimal that reads back as it: the least number \<open>k\<close> of digits such
  that \<open>s * 10 ^ (n - k)\<close>, with \<open>s\<close> the nearest integer, rounds to it (17 digits always suffice
  for binary64).
\<close>

definition dec_exponent :: "rat \<Rightarrow> int" where
  "dec_exponent x =
     (let (p, q) = quotient_of x;
          k = int (length (nat_dec (nat p))) - int (length (nat_dec (nat q)))
      in if 10 powi k \<le> x then k + 1 else k)"

fun shortest_digits :: "nat \<Rightarrow> nat \<Rightarrow> rat \<Rightarrow> int \<Rightarrow> nat \<times> nat" where
  "shortest_digits 0 k x n = (k, nat (round_even (x * 10 powi (int k - n))))"
| "shortest_digits (Suc fuel) k x n =
     (let s = round_even (x * 10 powi (int k - n)) in
      if rnd53 (of_int s * 10 powi (n - int k)) = x then (k, nat s)
      else shortest_digits fuel (Suc k) x n)"

definition layout_digits :: "nat \<Rightarrow> nat \<Rightarrow> int \<Rightarrow> string" where
  "layout_digits k s n =
     (let d = nat_dec s; e = n - 1 in
      if int k \<le> n \<and> n \<le> 21 then d @ replicate (nat (n - int k)) (CHR ''0'')
      else if 0 < n \<and> n \<le> 21 then take (nat n) d @ ''.'' @ drop (nat n) d
      else if - 6 < n \<and> n \<le> 0 then ''0.'' @ replicate (nat (- n)) (CHR ''0'') @ d
      else take 1 d @ (if k = 1 then [] else ''.'' @ drop 1 d) @ ''e'' @
           (if e < 0 then ''-'' else ''+'') @ nat_dec (nat \<bar>e\<bar>))"

definition pos_to_string :: "rat \<Rightarrow> string" where
  "pos_to_string x =
     (let n = dec_exponent x; (k, s) = shortest_digits 16 1 x n in layout_digits k s n)"

fun num_to_string :: "jsnum \<Rightarrow> string" where
  "num_to_string NaN = ''NaN''"
| "num_to_string PInf = ''Infinity''"
| "num_to_string NInf = ''-Infinity''"
| "num_to_string (Fin x) =
     (if x = of_int \<lfloor>x\<rfloor> \<and> \<bar>x\<bar> \<le> 2 ^ 53 then int_dec \<lfloor>x\<rfloor>
      else if x < 0 then ''-'' @ pos_to_string (- x) else pos_to_string x)"

text \<open>
  \<open>x.toFixed(f)\<close>: the integer nearest \<open>x * 10 ^ f\<close> (the larger one on a tie), written with \<open>f\<close>
  digits after the point; from \<open>10 ^ 21\<close> on, and for the values that are not finite, \<open>toString\<close>.
\<close>

fun toFixed :: "nat \<Rightarrow> jsnum \<Rightarrow> string" where
  "toFixed f (Fin x) =
     (if 10 ^ 21 \<le> \<bar>x\<bar> then num_to_string (Fin x)
      else if x < 0 then ''-'' @ point_digits f (nat \<lfloor>- x * 10 ^ f + 1 / 2\<rfloor>)
      else point_digits f (nat \<lfloor>x * 10 ^ f + 1 / 2\<rfloor>))"
| "toFixed f a = num_to_string a"

text \<open>Reading decimal digits back.\<close>

fun read_dec :: "nat \<Rightarrow> string \<Rightarrow> nat" where
  "read_dec acc [] = acc"
| "read_dec acc (c # s) = read_dec (acc * 10 + (of_char c - 48)) s"


lemma read_dec_append: "read_dec acc (s @ t) = read_dec (read_dec acc s) t"
  by (induction s arbitrary: acc) auto

lemma digit_code [simp]: "d < 10 \<Longrightarrow> of_char (char_of (48 + d)) = (48 + d :: nat)"
  by simp

lemma read_nat_dec: "read_dec 0 (nat_dec n) = n"
proof (induction n rule: nat_dec.induct)
  case (1 n)
  then show ?case by (simp add: nat_dec.simps [of n] read_dec_append)
qed

lemma nat_dec_nonempty [simp]: "nat_dec n \<noteq> []"
  by (simp add: nat_dec.simps [of n])

definition is_digit :: "char \<Rightarrow> bool" where
  "is_digit c \<longleftrightarrow> 48 \<le> (of_char c :: nat) \<and> (of_char c :: nat) \<le> 57"

lemma is_digit_char [simp]: "d < 10 \<Longrightarrow> is_digit (char_of (48 + d :: nat))"
  by (simp add: is_digit_def)

lemma nat_dec_digits: "list_all is_digit (nat_dec n)"
proof (induction n rule: nat_dec.induct)
  case (1 n)
  then show ?case by (simp add: nat_dec.simps [of n])
qed

lemma nat_dec_inj: "nat_dec m = nat_dec n \<Longrightarrow> m = n"
  by (metis read_nat_dec)

section \<open>Operations on safe integers\<close>

definition safe :: "int \<Rightarrow> bool" where
  "safe n \<longleftrightarrow> \<bar>n\<bar> \<le> 2 ^ 53"

lemma num_to_string_int: "safe n \<Longrightarrow> num_to_string (NInt n) = int_dec n"
proof -
  assume "safe n"
  then have "(of_int \<bar>n\<bar> :: rat) \<le> of_int (2 ^ 53)" by (simp only: safe_def of_int_le_iff)
  then show ?thesis by simp
qed

lemma num_less_int: "num_less (NInt m) (NInt n) \<longleftrightarrow> m < n"
  by simp

lemma num_add_int: "safe (m + n) \<Longrightarrow> num_add (NInt m) (NInt n) = NInt (m + n)"
  using fl.rnd_int [of "m + n"] by (simp add: safe_def)

lemma num_sub_int: "safe (m - n) \<Longrightarrow> num_sub (NInt m) (NInt n) = NInt (m - n)"
  using num_add_int [of m "- n"] by (simp add: num_sub_def)

lemma num_mul_int: "safe (m * n) \<Longrightarrow> num_mul (NInt m) (NInt n) = NInt (m * n)"
  using fl.rnd_int [of "m * n"] by (simp add: safe_def)

text \<open>\<open>Math.floor(a / b)\<close> and \<open>a % b\<close> of safe non-negative integers are \<open>div\<close> and \<open>mod\<close>.\<close>

lemma floor_div_int:
  assumes "0 \<le> a" and "a < 2 ^ 53" and "0 < b"
  shows "num_floor (num_div (NInt a) (NInt b)) = NInt (a div b)"
  using fl.floor_quotient [of b a] assms by simp

lemma mod_int:
  assumes "0 \<le> a" and "0 < b"
  shows "num_mod (NInt a) (NInt b) = NInt (a mod b)"
proof -
  have "\<not> (of_int a / of_int b :: rat) < 0" using assms by (simp add: not_less)
  then have t: "rat_trunc (of_int a / of_int b) = a div b"
    by (simp add: rat_trunc_def floor_divide_of_int_eq)
  have "(of_int (a mod b) :: rat) = of_int a - of_int (a div b) * of_int b"
    by (simp add: minus_div_mult_eq_mod [symmetric])
  then show ?thesis using assms(2) t by simp
qed

lemma ceil_div_int:
  assumes "0 \<le> a" and "a < 2 ^ 53" and "0 < b"
  shows "num_ceil (num_div (NInt a) (NInt b)) = NInt \<lceil>of_int a / (of_int b :: rat)\<rceil>"
  using fl.ceiling_quotient [of b a] assms by simp

text \<open>The least and the greatest of a list of finite numbers.\<close>

lemma num_min2_Fin [simp]: "num_min2 (Fin x) (Fin y) = Fin (min x y)"
  by (auto simp: num_min2_def)

lemma num_max2_Fin [simp]: "num_max2 (Fin x) (Fin y) = Fin (max x y)"
  by (auto simp: num_max2_def)

lemma foldl_min_Fin: "foldl num_min2 (Fin a) (map Fin xs) = Fin (foldl min a xs)"
  by (induction xs arbitrary: a) auto

lemma foldl_max_Fin: "foldl num_max2 (Fin a) (map Fin xs) = Fin (foldl max a xs)"
  by (induction xs arbitrary: a) auto

lemma foldl_min_Min: "foldl min (a :: 'a :: linorder) xs = Min (set (a # xs))"
  unfolding Min.set_eq_fold foldl_conv_fold by (intro fold_cong) (auto simp: min.commute)

lemma foldl_max_Max: "foldl max (a :: 'a :: linorder) xs = Max (set (a # xs))"
  unfolding Max.set_eq_fold foldl_conv_fold by (intro fold_cong) (auto simp: max.commute)

lemma math_min_Fin: "xs \<noteq> [] \<Longrightarrow> math_min (map Fin xs) = Fin (Min (set xs))"
  by (cases xs) (simp_all add: math_min_def num_min2_def foldl_min_Fin foldl_min_Min)

lemma math_max_Fin: "xs \<noteq> [] \<Longrightarrow> math_max (map Fin xs) = Fin (Max (set xs))"
  by (cases xs) (simp_all add: math_max_def num_max2_def foldl_max_Fin foldl_max_Max)

end
