(* ===== verification/Html.thy ===== *)
theory Html
  imports Js_Number
begin

text \<open>
  Text that goes into markup: \<open>escapeHTML\<close>, \<open>escapeAttribute\<close> and \<open>cssEscape\<close> of
  \<open>agent/internal/api/web/app.js\<close>, and a scanner of markup (text, tag, quoted attribute value) that
  states what escaping is for.  The \<open>skeleton\<close> of a piece of markup is what remains when its text
  and its attribute values are left out: the tags and the names of their attributes.  The locale
  \<open>sanitiser\<close> is the contract between an escaping function and the renderers that rely on it.
\<close>

named_theorems same_markup_simps "a template against itself with other data"
named_theorems inert_intros \<open>strings without a character that is special in markup\<close>
named_theorems markup_simps \<open>scanning a rendered template piece by piece\<close>

section \<open>Escaping\<close>

definition escapeHTML :: "string \<Rightarrow> string" where
  "escapeHTML value =
     replaceAll (CHR 0x27) ''&#39;''
       (replaceAll (CHR 0x22) ''&quot;''
         (replaceAll (CHR ''>'') ''&gt;''
           (replaceAll (CHR ''<'') ''&lt;''
             (replaceAll (CHR ''&'') ''&amp;'' value))))"

definition escapeAttribute :: "string \<Rightarrow> string" where
  "escapeAttribute value = escapeHTML value"

text \<open>
  \<open>cssEscape\<close> uses the browser's \<open>CSS.escape\<close> where it exists (\<open>css = Some f\<close>), else it escapes
  double quotes itself.
\<close>

definition cssEscape :: "(string \<Rightarrow> string) option \<Rightarrow> string \<Rightarrow> string" where
  "cssEscape css value =
     (case css of Some f \<Rightarrow> f value
      | None \<Rightarrow> replaceAll (CHR 0x22) [CHR 0x5C, CHR 0x22] value)"

text \<open>What a browser shows for text: the five character references decoded, left to right.\<close>

fun decode_refs :: "string \<Rightarrow> string" where
  "decode_refs [] = []"
| "decode_refs (c # s) =
     (if startsWith (c # s) ''&amp;'' then CHR ''&'' # decode_refs (drop 4 s)
      else if startsWith (c # s) ''&lt;'' then CHR ''<'' # decode_refs (drop 3 s)
      else if startsWith (c # s) ''&gt;'' then CHR ''>'' # decode_refs (drop 3 s)
      else if startsWith (c # s) ''&quot;'' then CHR 0x22 # decode_refs (drop 5 s)
      else if startsWith (c # s) ''&#39;'' then CHR 0x27 # decode_refs (drop 4 s)
      else c # decode_refs s)"

text \<open>The chain of replacements is one pass: no replacement touches the text of another.\<close>

definition escape_char :: "char \<Rightarrow> string" where
  "escape_char c =
     (if c = CHR ''&'' then ''&amp;'' else if c = CHR ''<'' then ''&lt;''
      else if c = CHR ''>'' then ''&gt;'' else if c = CHR 0x22 then ''&quot;''
      else if c = CHR 0x27 then ''&#39;'' else [c])"

lemma escapeHTML_simps [simp]:
  "escapeHTML [] = []"
  "escapeHTML (c # s) = escape_char c @ escapeHTML s"
  by (simp_all add: escapeHTML_def escape_char_def)

lemma escapeHTML_concat: "escapeHTML s = concat (map escape_char s)"
  by (induction s) auto

lemma escapeHTML_append [simp]: "escapeHTML (s @ t) = escapeHTML s @ escapeHTML t"
  by (simp add: escapeHTML_concat)

lemma decode_escape_char: "decode_refs (escape_char c @ t) = c # decode_refs t"
  by (simp add: escape_char_def)

section \<open>Scanning markup\<close>

datatype html_state = Text | Tag | DQ | SQ

fun html_step :: "html_state \<Rightarrow> char \<Rightarrow> html_state" where
  "html_step Text c = (if c = CHR ''<'' then Tag else Text)"
| "html_step Tag c =
     (if c = CHR ''>'' then Text else if c = CHR 0x22 then DQ else if c = CHR 0x27 then SQ else Tag)"
| "html_step DQ c = (if c = CHR 0x22 then Tag else DQ)"
| "html_step SQ c = (if c = CHR 0x27 then Tag else SQ)"

definition html_scan :: "html_state \<Rightarrow> string \<Rightarrow> html_state" where
  "html_scan st s = foldl html_step st s"

fun skeleton :: "html_state \<Rightarrow> string \<Rightarrow> string" where
  "skeleton st [] = []"
| "skeleton st (c # s) =
     (let st' = html_step st c in
      if st = Tag \<or> st' = Tag then c # skeleton st' s else skeleton st' s)"

definition special :: "char \<Rightarrow> bool" where
  "special c \<longleftrightarrow> c = CHR ''<'' \<or> c = CHR ''>'' \<or> c = CHR 0x22 \<or> c = CHR 0x27"

definition inert :: "string \<Rightarrow> bool" where
  "inert s \<longleftrightarrow> (\<forall>c\<in>set s. \<not> special c)"

lemma html_scan_simps [simp]:
  "html_scan st [] = st"
  "html_scan st (c # s) = html_scan (html_step st c) s"
  by (simp_all add: html_scan_def)

lemma html_scan_append: "html_scan st (s @ t) = html_scan (html_scan st s) t"
  by (simp add: html_scan_def)

lemma skeleton_append: "skeleton st (s @ t) = skeleton st s @ skeleton (html_scan st s) t"
  by (induction s arbitrary: st) (auto simp: Let_def)

lemma inert_simps [simp]:
  "inert []"
  "inert (c # s) \<longleftrightarrow> \<not> special c \<and> inert s"
  "inert (s @ t) \<longleftrightarrow> inert s \<and> inert t"
  by (auto simp: inert_def)

text \<open>Inert text leaves the scanner where it is, in text and inside a quoted value.\<close>

lemma inert_scan: "inert s \<Longrightarrow> st \<noteq> Tag \<Longrightarrow> html_scan st s = st"
  by (induction s arbitrary: st) (case_tac [2] st, auto simp: special_def)

lemma inert_skeleton: "inert s \<Longrightarrow> st \<noteq> Tag \<Longrightarrow> skeleton st s = []"
  by (induction s arbitrary: st) (case_tac [2] st, auto simp: special_def Let_def)

lemma special_digit: "is_digit c \<Longrightarrow> \<not> special c"
  by (auto simp: special_def is_digit_def)

lemma inert_nat_dec [simp, inert_intros]: "inert (nat_dec n)"
  using nat_dec_digits [of n] by (auto simp: inert_def list_all_iff special_digit)

lemma inert_int_dec [simp, inert_intros]: "inert (int_dec n)"
  by (simp add: int_dec_def special_def)

lemma inert_take: "inert s \<Longrightarrow> inert (take n s)"
  by (auto simp: inert_def dest: in_set_takeD)

lemma inert_drop: "inert s \<Longrightarrow> inert (drop n s)"
  by (auto simp: inert_def dest: in_set_dropD)

lemma inert_replicate [simp]: "inert (replicate n c) \<longleftrightarrow> n = 0 \<or> \<not> special c"
  by (auto simp: inert_def)

lemma inert_point_digits [simp, inert_intros]: "inert (point_digits f n)"
  unfolding point_digits_def Let_def
  by (simp add: inert_take inert_drop special_def)

lemma inert_layout_digits [simp]: "inert (layout_digits k s n)"
  unfolding layout_digits_def Let_def
  by (simp add: inert_take inert_drop special_def)

lemma inert_num_to_string [simp, inert_intros]: "inert (num_to_string a)"
  by (cases a) (simp_all add: special_def pos_to_string_def Let_def split: prod.split)

lemma inert_toFixed [simp, inert_intros]: "inert (toFixed f a)"
  by (cases a) (simp_all add: special_def del: num_to_string.simps)

lemma inert_join: "list_all inert ws \<Longrightarrow> inert sep \<Longrightarrow> inert (join sep ws)"
  by (induction sep ws rule: join.induct) auto

section \<open>The contract of an escaping function\<close>

locale sanitiser =
  fixes esc :: "string \<Rightarrow> string"
  assumes esc_inert: "inert (esc s)"
    and esc_decode: "decode_refs (esc s) = s"
begin

lemma scan_esc: "st \<noteq> Tag \<Longrightarrow> html_scan st (esc s) = st"
  by (rule inert_scan) (rule esc_inert)

lemma skeleton_esc: "st \<noteq> Tag \<Longrightarrow> skeleton st (esc s) = []"
  by (rule inert_skeleton) (rule esc_inert)

text \<open>Data in a text or attribute position of any template leaves its tags as they are.\<close>

lemma insert_keeps_skeleton:
  "html_scan st pre \<noteq> Tag \<Longrightarrow> skeleton st (pre @ esc s @ post) = skeleton st (pre @ post)"
  by (simp add: skeleton_append scan_esc skeleton_esc)

lemma esc_inj: "esc s = esc t \<Longrightarrow> s = t"
  by (metis esc_decode)

end

interpretation html: sanitiser escapeHTML
proof
  fix s
  have "inert (escape_char c)" for c by (auto simp: escape_char_def special_def)
  then show "inert (escapeHTML s)" by (induction s) auto
  show "decode_refs (escapeHTML s) = s" by (induction s) (simp_all add: decode_escape_char)
qed

interpretation attr: sanitiser escapeAttribute
  by unfold_locales (simp_all add: escapeAttribute_def html.esc_inert html.esc_decode)

declare html.esc_inert [simp, inert_intros] attr.esc_inert [simp, inert_intros]

lemmas template_simps = skeleton_append html_scan_append html.scan_esc html.skeleton_esc
  attr.scan_esc attr.skeleton_esc inert_scan inert_skeleton

declare template_simps [markup_simps]

text \<open>
  The escaped value is exactly the text the user sees, and wherever a template puts it in text or
  in a quoted attribute value, it cannot open a tag, close the value or change an attribute.
\<close>

section \<open>Templates that differ in their data only\<close>

definition same_markup :: "html_state \<Rightarrow> string \<Rightarrow> string \<Rightarrow> bool" where
  "same_markup st a b \<longleftrightarrow> skeleton st a = skeleton st b \<and> html_scan st a = html_scan st b"

lemma same_markup_refl [simp]: "same_markup st a a"
  by (simp add: same_markup_def)

lemma same_markup_append:
  "same_markup st a b \<Longrightarrow> same_markup (html_scan st a) y z \<Longrightarrow> same_markup st (a @ y) (b @ z)"
  by (simp add: same_markup_def skeleton_append html_scan_append)

lemma same_literal [same_markup_simps]:
  "same_markup st (l @ y) (l @ z) \<longleftrightarrow> same_markup (html_scan st l) y z"
  by (simp add: same_markup_def skeleton_append html_scan_append)

lemma same_inert [same_markup_simps]:
  "st \<noteq> Tag \<Longrightarrow> inert a \<Longrightarrow> inert b \<Longrightarrow> same_markup st (a @ y) (b @ z) \<longleftrightarrow> same_markup st y z"
  by (simp add: same_markup_def skeleton_append html_scan_append inert_scan inert_skeleton)

lemma same_skip:
  "st \<noteq> Tag \<Longrightarrow> inert a \<Longrightarrow> same_markup st (a @ y) z \<longleftrightarrow> same_markup st y z"
  "st \<noteq> Tag \<Longrightarrow> inert b \<Longrightarrow> same_markup st y (b @ z) \<longleftrightarrow> same_markup st y z"
  by (simp_all add: same_markup_def skeleton_append html_scan_append inert_scan inert_skeleton)

lemma same_closed [same_markup_simps]:
  "same_markup st a b \<Longrightarrow> html_scan st a = st' \<Longrightarrow>
    same_markup st (a @ y) (b @ z) \<longleftrightarrow> same_markup st' y z"
  by (simp add: same_markup_def skeleton_append html_scan_append)

lemma html_scan_if [markup_simps, same_markup_simps]:
  "html_scan st (if b then x else y) = (if b then html_scan st x else html_scan st y)"
  by simp

declare html.scan_esc [same_markup_simps] attr.scan_esc [same_markup_simps]

text \<open>A repeated template is scanned piece by piece.\<close>

lemma scan_concat_map:
  "(\<And>x. x \<in> set xs \<Longrightarrow> html_scan st (f x) = st) \<Longrightarrow> html_scan st (concat (map f xs)) = st"
  by (induction xs) (auto simp: html_scan_append)

lemma same_concat_map:
  assumes "map g xs = map g ys"
    and "\<And>x y. g x = g y \<Longrightarrow> same_markup st (f x) (f y)"
    and "\<And>x. html_scan st (f x) = st"
  shows "same_markup st (concat (map f xs)) (concat (map f ys))"
  using assms(1)
proof (induction xs arbitrary: ys)
  case (Cons x xs)
  then obtain y ys' where ys: "ys = y # ys'" "g x = g y" "map g xs = map g ys'" by auto
  then show ?case
    using Cons.IH [of ys'] assms(2) [of x y] assms(3)
    by (simp add: same_markup_append)
qed simp


section \<open>Property\<close>

text \<open>C35: Escaping is faithful and complete: the browser decodes the escaped text to exactly the
  value it was made from, in text and in attribute values, and the escaped text holds none of the
  characters that end a text, a tag or a quoted value.\<close>

theorem escaping_faithful:
  "decode_refs (escapeHTML s) = s \<and> decode_refs (escapeAttribute s) = s \<and>
   inert (escapeHTML s) \<and> inert (escapeAttribute s)"
  by (simp add: html.esc_decode attr.esc_decode)

end
