(* ===== verification/Agent_Format.thy ===== *)
theory Agent_Format
  imports Html
begin

text \<open>
  The formatting functions of the node dashboard (\<open>agent/internal/api/web/app.js\<close>): measurements,
  the severity of a UPS status, and the labels of commands, settings and variable groups.
  A measurement that the API leaves out is \<open>None\<close>.
\<close>

section \<open>Measurements\<close>

abbreviation unavailable :: string where
  "unavailable \<equiv> ''unavailable''"

definition formatPercent :: "jsnum option \<Rightarrow> string" where
  "formatPercent value =
     (case value of None \<Rightarrow> unavailable | Some v \<Rightarrow> toFixed 0 v @ ''%'')"

definition formatVoltage :: "jsnum option \<Rightarrow> string" where
  "formatVoltage value =
     (case value of None \<Rightarrow> unavailable | Some v \<Rightarrow> toFixed 1 v @ '' V'')"

definition formatDuration :: "jsnum option \<Rightarrow> string" where
  "formatDuration value =
     (case value of
        None \<Rightarrow> unavailable
      | Some totalSeconds \<Rightarrow>
          (let hours = num_floor (num_div totalSeconds (NInt 3600));
               minutes = num_floor (num_div (num_mod totalSeconds (NInt 3600)) (NInt 60));
               seconds = num_mod totalSeconds (NInt 60)
           in if num_less (NInt 0) hours
              then num_to_string hours @ ''h '' @ num_to_string minutes @ ''m''
              else if num_less (NInt 0) minutes
              then num_to_string minutes @ ''m '' @ num_to_string seconds @ ''s''
              else num_to_string seconds @ ''s''))"

definition byte_units :: "string list" where
  "byte_units = [''B'', ''KB'', ''MB'', ''GB'', ''TB'']"

text \<open>The loop of \<open>formatBytes\<close>, on its two variables \<open>size\<close> and \<open>index\<close>.\<close>

function scale_bytes :: "jsnum \<Rightarrow> nat \<Rightarrow> jsnum \<times> nat" where
  "scale_bytes sz index =
     (if num_le (NInt 1024) sz \<and> index < length byte_units - 1
      then scale_bytes (num_div sz (NInt 1024)) (index + 1)
      else (sz, index))"
  by pat_completeness auto
termination
  by (relation "measure (\<lambda>(sz, index). length byte_units - index)") auto

declare scale_bytes.simps [simp del]

definition formatBytes :: "jsnum \<Rightarrow> string" where
  "formatBytes bytes =
     (let (sz, index) = scale_bytes bytes 0
      in toFixed (if index = 0 then 0 else 1) sz @ '' '' @ byte_units ! index)"

text \<open>
  A duration of a safe whole number of seconds shows hours and minutes from an hour on, minutes and
  seconds from a minute on, and seconds below, each within its range: the floating-point divisions
  never round across an hour or a minute.
\<close>

definition duration_text :: "int \<Rightarrow> string" where
  "duration_text n =
     (if 3600 \<le> n then int_dec (n div 3600) @ ''h '' @ int_dec (n mod 3600 div 60) @ ''m''
      else if 60 \<le> n then int_dec (n div 60) @ ''m '' @ int_dec (n mod 60) @ ''s''
      else int_dec n @ ''s'')"

lemma duration_parts:
  assumes "0 \<le> n" and "n < 2 ^ 53"
  shows "num_floor (num_div (NInt n) (NInt 3600)) = NInt (n div 3600)"
    and "num_floor (num_div (num_mod (NInt n) (NInt 3600)) (NInt 60)) = NInt (n mod 3600 div 60)"
    and "num_mod (NInt n) (NInt 60) = NInt (n mod 60)"
proof -
  have m: "0 \<le> n mod 3600" "n mod 3600 < 2 ^ 53" by (auto intro: less_trans [OF pos_mod_bound])
  show "num_floor (num_div (NInt n) (NInt 3600)) = NInt (n div 3600)"
    using floor_div_int [of n 3600] assms by simp
  show "num_floor (num_div (num_mod (NInt n) (NInt 3600)) (NInt 60)) = NInt (n mod 3600 div 60)"
    using floor_div_int [OF m, of 60] mod_int [of n 3600] assms by simp
  show "num_mod (NInt n) (NInt 60) = NInt (n mod 60)"
    using mod_int [of n 60] assms by simp
qed

lemma formatDuration_int:
  assumes n: "0 \<le> n" "n < 2 ^ 53"
  shows "formatDuration (Some (NInt n)) = duration_text n"
proof -
  have safe: "safe (n div 3600)" "safe (n mod 3600 div 60)" "safe (n mod 60)"
    using n zdiv_mono2 [of n 1 3600] pos_mod_bound [of 60 n] pos_mod_bound [of 3600 n]
    by (auto simp: safe_def abs_le_iff pos_imp_zdiv_nonneg_iff)
  have cond: "0 < n div 3600 \<longleftrightarrow> 3600 \<le> n"
    "n < 3600 \<Longrightarrow> 0 < n mod 3600 div 60 \<longleftrightarrow> 60 \<le> n"
    using n by (auto simp: pos_imp_zdiv_pos_iff)
  have "formatDuration (Some (NInt n)) =
      (if 0 < n div 3600 then int_dec (n div 3600) @ ''h '' @ int_dec (n mod 3600 div 60) @ ''m''
       else if 0 < n mod 3600 div 60
       then int_dec (n mod 3600 div 60) @ ''m '' @ int_dec (n mod 60) @ ''s''
       else int_dec (n mod 60) @ ''s'')"
    by (simp only: formatDuration_def option.case Let_def duration_parts [OF n] num_less_int
        num_to_string_int [OF safe(1)] num_to_string_int [OF safe(2)] num_to_string_int [OF safe(3)])
  also have "\<dots> = duration_text n"
    using n cond by (auto simp: duration_text_def)
  finally show ?thesis .
qed

text \<open>
  \<open>formatBytes\<close> divides by 1024 exactly, stops at the first unit in which the amount is below 1024
  or at terabytes, and never leaves the list of units.
\<close>

lemma scale_bytes_correct:
  assumes "rnd53 x = x" and "0 \<le> x" and "i \<le> 4"
  shows "\<exists>j. scale_bytes (Fin x) i = (Fin (x / 1024 ^ (j - i)), j) \<and> i \<le> j \<and> j \<le> 4 \<and>
    (j = 4 \<or> x / 1024 ^ (j - i) < 1024) \<and> (i < j \<longrightarrow> 1 \<le> x / 1024 ^ (j - i))"
  using assms
proof (induction "4 - i" arbitrary: x i)
  case 0
  then show ?case
    by (intro exI [of _ i]) (simp add: scale_bytes.simps byte_units_def)
next
  case (Suc k)
  show ?case
  proof (cases "1024 \<le> x")
    case False
    then show ?thesis using Suc
      by (intro exI [of _ i]) (simp add: scale_bytes.simps byte_units_def num_le_def)
  next
    case True
    have ex: "rnd53 (x / 1024) = x / 1024"
      using rnd53_scale [of x 10] Suc.prems(1) by simp
    have d: "num_div (Fin x) (NInt 1024) = Fin (x / 1024)" using ex by simp
    have g: "num_le (NInt 1024) (Fin x) \<and> i < length byte_units - 1"
      using True Suc.hyps(2) by (simp add: byte_units_def num_le_def)
    have step: "scale_bytes (Fin x) i = scale_bytes (Fin (x / 1024)) (i + 1)"
      by (subst scale_bytes.simps) (simp only: d g simp_thms if_True)
    from Suc.hyps(1) [of "i + 1" "x / 1024"] Suc.hyps(2) Suc.prems ex
    obtain j where j: "scale_bytes (Fin (x / 1024)) (i + 1) =
        (Fin (x / 1024 / 1024 ^ (j - (i + 1))), j)" "i + 1 \<le> j" "j \<le> 4"
      "j = 4 \<or> x / 1024 / 1024 ^ (j - (i + 1)) < 1024"
      "i + 1 < j \<longrightarrow> 1 \<le> x / 1024 / 1024 ^ (j - (i + 1))"
      by force
    have e: "x / 1024 / 1024 ^ (j - (i + 1)) = x / 1024 ^ (j - i)"
      using j(2) by (simp add: Suc_diff_Suc [symmetric] power_Suc [symmetric] del: power_Suc)
    from j e step True show ?thesis
      by (intro exI [of _ j]) (cases "i + 1 = j", auto)
  qed
qed

section \<open>The severity of a UPS status\<close>

definition statusClass :: "string option \<Rightarrow> string" where
  "statusClass status =
     (let normalized = toLowerCase (or_opt status ''unknown'') in
      if js_includes normalized ''ob'' \<or> js_includes normalized ''dischrg'' \<or> normalized = ''unknown''
      then ''chip--warn''
      else if js_includes normalized ''replace'' \<or> js_includes normalized ''fault'' \<or>
              js_includes normalized ''shutdown''
      then ''chip--danger''
      else '''')"

text \<open>\<open>chipClass.replace("chip--", "")\<close> drops the first occurrence, which is the prefix.\<close>

definition chip_suffix :: "string \<Rightarrow> string" where
  "chip_suffix chipCls =
     (if chipCls = [] then ''good''
      else if startsWith chipCls ''chip--'' then drop 6 chipCls else chipCls)"

definition accentClassForStatus :: "string option \<Rightarrow> string" where
  "accentClassForStatus status = ''detail-shell--'' @ chip_suffix (statusClass status)"

lemma statusClass_mem: "statusClass s \<in> {'''', ''chip--warn'', ''chip--danger''}"
  unfolding statusClass_def Let_def by (simp only: split: if_split) simp

lemma statusClass_cases:
  obtains "statusClass s = ''''" | "statusClass s = ''chip--warn''" | "statusClass s = ''chip--danger''"
  using statusClass_mem [of s] by blast

lemma inert_statusClass [simp, inert_intros]: "inert (statusClass s)"
  by (cases s rule: statusClass_cases) (auto simp: special_def)

section \<open>Labels\<close>

record presentation =
  pr_label :: "string option"
  pr_description :: "string option"

definition commonControlPresentation :: "(string \<times> (string \<times> string)) list" where
  "commonControlPresentation =
    [(''beeper.disable'', (''Disable audible alarm'', ''Turn off the UPS alarm.'')),
     (''beeper.enable'', (''Enable audible alarm'', ''Turn on the UPS alarm.'')),
     (''beeper.mute'', (''Mute audible alarm'', ''Silence the current UPS alarm.'')),
     (''beeper.toggle'', (''Toggle audible alarm'', ''Turn the UPS alarm on or off.'')),
     (''load.off'', (''Turn load off'', ''Immediately turn off power to connected equipment.'')),
     (''load.on'', (''Turn load on'', ''Turn on power to connected equipment.'')),
     (''shutdown.return'', (''Shut down until utility returns'',
        ''Turn off the load and restore it when utility power returns.'')),
     (''shutdown.stayoff'', (''Shut down and stay off'', ''Turn off the load until manually restarted.'')),
     (''test.battery.start.deep'', (''Run deep battery test'', ''Start an extended battery self-test.'')),
     (''test.battery.start.quick'', (''Run quick battery test'', ''Start a short battery self-test.'')),
     (''ups.delay.reboot'', (''Restart delay'', ''Seconds the UPS waits before restarting the load.'')),
     (''ups.delay.shutdown'', (''Shutdown delay'', ''Seconds the UPS waits before shutting down the load.'')),
     (''ups.delay.start'', (''Startup delay'', ''Seconds the UPS waits before restoring the load.''))]"

text \<open>
  The names every JavaScript object inherits: looking one of them up in an object literal gives a
  function (or the prototype object), which is truthy and has neither \<open>label\<close> nor \<open>description\<close>.
\<close>

definition object_prototype_names :: "string list" where
  "object_prototype_names =
    [''constructor'', ''hasOwnProperty'', ''isPrototypeOf'', ''propertyIsEnumerable'',
     ''toLocaleString'', ''toString'', ''valueOf'', ''__defineGetter__'', ''__defineSetter__'',
     ''__lookupGetter__'', ''__lookupSetter__'', ''__proto__'']"

definition capitalize :: "string \<Rightarrow> string" where
  "capitalize part = toUpperCase (take 1 part) @ drop 1 part"

definition is_nut_separator :: "char \<Rightarrow> bool" where
  "is_nut_separator c \<longleftrightarrow> c \<in> {CHR ''.'', CHR ''_'', CHR ''-''}"

definition humanizeNUTIdentifier :: "string \<Rightarrow> string" where
  "humanizeNUTIdentifier name =
     join '' '' (map capitalize (filter (\<lambda>p. p \<noteq> []) (split_runs is_nut_separator name)))"

definition controlPresentation :: "string \<Rightarrow> presentation" where
  "controlPresentation name =
     (case map_of commonControlPresentation name of
        Some (l, d) \<Rightarrow> \<lparr>pr_label = Some l, pr_description = Some d\<rparr>
      | None \<Rightarrow>
          if name \<in> set object_prototype_names then \<lparr>pr_label = None, pr_description = None\<rparr>
          else \<lparr>pr_label = Some (humanizeNUTIdentifier name), pr_description = Some ''''\<rparr>)"

definition variableGroupFor :: "string \<Rightarrow> string" where
  "variableGroupFor name =
     (if startsWith name ''battery.'' then ''Battery''
      else if startsWith name ''input.'' then ''Input''
      else if startsWith name ''output.'' then ''Output''
      else if startsWith name ''ups.'' then ''UPS''
      else if startsWith name ''device.'' then ''Device''
      else if startsWith name ''driver.'' then ''Driver''
      else if startsWith name ''ambient.'' then ''Environment''
      else ''Other'')"

definition group_order :: "string list" where
  "group_order = [''Battery'', ''Input'', ''Output'', ''UPS'', ''Device'', ''Driver'', ''Environment'', ''Other'']"

lemma variableGroupFor_listed: "variableGroupFor name \<in> set group_order"
  by (simp add: variableGroupFor_def group_order_def)

lemma distinct_group_order: "distinct group_order"
  by (simp add: group_order_def)

text \<open>
  The grouping loop of \<open>renderVariableGroups\<close>: a \<open>Map\<close> from group to entries, in the order in which
  the groups first occur.
\<close>

type_synonym entry = "string \<times> string"

fun add_to_group :: "string \<Rightarrow> entry \<Rightarrow> (string \<times> entry list) list \<Rightarrow> (string \<times> entry list) list" where
  "add_to_group g e [] = [(g, [e])]"
| "add_to_group g e ((h, es) # gs) =
     (if h = g then (h, es @ [e]) # gs else (h, es) # add_to_group g e gs)"

fun group_entries :: "(string \<times> entry list) list \<Rightarrow> entry list \<Rightarrow> (string \<times> entry list) list" where
  "group_entries groups [] = groups"
| "group_entries groups ((name, value) # es) =
     group_entries (add_to_group (variableGroupFor name) (name, value) groups) es"

definition entries_of :: "(string \<times> entry list) list \<Rightarrow> string \<Rightarrow> entry list" where
  "entries_of groups g = (case map_of groups g of None \<Rightarrow> [] | Some es \<Rightarrow> es)"

lemma entries_of_add: "entries_of (add_to_group g e gs) h =
    (if h = g then entries_of gs g @ [e] else entries_of gs h)"
  by (induction gs) (auto simp: entries_of_def)

lemma dom_add_to_group: "dom (map_of (add_to_group g e gs)) = insert g (dom (map_of gs))"
proof -
  have "fst ` set (add_to_group g e gs) = insert g (fst ` set gs)"
    by (induction g e gs rule: add_to_group.induct) (simp_all add: insert_commute)
  then show ?thesis by (simp add: dom_map_of_conv_image_fst)
qed

lemma entries_of_group: "entries_of (group_entries gs es) g =
    entries_of gs g @ filter (\<lambda>(name, value). variableGroupFor name = g) es"
  by (induction gs es rule: group_entries.induct) (auto simp: entries_of_add)

lemma dom_group_entries: "dom (map_of (group_entries gs es)) =
    dom (map_of gs) \<union> (\<lambda>(name, value). variableGroupFor name) ` set es"
  by (induction gs es rule: group_entries.induct) (auto simp: dom_add_to_group)

text \<open>The groups shown, in the fixed order, with the entries of each.\<close>

definition shown_groups :: "(string \<Rightarrow> string \<Rightarrow> bool) \<Rightarrow> entry list \<Rightarrow> (string \<times> entry list) list" where
  "shown_groups le variables =
     (let groups = group_entries [] (sort_by (\<lambda>a b. le (fst a) (fst b)) variables)
      in map (\<lambda>g. (g, entries_of groups g)) (filter (\<lambda>g. map_of groups g \<noteq> None) group_order))"

lemma mset_partition_by:
  "distinct gs \<Longrightarrow> (\<forall>x\<in>set xs. f x \<in> set gs) \<Longrightarrow>
    mset (concat (map (\<lambda>g. filter (\<lambda>x. f x = g) xs) gs)) = mset xs"
proof (induction gs arbitrary: xs)
  case (Cons g gs)
  let ?ys = "filter (\<lambda>x. f x \<noteq> g) xs"
  have e: "map (\<lambda>h. filter (\<lambda>x. f x = h) xs) gs = map (\<lambda>h. filter (\<lambda>x. f x = h) ?ys) gs"
    using Cons.prems(1) by (auto intro!: filter_cong)
  have i: "mset (concat (map (\<lambda>h. filter (\<lambda>x. f x = h) ?ys) gs)) = mset ?ys"
    using Cons.prems by (intro Cons.IH) auto
  have "mset (concat (map (\<lambda>h. filter (\<lambda>x. f x = h) xs) (g # gs))) =
      mset (filter (\<lambda>x. f x = g) xs) + mset ?ys"
    by (simp only: list.map concat.simps mset_append e i)
  also have "\<dots> = mset xs"
    using multiset_partition [of "mset xs" "\<lambda>x. f x = g"] by simp
  finally show ?case .
qed simp

lemma shown_groups_concat:
  "concat (map snd (shown_groups le variables)) =
   concat (map (\<lambda>g. filter (\<lambda>(n, v). variableGroupFor n = g)
     (sort_by (\<lambda>a b. le (fst a) (fst b)) variables)) group_order)"
proof -
  let ?es = "sort_by (\<lambda>a b. le (fst a) (fst b)) variables"
  let ?sel = "\<lambda>g. filter (\<lambda>(n, v). variableGroupFor n = g) ?es"
  have none: "?sel g = []" if "map_of (group_entries [] ?es) g = None" for g
  proof -
    from that have "g \<notin> dom (map_of (group_entries [] ?es))" by auto
    then have "g \<notin> (\<lambda>(n, v). variableGroupFor n) ` set ?es" by (simp only: dom_group_entries) simp
    then show ?thesis by (auto simp: filter_empty_conv)
  qed
  have "concat (map ?sel (filter (\<lambda>g. map_of (group_entries [] ?es) g \<noteq> None) gs)) =
      concat (map ?sel gs)" for gs
    by (induction gs) (auto simp: none)
  moreover have "map snd (shown_groups le variables) =
      map ?sel (filter (\<lambda>g. map_of (group_entries [] ?es) g \<noteq> None) group_order)"
    by (simp add: shown_groups_def entries_of_group Let_def comp_def entries_of_def [of "[]"])
  ultimately show ?thesis by simp
qed

section \<open>Properties\<close>

text \<open>A duration of a safe whole number of seconds is shown in hours and minutes from an hour on,
  minutes and seconds from a minute on, and seconds below, with the exact quotients and remainders:
  the floating-point divisions never round across an hour or a minute.\<close>

theorem duration_shown:
  assumes "0 \<le> n" and "n < 2 ^ 53"
  shows "formatDuration (Some (NInt n)) = duration_text n"
  using assms by (rule formatDuration_int)

lemma duration_shown_witness: "formatDuration (Some (NInt 86399)) = ''23h 59m''"
proof -
  have "formatDuration (Some (NInt 86399)) = duration_text 86399" by (rule duration_shown) simp_all
  also have "\<dots> = ''23h 59m''" by code_simp
  finally show ?thesis .
qed

text \<open>C37: A byte count is divided by exact powers of 1024 and shown in the first unit in which it is
  below 1024, terabytes at most; no shown amount in a larger unit than bytes is below 1, so no unit
  is chosen too large.\<close>

theorem bytes_shown:
  assumes "rnd53 x = x" and "0 \<le> x"
  shows "\<exists>j. formatBytes (Fin x) =
      toFixed (if j = 0 then 0 else 1) (Fin (x / 1024 ^ j)) @ '' '' @ byte_units ! j \<and>
    j < length byte_units \<and> (j = 4 \<or> x / 1024 ^ j < 1024) \<and> (j = 0 \<or> 1 \<le> x / 1024 ^ j)"
proof -
  from scale_bytes_correct [OF assms, of 0] obtain j where
    j: "scale_bytes (Fin x) 0 = (Fin (x / 1024 ^ (j - 0)), j)" "j \<le> 4"
      "j = 4 \<or> x / 1024 ^ (j - 0) < 1024" "0 < j \<longrightarrow> 1 \<le> x / 1024 ^ (j - 0)"
    by auto
  have "formatBytes (Fin x) =
      toFixed (if j = 0 then 0 else 1) (Fin (x / 1024 ^ j)) @ '' '' @ byte_units ! j"
    unfolding formatBytes_def j(1) by (simp only: Let_def prod.case diff_zero)
  with j(2-4) show ?thesis by (intro exI [of _ j]) (auto simp: byte_units_def)
qed

lemma bytes_shown_witness:
  "\<exists>j. formatBytes (Fin 3072) =
      toFixed (if j = 0 then 0 else 1) (Fin (3072 / 1024 ^ j)) @ '' '' @ byte_units ! j \<and>
    j < length byte_units"
proof -
  have "rnd53 3072 = 3072" by code_simp
  from bytes_shown [OF this zero_le_numeral] show ?thesis by blast
qed

end
