(* ===== verification/Agent_Chart.thy ===== *)
theory Agent_Chart
  imports Agent_Format
begin

text \<open>
  The chart geometry of the node dashboard (\<open>app.js\<close>): \<open>buildSparkline\<close> for the small trend lines,
  \<open>buildTimeSeriesChart\<close>, \<open>computeTimeTicks\<close> and \<open>computeValueTicks\<close> for the metric detail dialog,
  and the search that snaps the crosshair to a sample.  All arithmetic is the rounded one of
  \<open>Js_Number\<close>.  A sample's \<open>timestamp\<close> stands for \<open>new Date(sample.timestamp).getTime()\<close>, which is
  NaN for text that is no date.
\<close>

section \<open>Samples and the metrics that have a trend\<close>

record metric_sample =
  ms_timestamp :: jsnum
  cpu_usage_percent :: "jsnum option"
  cpu_temperature_celsius :: "jsnum option"
  memory_used_bytes :: "jsnum option"
  disk_free_bytes :: "jsnum option"

type_synonym extractor = "metric_sample \<Rightarrow> jsnum option"

definition TREND_EXTRACTORS :: "(string \<times> extractor) list" where
  "TREND_EXTRACTORS =
    [(''CPU usage'', cpu_usage_percent),
     (''CPU temp'', cpu_temperature_celsius),
     (''Memory used'', memory_used_bytes),
     (''Disk free'', disk_free_bytes)]"

definition TREND_FORMATTERS :: "(string \<times> (jsnum \<Rightarrow> string)) list" where
  "TREND_FORMATTERS =
    [(''CPU usage'', \<lambda>value. toFixed 1 value @ ''%''),
     (''CPU temp'', \<lambda>value. toFixed 1 value @ '' C''),
     (''Memory used'', \<lambda>value. formatBytes value),
     (''Disk free'', \<lambda>value. formatBytes value)]"

section \<open>The lines\<close>

record plot_point =
  pp_timestamp :: jsnum
  pp_value :: jsnum
  pp_x :: jsnum
  pp_y :: jsnum

record chart_series =
  points :: string
  plotted :: "plot_point list"
  series_min :: jsnum
  series_max :: jsnum

text \<open>The first loop of both builders: the samples that have a finite value.\<close>

fun usable :: "extractor \<Rightarrow> metric_sample list \<Rightarrow> (jsnum \<times> jsnum) list" where
  "usable ex [] = []"
| "usable ex (s # ss) =
     (case ex s of
        None \<Rightarrow> usable ex ss
      | Some v \<Rightarrow> if \<not> isFinite v then usable ex ss else (ms_timestamp s, v) # usable ex ss)"

definition point_text :: "jsnum \<Rightarrow> jsnum \<Rightarrow> string" where
  "point_text x y = toFixed 2 x @ '','' @ toFixed 2 y"

definition value_y :: "jsnum \<Rightarrow> jsnum \<Rightarrow> jsnum \<Rightarrow> jsnum \<Rightarrow> jsnum" where
  "value_y lo rng height v = num_sub height (num_mul (num_div (num_sub v lo) rng) height)"

definition buildSparkline ::
  "metric_sample list \<Rightarrow> extractor \<Rightarrow> jsnum \<Rightarrow> jsnum \<Rightarrow> chart_series option" where
  "buildSparkline samples extractor width height =
     (let kept = usable extractor samples in
      if length kept < 2 then None
      else
        (let vals = map snd kept;
             lo = math_min vals;
             hi = math_max vals;
             rng = num_or (num_sub hi lo) (NInt 1);
             step = num_div width (NInt (int (length kept) - 1));
             plot = map (\<lambda>(index, (ts, v)).
                      \<lparr>pp_timestamp = ts, pp_value = v,
                       pp_x = num_mul (NInt (int index)) step,
                       pp_y = value_y lo rng height v\<rparr>)
                    (zip [0..<length kept] kept)
         in Some \<lparr>points = join '' '' (map (\<lambda>p. point_text (pp_x p) (pp_y p)) plot),
                  plotted = plot, series_min = lo, series_max = hi\<rparr>))"

text \<open>\<open>(a, b) => a.timestamp - b.timestamp\<close>.\<close>

definition time_le :: "jsnum \<times> jsnum \<Rightarrow> jsnum \<times> jsnum \<Rightarrow> bool" where
  "time_le a b = num_le (num_sub (fst a) (fst b)) (NInt 0)"

definition buildTimeSeriesChart ::
  "metric_sample list \<Rightarrow> extractor \<Rightarrow> jsnum \<Rightarrow> jsnum \<Rightarrow> jsnum \<Rightarrow> jsnum \<Rightarrow> chart_series option" where
  "buildTimeSeriesChart samples extractor startTime endTime width height =
     (let kept = filter (\<lambda>(ts, v). ts \<noteq> NaN) (usable extractor samples) in
      if length kept < 2 then None
      else
        (let ordered = sort_by time_le kept;
             vals = map snd ordered;
             lo = math_min vals;
             hi = math_max vals;
             rng = num_or (num_sub hi lo) (NInt 1);
             timeRange = num_or (num_sub endTime startTime) (NInt 1);
             plot = map (\<lambda>(ts, v).
                      \<lparr>pp_timestamp = ts, pp_value = v,
                       pp_x = num_mul (num_div (num_sub ts startTime) timeRange) width,
                       pp_y = value_y lo rng height v\<rparr>) ordered
         in Some \<lparr>points = join '' '' (map (\<lambda>p. point_text (pp_x p) (pp_y p)) plot),
                  plotted = plot, series_min = lo, series_max = hi\<rparr>))"

section \<open>Gridlines\<close>

text \<open>
  The loop of \<open>computeTimeTicks\<close>: \<open>None\<close> is "does not stop", which is what a zero interval does.
\<close>

partial_function (option) ticks_from :: "jsnum \<Rightarrow> jsnum \<Rightarrow> jsnum \<Rightarrow> jsnum list option" where
  "ticks_from tick endTime intervalMs =
     (if num_le tick endTime
      then Option.bind (ticks_from (num_add tick intervalMs) endTime intervalMs)
             (\<lambda>ticks. Some (tick # ticks))
      else Some [])"

definition computeTimeTicks :: "jsnum \<Rightarrow> jsnum \<Rightarrow> jsnum \<Rightarrow> jsnum list option" where
  "computeTimeTicks startTime endTime intervalMs =
     ticks_from (num_mul (num_ceil (num_div startTime intervalMs)) intervalMs) endTime intervalMs"

definition computeValueTicks :: "jsnum \<Rightarrow> jsnum \<Rightarrow> nat \<Rightarrow> jsnum list" where
  "computeValueTicks lo hi n =
     (let rng = num_sub hi lo in
      map (\<lambda>i. num_add lo (num_div (num_mul rng (NInt (int i))) (NInt (int n - 1))))
        [0..<n])"

section \<open>The metric detail chart\<close>

text \<open>
  Dates are shown by the browser's \<open>toLocaleString\<close>, which depends on its locale: a parameter
  \<open>loc\<close>, given the options the code passes and the time value.  \<open>new Date(x).getTime()\<close> is NaN
  outside the range of dates.
\<close>

datatype date_style = TooltipStyle | AxisDayStyle | AxisTimeStyle

type_synonym locale_format = "date_style \<Rightarrow> jsnum \<Rightarrow> string"

fun date_time :: "jsnum \<Rightarrow> jsnum" where
  "date_time (Fin x) = (if \<bar>x\<bar> \<le> 8640000000000000 then NInt (rat_trunc x) else NaN)"
| "date_time _ = NaN"

definition formatTooltipTimestamp :: "locale_format \<Rightarrow> jsnum \<Rightarrow> string" where
  "formatTooltipTimestamp loc timestamp =
     (let date = date_time timestamp in if date = NaN then '''' else loc TooltipStyle date)"

definition formatAxisTimestamp :: "locale_format \<Rightarrow> jsnum \<Rightarrow> string \<Rightarrow> string" where
  "formatAxisTimestamp loc timestamp windowKey =
     (let date = date_time timestamp in
      if date = NaN then ''''
      else if windowKey = ''24h'' then loc AxisDayStyle date
      else loc AxisTimeStyle date)"

text \<open>The constants of the dialog, in milliseconds and in view-box units.\<close>

definition METRIC_DETAIL_WINDOWS :: "(string \<times> int) list" where
  "METRIC_DETAIL_WINDOWS =
    [(''10m'', 10 * 60 * 1000), (''1h'', 60 * 60 * 1000), (''6h'', 6 * 60 * 60 * 1000),
     (''24h'', 24 * 60 * 60 * 1000)]"

definition METRIC_DETAIL_TICK_INTERVALS_MS :: "(string \<times> int) list" where
  "METRIC_DETAIL_TICK_INTERVALS_MS =
    [(''10m'', 60 * 1000), (''1h'', 5 * 60 * 1000), (''6h'', 30 * 60 * 1000),
     (''24h'', 2 * 60 * 60 * 1000)]"

definition table_or :: "(string \<times> int) list \<Rightarrow> string \<Rightarrow> int \<Rightarrow> int" where
  "table_or t k d = (case map_of t k of None \<Rightarrow> d | Some v \<Rightarrow> if v = 0 then d else v)"

definition window_ms :: "string \<Rightarrow> int" where
  "window_ms windowKey = table_or METRIC_DETAIL_WINDOWS windowKey 600000"

definition tick_interval_ms :: "string \<Rightarrow> int" where
  "tick_interval_ms windowKey = table_or METRIC_DETAIL_TICK_INTERVALS_MS windowKey 60000"

definition chart_width :: int where "chart_width = 600"
definition chart_height :: int where "chart_height = 220"
definition margin_top :: int where "margin_top = 10"
definition margin_right :: int where "margin_right = 16"
definition margin_bottom :: int where "margin_bottom = 28"
definition margin_left :: int where "margin_left = 60"
definition plot_width :: int where "plot_width = chart_width - margin_left - margin_right"
definition plot_height :: int where "plot_height = chart_height - margin_top - margin_bottom"

record x_tick =
  tk_timestamp :: jsnum
  tk_x :: jsnum

text \<open>What is remembered for hovering (\<open>state.trendCache\<close>), and what the dialog shows.\<close>

record chart_cache =
  cc_xTicks :: "x_tick list"
  cc_plotted :: "plot_point list"

record detail_view =
  dv_gridX :: string
  dv_axisX :: string
  dv_gridY :: string
  dv_axisY :: string
  dv_points :: string
  dv_emptyHidden :: bool
  dv_summary :: string
  dv_range :: string

definition grid_x_line :: "x_tick \<Rightarrow> string" where
  \<open>grid_x_line tick =
     (let x = toFixed 2 (num_add (tk_x tick) (NInt margin_left)) in
       ''<line class="metric-detail-grid-line" x1="'' @ x @ ''" y1="'' @
       num_to_string (NInt margin_top) @ ''" x2="'' @ x @ ''" y2="'' @
       num_to_string (NInt (margin_top + plot_height)) @ ''"></line>'')\<close>

definition axis_x_label :: "locale_format \<Rightarrow> string \<Rightarrow> x_tick \<Rightarrow> string" where
  \<open>axis_x_label loc windowKey tick =
     (let leftPercent = toFixed 2 (num_mul (num_div (num_add (tk_x tick) (NInt margin_left))
            (NInt chart_width)) (NInt 100)) in
       ''<span style="left:'' @ leftPercent @ ''%">'' @
       escapeHTML (formatAxisTimestamp loc (tk_timestamp tick) windowKey) @ ''</span>'')\<close>

definition grid_y_line :: "jsnum \<Rightarrow> string" where
  \<open>grid_y_line tick_y =
     (let y = toFixed 2 (num_add tick_y (NInt margin_top)) in
       ''<line class="metric-detail-grid-line" x1="'' @ num_to_string (NInt margin_left) @
       ''" y1="'' @ y @ ''" x2="'' @ num_to_string (NInt (chart_width - margin_right)) @
       ''" y2="'' @ y @ ''"></line>'')\<close>

definition axis_y_label :: "(jsnum \<Rightarrow> string) option \<Rightarrow> jsnum \<Rightarrow> jsnum \<Rightarrow> string" where
  \<open>axis_y_label formatter tick_value tick_y =
     (let topPercent = toFixed 2 (num_mul (num_div (num_add tick_y (NInt margin_top))
            (NInt chart_height)) (NInt 100));
          text = (case formatter of Some f \<Rightarrow> f tick_value
                  | None \<Rightarrow> num_to_string (num_round tick_value)) in
       ''<span style="top:'' @ topPercent @ ''%">'' @ escapeHTML text @ ''</span>'')\<close>

text \<open>Every \<open>labelStride\<close>-th tick is labelled; the stride is a sixth of the ticks, rounded up.\<close>

definition labelled :: "x_tick list \<Rightarrow> x_tick list" where
  "labelled ticks =
     (let labelStride = max 1 ((length ticks + 5) div 6) in
      map snd (filter (\<lambda>(i, t). i mod labelStride = 0) (zip [0..<length ticks] ticks)))"

definition detail_ticks :: "jsnum \<Rightarrow> string \<Rightarrow> x_tick list option" where
  "detail_ticks now windowKey =
     (let windowMs = NInt (window_ms windowKey);
          startTime = num_sub now windowMs
      in map_option (map (\<lambda>ts. \<lparr>tk_timestamp = ts,
             tk_x = num_mul (num_div (num_sub ts startTime) windowMs) (NInt plot_width)\<rparr>))
           (computeTimeTicks startTime now (NInt (tick_interval_ms windowKey))))"

definition detail_series ::
  "metric_sample list \<Rightarrow> extractor \<Rightarrow> jsnum \<Rightarrow> string \<Rightarrow> chart_series option" where
  "detail_series source extractor now windowKey =
     (let startTime = num_sub now (NInt (window_ms windowKey));
          samples = filter (\<lambda>s. num_le startTime (ms_timestamp s)) source
      in buildTimeSeriesChart samples extractor startTime now (NInt plot_width) (NInt plot_height))"

text \<open>The part of the view below the x axis, with and without a series.\<close>

definition series_view ::
  "locale_format \<Rightarrow> (jsnum \<Rightarrow> string) option \<Rightarrow> chart_series \<Rightarrow> detail_view \<Rightarrow> detail_view" where
  \<open>series_view loc formatter s view =
     (let valueRange = num_or (num_sub (series_max s) (series_min s)) (NInt 1);
          yTicks = map (\<lambda>v. (v, value_y (series_min s) valueRange (NInt plot_height) v))
                     (computeValueTicks (series_min s) (series_max s) 5);
          latest = last (plotted s)
      in view\<lparr>dv_gridY := concat (map (\<lambda>(v, y). grid_y_line y) yTicks),
              dv_axisY := concat (map (\<lambda>(v, y). axis_y_label formatter v y) yTicks),
              dv_emptyHidden := True,
              dv_points := join '' '' (map (\<lambda>p. point_text (num_add (pp_x p) (NInt margin_left))
                                                        (num_add (pp_y p) (NInt margin_top)))
                                          (plotted s)),
              dv_summary := (case formatter of None \<Rightarrow> dv_summary view
                | Some fmt \<Rightarrow>
         ''Now: '' @ fmt (pp_value latest) @ '' '' @ [CHR 0xC2, CHR 0xB7] @ '' Min: '' @
         fmt (series_min s) @ '' '' @ [CHR 0xC2, CHR 0xB7] @ '' Max: '' @ fmt (series_max s)),
              dv_range :=
         formatTooltipTimestamp loc (pp_timestamp (hd (plotted s))) @ '' '' @
         [CHR 0xE2, CHR 0x86, CHR 0x92] @ '' '' @ formatTooltipTimestamp loc (pp_timestamp latest)\<rparr>)\<close>

definition empty_view :: "detail_view \<Rightarrow> detail_view" where
  "empty_view view =
     view\<lparr>dv_gridY := '''', dv_axisY := '''', dv_points := '''', dv_emptyHidden := False,
          dv_summary := '''', dv_range := ''''\<rparr>"

text \<open>
  \<open>renderMetricDetailChart\<close> once the dialog is open on a metric: the new view and the cache entry.
  \<open>None\<close> is a tick loop that does not stop; \<open>detail_chart_returns\<close> shows that it always stops.
\<close>

definition detail_chart ::
  "locale_format \<Rightarrow> string \<Rightarrow> string \<Rightarrow> metric_sample list \<Rightarrow> jsnum \<Rightarrow> detail_view \<Rightarrow>
   (detail_view \<times> chart_cache) option" where
  "detail_chart loc label windowKey source now view =
     (case map_of TREND_EXTRACTORS label of
        None \<Rightarrow> None
      | Some extractor \<Rightarrow>
          Option.bind (detail_ticks now windowKey)
            (\<lambda>xTicks.
               let series = detail_series source extractor now windowKey;
                   view1 = view\<lparr>dv_gridX := concat (map grid_x_line xTicks),
                                dv_axisX := concat (map (axis_x_label loc windowKey) (labelled xTicks))\<rparr>
               in Some (case series of
                    None \<Rightarrow> (empty_view view1, \<lparr>cc_xTicks = xTicks, cc_plotted = []\<rparr>)
                  | Some s \<Rightarrow> (series_view loc (map_of TREND_FORMATTERS label) s view1,
                               \<lparr>cc_xTicks = xTicks, cc_plotted = plotted s\<rparr>))))"

section \<open>Hovering\<close>

record rect =
  r_left :: jsnum
  r_top :: jsnum
  r_width :: jsnum
  r_height :: jsnum

text \<open>What a mouse move does: hide the crosshair, leave it as it is, or show it at a sample.\<close>

datatype hover_effect =
    HoverLeave
  | HoverUnchanged
  | HoverShow (guide_x: jsnum) (guide_y: jsnum) (tip_html: string) (snapped: plot_point)

definition tooltip_html :: "locale_format \<Rightarrow> string \<Rightarrow> jsnum \<Rightarrow> jsnum \<Rightarrow> string" where
  \<open>tooltip_html loc label ts v =
     (let value = (case map_of TREND_FORMATTERS label of Some f \<Rightarrow> f v | None \<Rightarrow> num_to_string v) in
       ''<strong>'' @ escapeHTML value @ ''</strong><span>'' @
       escapeHTML (formatTooltipTimestamp loc ts) @ ''</span>'')\<close>

definition nearest_tick :: "jsnum \<Rightarrow> x_tick list \<Rightarrow> x_tick" where
  "nearest_tick relX ticks =
     nearest (\<lambda>t d. num_less (num_abs (num_sub (tk_x t) relX)) d)
             (\<lambda>t. num_abs (num_sub (tk_x t) relX)) (hd ticks) ticks"

definition nearest_sample :: "jsnum \<Rightarrow> plot_point list \<Rightarrow> plot_point" where
  "nearest_sample ts samples =
     nearest (\<lambda>s d. num_less (num_abs (num_sub (pp_timestamp s) ts)) d)
             (\<lambda>s. num_abs (num_sub (pp_timestamp s) ts)) (hd samples) samples"

definition handleMetricDetailHover ::
  "locale_format \<Rightarrow> string option \<Rightarrow> chart_cache option \<Rightarrow> rect \<Rightarrow> jsnum \<Rightarrow> jsnum \<Rightarrow> hover_effect" where
  "handleMetricDetailHover loc label series rc clientX clientY =
     (case (label, series) of
        (Some l, Some c) \<Rightarrow>
          if l = [] \<or> cc_xTicks c = [] \<or> cc_plotted c = [] then HoverLeave
          else if num_eq (r_width rc) (NInt 0) \<or> num_eq (r_height rc) (NInt 0) then HoverUnchanged
          else
            (let chartX = num_mul (num_div (num_sub clientX (r_left rc)) (r_width rc)) (NInt chart_width);
                 chartY = num_mul (num_div (num_sub clientY (r_top rc)) (r_height rc)) (NInt chart_height);
                 relX = num_sub chartX (NInt margin_left);
                 relY = num_sub chartY (NInt margin_top)
             in if num_less relX (NInt 0) \<or> num_less (NInt plot_width) relX \<or>
                   num_less relY (NInt 0) \<or> num_less (NInt plot_height) relY
                then HoverLeave
                else
                  (let tick = nearest_tick relX (cc_xTicks c);
                       sample = nearest_sample (tk_timestamp tick) (cc_plotted c)
                   in HoverShow (num_add (pp_x sample) (NInt margin_left))
                                (num_add (pp_y sample) (NInt margin_top))
                                (tooltip_html loc l (pp_timestamp sample) (pp_value sample)) sample))
      | _ \<Rightarrow> HoverLeave)"

section \<open>Which samples are plotted, and where\<close>

lemma usable_filter:
  "usable ex ss = map (\<lambda>s. (ms_timestamp s, the (ex s)))
     (filter (\<lambda>s. case ex s of None \<Rightarrow> False | Some v \<Rightarrow> isFinite v) ss)"
  by (induction ss) (auto split: option.splits)

lemma usable_finite: "p \<in> set (usable ex ss) \<Longrightarrow> \<exists>v. snd p = Fin v"
  by (auto simp: usable_filter split: option.splits elim!: isFinite.elims)

definition rat_of :: "jsnum \<Rightarrow> rat" where
  "rat_of a = (case a of Fin x \<Rightarrow> x | _ \<Rightarrow> 0)"

lemma rat_of_Fin [simp]: "rat_of (Fin x) = x"
  by (simp add: rat_of_def)

lemma Fin_rat_of: "isFinite a \<Longrightarrow> Fin (rat_of a) = a"
  by (cases a) auto

text \<open>The range a chart is scaled by is never zero, so no point is NaN.\<close>

lemma range_Fin: "num_or (num_sub (Fin hi) (Fin lo)) (NInt 1) =
    Fin (if hi = lo then 1 else rnd53 (hi - lo))"
  by (simp add: num_or_def num_truthy_def num_sub_def)

lemma value_y_range:
  assumes "lo \<le> v" and "v \<le> hi" and h: "0 \<le> h" "h \<le> 2 ^ 53"
  shows "\<exists>y. value_y (Fin lo) (num_or (num_sub (Fin hi) (Fin lo)) (NInt 1)) (NInt h) (Fin v) = Fin y
    \<and> 0 \<le> y \<and> y \<le> of_int h"
proof -
  let ?R = "if hi = lo then 1 else rnd53 (hi - lo)"
  define q where "q = rnd53 (rnd53 (v - lo) / ?R)"
  have R: "?R \<noteq> 0" by simp
  have q: "0 \<le> q \<and> q \<le> 1"
    using fl.ratio_in_unit [OF assms(1,2)] assms(1,2) by (auto simp: q_def)
  define a where "a = rnd53 (q * of_int h)"
  have a: "0 \<le> a \<and> a \<le> of_int h" using fl.scaled_in_range [of q h] q h by (simp add: a_def)
  have "value_y (Fin lo) (num_or (num_sub (Fin hi) (Fin lo)) (NInt 1)) (NInt h) (Fin v) =
      Fin (rnd53 (of_int h - a))"
    unfolding range_Fin value_y_def using R by (simp add: num_sub_def q_def a_def)
  with fl.flipped_in_range [of a h] a h show ?thesis by auto
qed

text \<open>The lowest value is drawn on the bottom edge, the highest on the top edge.\<close>

lemma value_y_lowest:
  assumes "0 \<le> h" "h \<le> 2 ^ 53"
  shows "value_y (Fin lo) (num_or (num_sub (Fin hi) (Fin lo)) (NInt 1)) (NInt h) (Fin lo) = NInt h"
  unfolding range_Fin value_y_def using fl.rnd_int [of h] assms by (simp add: num_sub_def)

lemma value_y_highest:
  assumes "0 \<le> h" "h \<le> 2 ^ 53" "lo < hi"
  shows "value_y (Fin lo) (num_or (num_sub (Fin hi) (Fin lo)) (NInt 1)) (NInt h) (Fin hi) = Fin 0"
  unfolding range_Fin value_y_def using fl.rnd_int [of h] assms by (simp add: num_sub_def)

lemma min_max_of_finite:
  assumes "xs \<noteq> []" and "\<forall>x\<in>set xs. \<exists>v. x = Fin v"
  obtains lo hi where "math_min xs = Fin lo" and "math_max xs = Fin hi"
    and "\<And>v. Fin v \<in> set xs \<Longrightarrow> lo \<le> v \<and> v \<le> hi" and "Fin lo \<in> set xs" and "Fin hi \<in> set xs"
proof -
  define vs where "vs = map rat_of xs"
  have xs: "xs = map Fin vs"
    using assms(2) by (auto simp: vs_def comp_def intro!: map_idI [symmetric])
  have ne: "vs \<noteq> []" using assms(1) by (simp add: vs_def)
  show thesis
  proof (rule that)
    show "math_min xs = Fin (Min (set vs))" using ne by (simp add: xs math_min_Fin)
    show "math_max xs = Fin (Max (set vs))" using ne by (simp add: xs math_max_Fin)
    show "\<And>v. Fin v \<in> set xs \<Longrightarrow> Min (set vs) \<le> v \<and> v \<le> Max (set vs)" by (auto simp: xs)
    show "Fin (Min (set vs)) \<in> set xs" using ne by (simp add: xs)
    show "Fin (Max (set vs)) \<in> set xs" using ne by (simp add: xs)
  qed
qed

subsection \<open>Sparklines\<close>

lemma buildSparkline_None: "buildSparkline samples ex w h = None \<longleftrightarrow> length (usable ex samples) < 2"
  by (simp add: buildSparkline_def Let_def)

lemma plot_y_in_range:
  assumes "\<forall>x\<in>set vals. \<exists>v. x = Fin v" and "v \<in> set vals" and h: "0 \<le> h" "h \<le> 2 ^ 53"
  shows "\<exists>y. value_y (math_min vals) (num_or (num_sub (math_max vals) (math_min vals)) (NInt 1))
      (NInt h) v = Fin y \<and> 0 \<le> y \<and> y \<le> of_int h"
proof -
  from assms(2) have ne: "vals \<noteq> []" by auto
  obtain lo hi where lh: "math_min vals = Fin lo" "math_max vals = Fin hi"
    and b: "\<And>u. Fin u \<in> set vals \<Longrightarrow> lo \<le> u \<and> u \<le> hi"
    and "Fin lo \<in> set vals" "Fin hi \<in> set vals"
    by (rule min_max_of_finite [OF ne assms(1)], rule that)
  from assms(1,2) obtain u where u: "v = Fin u" by blast
  with b assms(2) have "lo \<le> u" "u \<le> hi" by auto
  then show ?thesis unfolding lh u by (rule value_y_range [OF _ _ h])
qed

text \<open>C31: The trend line of a metric card has one point for every sample with a finite value, in
  order; the points divide the width evenly from its left to its right edge, up to the rounding (the width
  over \<open>2 ^ 51\<close>), they never move left, and vertically each lies inside the drawing area.\<close>

theorem sparkline_points:
  assumes "buildSparkline samples ex (NInt w) (NInt h) = Some c"
    and w: "0 \<le> w" "w \<le> 2 ^ 53" and h: "0 \<le> h" "h \<le> 2 ^ 53"
  shows "map (\<lambda>p. (pp_timestamp p, pp_value p)) (plotted c) = usable ex samples \<and>
    (\<forall>i<length (plotted c). \<exists>x y. pp_x (plotted c ! i) = Fin x \<and> 0 \<le> x \<and>
        \<bar>x - of_nat i * of_int w / of_nat (length (plotted c) - 1)\<bar> \<le> of_int w / 2 ^ 51 \<and>
        pp_y (plotted c ! i) = Fin y \<and> 0 \<le> y \<and> y \<le> of_int h) \<and>
    sorted_wrt (\<lambda>p q. num_le (pp_x p) (pp_x q)) (plotted c)"
proof -
  define kept where "kept = usable ex samples"
  define n where "n = length kept"
  define vals where "vals = map snd kept"
  define sx where "sx = rnd53 (of_int w / of_int (int n - 1))"
  have n: "2 \<le> n" using assms(1) by (auto simp: buildSparkline_def Let_def n_def kept_def split: if_splits)
  have fin: "\<forall>x\<in>set vals. \<exists>v. x = Fin v"
    using usable_finite by (fastforce simp: vals_def kept_def)
  have step: "num_div (NInt w) (NInt (int n - 1)) = Fin sx" using n by (simp add: sx_def)
  have sx0: "0 \<le> sx" unfolding sx_def using n w by (intro fl.rnd_nonneg) simp
  define pt where "pt = (\<lambda>(i, ts, v). \<lparr>pp_timestamp = ts, pp_value = v,
     pp_x = num_mul (NInt (int i)) (Fin sx),
     pp_y = value_y (math_min vals) (num_or (num_sub (math_max vals) (math_min vals)) (NInt 1)) (NInt h) v\<rparr>)"
  have plot: "plotted c = map pt (zip [0..<n] kept)"
    using assms(1) n step unfolding buildSparkline_def Let_def kept_def [symmetric] vals_def [symmetric]
      n_def [symmetric] pt_def by (auto simp: case_prod_beta)
  have "map (\<lambda>p. (pp_timestamp p, pp_value p)) (plotted c) = map snd (zip [0..<n] kept)"
    by (simp add: plot pt_def case_prod_beta comp_def)
  then have one: "map (\<lambda>p. (pp_timestamp p, pp_value p)) (plotted c) = kept"
    by (simp add: n_def)
  have len: "length (plotted c) = n" by (simp add: plot n_def)
  have m: "(of_nat (n - 1) :: rat) = of_int (int n - 1)" using n by (simp add: of_nat_diff)
  have two: "\<exists>x y. pp_x (plotted c ! i) = Fin x \<and> 0 \<le> x \<and>
      \<bar>x - of_nat i * of_int w / of_nat (n - 1)\<bar> \<le> of_int w / 2 ^ 51 \<and>
      pp_y (plotted c ! i) = Fin y \<and> 0 \<le> y \<and> y \<le> of_int h"
    if i: "i < n" for i
  proof -
    obtain ts v where e: "kept ! i = (ts, v)" by fastforce
    have p: "plotted c ! i = pt (i, ts, v)" using i e by (simp add: plot n_def)
    have "(ts, v) \<in> set kept" using i e nth_mem [of i kept] by (simp add: n_def)
    then have "v \<in> set vals" by (force simp: vals_def)
    from plot_y_in_range [OF fin this h] obtain y where y: "pp_y (plotted c ! i) = Fin y" "0 \<le> y" "y \<le> of_int h"
      by (auto simp: p pt_def)
    have "\<bar>rnd53 (of_nat i * sx) - of_nat i * of_int w / of_nat (n - 1)\<bar> \<le> of_int w / 2 ^ 51"
      unfolding sx_def m using n i w by (intro fl.spaced_close) auto
    moreover have "pp_x (plotted c ! i) = Fin (rnd53 (of_nat i * sx))" by (simp add: p pt_def)
    moreover have "0 \<le> rnd53 (of_nat i * sx)" using sx0 by (intro fl.rnd_nonneg) simp
    ultimately show ?thesis using y by blast
  qed
  have three: "sorted_wrt (\<lambda>p q. num_le (pp_x p) (pp_x q)) (plotted c)"
    unfolding sorted_wrt_iff_nth_less plot
    using sx0 by (auto simp: n_def pt_def case_prod_beta num_le_def not_less intro!: fl.mono mult_right_mono)
  from one two three show ?thesis by (simp add: kept_def len)
qed

subsection \<open>Time series\<close>

definition has_time :: "jsnum \<times> jsnum \<Rightarrow> bool" where
  "has_time p \<longleftrightarrow> isFinite (fst p)"

lemma time_le_Fin [simp]: "time_le (Fin a, u) (Fin b, v) \<longleftrightarrow> a \<le> b"
proof -
  have "0 < rnd53 (a - b) \<longleftrightarrow> b < a"
    using fl.rnd_pos [of "a - b"] fl.mono [of "a - b" 0] by (auto simp: not_less not_le [symmetric])
  then show ?thesis by (auto simp: time_le_def num_le_def num_sub_def)
qed

interpretation by_time: comparator has_time time_le
proof
  fix x y z :: "jsnum \<times> jsnum"
  assume "has_time x" and "has_time y"
  then obtain a u b v where xy: "x = (Fin a, u)" "y = (Fin b, v)"
    by (cases x, cases y) (auto simp: has_time_def elim!: isFinite.elims)
  then show "time_le x y \<or> time_le y x" by auto
  assume "has_time z" and "time_le x y" and "time_le y z"
  with xy show "time_le x z" by (cases z) (auto simp: has_time_def elim!: isFinite.elims)
qed

lemma plot_x_in_range:
  assumes "s \<le> t" and "t \<le> e" and w: "0 \<le> w" "w \<le> 2 ^ 53"
  shows "\<exists>x. num_mul (num_div (num_sub (Fin t) (Fin s)) (num_or (num_sub (Fin e) (Fin s)) (NInt 1))) (NInt w)
    = Fin x \<and> 0 \<le> x \<and> x \<le> of_int w"
proof -
  let ?R = "if e = s then 1 else rnd53 (e - s)"
  have q: "0 \<le> rnd53 (rnd53 (t - s) / ?R) \<and> rnd53 (rnd53 (t - s) / ?R) \<le> 1"
    using fl.ratio_in_unit [OF assms(1,2)] assms(1,2) by auto
  have "?R \<noteq> 0" by simp
  then have "num_mul (num_div (num_sub (Fin t) (Fin s)) (num_or (num_sub (Fin e) (Fin s)) (NInt 1))) (NInt w) =
      Fin (rnd53 (rnd53 (rnd53 (t - s) / ?R) * of_int w))"
    unfolding range_Fin by (simp add: num_sub_def)
  with fl.scaled_in_range [of _ w] q w show ?thesis by auto
qed

text \<open>C30: The chart of the metric dialog plots exactly the samples with a finite value and a valid
  date, ordered by time; every point lies inside the plot vertically, and every point of the chosen
  time window lies inside it horizontally, whatever the rounding.\<close>

theorem time_series_points:
  assumes "buildTimeSeriesChart samples ex (Fin s) (Fin e) (NInt w) (NInt h) = Some c"
    and "\<forall>m\<in>set samples. ms_timestamp m \<notin> {PInf, NInf}"
    and w: "0 \<le> w" "w \<le> 2 ^ 53" and h: "0 \<le> h" "h \<le> 2 ^ 53"
  shows "mset (map (\<lambda>p. (pp_timestamp p, pp_value p)) (plotted c)) =
      mset (filter (\<lambda>(t, v). t \<noteq> NaN) (usable ex samples)) \<and>
    sorted_wrt (\<lambda>p q. num_le (pp_timestamp p) (pp_timestamp q)) (plotted c) \<and>
    (\<forall>p\<in>set (plotted c). \<exists>t y. pp_timestamp p = Fin t \<and>
        pp_y p = Fin y \<and> 0 \<le> y \<and> y \<le> of_int h \<and>
        (s \<le> t \<and> t \<le> e \<longrightarrow> (\<exists>x. pp_x p = Fin x \<and> 0 \<le> x \<and> x \<le> of_int w)))"
proof -
  define kept where "kept = filter (\<lambda>(t, v). t \<noteq> NaN) (usable ex samples)"
  define ordered where "ordered = sort_by time_le kept"
  define vals where "vals = map snd ordered"
  define pt where "pt = (\<lambda>(ts, v). \<lparr>pp_timestamp = ts, pp_value = v,
     pp_x = num_mul (num_div (num_sub ts (Fin s)) (num_or (num_sub (Fin e) (Fin s)) (NInt 1))) (NInt w),
     pp_y = value_y (math_min vals) (num_or (num_sub (math_max vals) (math_min vals)) (NInt 1)) (NInt h) v\<rparr>)"
  have plot: "plotted c = map pt ordered"
    using assms(1) unfolding buildTimeSeriesChart_def Let_def kept_def [symmetric]
      ordered_def [symmetric] vals_def [symmetric] pt_def by (auto split: if_splits)
  have kept: "(t, v) \<in> set kept \<Longrightarrow> (\<exists>a. t = Fin a) \<and> (\<exists>b. v = Fin b)" for t v
    using assms(2) usable_finite [of "(t, v)" ex samples]
    by (cases t) (auto simp: kept_def usable_filter)
  then have ht: "list_all has_time kept" by (fastforce simp: list_all_iff has_time_def)
  have in_kept: "p \<in> set ordered \<longleftrightarrow> p \<in> set kept" for p by (simp add: ordered_def)
  have fin: "\<forall>x\<in>set vals. \<exists>v. x = Fin v" using kept by (fastforce simp: vals_def in_kept)
  have "map (\<lambda>p. (pp_timestamp p, pp_value p)) (plotted c) = ordered"
    by (simp add: plot pt_def case_prod_beta comp_def)
  then have one: "mset (map (\<lambda>p. (pp_timestamp p, pp_value p)) (plotted c)) = mset kept"
    by (simp add: ordered_def)
  have two: "sorted_wrt (\<lambda>p q. num_le (pp_timestamp p) (pp_timestamp q)) (plotted c)"
    unfolding plot sorted_wrt_map
  proof (rule sorted_wrt_mono_rel [rotated])
    show "sorted_wrt time_le ordered" unfolding ordered_def by (rule by_time.sorted_sort_by [OF ht])
    fix p q
    assume "p \<in> set ordered" "q \<in> set ordered" "time_le p q"
    with kept [of "fst p" "snd p"] kept [of "fst q" "snd q"]
    show "num_le (pp_timestamp (pt p)) (pp_timestamp (pt q))"
      by (cases p; cases q) (auto simp: in_kept pt_def num_le_def not_less)
  qed
  have three: "\<exists>t y. pp_timestamp p = Fin t \<and> pp_y p = Fin y \<and> 0 \<le> y \<and> y \<le> of_int h \<and>
      (s \<le> t \<and> t \<le> e \<longrightarrow> (\<exists>x. pp_x p = Fin x \<and> 0 \<le> x \<and> x \<le> of_int w))"
    if "p \<in> set (plotted c)" for p
  proof -
    from that obtain ts v where p: "p = pt (ts, v)" and m: "(ts, v) \<in> set kept"
      by (auto simp: plot in_kept)
    from kept [OF m] obtain t where t: "ts = Fin t" by blast
    have "v \<in> set vals" using m by (force simp: vals_def in_kept)
    from plot_y_in_range [OF fin this h] plot_x_in_range [of s t e w] w
    show ?thesis by (auto simp: p t pt_def)
  qed
  from one two three show ?thesis by (simp add: kept_def)
qed

subsection \<open>Gridlines\<close>

lemma ticks_from_int:
  assumes "0 < i" and "e + i \<le> 2 ^ 53"
  shows "0 \<le> t \<Longrightarrow> i dvd t \<Longrightarrow> t \<le> e + i \<Longrightarrow>
    \<exists>ts. ticks_from (NInt t) (NInt e) (NInt i) = Some (map NInt ts) \<and>
      set ts = {u. t \<le> u \<and> u \<le> e \<and> i dvd u} \<and> sorted_wrt (<) ts"
proof (induction "nat (e + i - t)" arbitrary: t rule: less_induct)
  case less
  show ?case
  proof (cases "t \<le> e")
    case False
    then show ?thesis
      by (intro exI [of _ "[]"]) (simp add: ticks_from.simps num_le_def)
  next
    case True
    have add: "num_add (NInt t) (NInt i) = NInt (t + i)"
      using True assms less.prems by (intro num_add_int) (simp add: safe_def)
    obtain ts where ts: "ticks_from (NInt (t + i)) (NInt e) (NInt i) = Some (map NInt ts)"
      "set ts = {u. t + i \<le> u \<and> u \<le> e \<and> i dvd u}" "sorted_wrt (<) ts"
      using less.hyps [of "t + i"] less.prems True assms(1) by auto
    have "ticks_from (NInt t) (NInt e) (NInt i) = Some (map NInt (t # ts))"
      by (subst ticks_from.simps) (use True add ts(1) in \<open>simp add: num_le_def del: num_add.simps\<close>)
    moreover have "set (t # ts) = {u. t \<le> u \<and> u \<le> e \<and> i dvd u}"
    proof -
      have "t + i \<le> u" if "t \<le> u" "i dvd u" "u \<noteq> t" for u
      proof -
        from that less.prems(2) have "i dvd (u - t)" by simp
        moreover from that have "0 < u - t" by simp
        ultimately show ?thesis using zdvd_imp_le [of i "u - t"] by simp
      qed
      then show ?thesis using ts(2) True less.prems(2) assms(1) by auto
    qed
    moreover have "sorted_wrt (<) (t # ts)" using ts(2,3) assms(1) by auto
    ultimately show ?thesis by blast
  qed
qed

lemma first_tick:
  assumes "0 < i" and "0 \<le> s" and "s + i \<le> 2 ^ 53"
  shows "num_mul (num_ceil (num_div (NInt s) (NInt i))) (NInt i) = NInt (\<lceil>of_int s / (of_int i :: rat)\<rceil> * i)"
    and "s \<le> \<lceil>of_int s / (of_int i :: rat)\<rceil> * i" and "\<lceil>of_int s / (of_int i :: rat)\<rceil> * i < s + i"
proof -
  let ?q = "of_int s / of_int i :: rat"
  have i: "(0 :: rat) < of_int i" using assms(1) by simp
  have "?q \<le> of_int \<lceil>?q\<rceil>" by (rule le_of_int_ceiling)
  then have "of_int s \<le> (of_int (\<lceil>?q\<rceil> * i) :: rat)"
    using pos_divide_le_eq [OF i, of "of_int s" "of_int \<lceil>?q\<rceil>"] by simp
  then show lo: "s \<le> \<lceil>?q\<rceil> * i" by (simp only: of_int_le_iff)
  have "of_int \<lceil>?q\<rceil> < ?q + 1" by linarith
  then have "of_int \<lceil>?q\<rceil> * of_int i < (?q + 1) * of_int i" using i by (rule mult_strict_right_mono)
  also have "\<dots> = of_int (s + i)" using i by (simp add: distrib_right)
  finally have "(of_int (\<lceil>?q\<rceil> * i) :: rat) < of_int (s + i)" by simp
  then show hi: "\<lceil>?q\<rceil> * i < s + i" by (simp only: of_int_less_iff)
  have "num_ceil (num_div (NInt s) (NInt i)) = NInt \<lceil>?q\<rceil>"
    using assms by (intro ceil_div_int) auto
  moreover have "num_mul (NInt \<lceil>?q\<rceil>) (NInt i) = NInt (\<lceil>?q\<rceil> * i)"
    using lo hi assms by (intro num_mul_int) (simp add: safe_def)
  ultimately show "num_mul (num_ceil (num_div (NInt s) (NInt i))) (NInt i) = NInt (\<lceil>?q\<rceil> * i)"
    by simp
qed

lemma time_ticks_from_zero:
  assumes "0 < i" and "0 \<le> s" and "s \<le> e" and "e + i \<le> 2 ^ 53"
  shows "\<exists>ts. computeTimeTicks (NInt s) (NInt e) (NInt i) = Some (map NInt ts) \<and>
    set ts = {t. s \<le> t \<and> t \<le> e \<and> i dvd t} \<and> sorted_wrt (<) ts"
proof -
  let ?f = "\<lceil>of_int s / (of_int i :: rat)\<rceil> * i"
  have f: "num_mul (num_ceil (num_div (NInt s) (NInt i))) (NInt i) = NInt ?f" "s \<le> ?f" "?f < s + i"
    using first_tick [of i s] assms by auto
  obtain ts where ts: "ticks_from (NInt ?f) (NInt e) (NInt i) = Some (map NInt ts)"
    "set ts = {u. ?f \<le> u \<and> u \<le> e \<and> i dvd u}" "sorted_wrt (<) ts"
    using ticks_from_int [of i e ?f] f(2,3) assms by auto
  have "?f \<le> u" if "s \<le> u" "i dvd u" for u
  proof (rule ccontr)
    assume "\<not> ?f \<le> u"
    with that(2) have "i dvd (?f - u)" "0 < ?f - u" by simp_all
    then have "i \<le> ?f - u" by (rule zdvd_imp_le)
    with f(3) that(1) show False by simp
  qed
  then have "set ts = {t. s \<le> t \<and> t \<le> e \<and> i dvd t}" using ts(2) f(2) by auto
  with ts f(1) show ?thesis by (auto simp: computeTimeTicks_def)
qed

text \<open>C25: The time gridlines are exactly the multiples of the interval inside the window, in
  increasing order: the loop stops, and the floating-point quotient it starts from never skips or
  repeats a gridline.\<close>

theorem time_ticks_exact:
  assumes "0 < i" and "0 \<le> s" and "s \<le> e" and "e + i \<le> 2 ^ 53"
  shows "\<exists>ts. computeTimeTicks (NInt s) (NInt e) (NInt i) = Some (map NInt ts) \<and>
    set ts = {t. s \<le> t \<and> t \<le> e \<and> i dvd t} \<and> sorted_wrt (<) ts"
  using assms by (rule time_ticks_from_zero)

subsection \<open>The dialog always draws\<close>

lemma window_ms_bounds: "600000 \<le> window_ms k \<and> window_ms k \<le> 86400000"
  by (simp add: window_ms_def table_or_def METRIC_DETAIL_WINDOWS_def)

lemma tick_interval_bounds: "60000 \<le> tick_interval_ms k \<and> tick_interval_ms k \<le> 7200000"
  by (simp add: tick_interval_ms_def table_or_def METRIC_DETAIL_TICK_INTERVALS_MS_def)

text \<open>C26: For every metric that has a trend, every window and every clock value between a day and
  the end of the safe integers, drawing the chart returns, with the gridlines at the multiples of the
  window's interval, and the plotted points are those of \<open>buildTimeSeriesChart\<close> on the window.\<close>

theorem detail_chart_returns:
  assumes "map_of TREND_EXTRACTORS label = Some ex" and "86400000 \<le> n" and "n \<le> 2 ^ 52"
  shows "\<exists>view' c ts. detail_chart loc label windowKey source (NInt n) view = Some (view', c) \<and>
    map tk_timestamp (cc_xTicks c) = map NInt ts \<and>
    set ts = {t. n - window_ms windowKey \<le> t \<and> t \<le> n \<and> tick_interval_ms windowKey dvd t} \<and>
    cc_plotted c = (case detail_series source ex (NInt n) windowKey of None \<Rightarrow> [] | Some s \<Rightarrow> plotted s) \<and>
    dv_emptyHidden view' = (detail_series source ex (NInt n) windowKey \<noteq> None)"
proof -
  let ?s = "n - window_ms windowKey" and ?i = "tick_interval_ms windowKey"
  have start: "num_sub (NInt n) (NInt (window_ms windowKey)) = NInt ?s"
    using assms window_ms_bounds [of windowKey] by (intro num_sub_int) (simp add: safe_def)
  have c: "0 < ?i" "0 \<le> ?s" "?s \<le> n" "n + ?i \<le> 2 ^ 53"
    using assms window_ms_bounds [of windowKey] tick_interval_bounds [of windowKey] by simp_all
  obtain ts where ts: "computeTimeTicks (NInt ?s) (NInt n) (NInt ?i) = Some (map NInt ts)"
    "set ts = {t. ?s \<le> t \<and> t \<le> n \<and> ?i dvd t}"
    using time_ticks_from_zero [OF c] by blast
  define mk where "mk = (\<lambda>ts. \<lparr>tk_timestamp = ts,
    tk_x = num_mul (num_div (num_sub ts (NInt ?s)) (NInt (window_ms windowKey))) (NInt plot_width)\<rparr>)"
  define xs where "xs = map mk (map NInt ts)"
  have ticks: "detail_ticks (NInt n) windowKey = Some xs"
    by (simp only: detail_ticks_def Let_def start ts(1) option.map mk_def xs_def)
  have times: "map tk_timestamp xs = map NInt ts" by (simp add: xs_def mk_def)
  define v1 where "v1 = view\<lparr>dv_gridX := concat (map grid_x_line xs),
    dv_axisX := concat (map (axis_x_label loc windowKey) (labelled xs))\<rparr>"
  have chart: "detail_chart loc label windowKey source (NInt n) view =
      Some (case detail_series source ex (NInt n) windowKey of
          None \<Rightarrow> (empty_view v1, \<lparr>cc_xTicks = xs, cc_plotted = []\<rparr>)
        | Some s \<Rightarrow> (series_view loc (map_of TREND_FORMATTERS label) s v1,
                     \<lparr>cc_xTicks = xs, cc_plotted = plotted s\<rparr>))"
    by (simp only: detail_chart_def assms(1) option.case ticks bind.simps Let_def v1_def)
  show ?thesis
  proof (cases "detail_series source ex (NInt n) windowKey")
    case None
    then have "dv_emptyHidden (empty_view v1) = False" by (simp add: empty_view_def)
    with None chart times ts(2) show ?thesis by auto
  next
    case (Some s)
    have "dv_emptyHidden (series_view loc (map_of TREND_FORMATTERS label) s v1)"
      by (simp add: series_view_def Let_def)
    with Some chart times ts(2) show ?thesis by auto
  qed
qed

text \<open>Where the cursor is in the plot, from its left edge, and how far a gridline is from there.\<close>

definition cursor_x :: "rect \<Rightarrow> jsnum \<Rightarrow> jsnum" where
  "cursor_x rc clientX =
     num_sub (num_mul (num_div (num_sub clientX (r_left rc)) (r_width rc)) (NInt chart_width)) (NInt margin_left)"

definition tick_distance :: "jsnum \<Rightarrow> x_tick \<Rightarrow> jsnum" where
  "tick_distance x k = num_abs (num_sub (tk_x k) x)"

text \<open>C29: The crosshair of the metric dialog sits on a vertex of the plotted line: on the sample that is
  closest in time to a gridline than which none is closer to the cursor, by the distances the code
  computes.\<close>

theorem hover_snaps_to_nearest:
  assumes "handleMetricDetailHover loc (Some label) (Some c) rc cx cy = HoverShow gx gy tip p"
    and "\<forall>q\<in>set (cc_plotted c). \<exists>t. pp_timestamp q = NInt t \<and> 0 \<le> t \<and> t \<le> 2 ^ 53"
    and "\<forall>k\<in>set (cc_xTicks c). \<exists>t. tk_timestamp k = NInt t \<and> 0 \<le> t \<and> t \<le> 2 ^ 53"
  shows "p \<in> set (cc_plotted c) \<and>
    gx = num_add (pp_x p) (NInt margin_left) \<and> gy = num_add (pp_y p) (NInt margin_top) \<and>
    (\<exists>k\<in>set (cc_xTicks c).
      (\<forall>j\<in>set (cc_xTicks c). \<not> num_less (tick_distance (cursor_x rc cx) j) (tick_distance (cursor_x rc cx) k)) \<and>
      (\<forall>q\<in>set (cc_plotted c).
        \<bar>rat_of (pp_timestamp p) - rat_of (tk_timestamp k)\<bar> \<le>
        \<bar>rat_of (pp_timestamp q) - rat_of (tk_timestamp k)\<bar>))"
proof -
  define relX where "relX = cursor_x rc cx"
  define k where "k = nearest_tick relX (cc_xTicks c)"
  from assms(1) have ne: "cc_plotted c \<noteq> []" "cc_xTicks c \<noteq> []"
    and p: "p = nearest_sample (tk_timestamp k) (cc_plotted c)"
    and g: "gx = num_add (pp_x p) (NInt margin_left)" "gy = num_add (pp_y p) (NInt margin_top)"
    by (auto simp: handleMetricDetailHover_def Let_def k_def relX_def cursor_x_def split: if_splits)
  have hd1: "insert (hd (cc_plotted c)) (set (cc_plotted c)) = set (cc_plotted c)"
    and hd2: "insert (hd (cc_xTicks c)) (set (cc_xTicks c)) = set (cc_xTicks c)"
    using ne by (auto simp: insert_absorb)
  have k: "k \<in> set (cc_xTicks c)"
    unfolding k_def nearest_tick_def using nearest_mem [of _ _ "hd (cc_xTicks c)" "cc_xTicks c"]
    by (simp only: hd2)
  have near: "\<forall>j\<in>set (cc_xTicks c). \<not> num_less (tick_distance relX j) (tick_distance relX k)"
  proof -
    let ?closer = "\<lambda>j d. num_less (tick_distance relX j) d"
    have "\<forall>j\<in>insert (hd (cc_xTicks c)) (set (cc_xTicks c)).
        \<not> ?closer j (tick_distance relX (nearest ?closer (tick_distance relX) (hd (cc_xTicks c)) (cc_xTicks c)))"
      by (rule nearest_minimal [where lt = num_less], rule refl, rule num_less_irrefl, erule (1) num_less_trans)
    moreover have "k = nearest ?closer (tick_distance relX) (hd (cc_xTicks c)) (cc_xTicks c)"
      by (simp add: k_def nearest_tick_def tick_distance_def [abs_def])
    ultimately show ?thesis by (simp only: hd2)
  qed
  from k assms(3) obtain u where u: "tk_timestamp k = NInt u" "0 \<le> u" "u \<le> 2 ^ 53" by blast
  define key where "key = (\<lambda>q :: plot_point. \<bar>rat_of (pp_timestamp q) - of_int u\<bar>)"
  have dist: "num_abs (num_sub (pp_timestamp q) (NInt u)) = Fin (key q)" if "q \<in> set (cc_plotted c)" for q
  proof -
    from assms(2) that obtain t where t: "pp_timestamp q = NInt t" "0 \<le> t" "t \<le> 2 ^ 53" by blast
    have "num_sub (NInt t) (NInt u) = NInt (t - u)"
      using t u by (intro num_sub_int) (simp add: safe_def)
    then show ?thesis by (simp add: t(1) key_def del: num_add.simps)
  qed
  have pm: "p \<in> set (cc_plotted c)"
    unfolding p nearest_sample_def using nearest_mem [of _ _ "hd (cc_plotted c)" "cc_plotted c"]
    by (simp only: hd1)
  have "\<forall>q\<in>insert (hd (cc_plotted c)) (set (cc_plotted c)). key p \<le> key q"
    unfolding p nearest_sample_def u(1)
    by (rule nearest_least) (simp only: hd1 dist num_less.simps)
  then have "\<forall>q\<in>set (cc_plotted c). key p \<le> key q" by simp
  with u(1) have "\<forall>q\<in>set (cc_plotted c).
      \<bar>rat_of (pp_timestamp p) - rat_of (tk_timestamp k)\<bar> \<le>
      \<bar>rat_of (pp_timestamp q) - rat_of (tk_timestamp k)\<bar>"
    by (simp add: key_def)
  with pm g k near show ?thesis unfolding relX_def by blast
qed

section \<open>Examples\<close>

definition example_sample :: "int \<Rightarrow> int \<Rightarrow> metric_sample" where
  "example_sample t v =
     \<lparr>ms_timestamp = NInt t, cpu_usage_percent = Some (NInt v), cpu_temperature_celsius = None,
      memory_used_bytes = None, disk_free_bytes = None\<rparr>"

definition example_samples :: "metric_sample list" where
  "example_samples = [example_sample 1000 10, example_sample 3000 50, example_sample 2000 20]"

lemma sparkline_points_witness:
  "\<exists>c. buildSparkline example_samples cpu_usage_percent (NInt 100) (NInt 32) = Some c \<and>
     map (\<lambda>p. (pp_timestamp p, pp_value p)) (plotted c) = usable cpu_usage_percent example_samples"
proof -
  have "buildSparkline example_samples cpu_usage_percent (NInt 100) (NInt 32) \<noteq> None"
    unfolding buildSparkline_def Let_def by (simp add: example_samples_def example_sample_def)
  then obtain c where "buildSparkline example_samples cpu_usage_percent (NInt 100) (NInt 32) = Some c"
    by blast
  with sparkline_points [OF this] show ?thesis by simp
qed

lemma time_series_points_witness:
  "\<exists>c. buildTimeSeriesChart example_samples cpu_usage_percent (Fin 0) (Fin 4000) (NInt 100) (NInt 32)
      = Some c \<and> sorted_wrt (\<lambda>p q. num_le (pp_timestamp p) (pp_timestamp q)) (plotted c)"
proof -
  have "buildTimeSeriesChart example_samples cpu_usage_percent (Fin 0) (Fin 4000) (NInt 100) (NInt 32)
      \<noteq> None"
    unfolding buildTimeSeriesChart_def Let_def by (simp add: example_samples_def example_sample_def)
  then obtain c where c: "buildTimeSeriesChart example_samples cpu_usage_percent (Fin 0) (Fin 4000)
      (NInt 100) (NInt 32) = Some c"
    by blast
  with time_series_points [OF c] show ?thesis
    by (simp add: example_samples_def example_sample_def)
qed

lemma time_ticks_exact_witness:
  "\<exists>ts. computeTimeTicks (NInt 90) (NInt 250) (NInt 60) = Some (map NInt ts) \<and>
    set ts = {t. 90 \<le> t \<and> t \<le> 250 \<and> 60 dvd t} \<and> sorted_wrt (<) ts"
  by (rule time_ticks_exact) simp_all

lemma detail_chart_returns_witness:
  "\<exists>view' c. detail_chart (\<lambda>_ _. ''t'') ''CPU usage'' ''10m'' example_samples (NInt 90000000)
      \<lparr>dv_gridX = [], dv_axisX = [], dv_gridY = [], dv_axisY = [], dv_points = [],
       dv_emptyHidden = True, dv_summary = [], dv_range = []\<rparr> = Some (view', c)"
proof -
  have "map_of TREND_EXTRACTORS ''CPU usage'' = Some cpu_usage_percent" by (simp add: TREND_EXTRACTORS_def)
  from detail_chart_returns [OF this, of 90000000 "\<lambda>_ _. ''t''" "''10m''" example_samples]
  show ?thesis by simp blast
qed

definition example_cache :: chart_cache where
  "example_cache =
     \<lparr>cc_xTicks = [\<lparr>tk_timestamp = NInt 1000, tk_x = NInt 10\<rparr>, \<lparr>tk_timestamp = NInt 2000, tk_x = NInt 300\<rparr>],
      cc_plotted = [\<lparr>pp_timestamp = NInt 900, pp_value = NInt 1, pp_x = NInt 5, pp_y = NInt 50\<rparr>,
                    \<lparr>pp_timestamp = NInt 2100, pp_value = NInt 3, pp_x = NInt 310, pp_y = NInt 20\<rparr>]\<rparr>"

lemma hover_snaps_to_nearest_witness:
  "\<exists>gx gy tip p. handleMetricDetailHover (\<lambda>_ _. ''t'') (Some ''CPU usage'') (Some example_cache)
      \<lparr>r_left = NInt 0, r_top = NInt 0, r_width = NInt 600, r_height = NInt 220\<rparr> (NInt 300) (NInt 110)
      = HoverShow gx gy tip p \<and> p \<in> set (cc_plotted example_cache) \<and>
    gx = num_add (pp_x p) (NInt margin_left)"
proof -
  let ?h = "handleMetricDetailHover (\<lambda>_ _. ''t'') (Some ''CPU usage'') (Some example_cache)
      \<lparr>r_left = NInt 0, r_top = NInt 0, r_width = NInt 600, r_height = NInt 220\<rparr> (NInt 300) (NInt 110)"
  let ?x = "num_sub (num_mul (num_div (num_sub (NInt 300) (NInt 0)) (NInt 600)) (NInt chart_width)) (NInt margin_left)"
  let ?y = "num_sub (num_mul (num_div (num_sub (NInt 110) (NInt 0)) (NInt 220)) (NInt chart_height)) (NInt margin_top)"
  have in_plot: "(num_less ?x (NInt 0) \<or> num_less (NInt plot_width) ?x \<or>
      num_less ?y (NInt 0) \<or> num_less (NInt plot_height) ?y) = False"
    by code_simp
  have size: "num_eq (NInt 600) (NInt 0) = False" "num_eq (NInt 220) (NInt 0) = False" by code_simp+
  have ne: "(cc_xTicks example_cache = []) = False" "(cc_plotted example_cache = []) = False"
    by (simp_all add: example_cache_def)
  have l: "(''CPU usage'' = []) = False" by simp
  obtain gx gy tip p where h: "?h = HoverShow gx gy tip p"
    by (simp only: handleMetricDetailHover_def Let_def prod.case option.case rect.select_convs
        in_plot size ne l simp_thms if_False)
  have "p \<in> set (cc_plotted example_cache) \<and> gx = num_add (pp_x p) (NInt margin_left)"
    using hover_snaps_to_nearest [OF h] by (simp add: example_cache_def)
  with h show ?thesis by blast
qed

end
