(* ===== verification/Agent_Render.thy ===== *)
theory Agent_Render
  imports Agent_Chart
begin

text \<open>
  The HTML the node dashboard writes (\<open>app.js\<close>), with the texts of its templates, and the records
  of the API that it renders.  Every value that comes from the device, the operator or the API goes
  through \<open>escapeHTML\<close> or \<open>escapeAttribute\<close>; the theorems say that the tags and attributes of the
  page do not depend on those values.  A template that throws is \<open>Inl\<close> with the error's message.
\<close>

section \<open>The records of the API\<close>

record ups_metadata =
  um_display_name :: "string option"
  um_tags :: "string list option"

record ups_health =
  uh_name :: string
  uh_driver :: string
  uh_metadata :: "ups_metadata option"
  uh_status :: string
  uh_battery_charge :: "jsnum option"
  uh_load :: "jsnum option"
  uh_runtime :: "jsnum option"
  uh_input_voltage :: "jsnum option"
  uh_output_voltage :: "jsnum option"
  uh_battery_voltage :: "jsnum option"

record ups_command =
  uc_name :: string
  uc_description :: "string option"
  uc_destructive :: bool

record writable_var =
  wv_name :: string
  wv_description :: "string option"
  wv_editor :: string
  wv_current_value :: "string option"
  wv_options :: "string list option"
  wv_min :: "jsnum option"
  wv_max :: "jsnum option"

record ups_detail =
  ud_name :: string
  ud_driver :: string
  ud_metadata :: "ups_metadata option"
  ud_status :: string
  ud_metrics :: ups_health
  ud_variables :: "entry list"
  ud_commands :: "ups_command list option"
  ud_writable :: "writable_var list option"

record node_health =
  nh_version :: string
  nh_uptime_seconds :: "jsnum option"
  nh_cpu_temperature :: "jsnum option"
  nh_cpu_usage :: "jsnum option"
  nh_memory_used :: jsnum
  nh_memory_total :: jsnum
  nh_disk_free :: jsnum
  nh_upses :: "ups_health list"

text \<open>\<open>detail.metadata || {}\<close> and its two fields.\<close>

definition md_display_name :: "ups_metadata option \<Rightarrow> string option" where
  "md_display_name md = Option.bind md um_display_name"

definition md_tags :: "ups_metadata option \<Rightarrow> string list" where
  "md_tags md = (case Option.bind md um_tags of None \<Rightarrow> [] | Some ts \<Rightarrow> ts)"

section \<open>Cards\<close>

definition statItem :: "string \<Rightarrow> string \<Rightarrow> string" where
  \<open>statItem label val =
     ''<div class="stat-item"><span class="stat-label">'' @ escapeHTML label @
     ''</span><span class="stat-value">'' @ escapeHTML val @ ''</span></div>''\<close>

definition detailMetric :: "string \<Rightarrow> string \<Rightarrow> string \<Rightarrow> string" where
  \<open>detailMetric label val key =
     ''<article class="metric-card metric-card--compact" data-metric="'' @ key @
     ''"><span class="eyebrow">'' @ escapeHTML label @
     ''</span><div class="metric-value metric-value--compact">'' @ escapeHTML val @
     ''</div></article>''\<close>

definition card_template :: "string option \<Rightarrow> ups_health \<Rightarrow> string \<Rightarrow> string \<Rightarrow> string \<Rightarrow> string" where
  \<open>card_template selectedUPS ups accentClass chipClass title =
     ''\<newline>'' @
     ''      <article class="ups-card '' @ accentClass @ '' '' @
     (if Some (uh_name ups) = selectedUPS then ''is-selected'' else []) @
     ''" data-ups-name="'' @ escapeAttribute (uh_name ups) @ ''" tabindex="0">\<newline>'' @
     ''        <header>\<newline>'' @
     ''          <div>\<newline>'' @
     ''            <h3>'' @ escapeHTML title @ ''</h3>\<newline>'' @
     ''            <p>'' @ escapeHTML (uh_driver ups) @ ''</p>\<newline>'' @
     ''          </div>\<newline>'' @
     ''          <span class="chip '' @ chipClass @ ''">'' @ escapeHTML (uh_status ups) @
     ''</span>\<newline>'' @
     ''        </header>\<newline>'' @
     ''        <div class="stat-grid">\<newline>'' @
     ''          '' @ statItem ''Charge'' (formatPercent (uh_battery_charge ups)) @
     ''\<newline>'' @
     ''          '' @ statItem ''Load'' (formatPercent (uh_load ups)) @ ''\<newline>'' @
     ''          '' @ statItem ''Runtime'' (formatDuration (uh_runtime ups)) @
     ''\<newline>'' @
     ''          '' @ statItem ''Output'' (formatVoltage (uh_output_voltage ups)) @
     ''\<newline>'' @
     ''        </div>\<newline>'' @
     ''      </article>\<newline>'' @
     ''    ''\<close>

definition ups_card :: "string option \<Rightarrow> ups_health \<Rightarrow> string" where
  "ups_card selectedUPS ups =
     (let chipClass = statusClass (Some (uh_status ups));
          accentClass = (if chipClass = [] then ''ups-card--good''
                         else ''ups-card--'' @ chip_suffix chipClass);
          title = or_opt (md_display_name (uh_metadata ups)) (uh_name ups)
      in card_template selectedUPS ups accentClass chipClass title)"

definition no_ups_html :: string where
  \<open>no_ups_html =
     ''\<newline>'' @
     ''      <div class="empty-state">\<newline>'' @
     ''        <h3>No UPS devices discovered</h3>\<newline>'' @
     ''        <p>Plug in a supported UPS and the agent will populate telemetry and available controls here.</p>\<newline>'' @
     ''      </div>\<newline>'' @
     ''    ''\<close>

definition ups_grid_html :: "string option \<Rightarrow> ups_health list \<Rightarrow> string" where
  "ups_grid_html selectedUPS upses =
     (if upses = [] then no_ups_html else concat (map (ups_card selectedUPS) upses))"

definition trend_svg :: "chart_series \<Rightarrow> string" where
  \<open>trend_svg sparkline =
         ''<svg class="metric-trend" viewBox="0 0 100 32" preserveAspectRatio="none" aria-hidden="true">\<newline>'' @
         ''    <polyline points="'' @ points sparkline @ ''"></polyline>\<newline>'' @
         ''  </svg>''\<close>

definition renderMetricTrend :: "metric_sample list \<Rightarrow> string \<Rightarrow> string" where
  "renderMetricTrend history label =
     (case map_of TREND_EXTRACTORS label of
        None \<Rightarrow> []
      | Some extractor \<Rightarrow>
          (case buildSparkline history extractor (NInt 100) (NInt 32) of
             None \<Rightarrow> []
           | Some sparkline \<Rightarrow> trend_svg sparkline))"

definition metric_card :: "metric_sample list \<Rightarrow> string \<Rightarrow> string \<Rightarrow> string" where
  \<open>metric_card history label val =
     (let interactive = (map_of TREND_EXTRACTORS label \<noteq> None) in
     ''\<newline>'' @
     ''    <article class="metric-card '' @
     (if interactive then ''metric-card--interactive'' else []) @ ''" data-metric-label="'' @
     escapeAttribute label @ ''" '' @
     (if interactive then ''tabindex="0" role="button" aria-haspopup="dialog"'' else []) @
     ''>\<newline>'' @
     ''      <span class="eyebrow">'' @ escapeHTML label @ ''</span>\<newline>'' @
     ''      <div class="metric-value">'' @ escapeHTML val @ ''</div>\<newline>'' @
     ''      '' @ renderMetricTrend history label @ ''\<newline>'' @
     ''    </article>\<newline>'' @
     ''  '')\<close>

definition health_cards :: "node_health \<Rightarrow> (string \<times> string) list" where
  "health_cards health =
    [(''Uptime'', formatDuration (nh_uptime_seconds health)),
     (''Disk free'', formatBytes (nh_disk_free health)),
     (''CPU temp'', (case nh_cpu_temperature health of None \<Rightarrow> unavailable
                     | Some t \<Rightarrow> toFixed 1 t @ '' C'')),
     (''CPU usage'', (case nh_cpu_usage health of None \<Rightarrow> unavailable
                      | Some u \<Rightarrow> toFixed 1 u @ ''%'')),
     (''Memory used'', formatBytes (nh_memory_used health) @ '' / '' @
                       formatBytes (nh_memory_total health))]"

definition metrics_html :: "metric_sample list \<Rightarrow> node_health \<Rightarrow> string" where
  "metrics_html history health =
     concat (map (\<lambda>(label, val). metric_card history label val) (health_cards health))"

section \<open>The detail view\<close>

definition description_text :: "presentation \<Rightarrow> string option \<Rightarrow> string" where
  "description_text pr description =
     or_opt (pr_description pr) (or_opt description ''No description reported by NUT.'')"

definition command_row :: "ups_command \<Rightarrow> string" where
  \<open>command_row command =
     (let pr = controlPresentation (uc_name command) in
     ''\<newline>'' @
     ''    <li class="action-row '' @
     (if uc_destructive command then ''action-row--destructive'' else []) @ ''">\<newline>'' @
     ''      <div class="action-row-text">\<newline>'' @
     ''        <div class="action-row-title-line">\<newline>'' @
     ''          <span class="action-row-title">'' @ escapeHTML (js_String (pr_label pr)) @
     ''</span>\<newline>'' @
     [CHR 0x09] @ [CHR 0x09] @ ''  <span class="action-row-identifier">'' @
     escapeHTML (uc_name command) @ ''</span>\<newline>'' @
     ''          '' @
     (if uc_destructive command then ''<span class="tag tag--danger">Destructive</span>'' else []) @
     ''\<newline>'' @
     ''        </div>\<newline>'' @
     ''        <p class="action-row-desc">'' @
     escapeHTML (description_text pr (uc_description command)) @ ''</p>\<newline>'' @
     ''      </div>\<newline>'' @
     ''      <div class="action-row-controls">\<newline>'' @
     ''        <button class="button button--compact '' @
     (if uc_destructive command then ''button--danger'' else ''button--primary'') @
     ''" data-command="'' @ escapeAttribute (uc_name command) @ ''">\<newline>'' @
     ''          '' @ (if uc_destructive command then ''Confirm & run'' else ''Run'') @
     ''\<newline>'' @
     ''        </button>\<newline>'' @
     ''      </div>\<newline>'' @
     ''    </li>\<newline>'' @
     ''  '')\<close>

definition no_commands_html :: string where
  \<open>no_commands_html =
     ''\<newline>'' @
     ''      <div class="empty-state">\<newline>'' @
     ''        <p>This UPS does not report any instant commands through NUT.</p>\<newline>'' @
     ''      </div>\<newline>'' @
     ''    ''\<close>

definition renderCommands :: "ups_command list option \<Rightarrow> string" where
  \<open>renderCommands commands =
     (case commands of
        None \<Rightarrow> no_commands_html
      | Some cs \<Rightarrow>
          if cs = [] then no_commands_html
          else ''<ul class="action-list">'' @ concat (map command_row cs) @ ''</ul>'')\<close>

definition empty_detail_html :: "string option \<Rightarrow> string" where
  \<open>empty_detail_html message =
     ''\<newline>'' @
     ''    <div class="empty-state">\<newline>'' @
     ''      <h3>Select a UPS</h3>\<newline>'' @
     ''      <p>'' @
     escapeHTML (or_opt message ''Pick a UPS card to inspect full telemetry, raw variables, and supported commands.'') @
     ''</p>\<newline>'' @
     ''    </div>\<newline>'' @
     ''  ''\<close>

definition option_tag :: "string \<Rightarrow> string \<Rightarrow> string" where
  \<open>option_tag value opt =
     ''<option value="'' @ escapeAttribute opt @ ''" '' @
     (if opt = value then ''selected'' else []) @ ''>'' @ escapeHTML opt @ ''</option>''\<close>

definition select_html :: "writable_var \<Rightarrow> string \<Rightarrow> string list \<Rightarrow> string" where
  \<open>select_html variable value options =
         ''\<newline>'' @
         ''      <select data-variable-input="'' @ escapeAttribute (wv_name variable) @
         ''" data-variable-original="'' @ escapeAttribute value @ ''" aria-label="'' @
         escapeAttribute (wv_name variable) @ '' value">\<newline>'' @
         ''        '' @ concat (map (option_tag value) options) @ ''\<newline>'' @
         ''      </select>\<newline>'' @
         ''    ''\<close>

definition bound_attr :: "string \<Rightarrow> jsnum option \<Rightarrow> string" where
  \<open>bound_attr name bound =
     (case bound of None \<Rightarrow> []
      | Some b \<Rightarrow> '' '' @ name @ ''="'' @ escapeAttribute (num_to_string b) @ ''"'')\<close>

definition input_html :: "writable_var \<Rightarrow> string \<Rightarrow> string" where
  \<open>input_html variable value =
     (let min_attr = bound_attr ''min'' (wv_min variable);
          max_attr = bound_attr ''max'' (wv_max variable);
          type = (if wv_editor variable = ''number'' then ''number'' else ''text'') in
         ''\<newline>'' @
         ''    <input data-variable-input="'' @ escapeAttribute (wv_name variable) @
         ''" data-variable-original="'' @ escapeAttribute value @ ''" aria-label="'' @
         escapeAttribute (wv_name variable) @ '' value" type="'' @ type @ ''" value="'' @
         escapeAttribute value @ ''"'' @ min_attr @ max_attr @ ''>\<newline>'' @
         ''  '')\<close>

text \<open>
  A select editor reads \<open>variable.options.map\<close>: without options that is a TypeError.
\<close>

definition options_type_error :: string where
  "options_type_error = ''Cannot read properties of undefined (reading '' @ [CHR 0x27] @ ''map'' @ [CHR 0x27] @ '')''"

definition renderVariableInput :: "writable_var \<Rightarrow> string + string" where
  "renderVariableInput variable =
     (let value = or_opt (wv_current_value variable) [] in
      if wv_editor variable = ''select''
      then (case wv_options variable of
              None \<Rightarrow> Inl options_type_error
            | Some options \<Rightarrow> Inr (select_html variable value options))
      else Inr (input_html variable value))"

definition writable_row :: "writable_var \<Rightarrow> string \<Rightarrow> string" where
  \<open>writable_row variable input =
     (let pr = controlPresentation (wv_name variable) in
       ''\<newline>'' @
       ''      <li class="action-row" data-variable-row="'' @
       escapeAttribute (wv_name variable) @ ''">\<newline>'' @
       ''        <div class="action-row-text">\<newline>'' @
       ''          <div class="action-row-title-line">\<newline>'' @
       ''            <span class="action-row-title">'' @ escapeHTML (js_String (pr_label pr)) @
       ''</span>\<newline>'' @
       [CHR 0x09] @ [CHR 0x09] @ [CHR 0x09] @ ''<span class="action-row-identifier">'' @
       escapeHTML (wv_name variable) @ ''</span>\<newline>'' @
       ''            <span class="tag">'' @ escapeHTML (wv_editor variable) @
       ''</span>\<newline>'' @
       ''            <span class="tag tag--warn action-row-dirty-tag" hidden>Modified</span>\<newline>'' @
       ''          </div>\<newline>'' @
       ''          <p class="action-row-desc">'' @
       escapeHTML (description_text pr (wv_description variable)) @ ''</p>\<newline>'' @
       ''        </div>\<newline>'' @
       ''        <div class="action-row-controls">\<newline>'' @
       ''          '' @ input @ ''\<newline>'' @
       ''        </div>\<newline>'' @
       ''      </li>\<newline>'' @
       ''    '')\<close>

fun writable_rows :: "writable_var list \<Rightarrow> string + string" where
  "writable_rows [] = Inr []"
| "writable_rows (v # vs) =
     (case renderVariableInput v of
        Inl e \<Rightarrow> Inl e
      | Inr input \<Rightarrow>
          (case writable_rows vs of Inl e \<Rightarrow> Inl e | Inr rest \<Rightarrow> Inr (writable_row v input @ rest)))"

definition no_writable_html :: string where
  \<open>no_writable_html =
     ''\<newline>'' @
     ''      <div class="empty-state">\<newline>'' @
     ''        <p>This UPS does not report any writable NUT variables.</p>\<newline>'' @
     ''      </div>\<newline>'' @
     ''    ''\<close>

definition writable_list :: "string \<Rightarrow> string" where
  \<open>writable_list rows =
     ''\<newline>'' @
     ''    <ul class="action-list">'' @ rows @
       ''</ul>\<newline>'' @
       ''    <div class="settings-apply-bar">\<newline>'' @
       ''      <span id="settings-apply-hint" class="helper">No changes to apply.</span>\<newline>'' @
       ''      <button id="settings-apply" class="button button--primary" type="button" disabled>Apply changes</button>\<newline>'' @
       ''    </div>\<newline>'' @
       ''  ''\<close>

definition renderWritable :: "writable_var list option \<Rightarrow> string + string" where
  "renderWritable writable =
     (case writable of
        None \<Rightarrow> Inr no_writable_html
      | Some vs \<Rightarrow>
          if vs = [] then Inr no_writable_html
          else (case writable_rows vs of Inl e \<Rightarrow> Inl e | Inr rows \<Rightarrow> Inr (writable_list rows)))"

definition variable_entry :: "entry \<Rightarrow> string" where
  \<open>variable_entry e =
     (let (name, value) = e in
     ''<div><dt>'' @ escapeHTML name @ ''</dt><dd>'' @ escapeHTML value @ ''</dd></div>'')\<close>

definition variable_group :: "string \<times> entry list \<Rightarrow> string" where
  \<open>variable_group ges =
     (let (g, es) = ges in
     ''\<newline>'' @
     ''    <div class="variable-group">\<newline>'' @
     ''      <h4>'' @ escapeHTML g @ ''</h4>\<newline>'' @
     ''      <dl>'' @ concat (map variable_entry es) @ ''</dl>\<newline>'' @
     ''    </div>\<newline>'' @
     ''  '')\<close>

definition no_variables_html :: string where
  \<open>no_variables_html =
     ''<div class="empty-state"><p>No NUT variables are currently available.</p></div>''\<close>

text \<open>\<open>le\<close> is \<open>localeCompare\<close>, which depends on the browser's locale.\<close>

definition renderVariableGroups :: "(string \<Rightarrow> string \<Rightarrow> bool) \<Rightarrow> entry list \<Rightarrow> string" where
  \<open>renderVariableGroups le variables =
     (if variables = [] then no_variables_html
      else ''<div class="variable-groups">'' @ concat (map variable_group (shown_groups le variables)) @
           ''</div>'')\<close>

definition tag_html :: "string \<Rightarrow> string" where
  \<open>tag_html tag =
     ''<span class="tag">'' @ escapeHTML tag @ ''</span>''\<close>

definition tags_html :: "string list \<Rightarrow> string" where
  \<open>tags_html tags =
     (if tags = [] then []
      else ''<div class="ups-detail-context">'' @ concat (map tag_html tags) @ ''</div>'')\<close>

definition detail_template :: "(string \<Rightarrow> string \<Rightarrow> bool) \<Rightarrow> ups_detail \<Rightarrow> string \<Rightarrow> string" where
  \<open>detail_template le detail writable_html =
     (let m = ud_metrics detail;
          title = or_opt (md_display_name (ud_metadata detail)) (ud_name detail) in
         ''\<newline>'' @
         ''    <div class="detail-heading">\<newline>'' @
         ''      <div class="detail-title-row">\<newline>'' @
         ''        <h2 class="detail-title">'' @ escapeHTML title @ ''</h2>\<newline>'' @
         ''    '' @ [CHR 0x09] @ [CHR 0x09] @ ''<span class="detail-operational-name">'' @
         escapeHTML (ud_name detail) @ ''</span>\<newline>'' @
         ''        <span class="detail-meta-driver">'' @ escapeHTML (ud_driver detail) @
         ''</span>\<newline>'' @
         ''      </div>\<newline>'' @
         ''      <div class="detail-heading-actions">\<newline>'' @
         ''        <span class="chip '' @ statusClass (Some (ud_status detail)) @ ''">'' @
         escapeHTML (ud_status detail) @ ''</span>\<newline>'' @
         [CHR 0x09] @ [CHR 0x09] @
         ''<button type="button" class="button button--ghost button--compact" id="edit-ups-metadata">Edit details</button>\<newline>'' @
         ''        <button type="button" class="button button--ghost button--compact" id="view-raw-json">Raw JSON</button>\<newline>'' @
         ''      </div>\<newline>'' @
         ''    </div>\<newline>'' @
         ''  '' @ [CHR 0x09] @ tags_html (md_tags (ud_metadata detail)) @ ''\<newline>'' @
         ''\<newline>'' @
         ''    <div class="detail-metrics-grid">\<newline>'' @
         ''      '' @
         detailMetric ''Battery charge'' (formatPercent (uh_battery_charge m)) ''battery-charge'' @
         ''\<newline>'' @
         ''      '' @ detailMetric ''Load'' (formatPercent (uh_load m)) ''load'' @
         ''\<newline>'' @
         ''      '' @ detailMetric ''Runtime'' (formatDuration (uh_runtime m)) ''runtime'' @
         ''\<newline>'' @
         ''      '' @
         detailMetric ''Input voltage'' (formatVoltage (uh_input_voltage m)) ''input-voltage'' @
         ''\<newline>'' @
         ''      '' @
         detailMetric ''Output voltage'' (formatVoltage (uh_output_voltage m)) ''output-voltage'' @
         ''\<newline>'' @
         ''      '' @
         detailMetric ''Battery voltage'' (formatVoltage (uh_battery_voltage m)) ''battery-voltage'' @
         ''\<newline>'' @
         ''    </div>\<newline>'' @
         ''\<newline>'' @
         ''    <section>\<newline>'' @
         ''      <div class="section-head">\<newline>'' @
         ''        <h3>UPS details</h3>\<newline>'' @
         ''        <span class="helper">All reported NUT variables, grouped for scanning.</span>\<newline>'' @
         ''      </div>\<newline>'' @
         ''      '' @ renderVariableGroups le (ud_variables detail) @ ''\<newline>'' @
         ''    </section>\<newline>'' @
         ''\<newline>'' @
         ''    <section>\<newline>'' @
         ''      <div class="section-head">\<newline>'' @
         ''        <h3>Commands</h3>\<newline>'' @
         ''        <span class="helper">All NUT instant commands the node can execute are exposed here.</span>\<newline>'' @
         ''      </div>\<newline>'' @
         ''      '' @ renderCommands (ud_commands detail) @ ''\<newline>'' @
         ''    </section>\<newline>'' @
         ''\<newline>'' @
         ''    <section>\<newline>'' @
         ''      <div class="section-head">\<newline>'' @
         ''        <h3>Settings</h3>\<newline>'' @
         ''        <span class="helper">Any writable NUT variables detected on this UPS are editable here.</span>\<newline>'' @
         ''      </div>\<newline>'' @
         ''      '' @ writable_html @ ''\<newline>'' @
         ''    </section>\<newline>'' @
         ''  '')\<close>

definition detail_html :: "(string \<Rightarrow> string \<Rightarrow> bool) \<Rightarrow> ups_detail \<Rightarrow> string + string" where
  "detail_html le detail =
     (case renderWritable (ud_writable detail) of
        Inl e \<Rightarrow> Inl e
      | Inr w \<Rightarrow> Inr (detail_template le detail w))"

section \<open>The tags of a page do not depend on its data\<close>

lemma inert_ids [simp]:
  "inert (chip_suffix (statusClass s))" "inert (statusClass s)"
  using statusClass_mem [of s] by (auto simp: chip_suffix_def special_def)

lemma command_row_scan [simp]: "html_scan Text (command_row c) = Text"
  unfolding command_row_def Let_def
  by (simp add: markup_simps del: append_Cons)

lemma command_row_same:
  "uc_destructive c = uc_destructive c' \<Longrightarrow> same_markup Text (command_row c) (command_row c')"
  unfolding command_row_def Let_def
  by (cases "uc_destructive c'") (simp_all add: same_markup_simps del: append_Cons)

definition command_kinds :: "ups_command list option \<Rightarrow> bool list" where
  "command_kinds commands = (case commands of None \<Rightarrow> [] | Some cs \<Rightarrow> map uc_destructive cs)"

lemma command_rows_same:
  "map uc_destructive cs = map uc_destructive cs' \<Longrightarrow>
    same_markup Text (concat (map command_row cs)) (concat (map command_row cs'))"
  by (rule same_concat_map [where g = uc_destructive]) (auto simp: command_row_same)

lemma command_rows_scan [simp]: "html_scan Text (concat (map command_row cs)) = Text"
  by (rule scan_concat_map) simp

lemma no_commands_scan [simp]: "html_scan Text no_commands_html = Text"
  by (simp add: no_commands_html_def)

lemma renderCommands_rows: \<open>renderCommands commands =
    (if command_kinds commands = [] then no_commands_html
     else ''<ul class="action-list">'' @ concat (map command_row (the commands)) @ ''</ul>'')\<close>
  by (cases commands) (simp_all add: renderCommands_def command_kinds_def)

lemma renderCommands_scan [simp]: "html_scan Text (renderCommands commands) = Text"
  by (simp add: renderCommands_rows markup_simps del: append_Cons)

lemma renderCommands_same:
  assumes "command_kinds a = command_kinds b"
  shows "same_markup Text (renderCommands a) (renderCommands b)"
proof (cases "command_kinds b = []")
  case False
  with assms have "map uc_destructive (the a) = map uc_destructive (the b)"
    by (auto simp: command_kinds_def split: option.splits)
  then show ?thesis using assms False
    by (simp add: renderCommands_rows same_markup_simps command_rows_same del: append_Cons)
qed (simp add: renderCommands_rows assms)

subsection \<open>The settings\<close>

lemma option_tag_scan [simp]: "html_scan Text (option_tag value opt) = Text"
  unfolding option_tag_def by (simp add: markup_simps del: append_Cons)

lemma option_tag_same:
  "(a = v) = (b = w) \<Longrightarrow> same_markup Text (option_tag v a) (option_tag w b)"
  unfolding option_tag_def
  by (cases "b = w") (simp_all add: same_markup_simps del: append_Cons)

lemma option_tags_scan [simp]: "html_scan Text (concat (map (option_tag v) os)) = Text"
  by (rule scan_concat_map) simp

lemma option_tags_same:
  "map (\<lambda>a. a = v) os = map (\<lambda>b. b = w) ps \<Longrightarrow>
    same_markup Text (concat (map (option_tag v) os)) (concat (map (option_tag w) ps))"
proof (induction os arbitrary: ps)
  case (Cons a os)
  then obtain b ps' where "ps = b # ps'" "(a = v) = (b = w)"
    "map (\<lambda>a. a = v) os = map (\<lambda>b. b = w) ps'" by auto
  then show ?case
    using Cons.IH [of ps'] option_tag_same [of a v b w] by (simp add: same_markup_append)
qed simp

lemma select_html_scan [simp]: "html_scan Text (select_html v value options) = Text"
  unfolding select_html_def by (simp add: markup_simps del: append_Cons)

lemma select_html_same:
  assumes "map (\<lambda>a. a = v) os = map (\<lambda>b. b = w) ps"
  shows "same_markup Text (select_html x v os) (select_html y w ps)"
  unfolding select_html_def
  by (simp add: same_markup_simps option_tags_same [OF assms] del: append_Cons)

lemma bound_attr_scan [simp]:
  "html_scan Tag (bound_attr ''min'' b) = Tag" "html_scan Tag (bound_attr ''max'' b) = Tag"
  unfolding bound_attr_def by (cases b; simp add: markup_simps del: append_Cons)+

lemma bound_attr_same:
  "(b = None) = (c = None) \<Longrightarrow> same_markup Tag (bound_attr ''min'' b) (bound_attr ''min'' c)"
  "(b = None) = (c = None) \<Longrightarrow> same_markup Tag (bound_attr ''max'' b) (bound_attr ''max'' c)"
  unfolding bound_attr_def
  by (cases b; cases c; simp add: same_markup_simps del: append_Cons)+

lemma input_html_scan [simp]: "html_scan Text (input_html v value) = Text"
  unfolding input_html_def Let_def by (simp add: markup_simps del: append_Cons)

lemma input_html_same:
  assumes "(wv_min a = None) = (wv_min b = None)" "(wv_max a = None) = (wv_max b = None)"
  shows "same_markup Text (input_html a v) (input_html b w)"
  unfolding input_html_def Let_def
  using assms
  by (cases "wv_editor a = ''number''"; cases "wv_editor b = ''number''")
     (simp_all add: same_markup_simps bound_attr_same special_def del: append_Cons)

text \<open>
  What the page's structure may depend on: whether a setting is a choice and which options are
  the current value, or whether an input has bounds.
\<close>

definition editor_shape :: "writable_var \<Rightarrow> bool list option + bool \<times> bool" where
  "editor_shape v =
     (if wv_editor v = ''select''
      then Inl (map_option (map (\<lambda>opt. opt = or_opt (wv_current_value v) [])) (wv_options v))
      else Inr (wv_min v = None, wv_max v = None))"

definition markup_result :: "string + string \<Rightarrow> string + string \<Rightarrow> bool" where
  "markup_result = rel_sum (=) (same_markup Text)"

lemma markup_result_simps [simp]:
  "markup_result (Inr a) (Inr b) = same_markup Text a b"
  "markup_result (Inl e) (Inl f) = (e = f)"
  "\<not> markup_result (Inl e) (Inr b)" "\<not> markup_result (Inr a) (Inl f)"
  by (simp_all add: markup_result_def)

lemma markup_resultE:
  assumes "markup_result r s"
  obtains e where "r = Inl e" "s = Inl e" | a b where "r = Inr a" "s = Inr b" "same_markup Text a b"
  using assms by (cases r; cases s) auto

lemma renderVariableInput_scan: "renderVariableInput v = Inr s \<Longrightarrow> html_scan Text s = Text"
  by (auto simp: renderVariableInput_def Let_def split: if_splits option.splits)

lemma renderVariableInput_same:
  "editor_shape v = editor_shape w \<Longrightarrow> markup_result (renderVariableInput v) (renderVariableInput w)"
  by (cases "wv_options v"; cases "wv_options w")
     (auto simp: renderVariableInput_def Let_def editor_shape_def input_html_same select_html_same
      split: if_splits)

lemma writable_row_scan: "html_scan Text input = Text \<Longrightarrow> html_scan Text (writable_row v input) = Text"
  unfolding writable_row_def Let_def by (simp add: markup_simps del: append_Cons)

lemma writable_row_same:
  "same_markup Text a b \<Longrightarrow> html_scan Text a = Text \<Longrightarrow>
    same_markup Text (writable_row v a) (writable_row w b)"
  unfolding writable_row_def Let_def by (simp add: same_markup_simps del: append_Cons)

lemma writable_rows_scan: "writable_rows vs = Inr s \<Longrightarrow> html_scan Text s = Text"
proof (induction vs arbitrary: s)
  case (Cons v vs)
  then show ?case
    by (auto simp: html_scan_append writable_row_scan dest: renderVariableInput_scan split: sum.splits)
qed simp

lemma writable_rows_same:
  "map editor_shape vs = map editor_shape ws \<Longrightarrow> markup_result (writable_rows vs) (writable_rows ws)"
proof (induction vs arbitrary: ws)
  case (Cons v vs)
  then obtain w ws' where ws: "ws = w # ws'" "editor_shape v = editor_shape w"
    "map editor_shape vs = map editor_shape ws'" by auto
  from renderVariableInput_same [OF ws(2)] Cons.IH [OF ws(3)] show ?case unfolding ws(1)
    by (elim markup_resultE)
       (auto simp: writable_row_same writable_row_scan same_markup_append dest: renderVariableInput_scan)
qed simp

definition setting_shapes :: "writable_var list option \<Rightarrow> (bool list option + bool \<times> bool) list" where
  "setting_shapes writable = (case writable of None \<Rightarrow> [] | Some vs \<Rightarrow> map editor_shape vs)"

lemma writable_list_scan: "html_scan Text rows = Text \<Longrightarrow> html_scan Text (writable_list rows) = Text"
  unfolding writable_list_def by (simp add: markup_simps del: append_Cons)

lemma writable_list_same:
  "same_markup Text a b \<Longrightarrow> html_scan Text a = Text \<Longrightarrow>
    same_markup Text (writable_list a) (writable_list b)"
  unfolding writable_list_def by (simp add: same_markup_simps del: append_Cons)

lemma renderWritable_scan: "renderWritable writable = Inr s \<Longrightarrow> html_scan Text s = Text"
  by (auto simp: renderWritable_def no_writable_html_def writable_list_scan dest: writable_rows_scan
      split: option.splits if_splits sum.splits)

lemma renderWritable_rows: "renderWritable writable =
    (if setting_shapes writable = [] then Inr no_writable_html
     else map_sum id writable_list (writable_rows (the writable)))"
  by (auto simp: renderWritable_def setting_shapes_def split: option.splits sum.splits)

lemma renderWritable_same:
  assumes "setting_shapes a = setting_shapes b"
  shows "markup_result (renderWritable a) (renderWritable b)"
proof (cases "setting_shapes b = []")
  case False
  with assms have "map editor_shape (the a) = map editor_shape (the b)"
    by (auto simp: setting_shapes_def split: option.splits)
  from writable_rows_same [OF this] show ?thesis using assms False
    by (elim markup_resultE)
       (auto simp: renderWritable_rows writable_list_same dest: writable_rows_scan)
qed (simp add: renderWritable_rows assms)

subsection \<open>The variables\<close>

lemma variable_entry_scan [simp]: "html_scan Text (variable_entry e) = Text"
  unfolding variable_entry_def by (cases e) (simp add: markup_simps del: append_Cons)

lemma variable_entry_same: "same_markup Text (variable_entry e) (variable_entry f)"
  unfolding variable_entry_def
  by (cases e; cases f) (simp add: same_markup_simps del: append_Cons)

lemma variable_entries_scan [simp]: "html_scan Text (concat (map variable_entry es)) = Text"
  by (rule scan_concat_map) simp

lemma variable_entries_same:
  assumes "length es = length fs"
  shows "same_markup Text (concat (map variable_entry es)) (concat (map variable_entry fs))"
proof (rule same_concat_map [where g = "\<lambda>_. ()"])
  show "map (\<lambda>_. ()) es = map (\<lambda>_. ()) fs" using assms by (simp add: map_replicate_const)
qed (simp_all add: variable_entry_same)

lemma variable_group_scan [simp]: "html_scan Text (variable_group x) = Text"
  unfolding variable_group_def by (cases x) (simp add: markup_simps del: append_Cons)

lemma variable_group_same:
  "length (snd x) = length (snd y) \<Longrightarrow> same_markup Text (variable_group x) (variable_group y)"
  unfolding variable_group_def
  by (cases x; cases y) (simp add: same_markup_simps variable_entries_same del: append_Cons)

lemma variable_groups_scan [simp]: "html_scan Text (concat (map variable_group gs)) = Text"
  by (rule scan_concat_map) simp

lemma shown_groups_mset: "mset (concat (map snd (shown_groups le variables))) = mset variables"
proof -
  let ?es = "sort_by (\<lambda>a b. le (fst a) (fst b)) variables"
  have "mset (concat (map (\<lambda>g. filter (\<lambda>x. variableGroupFor (fst x) = g) ?es) group_order)) = mset ?es"
    by (rule mset_partition_by) (simp_all add: distinct_group_order variableGroupFor_listed)
  then show ?thesis by (simp add: shown_groups_concat mset_sort_by case_prod_unfold)
qed

lemma shown_groups_Nil: "shown_groups le variables = [] \<longleftrightarrow> variables = []"
proof
  assume "shown_groups le variables = []"
  then have "mset variables = {#}" using shown_groups_mset [of le variables] by simp
  then show "variables = []" by simp
qed (simp add: shown_groups_def group_order_def)

definition group_sizes :: "(string \<Rightarrow> string \<Rightarrow> bool) \<Rightarrow> entry list \<Rightarrow> nat list" where
  "group_sizes le variables = map (length \<circ> snd) (shown_groups le variables)"

lemma variable_groups_same:
  "map (length \<circ> snd) gs = map (length \<circ> snd) hs \<Longrightarrow>
    same_markup Text (concat (map variable_group gs)) (concat (map variable_group hs))"
  by (rule same_concat_map [where g = "length \<circ> snd"]) (simp_all add: variable_group_same)

lemma renderVariableGroups_scan [simp]: "html_scan Text (renderVariableGroups le variables) = Text"
  unfolding renderVariableGroups_def no_variables_html_def
  by (simp add: markup_simps del: append_Cons)

lemma renderVariableGroups_same:
  assumes "group_sizes le a = group_sizes le b"
  shows "same_markup Text (renderVariableGroups le a) (renderVariableGroups le b)"
proof (cases "b = []")
  case True
  then have "a = []" using assms
    by (metis group_sizes_def map_is_Nil_conv shown_groups_Nil)
  with True show ?thesis by simp
next
  case False
  then have "a \<noteq> []" using assms
    by (metis group_sizes_def map_is_Nil_conv shown_groups_Nil)
  with False assms show ?thesis
    by (simp add: renderVariableGroups_def group_sizes_def same_markup_simps variable_groups_same
        del: append_Cons)
qed

subsection \<open>The whole detail view\<close>

lemma tag_html_scan [simp]: "html_scan Text (tag_html x) = Text"
  unfolding tag_html_def by (simp add: markup_simps del: append_Cons)

lemma tag_html_same: "same_markup Text (tag_html x) (tag_html y)"
  unfolding tag_html_def by (simp add: same_markup_simps del: append_Cons)

lemma tag_list_scan [simp]: "html_scan Text (concat (map tag_html ts)) = Text"
  by (rule scan_concat_map) simp

lemma tags_html_scan [simp]: "html_scan Text (tags_html ts) = Text"
  unfolding tags_html_def by (simp add: markup_simps del: append_Cons)

lemma tags_html_same:
  assumes "length a = length b"
  shows "same_markup Text (tags_html a) (tags_html b)"
proof -
  have "same_markup Text (concat (map tag_html a)) (concat (map tag_html b))"
    by (rule same_concat_map [where g = "\<lambda>_. ()"])
       (simp_all add: tag_html_same map_replicate_const assms)
  with assms show ?thesis
    by (cases "b = []") (auto simp: tags_html_def same_markup_simps simp del: append_Cons)
qed

lemma detailMetric_scan [simp]: "inert key \<Longrightarrow> html_scan Text (detailMetric label val key) = Text"
  unfolding detailMetric_def by (simp add: markup_simps del: append_Cons)

lemma detailMetric_same:
  "inert key \<Longrightarrow> same_markup Text (detailMetric label v key) (detailMetric label w key)"
  unfolding detailMetric_def by (simp add: same_markup_simps inert_scan del: append_Cons)

lemma detail_template_same:
  assumes "length (md_tags (ud_metadata a)) = length (md_tags (ud_metadata b))"
    and "command_kinds (ud_commands a) = command_kinds (ud_commands b)"
    and "group_sizes le (ud_variables a) = group_sizes le (ud_variables b)"
    and "same_markup Text v w" "html_scan Text v = Text"
  shows "same_markup Text (detail_template le a v) (detail_template le b w)"
  unfolding detail_template_def Let_def
  by (simp add: same_markup_simps detailMetric_same special_def
      tags_html_same [OF assms(1)] renderCommands_same [OF assms(2)]
      renderVariableGroups_same [OF assms(3)] assms(4,5) del: append_Cons)

subsection \<open>Cards\<close>

lemma statItem_scan [simp]: "html_scan Text (statItem label val) = Text"
  unfolding statItem_def by (simp add: markup_simps del: append_Cons)

lemma statItem_same: "same_markup Text (statItem label v) (statItem label w)"
  unfolding statItem_def by (simp add: same_markup_simps del: append_Cons)

lemma card_template_scan [simp]:
  "inert acc \<Longrightarrow> inert chip \<Longrightarrow> html_scan Text (card_template sel ups acc chip title) = Text"
  unfolding card_template_def by (simp add: markup_simps del: append_Cons)

lemma card_template_same:
  assumes "inert acc" "inert chip" "inert acc'" "inert chip'"
  shows "same_markup Text (card_template sel u acc chip t) (card_template sel' v acc' chip' t')"
  unfolding card_template_def
  using assms
  by (cases "Some (uh_name u) = sel"; cases "Some (uh_name v) = sel'")
     (simp_all add: same_markup_simps same_skip inert_scan statItem_same special_def del: append_Cons)

lemma inert_accent [simp]:
  "inert (if statusClass s = [] then ''ups-card--good''
          else ''ups-card--'' @ chip_suffix (statusClass s))"
  by (simp add: special_def)

lemma ups_card_scan [simp]: "html_scan Text (ups_card sel u) = Text"
  unfolding ups_card_def Let_def by (simp del: append_Cons split del: if_split)

lemma ups_card_same: "same_markup Text (ups_card sel u) (ups_card sel' v)"
  unfolding ups_card_def Let_def
  by (rule card_template_same) (simp_all del: append_Cons split del: if_split)

lemma ups_grid_same:
  "length us = length vs \<Longrightarrow>
    same_markup Text (concat (map (ups_card sel) us)) (concat (map (ups_card sel') vs))"
proof (induction us arbitrary: vs)
  case (Cons u us)
  then obtain v vs' where "vs = v # vs'" "length us = length vs'" by (cases vs) auto
  then show ?case using Cons.IH [of vs'] ups_card_same [of sel u sel' v]
    by (simp add: same_markup_append)
qed simp

lemma inert_points: "buildSparkline samples extractor w h = Some s \<Longrightarrow> inert (points s)"
  by (auto simp: buildSparkline_def Let_def point_text_def special_def list_all_iff
      intro!: inert_join split: if_splits)

lemma renderMetricTrend_scan [simp]: "html_scan Text (renderMetricTrend history label) = Text"
  unfolding renderMetricTrend_def trend_svg_def
  by (auto simp: markup_simps inert_points simp del: append_Cons split: option.split)

lemma metric_card_same:
  "same_markup Text (metric_card history label v) (metric_card history label w)"
  unfolding metric_card_def Let_def
  by (cases "map_of TREND_EXTRACTORS label") (simp_all add: same_markup_simps del: append_Cons)

lemma metric_card_scan [simp]: "html_scan Text (metric_card history label v) = Text"
  unfolding metric_card_def Let_def
  by (cases "map_of TREND_EXTRACTORS label") (simp_all add: markup_simps del: append_Cons)

section \<open>Properties\<close>

text \<open>C14: Nothing that the devices, the operator or NUT report can change the tags, attributes or
  nesting of the detail view: two details with the same numbers of tags, variables per group,
  commands (destructive or not) and settings (kind, options, bounds) have the same markup, character
  by character outside text and quoted values, or fail with the same error.\<close>

theorem detail_markup:
  assumes "length (md_tags (ud_metadata a)) = length (md_tags (ud_metadata b))"
    and "command_kinds (ud_commands a) = command_kinds (ud_commands b)"
    and "setting_shapes (ud_writable a) = setting_shapes (ud_writable b)"
    and "group_sizes le (ud_variables a) = group_sizes le (ud_variables b)"
  shows "markup_result (detail_html le a) (detail_html le b)"
  using renderWritable_same [OF assms(3)]
  by (elim markup_resultE)
     (auto simp: detail_html_def detail_template_same [OF assms(1,2,4)] dest: renderWritable_scan)

text \<open>The overview: the markup of the UPS grid depends on the number of devices only, and that of
  the metric cards on the sample history only, whatever names, states and values they show.\<close>

theorem overview_markup:
  "(length us = length vs \<longrightarrow>
      same_markup Text (ups_grid_html sel us) (ups_grid_html sel' vs)) \<and>
   same_markup Text (metrics_html history a) (metrics_html history b)"
proof (intro conjI impI)
  assume "length us = length vs"
  then show "same_markup Text (ups_grid_html sel us) (ups_grid_html sel' vs)"
    by (cases "vs = []") (auto simp: ups_grid_html_def ups_grid_same)
next
  show "same_markup Text (metrics_html history a) (metrics_html history b)"
    by (simp add: metrics_html_def health_cards_def same_markup_append metric_card_same)
qed

text \<open>C32: Every variable that NUT reports is shown exactly once, under the group its name belongs to;
  the groups come in the fixed order, and none is empty, for any collation of the names.\<close>

theorem variables_shown_once:
  "mset (concat (map snd (shown_groups le variables))) = mset variables \<and>
   list_all (\<lambda>(g, es). es \<noteq> [] \<and> list_all (\<lambda>(n, v). variableGroupFor n = g) es)
     (shown_groups le variables) \<and>
   subseq (map fst (shown_groups le variables)) group_order"
proof (intro conjI)
  let ?es = "sort_by (\<lambda>a b. le (fst a) (fst b)) variables"
  have sel: "entries_of (group_entries [] ?es) g = filter (\<lambda>(n, v). variableGroupFor n = g) ?es" for g
    by (simp add: entries_of_group) (simp add: entries_of_def)
  have "map_of (group_entries [] ?es) g \<noteq> None \<Longrightarrow> entries_of (group_entries [] ?es) g \<noteq> []" for g
  proof -
    assume "map_of (group_entries [] ?es) g \<noteq> None"
    then have "g \<in> dom (map_of (group_entries [] ?es))" by auto
    then show ?thesis unfolding dom_group_entries sel by (auto simp: filter_empty_conv)
  qed
  then show "list_all (\<lambda>(g, es). es \<noteq> [] \<and> list_all (\<lambda>(n, v). variableGroupFor n = g) es)
      (shown_groups le variables)"
    unfolding shown_groups_def Let_def list_all_iff by (auto simp: sel)
  show "subseq (map fst (shown_groups le variables)) group_order"
    by (simp add: shown_groups_def Let_def comp_def)
qed (rule shown_groups_mset)

text \<open>C24: The settings list is drawn unless one of its choices came without options; then the
  drawing of the whole detail view throws, because \<open>variable.options.map\<close> is read before anything
  checks it.\<close>

theorem detail_throws_iff:
  "isl (detail_html le d) \<longleftrightarrow>
     (\<exists>vs v. ud_writable d = Some vs \<and> v \<in> set vs \<and> wv_editor v = ''select'' \<and> wv_options v = None)"
proof -
  have input: "isl (renderVariableInput v) \<longleftrightarrow> wv_editor v = ''select'' \<and> wv_options v = None" for v
    by (auto simp: renderVariableInput_def Let_def split: option.splits)
  have "isl (writable_rows (v # vs)) \<longleftrightarrow> isl (renderVariableInput v) \<or> isl (writable_rows vs)" for v vs
    by (simp split: sum.split)
  then have rows: "isl (writable_rows vs) \<longleftrightarrow>
      (\<exists>v. v \<in> set vs \<and> wv_editor v = ''select'' \<and> wv_options v = None)" for vs
    by (induction vs) (auto simp: input simp del: writable_rows.simps(2))
  have "isl (renderWritable w) \<longleftrightarrow>
      (\<exists>vs v. w = Some vs \<and> v \<in> set vs \<and> wv_editor v = ''select'' \<and> wv_options v = None)" for w
    using rows [of "the w"]
    by (auto simp: renderWritable_def split: option.splits sum.splits)
  moreover have "isl (detail_html le d) \<longleftrightarrow> isl (renderWritable (ud_writable d))"
    by (simp add: detail_html_def split: sum.split)
  ultimately show ?thesis by simp
qed

section \<open>Examples\<close>

text \<open>
  A detail whose names, state, variable and descriptions all try to break out of the page, and a
  harmless one of the same shape.
\<close>

definition example_health :: "string \<Rightarrow> ups_health" where
  "example_health name =
     \<lparr>uh_name = name, uh_driver = name, uh_metadata = None, uh_status = ''OL'',
      uh_battery_charge = Some (NInt 97), uh_load = None, uh_runtime = Some (NInt 3725),
      uh_input_voltage = None, uh_output_voltage = Some (Fin (2305 / 10)), uh_battery_voltage = None\<rparr>"

definition example_detail :: "string \<Rightarrow> ups_detail" where
  "example_detail text =
     \<lparr>ud_name = text, ud_driver = text,
      ud_metadata = Some \<lparr>um_display_name = Some text, um_tags = Some [text]\<rparr>, ud_status = text,
      ud_metrics = example_health text, ud_variables = [(''ups.mfr'', text)],
      ud_commands = Some [\<lparr>uc_name = text, uc_description = Some text, uc_destructive = True\<rparr>],
      ud_writable = Some [\<lparr>wv_name = text, wv_description = None, wv_editor = ''number'',
        wv_current_value = Some text, wv_options = None, wv_min = Some (NInt 0), wv_max = None\<rparr>]\<rparr>"

definition hostile_text :: string where
  \<open>hostile_text = ''"><script>alert(1)</script>''\<close>

lemma detail_markup_witness:
  "markup_result (detail_html (\<lambda>_ _. True) (example_detail hostile_text))
     (detail_html (\<lambda>_ _. True) (example_detail ''plain''))"
proof (rule detail_markup)
  show "group_sizes (\<lambda>_ _. True) (ud_variables (example_detail hostile_text)) =
      group_sizes (\<lambda>_ _. True) (ud_variables (example_detail ''plain''))"
    by (simp add: example_detail_def group_sizes_def shown_groups_def variableGroupFor_def
        group_order_def startsWith_def entries_of_def)
qed (simp_all add: example_detail_def command_kinds_def setting_shapes_def editor_shape_def md_tags_def)

lemma overview_markup_witness:
  "same_markup Text (ups_grid_html None [example_health hostile_text])
     (ups_grid_html (Some ''ups1'') [example_health ''ups1''])"
  by (rule overview_markup [THEN conjunct1, THEN mp]) simp

end
