(* ===== verification/Js_Url.thy ===== *)
theory Js_Url
  imports Js_Prelude
begin

text \<open>
  \<open>encodeURIComponent\<close> on strings of UTF-8 bytes: letters, digits and \<open>- _ . ! ~ * ' ( )\<close> stay, every
  other byte becomes \<open>%XX\<close>.  A lone surrogate, on which the function throws, is no such string.
\<close>

section \<open>Percent encoding\<close>

definition uri_unreserved :: "char \<Rightarrow> bool" where
  "uri_unreserved c \<longleftrightarrow>
     (let n = of_char c :: nat in
      48 \<le> n \<and> n \<le> 57 \<or> 65 \<le> n \<and> n \<le> 90 \<or> 97 \<le> n \<and> n \<le> 122 \<or> c \<in> set ''-_.!~*()'' \<or> n = 39)"

definition hex_digit :: "nat \<Rightarrow> char" where
  "hex_digit n = char_of (if n < 10 then 48 + n else 55 + n)"

definition encode_char :: "char \<Rightarrow> string" where
  "encode_char c =
     (if uri_unreserved c then [c]
      else [CHR ''%'', hex_digit (of_char c div 16), hex_digit (of_char c mod 16)])"

definition encodeURIComponent :: "string \<Rightarrow> string" where
  "encodeURIComponent s = concat (map encode_char s)"

section \<open>It keeps path segments apart\<close>

lemma uri_unreserved_hex: "n < 16 \<Longrightarrow> uri_unreserved (hex_digit n)"
  by (auto simp: uri_unreserved_def hex_digit_def Let_def)

lemma char_nibble [simp]: "(of_char c :: nat) div 16 < 16"
proof -
  have "(of_char c :: nat) < 256" by simp
  then show ?thesis by linarith
qed

lemma percent_reserved [simp]: "\<not> uri_unreserved CHR ''%''"
  by (simp add: uri_unreserved_def Let_def)

lemma encode_chars: "c \<in> set (encodeURIComponent s) \<Longrightarrow> uri_unreserved c \<or> c = CHR ''%''"
  by (auto simp: encodeURIComponent_def encode_char_def uri_unreserved_hex split: if_splits)

lemma encode_no_slash [simp]:
  "CHR ''/'' \<notin> set (encodeURIComponent s)" "CHR ''?'' \<notin> set (encodeURIComponent s)"
  "CHR ''#'' \<notin> set (encodeURIComponent s)"
  by (auto simp: uri_unreserved_def Let_def dest!: encode_chars)

text \<open>Two paths with an encoded segment before a fixed rest that starts with a slash.\<close>

lemma segment_append_inj:
  assumes "s @ t = s' @ t'" and "CHR ''/'' \<notin> set s" "CHR ''/'' \<notin> set s'"
    and "t = [] \<or> hd t = CHR ''/''" "t' = [] \<or> hd t' = CHR ''/''"
  shows "s = s' \<and> t = t'"
proof -
  have tw: "takeWhile (\<lambda>c. c \<noteq> CHR ''/'') (r @ q) = r"
    if "CHR ''/'' \<notin> set r" "q = [] \<or> hd q = CHR ''/''" for r q :: string
    using that by (cases q; induction r) auto
  from tw [OF assms(2,4)] tw [OF assms(3,5)] assms(1) show ?thesis by simp
qed

end
