(* ===== verification/Agent_State.thy ===== *)
theory Agent_State
  imports Agent_Render Js_Url
begin

text \<open>
  The state of the node dashboard (\<open>app.js\<close>): the fields of \<open>state\<close>, what the page shows, the live
  timers, the requests sent so far and the asynchronous functions that wait for an answer, each as
  the task that continues when the answer comes.  The page has all the elements \<open>app.js\<close> looks up.
\<close>

section \<open>Requests and answers\<close>

datatype field = TextField string | ListField "string list"

datatype request =
    GET (req_url: string)
  | SEND (req_method: string) (req_url: string) (req_body: "(string \<times> field) list")

text \<open>
  What the browser reports: a network error, or a response with its status and its JSON body, which
  is an object with an \<open>error\<close>, the payload, or nothing that parses.
\<close>

datatype 'a reply =
    NetworkError string
  | Response (r_ok: bool) (r_status: int) (r_status_text: string) (r_error: "string option") (r_payload: "'a option")

definition fetchJSON :: "'a reply \<Rightarrow> string + 'a option" where
  "fetchJSON r =
     (case r of
        NetworkError m \<Rightarrow> Inl m
      | Response ok status status_text err payload \<Rightarrow>
          if \<not> ok then Inl (or_opt err (int_dec status @ '' '' @ status_text)) else Inr payload)"

text \<open>
  The request headers \<open>fetchJSON\<close> ends up with: it merges the caller's into \<open>Accept\<close>, and then spreads
  \<open>...options\<close> over the object, whose own \<open>headers\<close> replace the merged ones.
\<close>

type_synonym headers = "(string \<times> string) list"

definition spread :: "headers \<Rightarrow> headers \<Rightarrow> headers" where
  "spread base over = filter (\<lambda>(k, v). k \<notin> fst ` set over) base @ over"

definition fetch_headers :: "headers option \<Rightarrow> headers" where
  "fetch_headers own =
     (let merged = spread [(''Accept'', ''application/json'')] (case own of None \<Rightarrow> [] | Some hs \<Rightarrow> hs)
      in case own of None \<Rightarrow> merged | Some hs \<Rightarrow> hs)"

definition ups_url :: "string option \<Rightarrow> string \<Rightarrow> string" where
  "ups_url name rest = ''/api/ups/'' @ encodeURIComponent (case name of None \<Rightarrow> ''null'' | Some n \<Rightarrow> n) @ rest"

record command_result =
  cr_command :: string
  cr_output :: "string option"

text \<open>What an \<open>async\<close> function still has to do when the answer to its request comes.\<close>

datatype after_load = Done | RefreshToast bool | MetadataToast

datatype history_use = ForWindow | ForInterval

datatype task =
    GetUpses bool bool
  | GetDetail "string option" bool after_load
  | PostCommand
  | SetVariable string "string list" nat nat
  | PatchMetadata
  | GetHistory history_use

section \<open>The page\<close>

record shown_detail =
  sd_detail :: ups_detail
  sd_html :: string
  sd_status :: string
  sd_chip :: string
  sd_values :: "(string \<times> string) list"
  sd_edits :: "(string \<times> string) list"
  sd_dirty_rows :: "string list"
  sd_apply_disabled :: bool
  sd_hint :: string

datatype detail_pane = EmptyPane string | DetailPane shown_detail

record metadata_form =
  mf_open :: bool
  mf_subtitle :: string
  mf_placeholder :: string
  mf_display_name :: string
  mf_tags :: string
  mf_error :: string
  mf_error_hidden :: bool
  mf_save_disabled :: bool

record dash =
  health :: "node_health option"
  metricHistory :: "metric_sample list"
  metricHistoryLong :: "metric_sample list option"
  metricHistoryLongFetchedAt :: jsnum
  healthStreamConnected :: bool
  upses :: "ups_health list"
  selectedUPS :: "string option"
  detail :: "ups_detail option"
  toastTimer :: "nat option"
  pendingCommand :: "ups_command option"
  dirtyVariables :: "string list"
  trendCache :: "string \<Rightarrow> chart_cache option"
  metricDetailLabel :: "string option"
  metricDetailWindow :: string
  metricDetailRefreshTimer :: "nat option"
  version_badge :: string
  metrics_grid :: string
  stream_status :: string
  ups_count :: string
  ups_grid :: "string option"
  pane :: detail_pane
  pane_accent :: "string option"
  toast_text :: string
  toast_visible :: bool
  toast_error :: bool
  confirm_open :: bool
  confirm_text :: string
  raw_open :: bool
  raw_name :: string
  raw_variables :: "entry list"
  metadata_modal :: metadata_form
  metric_open :: bool
  metric_title :: string
  active_window :: string
  chart :: detail_view
  next_timer :: nat
  intervals :: "nat list"
  toast_timeouts :: "nat list"
  next_request :: nat
  waiting :: "(nat \<times> task) list"
  sent :: "request list"

text \<open>What depends on the browser's locale: the collation of names and the formats of dates.\<close>

record browser =
  collate :: "string \<Rightarrow> string \<Rightarrow> bool"
  date_format :: locale_format

definition send :: "request \<Rightarrow> task \<Rightarrow> dash \<Rightarrow> dash" where
  "send q t s =
     s\<lparr>sent := sent s @ [q], waiting := waiting s @ [(next_request s, t)],
       next_request := Suc (next_request s)\<rparr>"

definition truthy_name :: "string option \<Rightarrow> bool" where
  "truthy_name name \<longleftrightarrow> name \<noteq> None \<and> name \<noteq> Some []"

section \<open>Toast and empty pane\<close>

definition showToast :: "string \<Rightarrow> bool \<Rightarrow> dash \<Rightarrow> dash" where
  "showToast message isError s =
     (let live = (case toastTimer s of None \<Rightarrow> toast_timeouts s | Some t \<Rightarrow> removeAll t (toast_timeouts s))
      in s\<lparr>toast_text := message, toast_visible := True, toast_error := isError,
           toastTimer := Some (next_timer s), toast_timeouts := live @ [next_timer s],
           next_timer := Suc (next_timer s)\<rparr>)"

definition toast_timeout :: "nat \<Rightarrow> dash \<Rightarrow> dash" where
  "toast_timeout t s =
     (if t \<in> set (toast_timeouts s)
      then s\<lparr>toast_timeouts := removeAll t (toast_timeouts s), toast_visible := False, toast_error := False\<rparr>
      else s)"

definition renderEmptyDetail :: "string option \<Rightarrow> dash \<Rightarrow> dash" where
  "renderEmptyDetail message s = s\<lparr>pane := EmptyPane (empty_detail_html message), pane_accent := None\<rparr>"

definition renderUPSGrid :: "dash \<Rightarrow> dash" where
  "renderUPSGrid s =
     s\<lparr>ups_count := nat_dec (length (upses s)), ups_grid := Some (ups_grid_html (selectedUPS s) (upses s))\<rparr>"

section \<open>Settings\<close>

definition settings_hint :: "nat \<Rightarrow> string" where
  "settings_hint n =
     (if n = 0 then ''No changes to apply.''
      else nat_dec n @ '' setting'' @ (if n = 1 then [] else ''s'') @ '' changed.'')"

text \<open>The apply button exists when the detail view has settings.\<close>

definition settings_of :: "ups_detail \<Rightarrow> writable_var list" where
  "settings_of d = (case ud_writable d of None \<Rightarrow> [] | Some vs \<Rightarrow> vs)"

definition updateSettingsApplyButton :: "dash \<Rightarrow> dash" where
  "updateSettingsApplyButton s =
     (case pane s of
        EmptyPane _ \<Rightarrow> s
      | DetailPane sd \<Rightarrow>
          if settings_of (sd_detail sd) = [] then s
          else (let n = length (dirtyVariables s) in
                s\<lparr>pane := DetailPane (sd\<lparr>sd_apply_disabled := (n = 0), sd_hint := settings_hint n\<rparr>)\<rparr>))"

text \<open>\<open>Set\<close> as the list of its members in insertion order.\<close>

definition set_add :: "'a \<Rightarrow> 'a list \<Rightarrow> 'a list" where
  "set_add x xs = (if x \<in> set xs then xs else xs @ [x])"

definition detail_values :: "ups_health \<Rightarrow> (string \<times> string) list" where
  "detail_values m =
     [(''battery-charge'', formatPercent (uh_battery_charge m)), (''load'', formatPercent (uh_load m)),
      (''runtime'', formatDuration (uh_runtime m)), (''input-voltage'', formatVoltage (uh_input_voltage m)),
      (''output-voltage'', formatVoltage (uh_output_voltage m)),
      (''battery-voltage'', formatVoltage (uh_battery_voltage m))]"

definition show_detail :: "ups_detail \<Rightarrow> string \<Rightarrow> shown_detail" where
  "show_detail d html =
     \<lparr>sd_detail = d, sd_html = html, sd_status = ud_status d, sd_chip = statusClass (Some (ud_status d)),
      sd_values = detail_values (ud_metrics d), sd_edits = [], sd_dirty_rows = [],
      sd_apply_disabled = True, sd_hint = ''No changes to apply.''\<rparr>"

text \<open>The message of the error \<open>renderDetail\<close> throws, if it does, and the state it leaves.\<close>

definition renderDetail :: "browser \<Rightarrow> dash \<Rightarrow> string option \<times> dash" where
  "renderDetail env s =
     (case detail s of
        None \<Rightarrow> (None, renderEmptyDetail None s)
      | Some d \<Rightarrow>
          (let s = s\<lparr>dirtyVariables := [], pane_accent := Some (accentClassForStatus (Some (ud_status d)))\<rparr>
           in case detail_html (collate env) d of
                Inl e \<Rightarrow> (Some e, s)
              | Inr html \<Rightarrow> (None, updateSettingsApplyButton (s\<lparr>pane := DetailPane (show_detail d html)\<rparr>))))"

definition loadUPSDetail :: "string option \<Rightarrow> bool \<Rightarrow> after_load \<Rightarrow> dash \<Rightarrow> dash" where
  "loadUPSDetail name silent k s =
     send (GET (ups_url name [])) (GetDetail name silent k) (renderUPSGrid (s\<lparr>selectedUPS := name\<rparr>))"

definition after_load_steps :: "after_load \<Rightarrow> dash \<Rightarrow> dash" where
  "after_load_steps k s =
     (case k of
        Done \<Rightarrow> s
      | RefreshToast silent \<Rightarrow> if silent then s else showToast ''Dashboard refreshed.'' False s
      | MetadataToast \<Rightarrow>
          (let s = showToast ''UPS details saved.'' False s
           in s\<lparr>metadata_modal := (metadata_modal s)\<lparr>mf_save_disabled := False\<rparr>\<rparr>))"

text \<open>The rest of \<open>loadUPSDetail\<close>, and then of the function that awaits it.\<close>

definition load_failed :: "string \<Rightarrow> dash \<Rightarrow> dash" where
  "load_failed message s = showToast message True (renderEmptyDetail (Some message) s)"

definition load_reply ::
  "browser \<Rightarrow> string option \<Rightarrow> bool \<Rightarrow> after_load \<Rightarrow> ups_detail reply \<Rightarrow> dash \<Rightarrow> dash" where
  "load_reply env name silent k r s =
     after_load_steps k
       (case fetchJSON r of
          Inl e \<Rightarrow> load_failed e s
        | Inr d \<Rightarrow>
            (case renderDetail env (s\<lparr>detail := d\<rparr>) of
               (Some e, s') \<Rightarrow> load_failed e s'
             | (None, s') \<Rightarrow>
                 if silent then s'
                 else showToast (''Loaded '' @ (case name of None \<Rightarrow> ''null'' | Some n \<Rightarrow> n) @ ''.'') False s'))"

end
