(* ===== verification/Agent_Dashboard.thy ===== *)
theory Agent_Dashboard
  imports Agent_State
begin

text \<open>
  The operations of the node dashboard (\<open>app.js\<close>) on the state of \<open>Agent_State\<close>, one definition per
  function and per rest of an \<open>async\<close> function after an \<open>await\<close>, and the events that run them.
\<close>

section \<open>Loading, commands and settings\<close>

definition refreshAll :: "bool \<Rightarrow> bool \<Rightarrow> dash \<Rightarrow> dash" where
  "refreshAll preserveSelection silent s = send (GET ''/api/ups'') (GetUpses preserveSelection silent) s"

definition first_name :: "ups_health list \<Rightarrow> string option" where
  "first_name us = (case us of [] \<Rightarrow> None | u # _ \<Rightarrow> Some (uh_name u))"

definition has_ups :: "string option \<Rightarrow> ups_health list \<Rightarrow> bool" where
  "has_ups name us \<longleftrightarrow> list_ex (\<lambda>u. Some (uh_name u) = name) us"

definition null_type_error :: "string \<Rightarrow> string" where
  "null_type_error property =
     ''Cannot read properties of null (reading '' @ [CHR 0x27] @ property @ [CHR 0x27] @ '')''"

text \<open>
  A \<open>null\<close> list (also a body that does not parse) throws at the first property that is read of it, and the
  toast shows the message.  \<open>state.upses\<close> is then \<open>null\<close> and not read again: only a browser without event
  source sends this request, once at the start, and without a list it has no card to click on.
\<close>

definition upses_reply :: "bool \<Rightarrow> bool \<Rightarrow> ups_health list reply \<Rightarrow> dash \<Rightarrow> dash" where
  "upses_reply preserveSelection silent r s =
     (case fetchJSON r of
        Inl e \<Rightarrow> showToast e True s
      | Inr None \<Rightarrow>
          showToast (null_type_error (if truthy_name (selectedUPS s) \<and> preserveSelection then ''some''
                                      else ''length'')) True s
      | Inr (Some us) \<Rightarrow>
          (let s = s\<lparr>upses := us\<rparr>;
               s = (if \<not> truthy_name (selectedUPS s) \<and> us \<noteq> [] then s\<lparr>selectedUPS := first_name us\<rparr> else s);
               s = (if preserveSelection \<and> truthy_name (selectedUPS s)
                    then s\<lparr>selectedUPS := if has_ups (selectedUPS s) us then selectedUPS s else first_name us\<rparr>
                    else s);
               s = renderUPSGrid s
           in if truthy_name (selectedUPS s) then loadUPSDetail (selectedUPS s) True (RefreshToast silent) s
              else after_load_steps (RefreshToast silent) (renderEmptyDetail None s)))"

definition runCommand :: "ups_command \<Rightarrow> dash \<Rightarrow> dash" where
  "runCommand command s =
     (if \<not> truthy_name (selectedUPS s) then s
      else send (SEND ''POST'' (ups_url (selectedUPS s) ''/command'') [(''cmd'', TextField (uc_name command))])
             PostCommand s)"

definition command_reply :: "command_result reply \<Rightarrow> dash \<Rightarrow> dash" where
  "command_reply r s =
     (case fetchJSON r of
        Inl e \<Rightarrow> showToast e True s
      | Inr None \<Rightarrow> showToast (null_type_error ''command'') True s
      | Inr (Some res) \<Rightarrow>
          (let s = showToast (cr_command res @ '': '' @ or_opt (cr_output res) ''OK'') False s
           in loadUPSDetail (selectedUPS s) True Done s))"

definition setWritableVariable :: "string \<Rightarrow> string \<Rightarrow> task \<Rightarrow> dash \<Rightarrow> dash" where
  "setWritableVariable variableName value t s =
     send (SEND ''POST'' (ups_url (selectedUPS s) ''/setvar'')
             [(''var'', TextField variableName), (''value'', TextField value)]) t s"

definition find_setting :: "string \<Rightarrow> ups_detail \<Rightarrow> writable_var option" where
  "find_setting name d = find (\<lambda>v. wv_name v = name) (settings_of d)"

definition handleVariableInputChange :: "writable_var \<Rightarrow> string \<Rightarrow> dash \<Rightarrow> dash" where
  "handleVariableInputChange variable value s =
     (case pane s of
        EmptyPane _ \<Rightarrow> s
      | DetailPane sd \<Rightarrow>
          (let original = or_opt (wv_current_value variable) [];
               name = wv_name variable;
               isDirty = (trim value \<noteq> original);
               sd = sd\<lparr>sd_edits := (name, value) # sd_edits sd,
                       sd_dirty_rows := (if isDirty then set_add name (sd_dirty_rows sd)
                                         else removeAll name (sd_dirty_rows sd))\<rparr>
           in updateSettingsApplyButton
                (s\<lparr>pane := DetailPane sd,
                   dirtyVariables := (if isDirty then set_add name (dirtyVariables s)
                                      else removeAll name (dirtyVariables s))\<rparr>)))"

text \<open>
  The control of a setting: what was typed into it, or what it was drawn with.  (A \<open>number\<close> input
  that was drawn with something else than a number is the browser's business; the settings that
  are applied were typed into.)
\<close>

definition control_value :: "string \<Rightarrow> detail_pane \<Rightarrow> string option" where
  "control_value name p =
     (case p of
        EmptyPane _ \<Rightarrow> None
      | DetailPane sd \<Rightarrow>
          (case find_setting name (sd_detail sd) of
             None \<Rightarrow> None
           | Some v \<Rightarrow>
               (case map_of (sd_edits sd) name of
                  Some value \<Rightarrow> Some value
                | None \<Rightarrow> Some (or_opt (wv_current_value v) []))))"

definition applied_toast :: "nat \<Rightarrow> dash \<Rightarrow> dash" where
  "applied_toast succeeded s =
     (if 0 < succeeded
      then showToast (if succeeded = 1 then ''Setting applied.''
                      else nat_dec succeeded @ '' settings applied.'') False s
      else s)"

text \<open>
  The loop of \<open>applyDirtyVariables\<close> up to its next \<open>await\<close>.  It reads \<open>state.detail.writable\<close> outside
  of its \<open>try\<close>: without a detail or without settings the function ends there with a TypeError.
\<close>

fun apply_loop :: "string list \<Rightarrow> nat \<Rightarrow> nat \<Rightarrow> dash \<Rightarrow> dash" where
  "apply_loop [] succeeded failed s =
     (let s = applied_toast succeeded s in loadUPSDetail (selectedUPS s) True Done s)"
| "apply_loop (name # names) succeeded failed s =
     (case detail s of
        None \<Rightarrow> s
      | Some d \<Rightarrow>
          (case ud_writable d of
             None \<Rightarrow> s
           | Some vs \<Rightarrow>
               (case (find_setting name d, control_value name (pane s)) of
                  (Some variable, Some value) \<Rightarrow>
                    setWritableVariable (wv_name variable) (trim value)
                      (SetVariable (wv_name variable) names succeeded failed) s
                | _ \<Rightarrow> apply_loop names succeeded failed
                         (s\<lparr>dirtyVariables := removeAll name (dirtyVariables s)\<rparr>))))"

definition disable_apply :: "dash \<Rightarrow> dash" where
  "disable_apply s =
     (case pane s of
        EmptyPane _ \<Rightarrow> s
      | DetailPane sd \<Rightarrow> s\<lparr>pane := DetailPane (sd\<lparr>sd_apply_disabled := True\<rparr>)\<rparr>)"

definition applyDirtyVariables :: "dash \<Rightarrow> dash" where
  "applyDirtyVariables s =
     (if \<not> truthy_name (selectedUPS s) \<or> detail s = None \<or> dirtyVariables s = [] then s
      else apply_loop (dirtyVariables s) 0 0 (disable_apply s))"

definition setvar_reply :: "string \<Rightarrow> string list \<Rightarrow> nat \<Rightarrow> nat \<Rightarrow> unit reply \<Rightarrow> dash \<Rightarrow> dash" where
  "setvar_reply name names succeeded failed r s =
     (case fetchJSON r of
        Inl e \<Rightarrow> apply_loop names succeeded (failed + 1) (showToast (name @ '': '' @ e) True s)
      | Inr _ \<Rightarrow> apply_loop names (succeeded + 1) failed
                   (s\<lparr>dirtyVariables := removeAll name (dirtyVariables s)\<rparr>))"

section \<open>The dialogs\<close>

definition openConfirmModal :: "ups_command \<Rightarrow> dash \<Rightarrow> dash" where
  "openConfirmModal command s =
     s\<lparr>pendingCommand := Some command,
       confirm_text := ''Run '' @ uc_name command @ '' on '' @
         (case selectedUPS s of None \<Rightarrow> ''null'' | Some n \<Rightarrow> n) @ ''? This action cannot be undone.'',
       confirm_open := True\<rparr>"

definition closeConfirmModal :: "dash \<Rightarrow> dash" where
  "closeConfirmModal s = s\<lparr>pendingCommand := None, confirm_open := False\<rparr>"

definition confirm_submit :: "dash \<Rightarrow> dash" where
  "confirm_submit s =
     (case pendingCommand s of None \<Rightarrow> s | Some command \<Rightarrow> runCommand command (closeConfirmModal s))"

text \<open>A click on a command's button in the detail view.\<close>

definition command_click :: "string \<Rightarrow> dash \<Rightarrow> dash" where
  "command_click name s =
     (case pane s of
        EmptyPane _ \<Rightarrow> s
      | DetailPane sd \<Rightarrow>
          (case ud_commands (sd_detail sd) of
             None \<Rightarrow> s
           | Some cs \<Rightarrow>
               (case find (\<lambda>c. uc_name c = name) cs of
                  None \<Rightarrow> s
                | Some c \<Rightarrow> if uc_destructive c then openConfirmModal c s else runCommand c s)))"

definition openRawJsonModal :: "ups_detail \<Rightarrow> dash \<Rightarrow> dash" where
  "openRawJsonModal d s = s\<lparr>raw_name := ud_name d, raw_variables := ud_variables d, raw_open := True\<rparr>"

text \<open>
  \<open>copyRawJSON\<close> copies the dialog's text to the clipboard, or by a selection when the clipboard
  refuses, and says so in either case once it is done.
\<close>

definition copyRawJSON :: "dash \<Rightarrow> dash" where
  "copyRawJSON s = showToast ''Raw JSON copied.'' False s"

definition closeRawJsonModal :: "dash \<Rightarrow> dash" where
  "closeRawJsonModal s = s\<lparr>raw_open := False\<rparr>"

definition openUPSMetadataModal :: "ups_detail \<Rightarrow> dash \<Rightarrow> dash" where
  "openUPSMetadataModal d s =
     s\<lparr>metadata_modal := (metadata_modal s)\<lparr>mf_subtitle := ud_name d,
         mf_display_name := or_opt (md_display_name (ud_metadata d)) [], mf_placeholder := ud_name d,
         mf_tags := join '', '' (md_tags (ud_metadata d)), mf_error_hidden := True, mf_error := [],
         mf_open := True\<rparr>\<rparr>"

definition closeUPSMetadataModal :: "dash \<Rightarrow> dash" where
  "closeUPSMetadataModal s = s\<lparr>metadata_modal := (metadata_modal s)\<lparr>mf_open := False\<rparr>\<rparr>"

definition parse_tags :: "string \<Rightarrow> string list" where
  "parse_tags text = filter (\<lambda>t. t \<noteq> []) (map trim (split1 (CHR '','') text))"

definition saveUPSMetadata :: "dash \<Rightarrow> dash" where
  "saveUPSMetadata s =
     (if \<not> truthy_name (selectedUPS s) \<or> detail s = None then s
      else
        (let f = metadata_modal s;
             s = s\<lparr>metadata_modal := f\<lparr>mf_save_disabled := True, mf_error_hidden := True\<rparr>\<rparr>
         in send (SEND ''PATCH'' (ups_url (selectedUPS s) ''/metadata'')
                   [(''display_name'', TextField (trim (mf_display_name f))),
                    (''tags'', ListField (parse_tags (mf_tags f)))])
              PatchMetadata s))"

definition metadata_reply :: "unit reply \<Rightarrow> dash \<Rightarrow> dash" where
  "metadata_reply r s =
     (case fetchJSON r of
        Inl e \<Rightarrow> s\<lparr>metadata_modal := (metadata_modal s)\<lparr>mf_error := e, mf_error_hidden := False,
                     mf_save_disabled := False\<rparr>\<rparr>
      | Inr _ \<Rightarrow>
          (let s = closeUPSMetadataModal s in loadUPSDetail (selectedUPS s) True MetadataToast s))"

section \<open>The metric dialog\<close>

definition history_url :: string where
  "history_url = ''/api/health/history/long''"

text \<open>
  The samples of the chosen window.  The long history is \<open>null\<close> (\<open>None\<close>) after an answer without a body that
  parses; drawing the chart then throws at \<open>source.filter\<close>, before it has changed anything.
\<close>

definition chart_source :: "dash \<Rightarrow> metric_sample list option" where
  "chart_source s =
     (if metricDetailWindow s = [] \<or> metricDetailWindow s = ''10m'' then Some (metricHistory s)
      else metricHistoryLong s)"

definition chart_throws :: "dash \<Rightarrow> bool" where
  "chart_throws s \<longleftrightarrow>
     metricDetailLabel s \<noteq> None \<and> metricDetailLabel s \<noteq> Some [] \<and> metric_open s \<and> chart_source s = None"

definition renderMetricDetailChart :: "browser \<Rightarrow> jsnum \<Rightarrow> dash \<Rightarrow> dash" where
  "renderMetricDetailChart env now s =
     (case metricDetailLabel s of
        None \<Rightarrow> s
      | Some label \<Rightarrow>
          if label = [] \<or> \<not> metric_open s then s
          else
            (let windowKey = (if metricDetailWindow s = [] then ''10m'' else metricDetailWindow s)
             in case chart_source s of
                  None \<Rightarrow> s
                | Some source \<Rightarrow>
                    (case detail_chart (date_format env) label windowKey source now (chart s) of
                       None \<Rightarrow> s
                     | Some (view, cache) \<Rightarrow>
                         s\<lparr>chart := view, trendCache := (trendCache s)(label \<mapsto> cache)\<rparr>)))"

definition clear_refresh_timer :: "dash \<Rightarrow> dash" where
  "clear_refresh_timer s =
     (case metricDetailRefreshTimer s of
        None \<Rightarrow> s
      | Some t \<Rightarrow> s\<lparr>intervals := removeAll t (intervals s), metricDetailRefreshTimer := None\<rparr>)"

definition refreshMetricHistoryLong :: "history_use \<Rightarrow> dash \<Rightarrow> dash" where
  "refreshMetricHistoryLong k s = send (GET history_url) (GetHistory k) s"

definition selectMetricDetailWindow :: "browser \<Rightarrow> jsnum \<Rightarrow> string \<Rightarrow> dash \<Rightarrow> dash" where
  "selectMetricDetailWindow env now windowKey s =
     (let s = clear_refresh_timer (s\<lparr>metricDetailWindow := windowKey, active_window := windowKey\<rparr>)
      in if windowKey = ''10m'' then renderMetricDetailChart env now s
         else refreshMetricHistoryLong ForWindow s)"

definition set_refresh_interval :: "dash \<Rightarrow> dash" where
  "set_refresh_interval s =
     s\<lparr>intervals := intervals s @ [next_timer s], metricDetailRefreshTimer := Some (next_timer s),
       next_timer := Suc (next_timer s)\<rparr>"

text \<open>
  The rest of \<open>refreshMetricHistoryLong\<close>, which catches its errors, and of its two callers, which do not
  catch what drawing the chart throws: \<open>selectMetricDetailWindow\<close> then ends without its interval.
\<close>

definition history_reply ::
  "browser \<Rightarrow> jsnum \<Rightarrow> history_use \<Rightarrow> metric_sample list reply \<Rightarrow> dash \<Rightarrow> dash" where
  "history_reply env now k r s =
     (let s = (case fetchJSON r of
                 Inl e \<Rightarrow> showToast e True s
               | Inr samples \<Rightarrow> s\<lparr>metricHistoryLong := samples, metricHistoryLongFetchedAt := now\<rparr>)
      in if chart_throws s then s
         else (let s = renderMetricDetailChart env now s
               in case k of ForWindow \<Rightarrow> set_refresh_interval s | ForInterval \<Rightarrow> s))"

definition interval_tick :: "nat \<Rightarrow> dash \<Rightarrow> dash" where
  "interval_tick t s = (if t \<in> set (intervals s) then refreshMetricHistoryLong ForInterval s else s)"

definition openMetricDetailModal :: "browser \<Rightarrow> jsnum \<Rightarrow> string \<Rightarrow> dash \<Rightarrow> dash" where
  "openMetricDetailModal env now label s =
     (if map_of TREND_EXTRACTORS label = None then s
      else
        selectMetricDetailWindow env now
          (if metricDetailWindow s = [] then ''10m'' else metricDetailWindow s)
          (s\<lparr>metricDetailLabel := Some label, metric_title := label, metric_open := True\<rparr>))"

definition closeMetricDetailModal :: "dash \<Rightarrow> dash" where
  "closeMetricDetailModal s = clear_refresh_timer (s\<lparr>metric_open := False, metricDetailLabel := None\<rparr>)"

section \<open>The live stream\<close>

definition setHealthStreamStatus :: "bool \<Rightarrow> dash \<Rightarrow> dash" where
  "setHealthStreamStatus live s =
     s\<lparr>healthStreamConnected := live,
       stream_status := (if live then ''Live''
         else ''Reconnecting'' @ [CHR 0xE2, CHR 0x80, CHR 0xA6])\<rparr>"

definition renderHealth :: "browser \<Rightarrow> jsnum \<Rightarrow> dash \<Rightarrow> dash" where
  "renderHealth env now s =
     (case health s of
        None \<Rightarrow> s
      | Some h \<Rightarrow>
          (let s = s\<lparr>version_badge := nh_version h, metrics_grid := metrics_html (metricHistory s) h\<rparr>
           in if metricDetailLabel s \<noteq> None \<and> metricDetailLabel s \<noteq> Some [] \<and> metricDetailWindow s = ''10m''
              then renderMetricDetailChart env now s else s))"

definition patch_pane :: "ups_health \<Rightarrow> dash \<Rightarrow> dash" where
  "patch_pane m s =
     (let s = s\<lparr>pane_accent := Some (accentClassForStatus (Some (uh_status m)))\<rparr>
      in case pane s of
           EmptyPane _ \<Rightarrow> s
         | DetailPane sd \<Rightarrow>
             s\<lparr>pane := DetailPane (sd\<lparr>sd_status := uh_status m, sd_chip := statusClass (Some (uh_status m)),
                 sd_values := detail_values m\<rparr>)\<rparr>)"

definition updateDetailMetrics :: "ups_health \<Rightarrow> dash \<Rightarrow> dash" where
  "updateDetailMetrics m s =
     (case detail s of
        None \<Rightarrow> s
      | Some d \<Rightarrow>
          if ud_name d \<noteq> uh_name m then s
          else patch_pane m (s\<lparr>detail := Some (d\<lparr>ud_metrics := m, ud_status := uh_status m\<rparr>)\<rparr>))"

definition updateLiveUPSData :: "ups_health list \<Rightarrow> dash \<Rightarrow> dash" where
  "updateLiveUPSData us s =
     (let s = renderUPSGrid (s\<lparr>upses := us\<rparr>) in
      if \<not> (truthy_name (selectedUPS s) \<and> has_ups (selectedUPS s) us)
      then (if us = [] then renderEmptyDetail None (s\<lparr>selectedUPS := None, detail := None\<rparr>)
            else loadUPSDetail (first_name us) True Done s)
      else (case find (\<lambda>u. Some (uh_name u) = selectedUPS s) us of
              None \<Rightarrow> s
            | Some m \<Rightarrow> updateDetailMetrics m s))"

text \<open>An event whose data does not parse is ignored (\<open>None\<close>); a \<open>null\<close> history is an empty one.\<close>

definition stream_history :: "browser \<Rightarrow> jsnum \<Rightarrow> metric_sample list option \<Rightarrow> dash \<Rightarrow> dash" where
  "stream_history env now data s =
     (case data of None \<Rightarrow> s | Some samples \<Rightarrow> renderHealth env now (s\<lparr>metricHistory := samples\<rparr>))"

definition stream_health :: "browser \<Rightarrow> jsnum \<Rightarrow> node_health option \<Rightarrow> dash \<Rightarrow> dash" where
  "stream_health env now data s =
     (case data of
        None \<Rightarrow> s
      | Some h \<Rightarrow>
          updateLiveUPSData (nh_upses h)
            (renderHealth env now (setHealthStreamStatus True (s\<lparr>health := Some h\<rparr>))))"

section \<open>Events\<close>

text \<open>
  What the browser can run next.  A reply names the request it answers; an event for an element
  that is not there changes nothing.  \<open>SelectCard\<close> carries the answer to \<open>window.confirm\<close>.
\<close>

datatype dash_event =
    SelectCard string bool
  | CommandClick string
  | EditInput string string
  | ApplyClick
  | ConfirmSubmit
  | ConfirmCancel
  | RawJsonClick
  | RawJsonClose
  | RawJsonCopied
  | MetadataClick
  | MetadataInput string string
  | MetadataSubmit
  | MetadataCancel
  | MetricCardClick string
  | WindowClick string
  | MetricClose
  | StreamOpen
  | StreamError
  | StreamHistory "metric_sample list option"
  | StreamHealth "node_health option"
  | ToastTimeout nat
  | IntervalTick nat
  | UpsesReply nat "ups_health list reply"
  | DetailReply nat "ups_detail reply"
  | CommandReply nat "command_result reply"
  | SetvarReply nat "unit reply"
  | MetadataReply nat "unit reply"
  | HistoryReply nat "metric_sample list reply"

definition card_click :: "string \<Rightarrow> bool \<Rightarrow> dash \<Rightarrow> dash" where
  "card_click name proceed s =
     (if \<not> has_ups (Some name) (upses s) then s
      else if dirtyVariables s \<noteq> [] \<and> Some name \<noteq> selectedUPS s \<and> \<not> proceed then s
      else loadUPSDetail (Some name) False Done s)"

definition edit_input :: "string \<Rightarrow> string \<Rightarrow> dash \<Rightarrow> dash" where
  "edit_input name value s =
     (case pane s of
        EmptyPane _ \<Rightarrow> s
      | DetailPane sd \<Rightarrow>
          (case find_setting name (sd_detail sd) of
             None \<Rightarrow> s
           | Some v \<Rightarrow> handleVariableInputChange v value s))"

definition apply_click :: "dash \<Rightarrow> dash" where
  "apply_click s =
     (case pane s of
        EmptyPane _ \<Rightarrow> s
      | DetailPane sd \<Rightarrow>
          if settings_of (sd_detail sd) = [] \<or> sd_apply_disabled sd then s else applyDirtyVariables s)"

definition in_pane :: "(ups_detail \<Rightarrow> dash \<Rightarrow> dash) \<Rightarrow> dash \<Rightarrow> dash" where
  "in_pane f s = (case pane s of EmptyPane _ \<Rightarrow> s | DetailPane sd \<Rightarrow> f (sd_detail sd) s)"

text \<open>Takes an answered request off the waiting tasks, when it waits for that kind of answer.\<close>

definition answer :: "nat \<Rightarrow> (task \<Rightarrow> (dash \<Rightarrow> dash) option) \<Rightarrow> dash \<Rightarrow> dash" where
  "answer i k s =
     (case Option.bind (map_of (waiting s) i) k of
        None \<Rightarrow> s
      | Some f \<Rightarrow> f (s\<lparr>waiting := filter (\<lambda>(j, t). j \<noteq> i) (waiting s)\<rparr>))"

fun dash_handler :: "browser \<Rightarrow> jsnum \<times> dash_event \<Rightarrow> dash \<Rightarrow> dash" where
  "dash_handler env (now, SelectCard name proceed) s = card_click name proceed s"
| "dash_handler env (now, CommandClick name) s = command_click name s"
| "dash_handler env (now, EditInput name value) s = edit_input name value s"
| "dash_handler env (now, ApplyClick) s = apply_click s"
| "dash_handler env (now, ConfirmSubmit) s = confirm_submit s"
| "dash_handler env (now, ConfirmCancel) s = closeConfirmModal s"
| "dash_handler env (now, RawJsonClick) s = in_pane openRawJsonModal s"
| "dash_handler env (now, RawJsonClose) s = closeRawJsonModal s"
| "dash_handler env (now, RawJsonCopied) s = copyRawJSON s"
| "dash_handler env (now, MetadataClick) s = in_pane openUPSMetadataModal s"
| "dash_handler env (now, MetadataInput name tags) s =
     s\<lparr>metadata_modal := (metadata_modal s)\<lparr>mf_display_name := name, mf_tags := tags\<rparr>\<rparr>"
| "dash_handler env (now, MetadataSubmit) s =
     (if mf_save_disabled (metadata_modal s) then s else saveUPSMetadata s)"
| "dash_handler env (now, MetadataCancel) s = closeUPSMetadataModal s"
| "dash_handler env (now, MetricCardClick label) s = openMetricDetailModal env now label s"
| "dash_handler env (now, WindowClick key) s =
     (if metric_open s then selectMetricDetailWindow env now key s else s)"
| "dash_handler env (now, MetricClose) s = (if metric_open s then closeMetricDetailModal s else s)"
| "dash_handler env (now, StreamOpen) s = setHealthStreamStatus True s"
| "dash_handler env (now, StreamError) s = setHealthStreamStatus False s"
| "dash_handler env (now, StreamHistory data) s = stream_history env now data s"
| "dash_handler env (now, StreamHealth data) s = stream_health env now data s"
| "dash_handler env (now, ToastTimeout t) s = toast_timeout t s"
| "dash_handler env (now, IntervalTick t) s = interval_tick t s"
| "dash_handler env (now, UpsesReply i r) s =
     answer i (\<lambda>t. case t of GetUpses p q \<Rightarrow> Some (upses_reply p q r) | _ \<Rightarrow> None) s"
| "dash_handler env (now, DetailReply i r) s =
     answer i (\<lambda>t. case t of GetDetail n q k \<Rightarrow> Some (load_reply env n q k r) | _ \<Rightarrow> None) s"
| "dash_handler env (now, CommandReply i r) s =
     answer i (\<lambda>t. case t of PostCommand \<Rightarrow> Some (command_reply r) | _ \<Rightarrow> None) s"
| "dash_handler env (now, SetvarReply i r) s =
     answer i (\<lambda>t. case t of SetVariable n ns a b \<Rightarrow> Some (setvar_reply n ns a b r) | _ \<Rightarrow> None) s"
| "dash_handler env (now, MetadataReply i r) s =
     answer i (\<lambda>t. case t of PatchMetadata \<Rightarrow> Some (metadata_reply r) | _ \<Rightarrow> None) s"
| "dash_handler env (now, HistoryReply i r) s =
     answer i (\<lambda>t. case t of GetHistory k \<Rightarrow> Some (history_reply env now k r) | _ \<Rightarrow> None) s"

definition beforeunload_asks :: "dash \<Rightarrow> bool" where
  "beforeunload_asks s \<longleftrightarrow> dirtyVariables s \<noteq> []"

section \<open>The start\<close>

definition empty_view0 :: detail_view where
  "empty_view0 = \<lparr>dv_gridX = [], dv_axisX = [], dv_gridY = [], dv_axisY = [], dv_points = [],
     dv_emptyHidden = True, dv_summary = [], dv_range = []\<rparr>"

definition initial_dash :: dash where
  "initial_dash =
     \<lparr>health = None, metricHistory = [], metricHistoryLong = Some [], metricHistoryLongFetchedAt = NInt 0,
      healthStreamConnected = False, upses = [], selectedUPS = None, detail = None, toastTimer = None,
      pendingCommand = None, dirtyVariables = [], trendCache = (\<lambda>_. None), metricDetailLabel = None,
      metricDetailWindow = ''10m'', metricDetailRefreshTimer = None, version_badge = [],
      metrics_grid = [], stream_status = [], ups_count = [], ups_grid = None,
      pane = EmptyPane [], pane_accent = None, toast_text = [], toast_visible = False,
      toast_error = False, confirm_open = False, confirm_text = [], raw_open = False, raw_name = [],
      raw_variables = [],
      metadata_modal = \<lparr>mf_open = False, mf_subtitle = [], mf_placeholder = [], mf_display_name = [],
        mf_tags = [], mf_error = [], mf_error_hidden = True, mf_save_disabled = False\<rparr>,
      metric_open = False, metric_title = [], active_window = ''10m'', chart = empty_view0,
      next_timer = 1, intervals = [], toast_timeouts = [], next_request = 0, waiting = [], sent = []\<rparr>"

definition start_dash :: "bool \<Rightarrow> dash" where
  "start_dash has_event_source =
     (let s = renderEmptyDetail None initial_dash
      in if has_event_source then s else refreshAll True True s)"

inductive dash_step :: "browser \<Rightarrow> dash \<Rightarrow> dash \<Rightarrow> bool" for env where
  event: "dash_step env s (dash_handler env e s)"

inductive dash_reachable :: "browser \<Rightarrow> dash \<Rightarrow> bool" for env where
  start: "dash_reachable env (start_dash b)"
| step: "dash_reachable env s \<Longrightarrow> dash_step env s t \<Longrightarrow> dash_reachable env t"

inductive_cases dash_stepE: "dash_step env s t"

end
