(* ===== verification/Event_System.thy ===== *)
theory Event_System
  imports Main
begin

text \<open>
  Scripts that run to completion on each event: the contract of an invariant, stated once.  A
  component gives its initial states, its handler and its invariant; every state after any sequence
  of events then satisfies the invariant, and a relation between one state and the next holds along
  every run.
\<close>

locale event_system =
  fixes initial :: "'s \<Rightarrow> bool"
    and handler :: "'e \<Rightarrow> 's \<Rightarrow> 's"
    and inv :: "'s \<Rightarrow> bool"
  assumes inv_initial: "initial s \<Longrightarrow> inv s"
    and inv_handler: "inv s \<Longrightarrow> inv (handler e s)"
begin

lemma inv_run: "inv s \<Longrightarrow> inv (fold handler es s)"
  by (induction es arbitrary: s) (simp_all add: inv_handler)

lemma inv_reached: "initial s \<Longrightarrow> inv (fold handler es s)"
  by (rule inv_run) (rule inv_initial)

lemma holds_after:
  "initial s \<Longrightarrow> (\<And>t. inv t \<Longrightarrow> P (handler e t)) \<Longrightarrow> P (fold handler (es @ [e]) s)"
  by (simp add: inv_reached)

lemma run_append: "fold handler (es @ ds) s = fold handler ds (fold handler es s)"
  by simp

end

text \<open>
  An invariant that holds as long as the environment keeps to a condition on each event, which may look
  at the state the event meets.
\<close>

fun allowed_run :: "('e \<Rightarrow> 's \<Rightarrow> bool) \<Rightarrow> ('e \<Rightarrow> 's \<Rightarrow> 's) \<Rightarrow> 'e list \<Rightarrow> 's \<Rightarrow> bool" where
  "allowed_run allowed step [] s = True"
| "allowed_run allowed step (e # es) s = (allowed e s \<and> allowed_run allowed step es (step e s))"

locale guarded_system =
  fixes initial :: "'s \<Rightarrow> bool"
    and step :: "'e \<Rightarrow> 's \<Rightarrow> 's"
    and allowed :: "'e \<Rightarrow> 's \<Rightarrow> bool"
    and inv :: "'s \<Rightarrow> bool"
  assumes inv_initial: "initial s \<Longrightarrow> inv s"
    and inv_step: "inv s \<Longrightarrow> allowed e s \<Longrightarrow> inv (step e s)"
begin

lemma inv_allowed_run: "inv s \<Longrightarrow> allowed_run allowed step es s \<Longrightarrow> inv (fold step es s)"
  by (induction es arbitrary: s) (simp_all add: inv_step)

lemma inv_reached: "initial s \<Longrightarrow> allowed_run allowed step es s \<Longrightarrow> inv (fold step es s)"
  by (rule inv_allowed_run) (rule inv_initial)

end

text \<open>
  A component with an abstract specification: every event of the script is one event of the
  specification on the abstracted state, so every run is a run of the specification.
\<close>

locale refined_system = event_system initial handler inv
  for initial :: "'s \<Rightarrow> bool" and handler :: "'e \<Rightarrow> 's \<Rightarrow> 's" and inv :: "'s \<Rightarrow> bool" +
  fixes abs :: "'s \<Rightarrow> 'a"
    and spec :: "'e \<Rightarrow> 'a \<Rightarrow> 'a"
  assumes simulates: "inv s \<Longrightarrow> abs (handler e s) = spec e (abs s)"
begin

lemma run_refines: "inv s \<Longrightarrow> abs (fold handler es s) = fold spec es (abs s)"
  by (induction es arbitrary: s) (simp_all add: simulates inv_handler)

lemma reached_refines: "initial s \<Longrightarrow> abs (fold handler es s) = fold spec es (abs s)"
  by (rule run_refines) (rule inv_initial)

end

end
