(* ===== verification/Agent_Safety.thy ===== *)
theory Agent_Safety
  imports Agent_Dashboard Event_System
begin

text \<open>
  What holds of the node dashboard after any sequence of events: the toast and its timer, the grid,
  the confirmation dialog, and the detail view with its unapplied edits.  The invariant is proved
  operation by operation and then for all runs by the contract of \<open>Event_System\<close>; the findings at
  the end are runs of the same model.
\<close>

section \<open>The invariant\<close>

text \<open>Each part is a predicate on the fields it is about, so that it is untouched by the others.\<close>

definition toast_ok :: "nat option \<Rightarrow> bool \<Rightarrow> nat list \<Rightarrow> nat \<Rightarrow> bool" where
  "toast_ok timer visible live next_id \<longleftrightarrow>
     live = (if visible then [the timer] else []) \<and> (visible \<longrightarrow> timer \<noteq> None) \<and>
     (case timer of None \<Rightarrow> True | Some t \<Rightarrow> t < next_id)"

definition grid_ok :: "string option \<Rightarrow> string \<Rightarrow> string option \<Rightarrow> ups_health list \<Rightarrow> bool" where
  "grid_ok grid badge selected us \<longleftrightarrow>
     (case grid of None \<Rightarrow> True
      | Some g \<Rightarrow> g = ups_grid_html selected us \<and> badge = nat_dec (length us))"

definition confirm_ok :: "bool \<Rightarrow> ups_command option \<Rightarrow> bool" where
  "confirm_ok opened pending \<longleftrightarrow>
     opened = (pending \<noteq> None) \<and> (case pending of None \<Rightarrow> True | Some c \<Rightarrow> uc_destructive c)"

text \<open>The shown detail is the one in \<open>state\<close>, up to the live metrics and status.\<close>

definition same_device :: "ups_detail \<Rightarrow> ups_detail \<Rightarrow> bool" where
  "same_device d e \<longleftrightarrow> d\<lparr>ud_metrics := ud_metrics e, ud_status := ud_status e\<rparr> = e"

definition displays :: "shown_detail \<Rightarrow> ups_detail \<Rightarrow> bool" where
  "displays sd d \<longleftrightarrow>
     same_device (sd_detail sd) d \<and> sd_status sd = ud_status d \<and>
     sd_chip sd = statusClass (Some (ud_status d)) \<and> sd_values sd = detail_values (ud_metrics d)"

definition edited_differs :: "shown_detail \<Rightarrow> string \<Rightarrow> bool" where
  "edited_differs sd name \<longleftrightarrow>
     (case (find_setting name (sd_detail sd), map_of (sd_edits sd) name) of
        (Some v, Some value) \<Rightarrow> trim value \<noteq> or_opt (wv_current_value v) []
      | _ \<Rightarrow> False)"

definition pane_ok :: "detail_pane \<Rightarrow> string option \<Rightarrow> ups_detail option \<Rightarrow> string list \<Rightarrow> bool" where
  "pane_ok p accent d dirty \<longleftrightarrow>
     distinct dirty \<and>
     (case p of
        EmptyPane _ \<Rightarrow> True
      | DetailPane sd \<Rightarrow>
          (case d of
             None \<Rightarrow> False
           | Some d \<Rightarrow> displays sd d \<and> accent = Some (accentClassForStatus (Some (ud_status d)))) \<and>
          list_all (edited_differs sd) dirty)"

definition dash_inv :: "dash \<Rightarrow> bool" where
  "dash_inv s \<longleftrightarrow>
     toast_ok (toastTimer s) (toast_visible s) (toast_timeouts s) (next_timer s) \<and>
     grid_ok (ups_grid s) (ups_count s) (selectedUPS s) (upses s) \<and>
     confirm_ok (confirm_open s) (pendingCommand s) \<and>
     pane_ok (pane s) (pane_accent s) (detail s) (dirtyVariables s)"

lemma pane_ok_empty [simp]: "pane_ok (EmptyPane h) a d ds = distinct ds"
  by (simp add: pane_ok_def)

lemma pane_ok_detail [simp]:
  "pane_ok (DetailPane sd) a d ds \<longleftrightarrow>
     distinct ds \<and> list_all (edited_differs sd) ds \<and>
     (\<exists>x. d = Some x \<and> displays sd x \<and> a = Some (accentClassForStatus (Some (ud_status x))))"
  by (auto simp: pane_ok_def split: option.splits)

lemma displays_controls [simp]:
  "displays (sd\<lparr>sd_apply_disabled := b\<rparr>) d = displays sd d"
  "displays (sd\<lparr>sd_hint := h\<rparr>) d = displays sd d"
  "displays (sd\<lparr>sd_edits := es\<rparr>) d = displays sd d"
  "displays (sd\<lparr>sd_dirty_rows := rs\<rparr>) d = displays sd d"
  "edited_differs (sd\<lparr>sd_apply_disabled := b\<rparr>) = edited_differs sd"
  "edited_differs (sd\<lparr>sd_hint := h\<rparr>) = edited_differs sd"
  "edited_differs (sd\<lparr>sd_dirty_rows := rs\<rparr>) = edited_differs sd"
  by (simp_all add: displays_def edited_differs_def fun_eq_iff)

lemma pane_ok_distinct: "pane_ok p a d ds \<Longrightarrow> distinct ds"
  by (simp add: pane_ok_def)

lemma toast_ok_show: "toast_ok timer v live n \<Longrightarrow>
    toast_ok (Some n) True ((case timer of None \<Rightarrow> live | Some t \<Rightarrow> removeAll t live) @ [n]) (Suc n)"
  by (auto simp: toast_ok_def split: if_splits option.splits)

lemma toast_ok_Suc: "toast_ok timer v live n \<Longrightarrow> toast_ok timer v live (Suc n)"
  by (auto simp: toast_ok_def split: option.splits)

lemma grid_ok_new [simp]: "grid_ok (Some (ups_grid_html sel us)) (nat_dec (length us)) sel us"
  by (simp add: grid_ok_def)

lemma confirm_ok_simps [simp]: "confirm_ok False None" "confirm_ok True (Some c) = uc_destructive c"
  by (simp_all add: confirm_ok_def)

section \<open>Every operation keeps it\<close>

lemma inv_send [simp]: "dash_inv (send q t s) = dash_inv s"
  by (simp add: dash_inv_def send_def)

lemma inv_showToast: "dash_inv s \<Longrightarrow> dash_inv (showToast m e s)"
  by (auto simp: dash_inv_def showToast_def Let_def intro: toast_ok_show)

lemma inv_toast_timeout: "dash_inv s \<Longrightarrow> dash_inv (toast_timeout t s)"
  by (auto simp: dash_inv_def toast_timeout_def toast_ok_def split: if_splits)

lemma inv_renderEmptyDetail: "dash_inv s \<Longrightarrow> dash_inv (renderEmptyDetail m s)"
  by (auto simp: dash_inv_def renderEmptyDetail_def dest: pane_ok_distinct)

lemma inv_renderUPSGrid: "dash_inv s \<Longrightarrow> dash_inv (renderUPSGrid (s\<lparr>selectedUPS := n\<rparr>))"
  "dash_inv s \<Longrightarrow> dash_inv (renderUPSGrid (s\<lparr>upses := us\<rparr>))"
  "dash_inv s \<Longrightarrow> dash_inv (renderUPSGrid (s\<lparr>upses := us, selectedUPS := n\<rparr>))"
  by (simp_all add: dash_inv_def renderUPSGrid_def)

lemma inv_load: "dash_inv s \<Longrightarrow> dash_inv (loadUPSDetail n b k s)"
  by (simp add: loadUPSDetail_def inv_renderUPSGrid)

lemma displays_show_detail: "displays (show_detail d html) d"
  by (simp add: displays_def show_detail_def same_device_def)

lemma inv_updateApply: "dash_inv s \<Longrightarrow> dash_inv (updateSettingsApplyButton s)"
  by (auto simp: dash_inv_def updateSettingsApplyButton_def Let_def split: detail_pane.split)

lemma inv_renderDetail:
  assumes "dash_inv s" and "renderDetail env (s\<lparr>detail := d\<rparr>) = (e, s')"
  shows "e = None \<Longrightarrow> dash_inv s'" and "dash_inv (renderEmptyDetail m s')"
proof -
  have 1: "dash_inv (s\<lparr>detail := Some d', dirtyVariables := [],
      pane_accent := Some (accentClassForStatus (Some (ud_status d'))),
      pane := DetailPane (show_detail d' html)\<rparr>)" for d' html
    using assms(1) by (simp add: dash_inv_def displays_show_detail)
  have 2: "dash_inv (renderEmptyDetail m (s\<lparr>detail := d\<rparr>))" for m
    using assms(1) by (auto simp: dash_inv_def renderEmptyDetail_def dest: pane_ok_distinct)
  have 3: "dash_inv (renderEmptyDetail m (s\<lparr>detail := d, dirtyVariables := [], pane_accent := a\<rparr>))" for m a
    using assms(1) by (auto simp: dash_inv_def renderEmptyDetail_def dest: pane_ok_distinct)
  show "e = None \<Longrightarrow> dash_inv s'"
    using assms(2) 1 2 by (auto simp: renderDetail_def Let_def inv_updateApply split: option.splits sum.splits)
  show "dash_inv (renderEmptyDetail m s')"
    using assms(2) 1 2 3
    by (auto simp: renderDetail_def Let_def inv_updateApply inv_renderEmptyDetail
        split: option.splits sum.splits)
qed

lemma inv_metadata_modal [simp]: "dash_inv (s\<lparr>metadata_modal := f\<rparr>) = dash_inv s"
  by (simp add: dash_inv_def)

lemma inv_after_load: "dash_inv s \<Longrightarrow> dash_inv (after_load_steps k s)"
  by (simp add: after_load_steps_def Let_def inv_showToast split: after_load.split)

lemma inv_load_reply:
  assumes "dash_inv s"
  shows "dash_inv (load_reply env n b k r s)"
proof (cases "fetchJSON r")
  case (Inl e)
  then show ?thesis using assms
    by (simp add: load_reply_def load_failed_def inv_after_load inv_showToast inv_renderEmptyDetail)
next
  case (Inr d)
  obtain e s' where r: "renderDetail env (s\<lparr>detail := d\<rparr>) = (e, s')" by fastforce
  show ?thesis
    using Inr r inv_renderDetail [OF assms r]
    by (auto simp: load_reply_def load_failed_def inv_after_load inv_showToast split: option.split)
qed

lemma inv_upses_reply: "dash_inv s \<Longrightarrow> dash_inv (upses_reply p q r s)"
  by (auto simp: upses_reply_def Let_def inv_showToast inv_load inv_after_load inv_renderEmptyDetail
      inv_renderUPSGrid split: sum.split option.split)

lemma inv_runCommand [simp]: "dash_inv (runCommand c s) = dash_inv s"
  by (simp add: runCommand_def)

lemma inv_command_reply: "dash_inv s \<Longrightarrow> dash_inv (command_reply r s)"
  by (simp add: command_reply_def Let_def inv_showToast inv_load split: sum.split option.split)

lemma inv_dirty_remove: "dash_inv s \<Longrightarrow> dash_inv (s\<lparr>dirtyVariables := removeAll n (dirtyVariables s)\<rparr>)"
  by (cases "pane s") (auto simp: dash_inv_def list_all_iff distinct_removeAll)

lemma inv_apply_loop: "dash_inv s \<Longrightarrow> dash_inv (apply_loop ns a b s)"
  by (induction ns a b s rule: apply_loop.induct)
     (auto simp: Let_def applied_toast_def inv_showToast inv_load inv_dirty_remove
        setWritableVariable_def split: option.splits)

lemma inv_setvar_reply: "dash_inv s \<Longrightarrow> dash_inv (setvar_reply n ns a b r s)"
  by (simp add: setvar_reply_def inv_apply_loop inv_showToast inv_dirty_remove split: sum.split)

lemma inv_disable_apply: "dash_inv s \<Longrightarrow> dash_inv (disable_apply s)"
  by (auto simp: dash_inv_def disable_apply_def split: detail_pane.split)

lemma inv_apply: "dash_inv s \<Longrightarrow> dash_inv (apply_click s)"
  by (simp add: apply_click_def applyDirtyVariables_def inv_apply_loop inv_disable_apply
      split: detail_pane.split)

lemma find_setting_name: "find_setting n d = Some v \<Longrightarrow> wv_name v = n"
  by (auto simp: find_setting_def find_Some_iff)

lemma inv_edit:
  assumes "dash_inv s"
  shows "dash_inv (edit_input n value s)"
proof (cases "pane s")
  case (DetailPane sd)
  show ?thesis
  proof (cases "find_setting n (sd_detail sd)")
    case (Some v)
    then have v: "wv_name v = n" by (rule find_setting_name)
    let ?dirty = "trim value \<noteq> or_opt (wv_current_value v) []"
    let ?sd = "sd\<lparr>sd_edits := (n, value) # sd_edits sd,
      sd_dirty_rows := (if ?dirty then set_add n (sd_dirty_rows sd) else removeAll n (sd_dirty_rows sd))\<rparr>"
    let ?ds = "if ?dirty then set_add n (dirtyVariables s) else removeAll n (dirtyVariables s)"
    have n: "edited_differs ?sd m = (if m = n then ?dirty else edited_differs sd m)" for m
      using Some by (simp add: edited_differs_def)
    have "list_all (edited_differs sd) (dirtyVariables s)" "distinct (dirtyVariables s)"
      using assms DetailPane by (auto simp: dash_inv_def)
    then have "list_all (edited_differs ?sd) ?ds \<and> distinct ?ds"
      unfolding list_all_iff n by (simp add: set_add_def distinct_removeAll)
    then have "dash_inv (s\<lparr>pane := DetailPane ?sd, dirtyVariables := ?ds\<rparr>)"
      using assms DetailPane by (simp add: dash_inv_def)
    then show ?thesis using DetailPane Some v
      by (simp add: edit_input_def handleVariableInputChange_def Let_def inv_updateApply)
  qed (simp add: edit_input_def DetailPane assms)
qed (simp add: edit_input_def assms)

lemma inv_dialogs:
  "dash_inv s \<Longrightarrow> uc_destructive c \<Longrightarrow> dash_inv (openConfirmModal c s)"
  "dash_inv s \<Longrightarrow> dash_inv (closeConfirmModal s)"
  "dash_inv (openRawJsonModal d s) = dash_inv s" "dash_inv (closeRawJsonModal s) = dash_inv s"
  "dash_inv (openUPSMetadataModal d s) = dash_inv s" "dash_inv (closeUPSMetadataModal s) = dash_inv s"
  by (simp_all add: dash_inv_def openConfirmModal_def closeConfirmModal_def openRawJsonModal_def
      closeRawJsonModal_def openUPSMetadataModal_def closeUPSMetadataModal_def)

lemma inv_confirm_submit: "dash_inv s \<Longrightarrow> dash_inv (confirm_submit s)"
  by (simp add: confirm_submit_def inv_dialogs split: option.split)

lemma inv_command_click: "dash_inv s \<Longrightarrow> dash_inv (command_click n s)"
  by (simp add: command_click_def inv_dialogs split: detail_pane.split option.split)

lemma inv_saveUPSMetadata: "dash_inv s \<Longrightarrow> dash_inv (saveUPSMetadata s)"
  by (simp add: saveUPSMetadata_def Let_def)

lemma inv_metadata_reply: "dash_inv s \<Longrightarrow> dash_inv (metadata_reply r s)"
  by (simp add: metadata_reply_def Let_def inv_load inv_dialogs split: sum.split)

lemma inv_chart: "dash_inv (renderMetricDetailChart env now s) = dash_inv s"
  by (simp add: renderMetricDetailChart_def Let_def dash_inv_def split: option.split)

lemma inv_timers:
  "dash_inv (clear_refresh_timer s) = dash_inv s"
  "dash_inv s \<Longrightarrow> dash_inv (set_refresh_interval s)"
  by (auto simp: dash_inv_def clear_refresh_timer_def set_refresh_interval_def toast_ok_Suc
      split: option.split)

lemma inv_metric_fields [simp]:
  "dash_inv (s\<lparr>metricDetailWindow := w, active_window := v\<rparr>) = dash_inv s"
  "dash_inv (s\<lparr>metricDetailLabel := l, metric_title := t, metric_open := b\<rparr>) = dash_inv s"
  "dash_inv (s\<lparr>metric_open := b, metricDetailLabel := l\<rparr>) = dash_inv s"
  "dash_inv (s\<lparr>metricHistoryLong := hl, metricHistoryLongFetchedAt := n\<rparr>) = dash_inv s"
  "dash_inv (s\<lparr>metricHistory := h\<rparr>) = dash_inv s"
  "dash_inv (s\<lparr>health := x\<rparr>) = dash_inv s"
  "dash_inv (s\<lparr>version_badge := b', metrics_grid := g\<rparr>) = dash_inv s"
  "dash_inv (s\<lparr>healthStreamConnected := c, stream_status := st\<rparr>) = dash_inv s"
  "dash_inv (s\<lparr>waiting := ws\<rparr>) = dash_inv s"
  by (simp_all add: dash_inv_def)

lemma inv_select_window: "dash_inv s \<Longrightarrow> dash_inv (selectMetricDetailWindow env now w s)"
  by (simp add: selectMetricDetailWindow_def Let_def inv_chart inv_timers refreshMetricHistoryLong_def)

lemma inv_history_reply: "dash_inv s \<Longrightarrow> dash_inv (history_reply env now k r s)"
  by (simp add: history_reply_def Let_def inv_chart inv_timers inv_showToast
      split: sum.split option.split history_use.split)

lemma inv_interval_tick: "dash_inv s \<Longrightarrow> dash_inv (interval_tick t s)"
  by (simp add: interval_tick_def refreshMetricHistoryLong_def)

lemma inv_metric_dialog:
  "dash_inv s \<Longrightarrow> dash_inv (openMetricDetailModal env now l s)"
  "dash_inv s \<Longrightarrow> dash_inv (closeMetricDetailModal s)"
  by (simp_all add: openMetricDetailModal_def closeMetricDetailModal_def inv_select_window inv_timers)

lemma inv_stream_status [simp]: "dash_inv (setHealthStreamStatus b s) = dash_inv s"
  by (simp add: setHealthStreamStatus_def)

lemma inv_renderHealth: "dash_inv (renderHealth env now s) = dash_inv s"
  by (simp add: renderHealth_def Let_def inv_chart split: option.split)

lemma inv_updateDetailMetrics:
  assumes "dash_inv s"
  shows "dash_inv (updateDetailMetrics m s)"
proof (cases "detail s")
  case (Some d)
  have "displays (sd\<lparr>sd_status := uh_status m, sd_chip := statusClass (Some (uh_status m)),
      sd_values := detail_values m\<rparr>) (d\<lparr>ud_metrics := m, ud_status := uh_status m\<rparr>)"
    if "displays sd d" for sd
  proof -
    from that have "same_device (sd_detail sd) (d\<lparr>ud_metrics := m, ud_status := uh_status m\<rparr>)"
      by (cases "sd_detail sd"; cases d) (simp add: displays_def same_device_def)
    then show ?thesis by (simp add: displays_def)
  qed
  moreover have "edited_differs (sd\<lparr>sd_status := a, sd_chip := b, sd_values := c\<rparr>) = edited_differs sd"
    for sd a b c by (simp add: edited_differs_def fun_eq_iff)
  ultimately show ?thesis using assms Some
    by (auto simp: updateDetailMetrics_def patch_pane_def Let_def dash_inv_def split: detail_pane.split)
qed (simp add: updateDetailMetrics_def assms)

lemma inv_updateLiveUPSData:
  assumes "dash_inv s"
  shows "dash_inv (updateLiveUPSData us s)"
proof -
  have r: "dash_inv (renderUPSGrid (s\<lparr>upses := us\<rparr>))" using assms by (rule inv_renderUPSGrid)
  moreover have "dash_inv (renderEmptyDetail None
      ((renderUPSGrid (s\<lparr>upses := []\<rparr>))\<lparr>selectedUPS := None, detail := None\<rparr>))"
    using assms by (auto simp: dash_inv_def renderEmptyDetail_def renderUPSGrid_def grid_ok_def
        ups_grid_html_def dest: pane_ok_distinct)
  ultimately show ?thesis
    by (auto simp: updateLiveUPSData_def Let_def inv_load inv_updateDetailMetrics split: option.split)
qed

lemma inv_answer:
  assumes "dash_inv s" and "\<And>t f u. k t = Some f \<Longrightarrow> dash_inv u \<Longrightarrow> dash_inv (f u)"
  shows "dash_inv (answer i k s)"
  using assms by (auto simp: answer_def split: option.split bind_splits)

lemma inv_handler: "dash_inv s \<Longrightarrow> dash_inv (dash_handler env e s)"
proof -
  assume s: "dash_inv s"
  obtain now ev where e: "e = (now, ev)" by fastforce
  show ?thesis unfolding e
    by (cases ev)
       (auto simp: s inv_load copyRawJSON_def inv_showToast card_click_def inv_command_click inv_edit inv_apply inv_confirm_submit
          inv_dialogs in_pane_def inv_saveUPSMetadata inv_metric_dialog inv_select_window
          stream_history_def stream_health_def inv_renderHealth inv_updateLiveUPSData
          inv_toast_timeout inv_interval_tick inv_upses_reply inv_load_reply inv_command_reply
          inv_setvar_reply inv_metadata_reply inv_history_reply
        split: detail_pane.split option.split task.splits intro!: inv_answer)
qed

lemma inv_start: "dash_inv (start_dash b)"
  by (simp add: start_dash_def Let_def renderEmptyDetail_def refreshAll_def)
     (simp add: dash_inv_def initial_dash_def toast_ok_def grid_ok_def)

interpretation dashboard: event_system "\<lambda>s. \<exists>b. s = start_dash b" "dash_handler env" dash_inv
  for env
  by unfold_locales (auto simp: inv_start inv_handler)

lemma reachable_dash_run: "dash_reachable env s \<Longrightarrow> \<exists>b es. s = fold (dash_handler env) es (start_dash b)"
proof (induction rule: dash_reachable.induct)
  case (start b)
  have "start_dash b = fold (dash_handler env) [] (start_dash b)" by simp
  then show ?case by blast
next
  case (step s t)
  then obtain b es e where "s = fold (dash_handler env) es (start_dash b)" "t = dash_handler env e s"
    by (auto elim: dash_stepE)
  then have "t = fold (dash_handler env) (es @ [e]) (start_dash b)" by simp
  then show ?case by blast
qed

lemma run_reachable: "dash_reachable env (fold (dash_handler env) es (start_dash b))"
proof (induction es rule: rev_induct)
  case (snoc e es)
  then show ?case by (auto intro: dash_reachable.step dash_step.event)
qed (simp add: dash_reachable.start)

lemma reachable_inv: "dash_reachable env s \<Longrightarrow> dash_inv s"
  using reachable_dash_run dashboard.inv_reached by blast

section \<open>Commands are sent by a click or a confirmation only\<close>

definition is_command :: "request \<Rightarrow> bool" where
  "is_command q = (case q of GET _ \<Rightarrow> False | SEND m u b \<Rightarrow> map fst b = [''cmd''])"

definition commands_sent :: "dash \<Rightarrow> request list" where
  "commands_sent s = filter is_command (sent s)"

definition command_request :: "string option \<Rightarrow> ups_command \<Rightarrow> request" where
  "command_request name c = SEND ''POST'' (ups_url name ''/command'') [(''cmd'', TextField (uc_name c))]"

lemma is_command_simps [simp]:
  "\<not> is_command (GET u)" "is_command (SEND m u b) = (map fst b = [''cmd''])"
  by (simp_all add: is_command_def)

lemma commands_send [simp]:
  "commands_sent (send q t s) = (if is_command q then commands_sent s @ [q] else commands_sent s)"
  by (simp add: commands_sent_def send_def)

text \<open>The network part of the state, which only \<open>send\<close> and the answers change.\<close>

definition net :: "dash \<Rightarrow> request list \<times> (nat \<times> task) list \<times> nat" where
  "net s = (sent s, waiting s, next_request s)"

lemma net_frame [simp]:
  "net (showToast m e s) = net s"
  "net (toast_timeout t s) = net s"
  "net (renderEmptyDetail mo s) = net s"
  "net (renderUPSGrid s) = net s"
  "net (s\<lparr>selectedUPS := n\<rparr>) = net s"
  "net (s\<lparr>detail := d\<rparr>) = net s"
  "net (s\<lparr>upses := us\<rparr>) = net s"
  "net (s\<lparr>dirtyVariables := ds\<rparr>) = net s"
  "net (s\<lparr>pane := p\<rparr>) = net s"
  "net (s\<lparr>pane_accent := a\<rparr>) = net s"
  "net (s\<lparr>metadata_modal := f\<rparr>) = net s"
  "net (updateSettingsApplyButton s) = net s"
  "net (closeConfirmModal s) = net s"
  "net (openConfirmModal c s) = net s"
  "net (openRawJsonModal dd s) = net s"
  "net (closeRawJsonModal s) = net s"
  "net (openUPSMetadataModal dd s) = net s"
  "net (closeUPSMetadataModal s) = net s"
  "net (disable_apply s) = net s"
  "net (renderMetricDetailChart env now s) = net s"
  "net (clear_refresh_timer s) = net s"
  "net (set_refresh_interval s) = net s"
  "net (setHealthStreamStatus b s) = net s"
  "net (patch_pane m' s) = net s"
  by (simp_all add: net_def showToast_def toast_timeout_def renderEmptyDetail_def
      renderUPSGrid_def updateSettingsApplyButton_def closeConfirmModal_def openConfirmModal_def
      openRawJsonModal_def closeRawJsonModal_def openUPSMetadataModal_def closeUPSMetadataModal_def
      disable_apply_def renderMetricDetailChart_def clear_refresh_timer_def set_refresh_interval_def
      setHealthStreamStatus_def patch_pane_def Let_def split: detail_pane.split option.split)

lemma commands_net: "commands_sent s = filter is_command (fst (net s))"
  by (simp add: commands_sent_def net_def)

lemma commands_frame [simp]:
  "commands_sent (showToast m e s) = commands_sent s"
  "commands_sent (toast_timeout t s) = commands_sent s"
  "commands_sent (renderEmptyDetail mo s) = commands_sent s"
  "commands_sent (renderUPSGrid s) = commands_sent s"
  "commands_sent (s\<lparr>selectedUPS := n\<rparr>) = commands_sent s"
  "commands_sent (s\<lparr>detail := d\<rparr>) = commands_sent s"
  "commands_sent (s\<lparr>upses := us\<rparr>) = commands_sent s"
  "commands_sent (s\<lparr>dirtyVariables := ds\<rparr>) = commands_sent s"
  "commands_sent (s\<lparr>pane := p\<rparr>) = commands_sent s"
  "commands_sent (s\<lparr>pane_accent := a\<rparr>) = commands_sent s"
  "commands_sent (s\<lparr>metadata_modal := f\<rparr>) = commands_sent s"
  "commands_sent (updateSettingsApplyButton s) = commands_sent s"
  "commands_sent (closeConfirmModal s) = commands_sent s"
  "commands_sent (openConfirmModal c s) = commands_sent s"
  "commands_sent (openRawJsonModal dd s) = commands_sent s"
  "commands_sent (closeRawJsonModal s) = commands_sent s"
  "commands_sent (openUPSMetadataModal dd s) = commands_sent s"
  "commands_sent (closeUPSMetadataModal s) = commands_sent s"
  "commands_sent (disable_apply s) = commands_sent s"
  "commands_sent (renderMetricDetailChart env now s) = commands_sent s"
  "commands_sent (clear_refresh_timer s) = commands_sent s"
  "commands_sent (set_refresh_interval s) = commands_sent s"
  "commands_sent (setHealthStreamStatus b s) = commands_sent s"
  "commands_sent (patch_pane m' s) = commands_sent s"
  by (simp_all only: commands_net net_frame)

lemma commands_waiting [simp]: "commands_sent (s\<lparr>waiting := ws\<rparr>) = commands_sent s"
  by (simp add: commands_sent_def)

lemma commands_load [simp]: "commands_sent (loadUPSDetail n b k s) = commands_sent s"
  by (simp add: loadUPSDetail_def)

lemma commands_after_load [simp]: "commands_sent (after_load_steps k s) = commands_sent s"
  by (simp add: after_load_steps_def Let_def split: after_load.split)

lemma commands_renderDetail:
  "renderDetail env s = (e, s') \<Longrightarrow> commands_sent s' = commands_sent s"
  by (auto simp: renderDetail_def Let_def commands_sent_def split: option.splits sum.splits)
     (simp_all add: renderEmptyDetail_def updateSettingsApplyButton_def)

lemma commands_load_reply [simp]: "commands_sent (load_reply env n b k r s) = commands_sent s"
  by (auto simp: load_reply_def load_failed_def split: sum.split option.split prod.split
      dest: commands_renderDetail)

lemma commands_upses_reply [simp]: "commands_sent (upses_reply p b r s) = commands_sent s"
  by (simp add: upses_reply_def Let_def split: sum.split option.split)

lemma commands_command_reply [simp]: "commands_sent (command_reply r s) = commands_sent s"
  by (simp add: command_reply_def Let_def split: sum.split option.split)

lemma commands_apply_loop [simp]: "commands_sent (apply_loop ns a b s) = commands_sent s"
  by (induction ns arbitrary: s)
     (simp_all add: Let_def applied_toast_def setWritableVariable_def split: option.split)

lemma commands_replies [simp]:
  "commands_sent (setvar_reply n ns a b r s) = commands_sent s"
  "commands_sent (metadata_reply r s) = commands_sent s"
  "commands_sent (applyDirtyVariables s) = commands_sent s"
  "commands_sent (saveUPSMetadata s) = commands_sent s"
  by (simp_all add: setvar_reply_def metadata_reply_def applyDirtyVariables_def saveUPSMetadata_def
      Let_def split: sum.split)

lemma commands_dialogs [simp]:
  "commands_sent (selectMetricDetailWindow env now w s) = commands_sent s"
  "commands_sent (openMetricDetailModal env now l s) = commands_sent s"
  "commands_sent (closeMetricDetailModal s) = commands_sent s"
  "commands_sent (history_reply env now k r s) = commands_sent s"
  "commands_sent (interval_tick t s) = commands_sent s"
proof -
  have f: "commands_sent (s\<lparr>metricDetailWindow := w, active_window := v\<rparr>) = commands_sent s"
    "commands_sent (s\<lparr>metricDetailLabel := l', metric_title := t, metric_open := b\<rparr>) = commands_sent s"
    "commands_sent (s\<lparr>metric_open := b, metricDetailLabel := l'\<rparr>) = commands_sent s"
    "commands_sent (s\<lparr>metricHistoryLong := hl, metricHistoryLongFetchedAt := n\<rparr>) = commands_sent s"
    for s w v l' t b hl n by (simp_all add: commands_sent_def)
  show w: "commands_sent (selectMetricDetailWindow env now w s) = commands_sent s" for w s
    by (simp add: selectMetricDetailWindow_def Let_def refreshMetricHistoryLong_def f)
  show "commands_sent (openMetricDetailModal env now l s) = commands_sent s"
    by (simp add: openMetricDetailModal_def w f)
  show "commands_sent (closeMetricDetailModal s) = commands_sent s"
    by (simp add: closeMetricDetailModal_def f)
  show "commands_sent (history_reply env now k r s) = commands_sent s"
    by (simp add: history_reply_def Let_def f split: sum.split option.split history_use.split)
  show "commands_sent (interval_tick t s) = commands_sent s"
    by (simp add: interval_tick_def refreshMetricHistoryLong_def)
qed

lemma commands_stream [simp]:
  "commands_sent (renderHealth env now s) = commands_sent s"
  "commands_sent (updateDetailMetrics m s) = commands_sent s"
  "commands_sent (updateLiveUPSData us s) = commands_sent s"
  "commands_sent (stream_history env now h s) = commands_sent s"
  "commands_sent (stream_health env now x s) = commands_sent s"
proof -
  have f: "commands_sent (s\<lparr>version_badge := b, metrics_grid := g\<rparr>) = commands_sent s"
    "commands_sent (s\<lparr>metricHistory := h\<rparr>) = commands_sent s"
    "commands_sent (s\<lparr>health := y\<rparr>) = commands_sent s"
    for s b g h y by (simp_all add: commands_sent_def)
  show r: "commands_sent (renderHealth env now s) = commands_sent s" for s
    by (simp add: renderHealth_def Let_def f split: option.split)
  show u: "commands_sent (updateDetailMetrics m s) = commands_sent s" for m s
    by (simp add: updateDetailMetrics_def split: option.split)
  show l: "commands_sent (updateLiveUPSData us s) = commands_sent s" for s us
    by (simp add: updateLiveUPSData_def Let_def u split: option.split)
  show "commands_sent (stream_history env now h s) = commands_sent s"
    by (simp add: stream_history_def r f split: option.split)
  show "commands_sent (stream_health env now x s) = commands_sent s"
    by (simp add: stream_health_def r l f split: option.split)
qed

lemma commands_run [simp]: "commands_sent (runCommand c s) =
    (if truthy_name (selectedUPS s) then commands_sent s @ [command_request (selectedUPS s) c]
     else commands_sent s)"
  by (simp add: runCommand_def command_request_def)

lemma commands_answer:
  "(\<And>t f u. k t = Some f \<Longrightarrow> commands_sent (f u) = commands_sent u) \<Longrightarrow>
    commands_sent (answer i k s) = commands_sent s"
  by (auto simp: answer_def split: option.split bind_splits)

lemma commands_other:
  assumes "\<And>n. ev \<noteq> CommandClick n" and "ev \<noteq> ConfirmSubmit"
  shows "commands_sent (dash_handler env (now, ev) s) = commands_sent s"
  using assms
  by (cases ev)
     (auto simp: copyRawJSON_def card_click_def edit_input_def handleVariableInputChange_def Let_def
        apply_click_def in_pane_def split: detail_pane.split option.split task.splits intro!: commands_answer)

section \<open>Properties\<close>

text \<open>C7: After any events, the grid is drawn from the current devices and selection, the toast is
  visible exactly while its one timer runs, the confirmation dialog is open exactly when a destructive
  command is pending, and the detail view shows the state's detail with its latest status and metrics.\<close>

theorem dashboard_view_consistent:
  assumes "dash_reachable env s"
  shows "ups_grid s \<in> {None, Some (ups_grid_html (selectedUPS s) (upses s))} \<and>
    toast_timeouts s = (if toast_visible s then [the (toastTimer s)] else []) \<and>
    confirm_open s = (pendingCommand s \<noteq> None) \<and>
    (case pendingCommand s of None \<Rightarrow> True | Some c \<Rightarrow> uc_destructive c) \<and>
    (case pane s of EmptyPane h \<Rightarrow> True
     | DetailPane sd \<Rightarrow>
         (\<exists>d. detail s = Some d \<and> same_device (sd_detail sd) d \<and> sd_status sd = ud_status d \<and>
            sd_values sd = detail_values (ud_metrics d) \<and>
            pane_accent s = Some (accentClassForStatus (Some (ud_status d)))))"
  using reachable_inv [OF assms]
  by (auto simp: dash_inv_def toast_ok_def grid_ok_def confirm_ok_def displays_def
      split: option.splits detail_pane.split if_splits)

text \<open>The command behind the button with a name, as the detail view that is drawn lists it.\<close>

definition shown_command :: "dash \<Rightarrow> string \<Rightarrow> ups_command option" where
  "shown_command s name =
     (case pane s of
        EmptyPane h \<Rightarrow> None
      | DetailPane sd \<Rightarrow> Option.bind (ud_commands (sd_detail sd)) (find (\<lambda>c. uc_name c = name)))"

text \<open>C1: A command leaves the page for one of two reasons only: a click on a button of the detail view
  whose command is listed there as not destructive, or the confirmation of the pending destructive one in
  the open dialog.  It goes to the selected UPS, and one event sends one command at most.\<close>

theorem commands_need_click_or_confirmation:
  assumes "dash_reachable env s"
    and "commands_sent (dash_handler env (now, ev) s) \<noteq> commands_sent s"
  shows "\<exists>c. commands_sent (dash_handler env (now, ev) s) =
      commands_sent s @ [command_request (selectedUPS s) c] \<and>
    (ev = CommandClick (uc_name c) \<and> shown_command s (uc_name c) = Some c \<and> \<not> uc_destructive c \<or>
     ev = ConfirmSubmit \<and> uc_destructive c \<and> pendingCommand s = Some c \<and> confirm_open s)"
proof (cases ev)
  case (CommandClick n)
  with assms(2) obtain sd cs c where p: "pane s = DetailPane sd" "ud_commands (sd_detail sd) = Some cs"
    "find (\<lambda>c. uc_name c = n) cs = Some c" "\<not> uc_destructive c"
    by (auto simp: command_click_def split: detail_pane.splits option.splits if_splits)
  then have "uc_name c = n" by (auto simp: find_Some_iff)
  with p have "shown_command s (uc_name c) = Some c" by (simp add: shown_command_def)
  with p \<open>uc_name c = n\<close> assms(2) CommandClick show ?thesis
    by (auto simp: command_click_def split: if_splits)
next
  case ConfirmSubmit
  then obtain c where c: "pendingCommand s = Some c"
    using assms(2) by (auto simp: confirm_submit_def split: option.splits)
  moreover have "confirm_ok (confirm_open s) (pendingCommand s)"
    using reachable_inv [OF assms(1)] by (simp add: dash_inv_def)
  moreover have "selectedUPS (closeConfirmModal s) = selectedUPS s"
    by (simp add: closeConfirmModal_def)
  ultimately show ?thesis using ConfirmSubmit assms(2)
    by (auto simp: confirm_submit_def confirm_ok_def split: if_splits)
qed (use assms(2) commands_other in blast)+

end
