(* ===== verification/Agent_Sessions.thy ===== *)
theory Agent_Sessions
  imports Agent_Safety
begin

text \<open>
  Longer stretches of the node dashboard: applying the changed settings one after the other, live
  updates during an edit, and which device the detail view belongs to when the answers to
  \<open>loadUPSDetail\<close> come in the order of the requests, and when they do not.
\<close>

section \<open>Requests in flight\<close>

definition pending_loads :: "(nat \<times> task) list \<Rightarrow> (nat \<times> string option) list" where
  "pending_loads w =
     concat (map (\<lambda>(i, t). case t of GetDetail n b k \<Rightarrow> [(i, n)] | _ \<Rightarrow> []) w)"

definition ids_ok :: "dash \<Rightarrow> bool" where
  "ids_ok s \<longleftrightarrow> distinct (map fst (waiting s)) \<and> list_all (\<lambda>(i, t). i < next_request s) (waiting s)"

lemma pending_loads_simps [simp]:
  "pending_loads [] = []"
  "pending_loads (w @ w2) = pending_loads w @ pending_loads w2"
  "pending_loads [(i, GetDetail n b k)] = [(i, n)]"
  "pending_loads [(i, GetUpses p q)] = []" "pending_loads [(i, PostCommand)] = []"
  "pending_loads [(i, SetVariable v vs x y)] = []" "pending_loads [(i, PatchMetadata)] = []"
  "pending_loads [(i, GetHistory h)] = []"
  by (simp_all add: pending_loads_def)

lemma pending_loads_mem: "(i, n) \<in> set (pending_loads w) \<longleftrightarrow> (\<exists>b k. (i, GetDetail n b k) \<in> set w)"
  by (force simp: pending_loads_def split: task.splits)

lemma pending_loads_distinct: "distinct (map fst w) \<Longrightarrow> distinct (map fst (pending_loads w))"
proof (induction w)
  case (Cons x w)
  have "pending_loads (x # w) = pending_loads [x] @ pending_loads w"
    by (simp add: pending_loads_def)
  moreover have "fst ` set (pending_loads w) \<subseteq> fst ` set w"
    by (force simp: pending_loads_mem)
  moreover have "map fst (pending_loads [x]) = [] \<or> map fst (pending_loads [x]) = [fst x]"
    by (cases x) (simp add: pending_loads_def split: task.split)
  ultimately show ?case using Cons by (auto 4 4 intro: rev_image_eqI)
qed simp

lemma pending_loads_filter:
  "pending_loads (filter (\<lambda>(j, t). j \<noteq> i) w) = filter (\<lambda>(j, n). j \<noteq> i) (pending_loads w)"
  unfolding pending_loads_def by (induction w) (auto split: task.split)

lemma renderUPSGrid_fields [simp]:
  "selectedUPS (renderUPSGrid s) = selectedUPS s" "upses (renderUPSGrid s) = upses s"
  "detail (renderUPSGrid s) = detail s" "pane (renderUPSGrid s) = pane s"
  "waiting (renderUPSGrid s) = waiting s" "dirtyVariables (renderUPSGrid s) = dirtyVariables s"
  by (simp_all add: renderUPSGrid_def)

text \<open>What decides whether the detail view belongs to the selected device.\<close>

definition shown_name :: "detail_pane \<Rightarrow> string option" where
  "shown_name p = (case p of EmptyPane h \<Rightarrow> None | DetailPane sd \<Rightarrow> Some (ud_name (sd_detail sd)))"

lemma shown_name_simps [simp]:
  "shown_name (EmptyPane h) = None" "shown_name (DetailPane sd) = Some (ud_name (sd_detail sd))"
  by (simp_all add: shown_name_def)

definition view :: "dash \<Rightarrow> string option \<times> string option \<times> (nat \<times> string option) list" where
  "view s = (selectedUPS s, shown_name (pane s), pending_loads (waiting s))"

fun view_ok :: "string option \<times> string option \<times> (nat \<times> string option) list \<Rightarrow> bool" where
  "view_ok (selected, shown, loads) \<longleftrightarrow>
     (truthy_name selected \<longrightarrow>
        (if loads = [] then shown = None \<or> shown = selected else snd (last loads) = selected))"

definition quiet :: "task \<Rightarrow> bool" where
  "quiet t = (case t of GetDetail n b k \<Rightarrow> False | _ \<Rightarrow> True)"

lemma quiet_simps [simp]:
  "\<not> quiet (GetDetail n b k)" "quiet (GetUpses p q)" "quiet PostCommand" "quiet (SetVariable v vs x y)"
  "quiet PatchMetadata" "quiet (GetHistory h)"
  by (simp_all add: quiet_def)

lemma ids_send [simp]: "ids_ok s \<Longrightarrow> ids_ok (send q t s)"
  by (auto simp: ids_ok_def send_def list_all_iff)

lemma view_send [simp]: "quiet t \<Longrightarrow> view (send q t s) = view s"
  by (cases t) (simp_all add: view_def send_def)

lemma ids_net: "net s = net t \<Longrightarrow> ids_ok s = ids_ok t"
  by (simp add: net_def ids_ok_def)

lemma view_frame [simp]:
  "view (showToast m e s) = view s"
  "view (toast_timeout t s) = view s"
  "view (s\<lparr>dirtyVariables := ds\<rparr>) = view s"
  "view (s\<lparr>pane_accent := a\<rparr>) = view s"
  "view (s\<lparr>detail := d\<rparr>) = view s"
  "view (s\<lparr>metadata_modal := f\<rparr>) = view s"
  "view (updateSettingsApplyButton s) = view s"
  "view (closeConfirmModal s) = view s"
  "view (openConfirmModal c s) = view s"
  "view (openRawJsonModal dd s) = view s"
  "view (closeRawJsonModal s) = view s"
  "view (openUPSMetadataModal dd s) = view s"
  "view (closeUPSMetadataModal s) = view s"
  "view (disable_apply s) = view s"
  "view (renderMetricDetailChart env now s) = view s"
  "view (clear_refresh_timer s) = view s"
  "view (set_refresh_interval s) = view s"
  "view (setHealthStreamStatus b s) = view s"
  "view (patch_pane m' s) = view s"
  "view (renderUPSGrid s) = view s"
  by (auto simp: view_def showToast_def toast_timeout_def
      updateSettingsApplyButton_def closeConfirmModal_def openConfirmModal_def
      openRawJsonModal_def closeRawJsonModal_def openUPSMetadataModal_def closeUPSMetadataModal_def
      disable_apply_def renderMetricDetailChart_def clear_refresh_timer_def set_refresh_interval_def
      setHealthStreamStatus_def patch_pane_def renderUPSGrid_def Let_def
      split: detail_pane.split option.split)

lemma ids_frame [simp]:
  "ids_ok (showToast m e s) = ids_ok s"
  "ids_ok (toast_timeout t s) = ids_ok s"
  "ids_ok (renderEmptyDetail mo s) = ids_ok s"
  "ids_ok (renderUPSGrid s) = ids_ok s"
  "ids_ok (s\<lparr>selectedUPS := n\<rparr>) = ids_ok s"
  "ids_ok (s\<lparr>detail := d\<rparr>) = ids_ok s"
  "ids_ok (s\<lparr>upses := us\<rparr>) = ids_ok s"
  "ids_ok (s\<lparr>dirtyVariables := ds\<rparr>) = ids_ok s"
  "ids_ok (s\<lparr>pane := p\<rparr>) = ids_ok s"
  "ids_ok (s\<lparr>pane_accent := a\<rparr>) = ids_ok s"
  "ids_ok (s\<lparr>metadata_modal := f\<rparr>) = ids_ok s"
  "ids_ok (updateSettingsApplyButton s) = ids_ok s"
  "ids_ok (closeConfirmModal s) = ids_ok s"
  "ids_ok (openConfirmModal c s) = ids_ok s"
  "ids_ok (openRawJsonModal dd s) = ids_ok s"
  "ids_ok (closeRawJsonModal s) = ids_ok s"
  "ids_ok (openUPSMetadataModal dd s) = ids_ok s"
  "ids_ok (closeUPSMetadataModal s) = ids_ok s"
  "ids_ok (disable_apply s) = ids_ok s"
  "ids_ok (renderMetricDetailChart env now s) = ids_ok s"
  "ids_ok (clear_refresh_timer s) = ids_ok s"
  "ids_ok (set_refresh_interval s) = ids_ok s"
  "ids_ok (setHealthStreamStatus b s) = ids_ok s"
  "ids_ok (patch_pane m' s) = ids_ok s"
  by (rule ids_net, simp)+

lemma plain_fields [simp]:
  "view (s\<lparr>metricDetailWindow := w, active_window := v\<rparr>) = view s"
  "view (s\<lparr>metricDetailLabel := l, metric_title := t, metric_open := b\<rparr>) = view s"
  "view (s\<lparr>metric_open := b, metricDetailLabel := l\<rparr>) = view s"
  "view (s\<lparr>metricHistoryLong := hl, metricHistoryLongFetchedAt := n\<rparr>) = view s"
  "view (s\<lparr>version_badge := g', metrics_grid := g\<rparr>) = view s"
  "view (s\<lparr>metricHistory := h\<rparr>) = view s" "view (s\<lparr>health := y\<rparr>) = view s"
  "view (s\<lparr>upses := us\<rparr>) = view s"
  "ids_ok (s\<lparr>metricDetailWindow := w, active_window := v\<rparr>) = ids_ok s"
  "ids_ok (s\<lparr>metricDetailLabel := l, metric_title := t, metric_open := b\<rparr>) = ids_ok s"
  "ids_ok (s\<lparr>metric_open := b, metricDetailLabel := l\<rparr>) = ids_ok s"
  "ids_ok (s\<lparr>metricHistoryLong := hl, metricHistoryLongFetchedAt := n\<rparr>) = ids_ok s"
  "ids_ok (s\<lparr>version_badge := g', metrics_grid := g\<rparr>) = ids_ok s"
  "ids_ok (s\<lparr>metricHistory := h\<rparr>) = ids_ok s" "ids_ok (s\<lparr>health := y\<rparr>) = ids_ok s"
  by (simp_all add: view_def ids_ok_def)

section \<open>The view belongs to the selected device when answers come in order\<close>

definition loads_ok :: "dash \<Rightarrow> bool" where
  "loads_ok s \<longleftrightarrow> ids_ok s \<and> view_ok (view s)"

lemma loads_ok_load [simp]: "ids_ok s \<Longrightarrow> loads_ok (loadUPSDetail n b k s)"
  by (simp add: loads_ok_def loadUPSDetail_def) (simp add: view_def send_def)

lemma loads_ok_frame: "view s = view t \<Longrightarrow> ids_ok s = ids_ok t \<Longrightarrow> loads_ok s = loads_ok t"
  by (simp add: loads_ok_def)

lemma view_renderEmpty: "view (renderEmptyDetail m s) = (fst (view s), None, snd (snd (view s)))"
  by (simp add: view_def renderEmptyDetail_def shown_name_def)

lemma loads_ok_empty [simp]: "loads_ok s \<Longrightarrow> loads_ok (renderEmptyDetail m s)"
  by (cases "view s") (simp add: loads_ok_def view_renderEmpty)

lemma loads_after_load [simp]: "loads_ok (after_load_steps k s) = loads_ok s"
  by (simp add: after_load_steps_def loads_ok_def Let_def split: after_load.split)

lemma loads_apply_loop: "loads_ok s \<Longrightarrow> loads_ok (apply_loop ns a b s)"
proof (induction ns arbitrary: s)
  case Nil
  then show ?case by (simp add: Let_def applied_toast_def loads_ok_def [of s])
next
  case (Cons n ns)
  have "loads_ok (s\<lparr>dirtyVariables := removeAll n (dirtyVariables s)\<rparr>)"
    using Cons.prems by (simp add: loads_ok_def)
  from Cons.IH [OF this] Cons.prems show ?case
    by (simp add: setWritableVariable_def loads_ok_def split: option.split)
qed

lemma loads_setvar_reply: "loads_ok s \<Longrightarrow> loads_ok (setvar_reply n ns a b r s)"
proof -
  assume s: "loads_ok s"
  have "loads_ok (showToast m True s)" for m using s by (simp add: loads_ok_def)
  moreover have "loads_ok (s\<lparr>dirtyVariables := ds\<rparr>)" for ds using s by (simp add: loads_ok_def)
  ultimately show ?thesis by (simp add: setvar_reply_def loads_apply_loop split: sum.split)
qed

lemma loads_upses_reply:
  assumes "loads_ok s"
  shows "loads_ok (upses_reply p b r s)"
proof (cases "fetchJSON r")
  case (Inr us)
  have i: "ids_ok s" using assms by (simp add: loads_ok_def)
  have "loads_ok (renderEmptyDetail None (renderUPSGrid (s\<lparr>upses := us', selectedUPS := n\<rparr>)))"
    if "\<not> truthy_name n" for n us'
    using that i by (simp add: loads_ok_def view_renderEmpty) (simp add: view_def)
  moreover have "loads_ok (renderEmptyDetail None (renderUPSGrid (s\<lparr>upses := us'\<rparr>)))" for us'
    using assms by (simp add: loads_ok_def view_renderEmpty) (simp add: view_def)
  moreover have "loads_ok (showToast m True s)" for m using assms by (simp add: loads_ok_def)
  ultimately show ?thesis using Inr assms i
    by (auto simp: upses_reply_def Let_def split: option.split)
qed (simp add: upses_reply_def assms loads_ok_def [of "showToast _ _ _"], use assms in \<open>simp add: loads_ok_def\<close>)

lemma loads_command_reply: "loads_ok s \<Longrightarrow> loads_ok (command_reply r s)"
  by (auto simp: command_reply_def Let_def loads_ok_def [of s] split: sum.split option.split)
     (simp_all add: loads_ok_def)

lemma loads_metadata_reply: "loads_ok s \<Longrightarrow> loads_ok (metadata_reply r s)"
  by (auto simp: metadata_reply_def Let_def loads_ok_def [of s] split: sum.split)
     (simp_all add: loads_ok_def)

lemma loads_simple:
  assumes "loads_ok s"
  shows "loads_ok (runCommand c s)" "loads_ok (saveUPSMetadata s)" "loads_ok (interval_tick t s)"
    "loads_ok (selectMetricDetailWindow env now w s)" "loads_ok (openMetricDetailModal env now l s)"
    "loads_ok (closeMetricDetailModal s)" "loads_ok (history_reply env now k r s)"
    "loads_ok (renderHealth env now s)" "loads_ok (updateDetailMetrics m s)"
    "loads_ok (edit_input n x s)" "loads_ok (command_click n s)" "loads_ok (confirm_submit s)"
    "loads_ok (apply_click s)"
proof -
  have v: "ids_ok s" "view_ok (view s)" using assms by (simp_all add: loads_ok_def)
  have c: "loads_ok (runCommand c u)" if "loads_ok u" for c u
    using that by (simp add: runCommand_def loads_ok_def)
  show "loads_ok (runCommand c s)" using assms by (rule c)
  show "loads_ok (saveUPSMetadata s)" using v by (simp add: saveUPSMetadata_def loads_ok_def Let_def)
  show "loads_ok (interval_tick t s)"
    using v by (simp add: interval_tick_def refreshMetricHistoryLong_def loads_ok_def)
  have w: "loads_ok (selectMetricDetailWindow env now w u)" if "loads_ok u" for w u
    using that by (simp add: selectMetricDetailWindow_def refreshMetricHistoryLong_def loads_ok_def Let_def)
  show "loads_ok (selectMetricDetailWindow env now w s)" using assms by (rule w)
  show "loads_ok (openMetricDetailModal env now l s)"
  proof -
    have "loads_ok (s\<lparr>metricDetailLabel := Some l, metric_title := l, metric_open := True\<rparr>)"
      using v by (simp add: loads_ok_def)
    with assms show ?thesis by (simp add: openMetricDetailModal_def w)
  qed
  show "loads_ok (closeMetricDetailModal s)" using v by (simp add: closeMetricDetailModal_def loads_ok_def)
  show "loads_ok (history_reply env now k r s)"
    using v by (simp add: history_reply_def loads_ok_def Let_def
        split: sum.split option.split history_use.split)
  show "loads_ok (renderHealth env now s)"
    using v by (simp add: renderHealth_def loads_ok_def Let_def split: option.split)
  show "loads_ok (updateDetailMetrics m s)"
    using v by (simp add: updateDetailMetrics_def loads_ok_def split: option.split)
  have p: "view (s\<lparr>pane := DetailPane sd'\<rparr>) = view s"
    if "pane s = DetailPane sd" "sd_detail sd' = sd_detail sd" for sd sd'
    using that by (simp add: view_def shown_name_def)
  show "loads_ok (edit_input n x s)"
    using v by (auto simp: edit_input_def handleVariableInputChange_def Let_def loads_ok_def p
        split: detail_pane.split option.split)
  show "loads_ok (command_click n s)"
    using assms v by (auto simp: command_click_def c loads_ok_def [of "openConfirmModal _ _"]
        split: detail_pane.split option.split)
  have "loads_ok (closeConfirmModal s)" using v by (simp add: loads_ok_def)
  then show "loads_ok (confirm_submit s)"
    using assms by (simp add: confirm_submit_def c split: option.split)
  have "loads_ok (disable_apply s)" using v by (simp add: loads_ok_def)
  then show "loads_ok (apply_click s)"
    using assms by (simp add: apply_click_def applyDirtyVariables_def loads_apply_loop split: detail_pane.split)
qed

lemma has_ups_Nil [simp]: "\<not> has_ups n []"
  by (simp add: has_ups_def)

lemma loads_updateLive:
  assumes "loads_ok s"
  shows "loads_ok (updateLiveUPSData us s)"
proof -
  let ?g = "renderUPSGrid (s\<lparr>upses := us\<rparr>)"
  have g: "loads_ok ?g" using assms by (simp add: loads_ok_def)
  have "loads_ok (renderEmptyDetail None (?g\<lparr>selectedUPS := None, detail := None\<rparr>))"
    using g by (simp add: loads_ok_def view_renderEmpty) (simp add: view_def truthy_name_def)
  with g show ?thesis
    by (auto simp: updateLiveUPSData_def Let_def loads_simple loads_ok_def [of ?g] split: option.split)
qed

section \<open>Answers in order\<close>

lemma loads_answer:
  assumes "loads_ok s" and "\<And>t f u. k t = Some f \<Longrightarrow> quiet t \<and> (loads_ok u \<longrightarrow> loads_ok (f u))"
  shows "loads_ok (answer i k s)"
proof (cases "Option.bind (map_of (waiting s) i) k")
  case (Some f)
  then obtain t where t: "map_of (waiting s) i = Some t" "k t = Some f"
    by (auto simp: bind_eq_Some_conv)
  have "distinct (map fst (waiting s))" using assms(1) by (simp add: loads_ok_def ids_ok_def)
  then have "map_of (waiting s) i = Some u" if "(i, u) \<in> set (waiting s)" for u
    using that by (rule map_of_is_SomeI)
  then have "(i, n) \<notin> set (pending_loads (waiting s))" for n
    using t(1) assms(2) [OF t(2)] by (fastforce simp: pending_loads_mem)
  then have "filter (\<lambda>(j, n). j \<noteq> i) (pending_loads (waiting s)) = pending_loads (waiting s)"
    by (auto simp: filter_id_conv)
  then have "view (s\<lparr>waiting := filter (\<lambda>(j, t). j \<noteq> i) (waiting s)\<rparr>) = view s"
    by (simp add: view_def pending_loads_filter)
  moreover have "ids_ok (s\<lparr>waiting := filter (\<lambda>(j, t). j \<noteq> i) (waiting s)\<rparr>)"
    using assms(1) by (auto simp: loads_ok_def ids_ok_def list_all_iff distinct_map_filter)
  ultimately have "loads_ok (s\<lparr>waiting := filter (\<lambda>(j, t). j \<noteq> i) (waiting s)\<rparr>)"
    using assms(1) by (simp add: loads_ok_def)
  then show ?thesis using Some assms(2) [OF t(2)] by (simp add: answer_def)
qed (use assms(1) in \<open>simp add: answer_def\<close>)

text \<open>
  An answer to \<open>loadUPSDetail\<close> is in order when it answers the oldest load and is the detail of the
  device that was asked for.
\<close>

definition in_order :: "dash \<Rightarrow> dash_event \<Rightarrow> bool" where
  "in_order s ev =
     (case ev of
        DetailReply i r \<Rightarrow>
          (case pending_loads (waiting s) of
             [] \<Rightarrow> True
           | (j, n) # _ \<Rightarrow>
               i = j \<and> (case fetchJSON r of Inr (Some d) \<Rightarrow> Some (ud_name d) = n | _ \<Rightarrow> True))
      | _ \<Rightarrow> True)"

lemma load_reply_view:
  "view (load_reply env n b k r s) =
     (selectedUPS s,
      (case fetchJSON r of
         Inr (Some d) \<Rightarrow> if isl (detail_html (collate env) d) then None else Some (ud_name d)
       | _ \<Rightarrow> None),
      pending_loads (waiting s))"
  by (simp add: load_reply_def renderDetail_def load_failed_def after_load_steps_def Let_def
      view_renderEmpty split: sum.split option.split after_load.split)
     (simp add: view_def show_detail_def)

lemma ids_load_reply [simp]: "ids_ok s \<Longrightarrow> ids_ok (load_reply env n b k r s)"
  by (simp add: load_reply_def renderDetail_def load_failed_def after_load_steps_def Let_def
      split: sum.split option.split after_load.split)

lemma loads_detail_reply:
  assumes s: "loads_ok s" and o: "in_order s (DetailReply i r)"
  shows "loads_ok (dash_handler env (now, DetailReply i r) s)"
proof (cases "map_of (waiting s) i")
  case (Some t)
  show ?thesis
  proof (cases t)
    case (GetDetail n b k)
    let ?w = "filter (\<lambda>(j, t). j \<noteq> i) (waiting s)"
    from Some GetDetail have mem: "(i, n) \<in> set (pending_loads (waiting s))"
      by (auto simp: pending_loads_mem dest: map_of_SomeD)
    then obtain m ls where ls: "pending_loads (waiting s) = (i, m) # ls"
      and nm: "case fetchJSON r of Inr (Some d) \<Rightarrow> Some (ud_name d) = m | _ \<Rightarrow> True"
      using o by (cases "pending_loads (waiting s)") (auto simp: in_order_def split: prod.splits)
    have d: "distinct (map fst (waiting s))" using s by (simp add: loads_ok_def ids_ok_def)
    have "distinct (map fst (pending_loads (waiting s)))"
      using d by (rule pending_loads_distinct)
    with ls have rest: "pending_loads ?w = ls"
      by (force simp: pending_loads_filter filter_id_conv)
    have ids: "ids_ok (s\<lparr>waiting := ?w\<rparr>)"
      using s by (auto simp: loads_ok_def ids_ok_def list_all_iff distinct_map_filter)
    have "view_ok (view s)" using s by (simp add: loads_ok_def)
    then have "truthy_name (selectedUPS s) \<longrightarrow>
        (if ls = [] then m = selectedUPS s else snd (last ls) = selectedUPS s)"
      by (auto simp: view_def ls)
    then have "view_ok (view (load_reply env n b k r (s\<lparr>waiting := ?w\<rparr>)))"
      using nm unfolding load_reply_view by (auto simp: rest split: sum.splits option.splits)
    then show ?thesis using Some GetDetail ids by (simp add: answer_def loads_ok_def)
  qed (use Some s in \<open>simp_all add: answer_def\<close>)
qed (use s in \<open>simp add: answer_def\<close>)

lemma loads_handler:
  assumes s: "loads_ok s" and o: "in_order s ev"
  shows "loads_ok (dash_handler env (now, ev) s)"
proof -
  have v: "ids_ok s" "view_ok (view s)" using s by (simp_all add: loads_ok_def)
  have u: "loads_ok u" if "view u = view s" "ids_ok u = ids_ok s" for u
    using that v by (simp add: loads_ok_def)
  show ?thesis
  proof (cases ev)
    case (DetailReply i r)
    with s o show ?thesis by (simp only: loads_detail_reply)
  next
    case (StreamHealth h)
    have "loads_ok (setHealthStreamStatus True (s\<lparr>health := x\<rparr>))" for x by (rule u) simp_all
    with s StreamHealth show ?thesis
      by (simp add: stream_health_def loads_simple loads_updateLive split: option.split)
  next
    case (StreamHistory h)
    have "loads_ok (s\<lparr>metricHistory := x\<rparr>)" for x by (rule u) simp_all
    with s StreamHistory show ?thesis by (simp add: stream_history_def loads_simple split: option.split)
  qed (auto simp: s v u copyRawJSON_def loads_simple card_click_def in_pane_def loads_upses_reply loads_command_reply
      loads_setvar_reply loads_metadata_reply
      split: detail_pane.split task.splits intro!: loads_answer)
qed

inductive orderly :: "browser \<Rightarrow> dash \<Rightarrow> bool" for env where
  start: "orderly env (start_dash b)"
| step: "orderly env s \<Longrightarrow> in_order s ev \<Longrightarrow> orderly env (dash_handler env (now, ev) s)"

lemma orderly_loads_ok: "orderly env s \<Longrightarrow> loads_ok s"
proof (induction rule: orderly.induct)
  case (start b)
  show ?case
    by (simp add: start_dash_def Let_def loads_ok_def refreshAll_def)
       (simp add: renderEmptyDetail_def initial_dash_def ids_ok_def view_def truthy_name_def send_def)
next
  case (step s ev now)
  then show ?case by (simp only: loads_handler)
qed

lemma orderly_reachable: "orderly env s \<Longrightarrow> dash_reachable env s"
  by (induction rule: orderly.induct) (auto intro: dash_reachable.intros dash_step.event)

text \<open>C3: When the answers to the detail requests come in the order of the requests, and each is the
  detail of the device asked for, then once no such request is in flight the detail view belongs to
  the selected device, so that its commands and settings go to the device they were read from.\<close>

theorem view_matches_selection_in_order:
  assumes "orderly env s" and "pending_loads (waiting s) = []"
    and "truthy_name (selectedUPS s)" and "pane s = DetailPane sd"
  shows "selectedUPS s = Some (ud_name (sd_detail sd))"
  using orderly_loads_ok [OF assms(1)] assms(2-4) by (auto simp: loads_ok_def view_def)

section \<open>Applying the changed settings\<close>

lemma ids_ops:
  assumes "ids_ok s"
  shows "ids_ok (loadUPSDetail n b k s)" "ids_ok (runCommand c s)" "ids_ok (saveUPSMetadata s)"
    "ids_ok (interval_tick t s)" "ids_ok (selectMetricDetailWindow env now w s)"
    "ids_ok (openMetricDetailModal env now l s)" "ids_ok (closeMetricDetailModal s)"
    "ids_ok (after_load_steps k s)" "ids_ok (renderHealth env now s)" "ids_ok (updateDetailMetrics m s)"
    "ids_ok (edit_input nm x s)"
  using assms
  by (simp_all add: loadUPSDetail_def runCommand_def saveUPSMetadata_def interval_tick_def
      selectMetricDetailWindow_def openMetricDetailModal_def closeMetricDetailModal_def
      refreshMetricHistoryLong_def after_load_steps_def renderHealth_def updateDetailMetrics_def
      edit_input_def handleVariableInputChange_def Let_def
      split: after_load.split option.split detail_pane.split)

lemma ids_apply_loop: "ids_ok s \<Longrightarrow> ids_ok (apply_loop ns a b s)"
  by (induction ns arbitrary: s)
     (simp_all add: Let_def applied_toast_def ids_ops setWritableVariable_def split: option.split)

lemma ids_replies:
  assumes "ids_ok s"
  shows "ids_ok (upses_reply p q r1 s)" "ids_ok (command_reply r2 s)" "ids_ok (setvar_reply n ns a b r3 s)"
    "ids_ok (metadata_reply r4 s)" "ids_ok (history_reply env now h r5 s)"
    "ids_ok (updateLiveUPSData us s)" "ids_ok (apply_click s)" "ids_ok (command_click n s)"
    "ids_ok (confirm_submit s)" "ids_ok (card_click n pr s)"
  using assms
  by (simp_all add: upses_reply_def command_reply_def setvar_reply_def metadata_reply_def
      history_reply_def updateLiveUPSData_def apply_click_def applyDirtyVariables_def command_click_def
      confirm_submit_def card_click_def ids_ops ids_apply_loop Let_def
      split: sum.split option.split history_use.split detail_pane.split)

lemma ids_answer:
  assumes "ids_ok s" and "\<And>t f u. k t = Some f \<Longrightarrow> ids_ok u \<Longrightarrow> ids_ok (f u)"
  shows "ids_ok (answer i k s)"
proof -
  have "ids_ok (s\<lparr>waiting := filter (\<lambda>(j, t). j \<noteq> i) (waiting s)\<rparr>)"
    using assms(1) by (auto simp: ids_ok_def list_all_iff distinct_map_filter)
  with assms show ?thesis by (auto simp: answer_def split: option.split bind_splits)
qed

lemma ids_handler: "ids_ok s \<Longrightarrow> ids_ok (dash_handler env e s)"
proof -
  assume s: "ids_ok s"
  obtain now ev where e: "e = (now, ev)" by fastforce
  show ?thesis unfolding e
    by (cases ev)
       (auto simp: s copyRawJSON_def ids_ops ids_replies in_pane_def stream_history_def stream_health_def
        split: detail_pane.split option.split task.splits intro!: ids_answer)
qed

lemma ids_start: "ids_ok (start_dash b)"
  by (simp add: start_dash_def Let_def refreshAll_def)
     (simp add: ids_ok_def initial_dash_def renderEmptyDetail_def send_def)

interpretation requests: event_system "\<lambda>s. \<exists>b. s = start_dash b" "dash_handler env" ids_ok
  for env
  by unfold_locales (auto simp: ids_start ids_handler)

lemma reachable_ids: "dash_reachable env s \<Longrightarrow> ids_ok s"
  using reachable_dash_run requests.inv_reached by blast

definition setvar_request :: "string option \<Rightarrow> string \<Rightarrow> string \<Rightarrow> request" where
  "setvar_request selected name value =
     SEND ''POST'' (ups_url selected ''/setvar'') [(''var'', TextField name), (''value'', TextField value)]"

definition edited_value :: "shown_detail \<Rightarrow> string \<Rightarrow> string" where
  "edited_value sd name = trim (case map_of (sd_edits sd) name of None \<Rightarrow> [] | Some v \<Rightarrow> v)"

definition setvar_answers :: "jsnum \<Rightarrow> nat \<Rightarrow> unit reply list \<Rightarrow> (jsnum \<times> dash_event) list" where
  "setvar_answers now i rs = map (\<lambda>(j, r). (now, SetvarReply j r)) (zip [i..<i + length rs] rs)"

lemma setvar_answers_Cons:
  "setvar_answers now i (r # rs) = (now, SetvarReply i r) # setvar_answers now (Suc i) rs"
  by (simp add: setvar_answers_def upt_conv_Cons del: upt_Suc)

lemma same_device_settings: "same_device d e \<Longrightarrow> settings_of e = settings_of d"
proof -
  assume "same_device d e"
  then have "ud_writable e = ud_writable (d\<lparr>ud_metrics := ud_metrics e, ud_status := ud_status e\<rparr>)"
    by (simp add: same_device_def)
  then show ?thesis by (simp add: settings_of_def)
qed

lemma edited_setting:
  assumes "edited_differs sd n" and "same_device (sd_detail sd) d"
  obtains v val vs where "find_setting n (sd_detail sd) = Some v" "find_setting n d = Some v" "wv_name v = n"
    "map_of (sd_edits sd) n = Some val" "trim val \<noteq> or_opt (wv_current_value v) []"
    "ud_writable d = Some vs"
proof -
  from assms(1) obtain v val where v: "find_setting n (sd_detail sd) = Some v"
    "map_of (sd_edits sd) n = Some val" "trim val \<noteq> or_opt (wv_current_value v) []"
    by (auto simp: edited_differs_def split: option.splits)
  then have d: "find_setting n d = Some v"
    using same_device_settings [OF assms(2)] by (simp add: find_setting_def)
  then have "settings_of d \<noteq> []" by (auto simp: find_setting_def)
  then obtain vs where "ud_writable d = Some vs" by (auto simp: settings_of_def split: option.splits)
  with v d find_setting_name [OF d] show thesis by (intro that)
qed

definition remaining :: "string list \<Rightarrow> unit reply list \<Rightarrow> string list \<Rightarrow> string list" where
  "remaining ns rs dirty =
     filter (\<lambda>n. n \<notin> set (map fst (filter (\<lambda>(n, r). \<not> isl (fetchJSON r)) (zip ns rs)))) dirty"

lemma dirty_load_reply:
  "fetchJSON r = Inr (Some d) \<Longrightarrow> dirtyVariables (load_reply env n b Done r s) = []"
  by (simp add: load_reply_def renderDetail_def load_failed_def renderEmptyDetail_def showToast_def
      updateSettingsApplyButton_def after_load_steps_def Let_def split: sum.split detail_pane.split)

lemma apply_loop_run:
  assumes "ids_ok s" "pane s = DetailPane sd" "detail s = Some d" "same_device (sd_detail sd) d"
    and "list_all (edited_differs sd) ns" "length rs = length ns"
  shows "sent (fold (dash_handler env) (setvar_answers now (next_request s) rs) (apply_loop ns a b s)) =
      sent s @ map (\<lambda>n. setvar_request (selectedUPS s) n (edited_value sd n)) ns @
        [GET (ups_url (selectedUPS s) [])] \<and>
    dirtyVariables (fold (dash_handler env) (setvar_answers now (next_request s) rs) (apply_loop ns a b s)) =
      remaining ns rs (dirtyVariables s) \<and>
    map_of (waiting (fold (dash_handler env) (setvar_answers now (next_request s) rs) (apply_loop ns a b s)))
      (next_request s + length rs) = Some (GetDetail (selectedUPS s) True Done)"
  using assms
proof (induction ns arbitrary: s a b rs)
  case Nil
  then have "map_of (waiting s) (next_request s) = None"
    by (auto simp: ids_ok_def list_all_iff map_of_eq_None_iff)
  with Nil show ?case
    by (simp add: setvar_answers_def Let_def applied_toast_def loadUPSDetail_def send_def showToast_def
        renderUPSGrid_def remaining_def map_of_append map_add_def)
next
  case (Cons n ns)
  then obtain r rs' where rs: "rs = r # rs'" "length rs' = length ns" by (cases rs) auto
  from Cons.prems have n: "edited_differs sd n" "list_all (edited_differs sd) ns" by simp_all
  from edited_setting [OF n(1) Cons.prems(4)] obtain v val vs where
    v: "find_setting n (sd_detail sd) = Some v" "find_setting n d = Some v" "wv_name v = n"
      "map_of (sd_edits sd) n = Some val" "ud_writable d = Some vs" by blast
  define q where "q = setvar_request (selectedUPS s) n (edited_value sd n)"
  have loop: "apply_loop (n # ns) a b s = send q (SetVariable n ns a b) s"
    using v Cons.prems(2,3)
    by (simp add: control_value_def setWritableVariable_def q_def setvar_request_def edited_value_def)
  define u where "u = s\<lparr>sent := sent s @ [q], next_request := Suc (next_request s)\<rparr>"
  have u: "ids_ok u" "pane u = DetailPane sd" "detail u = Some d" "selectedUPS u = selectedUPS s"
    "dirtyVariables u = dirtyVariables s" "sent u = sent s @ [q]" "next_request u = Suc (next_request s)"
    using Cons.prems by (auto simp: u_def ids_ok_def list_all_iff)
  have fresh: "map_of (waiting s) (next_request s) = None"
    "filter (\<lambda>(j, t). j \<noteq> next_request s) (waiting s) = waiting s"
    using Cons.prems(1) by (auto simp: ids_ok_def list_all_iff map_of_eq_None_iff filter_id_conv)
  have "dash_handler env (now, SetvarReply (next_request s) r) (apply_loop (n # ns) a b s) =
      setvar_reply n ns a b r u"
    unfolding loop by (simp add: answer_def send_def fresh u_def map_add_def map_of_append)
  also have "\<dots> = (case fetchJSON r of
      Inl e \<Rightarrow> apply_loop ns a (b + 1) (showToast (n @ '': '' @ e) True u)
    | Inr x \<Rightarrow> apply_loop ns (a + 1) b (u\<lparr>dirtyVariables := removeAll n (dirtyVariables u)\<rparr>))"
    by (simp add: setvar_reply_def)
  finally have step: "fold (dash_handler env) (setvar_answers now (next_request s) rs) (apply_loop (n # ns) a b s) =
      fold (dash_handler env) (setvar_answers now (Suc (next_request s)) rs')
        (case fetchJSON r of
            Inl e \<Rightarrow> apply_loop ns a (b + 1) (showToast (n @ '': '' @ e) True u)
          | Inr x \<Rightarrow> apply_loop ns (a + 1) b (u\<lparr>dirtyVariables := removeAll n (dirtyVariables u)\<rparr>))"
    by (simp add: rs(1) setvar_answers_Cons)
  show ?case
  proof (cases "fetchJSON r")
    case (Inl e)
    define w where "w = showToast (n @ '': '' @ e) True u"
    have f: "ids_ok w" "pane w = DetailPane sd" "detail w = Some d" "selectedUPS w = selectedUPS s"
      "sent w = sent s @ [q]" "next_request w = Suc (next_request s)" "dirtyVariables w = dirtyVariables s"
      using u by (simp_all add: w_def showToast_def Let_def ids_ok_def)
    from Cons.IH [OF f(1-3) Cons.prems(4) n(2) rs(2), of a "b + 1"]
    show ?thesis unfolding step Inl sum.case w_def [symmetric] f(4-7)
      by (simp add: Inl q_def remaining_def rs(1))
  next
    case (Inr x)
    let ?u = "u\<lparr>dirtyVariables := removeAll n (dirtyVariables u)\<rparr>"
    have f: "ids_ok ?u" "pane ?u = DetailPane sd" "detail ?u = Some d" "selectedUPS ?u = selectedUPS s"
      "sent ?u = sent s @ [q]" "next_request ?u = Suc (next_request s)"
      "dirtyVariables ?u = removeAll n (dirtyVariables s)"
      using u by simp_all
    have "remaining ns rs' (removeAll n (dirtyVariables s)) = remaining (n # ns) rs (dirtyVariables s)"
      using Inr unfolding rs(1) remaining_def removeAll_filter_not_eq filter_filter
      by (intro filter_cong) auto
    with Cons.IH [OF f(1-3) Cons.prems(4) n(2) rs(2), of "a + 1" b]
    show ?thesis unfolding step by (simp add: Inr f(4-7) q_def rs(1))
  qed
qed

text \<open>C6: When nothing but the answers comes in between, applying the changed settings writes, one after
  the other and in the order they were changed, exactly the settings whose trimmed input differs from the
  value they were drawn with, to the selected device, and then reloads it.  Until the reload is answered
  the settings whose write failed stay marked as changed; the new detail is drawn without any mark.\<close>

theorem apply_writes_changed_settings:
  assumes "dash_reachable env s" and "pane s = DetailPane sd" and "settings_of (sd_detail sd) \<noteq> []"
    and "\<not> sd_apply_disabled sd" and "truthy_name (selectedUPS s)"
    and "length rs = length (dirtyVariables s)" and "dirtyVariables s \<noteq> []"
  shows "let t = fold (dash_handler env) (setvar_answers now (next_request s) rs)
              (dash_handler env (now, ApplyClick) s) in
    sent t = sent s @ map (\<lambda>n. setvar_request (selectedUPS s) n (edited_value sd n)) (dirtyVariables s) @
        [GET (ups_url (selectedUPS s) [])] \<and>
    list_all (edited_differs sd) (dirtyVariables s) \<and>
    dirtyVariables t = remaining (dirtyVariables s) rs (dirtyVariables s) \<and>
    (\<forall>r d. fetchJSON r = Inr (Some d) \<longrightarrow>
      dirtyVariables (dash_handler env (now, DetailReply (next_request s + length rs) r) t) = [])"
proof -
  have "pane_ok (pane s) (pane_accent s) (detail s) (dirtyVariables s)"
    using reachable_inv [OF assms(1)] by (simp add: dash_inv_def)
  then obtain d where d: "detail s = Some d" "same_device (sd_detail sd) d"
    and e: "list_all (edited_differs sd) (dirtyVariables s)"
    by (auto simp: assms(2) displays_def)
  let ?sd = "sd\<lparr>sd_apply_disabled := True\<rparr>"
  have a: "dash_handler env (now, ApplyClick) s = apply_loop (dirtyVariables s) 0 0 (disable_apply s)"
    using assms d by (simp add: apply_click_def applyDirtyVariables_def)
  have f: "ids_ok (disable_apply s)" "pane (disable_apply s) = DetailPane ?sd"
    "detail (disable_apply s) = Some d" "next_request (disable_apply s) = next_request s"
    "sent (disable_apply s) = sent s" "selectedUPS (disable_apply s) = selectedUPS s"
    "dirtyVariables (disable_apply s) = dirtyVariables s"
    using reachable_ids [OF assms(1)] d by (simp_all add: disable_apply_def assms(2))
  have "edited_value ?sd = edited_value sd" by (simp add: edited_value_def fun_eq_iff)
  with apply_loop_run [OF f(1-3) _ _ assms(6), of env now 0 0] f(4-7) d e
  show ?thesis unfolding a by (auto simp: Let_def answer_def dirty_load_reply)
qed

section \<open>Live updates during an edit\<close>

text \<open>C15: A live update in which the selected device is still present sends nothing and leaves the
  unapplied edits, the changed markers and the drawn detail as they are, whatever it reports.\<close>

theorem live_update_keeps_edits:
  assumes "truthy_name (selectedUPS s)" and "has_ups (selectedUPS s) us"
  shows "let t = updateLiveUPSData us s in
    dirtyVariables t = dirtyVariables s \<and> sent t = sent s \<and> waiting t = waiting s \<and>
    selectedUPS t = selectedUPS s \<and>
    (case pane s of
       EmptyPane h \<Rightarrow> pane t = EmptyPane h
     | DetailPane sd \<Rightarrow> (\<exists>a b c. pane t =
         DetailPane (sd\<lparr>sd_status := a, sd_chip := b, sd_values := c\<rparr>)))"
proof -
  let ?g = "renderUPSGrid (s\<lparr>upses := us\<rparr>)"
  have g: "sent ?g = sent s" by (simp add: renderUPSGrid_def)
  have same: "\<exists>a b c. sd = sd\<lparr>sd_status := a, sd_chip := b, sd_values := c\<rparr>" for sd :: shown_detail
    by (intro exI [of _ "sd_status sd"] exI [of _ "sd_chip sd"] exI [of _ "sd_values sd"]) simp
  have "updateLiveUPSData us s =
      (case find (\<lambda>u. Some (uh_name u) = selectedUPS s) us of
         None \<Rightarrow> ?g | Some m \<Rightarrow> updateDetailMetrics m ?g)"
    using assms by (simp add: updateLiveUPSData_def Let_def)
  then show ?thesis
    by (auto simp: Let_def updateDetailMetrics_def patch_pane_def g same
        split: option.split detail_pane.split)
qed

section \<open>Commands and confirmations follow the selection\<close>

lemma commands_are_fields: "commands_sent s = commands_sent t \<Longrightarrow> selectedUPS s = selectedUPS t \<Longrightarrow>
    commands_sent (runCommand c s) = commands_sent (runCommand c t)"
  by simp

text \<open>C38: Between a click on another device and the answer with its detail, the detail view still shows
  the commands of the old device, and a click on one of them sends it to the new one.\<close>

theorem stale_command_goes_to_new_selection:
  assumes "pane s = DetailPane sd" and "ud_commands (sd_detail sd) = Some cs"
    and "find (\<lambda>c. uc_name c = n) cs = Some c" and "\<not> uc_destructive c"
    and "other \<noteq> ud_name (sd_detail sd)" and "other \<noteq> []" and "has_ups (Some other) (upses s)"
  shows "let t = fold (dash_handler env) [(now, SelectCard other True), (now, CommandClick n)] s in
    pane t = DetailPane sd \<and> commands_sent t = commands_sent s @ [command_request (Some other) c]"
proof -
  let ?u = "loadUPSDetail (Some other) False Done s"
  have u: "pane ?u = DetailPane sd" "selectedUPS ?u = Some other"
    using assms(1) by (simp_all add: loadUPSDetail_def send_def)
  have "pane (runCommand c ?u) = pane ?u" by (simp add: runCommand_def send_def)
  with u assms show ?thesis
    by (simp add: Let_def card_click_def command_click_def truthy_name_def)
qed

text \<open>C39: A confirmation dialog that is open for a command on one device stays open, with its text, when
  a live update takes that device away and selects the first one left; confirming then sends the
  command to that other device.\<close>

theorem confirmed_command_goes_to_new_selection:
  assumes "dash_reachable env s" and "pendingCommand s = Some c"
    and "\<not> has_ups (selectedUPS s) (nh_upses h)" and "nh_upses h = u # us" and "uh_name u \<noteq> []"
  shows "let t = dash_handler env (now, StreamHealth (Some h)) s in
    confirm_open t \<and> confirm_text t = confirm_text s \<and>
    commands_sent (dash_handler env (now, ConfirmSubmit) t) =
      commands_sent s @ [command_request (Some (uh_name u)) c]"
proof -
  let ?s = "renderHealth env now (setHealthStreamStatus True (s\<lparr>health := Some h\<rparr>))"
  have r: "pendingCommand ?s = pendingCommand s" "confirm_text ?s = confirm_text s"
    "selectedUPS ?s = selectedUPS s" "confirm_open ?s = confirm_open s"
    by (simp_all add: renderHealth_def renderMetricDetailChart_def setHealthStreamStatus_def Let_def
        split: option.split)
  let ?t = "dash_handler env (now, StreamHealth (Some h)) s"
  have t: "?t = loadUPSDetail (first_name (u # us)) True Done (renderUPSGrid (?s\<lparr>upses := u # us\<rparr>))"
    using assms(3) by (simp add: stream_health_def updateLiveUPSData_def Let_def r assms(4))
  have f: "pendingCommand ?t = Some c" "confirm_text ?t = confirm_text s" "confirm_open ?t = confirm_open s"
    "selectedUPS ?t = Some (uh_name u)"
    unfolding t using r assms(2)
    by (simp_all add: loadUPSDetail_def send_def renderUPSGrid_def first_name_def)
  have "confirm_ok (confirm_open s) (pendingCommand s)"
    using reachable_inv [OF assms(1)] by (simp add: dash_inv_def)
  then have "confirm_open s" using assms(2) by (simp add: confirm_ok_def)
  moreover have "commands_sent ?t = commands_sent s"
    by (rule commands_other) simp_all
  moreover have "selectedUPS (closeConfirmModal ?t) = selectedUPS ?t" by (simp add: closeConfirmModal_def)
  ultimately show ?thesis using f assms(5)
    by (simp add: Let_def confirm_submit_def truthy_name_def)
qed

section \<open>The refresh timer of the metric dialog\<close>

definition timers :: "dash \<Rightarrow> nat option \<times> nat list \<times> nat" where
  "timers s = (metricDetailRefreshTimer s, intervals s, next_timer s)"

lemma timers_frame [simp]:
  "timers (send q t s) = timers s" "timers (renderMetricDetailChart env now s) = timers s"
  "timers (s\<lparr>metricDetailWindow := w, active_window := v\<rparr>) = timers s"
  "timers (s\<lparr>metric_open := b, metricDetailLabel := l\<rparr>) = timers s"
  "timers (s\<lparr>metricHistoryLong := hl, metricHistoryLongFetchedAt := n\<rparr>) = timers s"
  "timers (s\<lparr>waiting := ws\<rparr>) = timers s"
  by (simp_all add: timers_def send_def renderMetricDetailChart_def Let_def split: option.split)

lemma timers_clear: "timers (clear_refresh_timer s) =
    (case timers s of (None, live, n) \<Rightarrow> (None, live, n) | (Some t, live, n) \<Rightarrow> (None, removeAll t live, n))"
  by (simp add: timers_def clear_refresh_timer_def split: option.split)

lemma timers_set: "timers (set_refresh_interval s) =
    (case timers s of (_, live, n) \<Rightarrow> (Some n, live @ [n], Suc n))"
  by (simp add: timers_def set_refresh_interval_def)

lemma timers_select: "w \<noteq> ''10m'' \<Longrightarrow>
    timers (selectMetricDetailWindow env now w s) = timers (clear_refresh_timer s)"
  by (simp add: selectMetricDetailWindow_def Let_def refreshMetricHistoryLong_def timers_clear)

lemma no_throw: "fetchJSON r = Inr (Some x) \<Longrightarrow>
    \<not> chart_throws (s\<lparr>metricHistoryLong := Some x, metricHistoryLongFetchedAt := now\<rparr>)"
  by (simp add: chart_throws_def chart_source_def)

lemma timers_history_reply: "fetchJSON r = Inr (Some x) \<Longrightarrow>
    timers (history_reply env now ForWindow r s) = timers (set_refresh_interval s)"
  by (simp add: history_reply_def Let_def timers_set no_throw)

lemma metric_open_frame [simp]:
  "metric_open (send q t s) = metric_open s" "metric_open (set_refresh_interval s) = metric_open s"
  "metric_open (clear_refresh_timer s) = metric_open s"
  "metric_open (renderMetricDetailChart env now s) = metric_open s"
  by (simp_all add: send_def set_refresh_interval_def clear_refresh_timer_def
      renderMetricDetailChart_def Let_def split: option.split)

text \<open>C40: Choosing two long time windows before the first history has arrived starts two refresh timers,
  when both answers bring a history, of which the dialog remembers one: after it is closed, the other goes
  on fetching the history.\<close>

theorem leaked_refresh_timer:
  assumes "dash_reachable env s" and "metric_open s" and "timers s = (None, [], k)"
    and "v \<noteq> ''10m''" and "w \<noteq> ''10m''" and "fetchJSON q = Inr (Some x)" and "fetchJSON r = Inr (Some y)"
  shows "let t = fold (dash_handler env)
        [(now, WindowClick v), (now, WindowClick w), (now, HistoryReply (next_request s) q),
         (now, HistoryReply (Suc (next_request s)) r), (now, MetricClose)] s in
    \<not> metric_open t \<and> metricDetailRefreshTimer t = None \<and> intervals t = [k] \<and>
    sent (dash_handler env (now, IntervalTick k) t) = sent t @ [GET history_url]"
proof -
  define i where "i = next_request s"
  define s1 where "s1 = selectMetricDetailWindow env now v s"
  define s2 where "s2 = selectMetricDetailWindow env now w s1"
  have w1: "waiting s1 = waiting s @ [(i, GetHistory ForWindow)]" "next_request s1 = Suc i" "metric_open s1"
    and w2: "waiting s2 = waiting s @ [(i, GetHistory ForWindow), (Suc i, GetHistory ForWindow)]" "metric_open s2"
    using assms(2,4,5) unfolding s1_def s2_def i_def
    by (simp_all add: selectMetricDetailWindow_def refreshMetricHistoryLong_def Let_def send_def
        clear_refresh_timer_def split: option.split)
  have fresh: "map_of (waiting s) i = None" "map_of (waiting s) (Suc i) = None"
    "filter (\<lambda>(j, t). j \<noteq> i) (waiting s) = waiting s"
    using reachable_ids [OF assms(1)]
    by (auto simp: i_def ids_ok_def list_all_iff map_of_eq_None_iff filter_id_conv)
  define s3 where "s3 = history_reply env now ForWindow q (s2\<lparr>waiting := waiting s @ [(Suc i, GetHistory ForWindow)]\<rparr>)"
  have h3: "dash_handler env (now, HistoryReply i q) s2 = s3"
    by (simp add: answer_def w2 fresh s3_def map_of_append map_add_def)
  have w3: "waiting s3 = waiting s @ [(Suc i, GetHistory ForWindow)]" "metric_open s3"
    using assms(6) w2 unfolding s3_def
    by (simp_all add: history_reply_def Let_def no_throw set_refresh_interval_def renderMetricDetailChart_def
        split: option.split)
  define s4 where "s4 = history_reply env now ForWindow r
    (s3\<lparr>waiting := filter (\<lambda>(j, t). j \<noteq> Suc i) (waiting s3)\<rparr>)"
  have h4: "dash_handler env (now, HistoryReply (Suc i) r) s3 = s4"
    using w3(1) by (simp add: answer_def fresh s4_def map_of_append map_add_def)
  have w4: "metric_open s4"
    using assms(7) w3 unfolding s4_def
    by (simp add: history_reply_def Let_def no_throw)
  have "timers s2 = (None, [], k)"
    unfolding s2_def s1_def using assms(3-5) by (simp add: timers_select timers_clear)
  then have "timers s4 = (Some (Suc k), [k, Suc k], Suc (Suc k))"
    unfolding s4_def s3_def using assms(6,7) by (simp add: timers_history_reply timers_set)
  then have t: "timers (closeMetricDetailModal s4) = (None, [k], Suc (Suc k))"
    by (simp add: closeMetricDetailModal_def timers_clear)
  have h1: "dash_handler env (now, WindowClick v) s = s1"
    and h2: "dash_handler env (now, WindowClick w) s1 = s2"
    and h5: "dash_handler env (now, MetricClose) s4 = closeMetricDetailModal s4"
    using assms(2) w1(3) w4 by (simp_all add: s1_def s2_def)
  have run: "fold (dash_handler env)
        [(now, WindowClick v), (now, WindowClick w), (now, HistoryReply i q),
         (now, HistoryReply (Suc i) r), (now, MetricClose)] s = closeMetricDetailModal s4"
    by (simp only: fold.simps comp_apply id_apply h1 h2 h3 h4 h5)
  have "\<not> metric_open (closeMetricDetailModal s4)" by (simp add: closeMetricDetailModal_def)
  with t show ?thesis unfolding i_def [symmetric] run
    by (simp add: Let_def timers_def interval_tick_def refreshMetricHistoryLong_def send_def)
qed

end
