(* ===== verification/Agent_Examples.thy ===== *)
theory Agent_Examples
  imports Agent_Sessions
begin

text \<open>
  One session of the node dashboard, with two devices: the stream announces them, the detail of the
  first one is loaded, and one of its settings is edited.  The theorems about runs are applied to it.
\<close>

definition demo_browser :: browser where
  "demo_browser = \<lparr>collate = (\<lambda>a b. True), date_format = (\<lambda>st t. [])\<rparr>"

definition demo_health :: node_health where
  "demo_health =
     \<lparr>nh_version = ''1'', nh_uptime_seconds = None, nh_cpu_temperature = None, nh_cpu_usage = None,
      nh_memory_used = NInt 1, nh_memory_total = NInt 2, nh_disk_free = NInt 3,
      nh_upses = [example_health ''a'', example_health ''b'']\<rparr>"

definition demo_setting :: writable_var where
  "demo_setting =
     \<lparr>wv_name = ''delay'', wv_description = None, wv_editor = ''number'', wv_current_value = Some ''20'',
      wv_options = None, wv_min = None, wv_max = None\<rparr>"

definition demo_mute :: ups_command where
  "demo_mute = \<lparr>uc_name = ''mute'', uc_description = None, uc_destructive = False\<rparr>"

definition demo_off :: ups_command where
  "demo_off = \<lparr>uc_name = ''off'', uc_description = None, uc_destructive = True\<rparr>"

definition demo_detail :: ups_detail where
  "demo_detail =
     \<lparr>ud_name = ''a'', ud_driver = ''d'', ud_metadata = None, ud_status = ''OL'',
      ud_metrics = example_health ''a'', ud_variables = [], ud_commands = Some [demo_mute, demo_off],
      ud_writable = Some [demo_setting]\<rparr>"

definition ok_reply :: "'a \<Rightarrow> 'a reply" where
  "ok_reply x = Response True 200 ''OK'' None (Some x)"

lemma fetch_ok_reply [simp]: "fetchJSON (ok_reply x) = Inr (Some x)"
  by (simp add: ok_reply_def fetchJSON_def)

definition announced :: dash where
  "announced = dash_handler demo_browser (NInt 0, StreamHealth (Some demo_health)) (start_dash True)"

definition session :: dash where
  "session = dash_handler demo_browser (NInt 0, DetailReply 0 (ok_reply demo_detail)) announced"

definition edited :: dash where
  "edited = dash_handler demo_browser (NInt 0, EditInput ''delay'' '' 30 '') session"

lemma announced_reachable: "dash_reachable demo_browser announced"
  unfolding announced_def by (rule dash_reachable.step [OF dash_reachable.start dash_step.event])

lemma session_reachable: "dash_reachable demo_browser session"
  unfolding session_def by (rule dash_reachable.step [OF announced_reachable dash_step.event])

lemma edited_reachable: "dash_reachable demo_browser edited"
  unfolding edited_def by (rule dash_reachable.step [OF session_reachable dash_step.event])

lemma has_ups_demo: "has_ups n [example_health a, example_health b] \<longleftrightarrow> n = Some a \<or> n = Some b"
  by (auto simp: has_ups_def example_health_def)

lemma announced_fields:
  "selectedUPS announced = Some ''a''" "waiting announced = [(0, GetDetail (Some ''a'') True Done)]"
  "upses announced = [example_health ''a'', example_health ''b'']" "next_request announced = 1"
  "pendingCommand announced = None" "dirtyVariables announced = []"
proof -
  have "uh_name (example_health ''a'') = ''a''" by (simp add: example_health_def)
  then show "selectedUPS announced = Some ''a''" "waiting announced = [(0, GetDetail (Some ''a'') True Done)]"
    "upses announced = [example_health ''a'', example_health ''b'']" "next_request announced = 1"
    "pendingCommand announced = None" "dirtyVariables announced = []"
    by (simp_all add: announced_def start_dash_def initial_dash_def renderEmptyDetail_def
        stream_health_def setHealthStreamStatus_def renderHealth_def updateLiveUPSData_def
        renderUPSGrid_def truthy_name_def loadUPSDetail_def send_def first_name_def Let_def demo_health_def)
qed

lemma demo_parts:
  "ud_name demo_detail = ''a''" "ud_commands demo_detail = Some [demo_mute, demo_off]"
  "find (\<lambda>c. uc_name c = ''mute'') [demo_mute, demo_off] = Some demo_mute"
  "find (\<lambda>c. uc_name c = ''off'') [demo_mute, demo_off] = Some demo_off"
  "\<not> uc_destructive demo_mute" "uc_destructive demo_off"
  "uc_name demo_mute = ''mute''" "uc_name demo_off = ''off''"
  by (simp_all add: demo_detail_def demo_mute_def demo_off_def)

lemma demo_html: "\<exists>html. detail_html (collate demo_browser) demo_detail = Inr html"
  by (simp add: detail_html_def renderWritable_def renderVariableInput_def demo_detail_def demo_setting_def)

lemma session_fields:
  "\<exists>html. pane session = DetailPane (show_detail demo_detail html)"
  "selectedUPS session = Some ''a''" "waiting session = []" "dirtyVariables session = []"
  "upses session = [example_health ''a'', example_health ''b'']" "pendingCommand session = None"
proof -
  obtain html where html: "detail_html (collate demo_browser) demo_detail = Inr html" using demo_html by blast
  have set: "settings_of demo_detail = [demo_setting]" by (simp add: settings_of_def demo_detail_def)
  have c: "show_detail demo_detail html\<lparr>sd_apply_disabled := True, sd_hint := settings_hint 0\<rparr> =
      show_detail demo_detail html" by (simp add: show_detail_def settings_hint_def)
  have d: "sd_detail (show_detail demo_detail html) = demo_detail" by (simp add: show_detail_def)
  have s: "session = (announced\<lparr>waiting := [], detail := Some demo_detail, dirtyVariables := [],
      pane_accent := Some (accentClassForStatus (Some (ud_status demo_detail))),
      pane := DetailPane (show_detail demo_detail html)\<rparr>)"
    by (simp add: session_def answer_def announced_fields load_reply_def renderDetail_def html
        updateSettingsApplyButton_def set c d after_load_steps_def Let_def)
  show "\<exists>html. pane session = DetailPane (show_detail demo_detail html)"
    by (rule exI [of _ html]) (simp add: s)
  show "selectedUPS session = Some ''a''" "waiting session = []" "dirtyVariables session = []"
    "upses session = [example_health ''a'', example_health ''b'']" "pendingCommand session = None"
    by (simp_all add: s announced_fields)
qed

lemma demo_trim: "trim '' 30 '' = ''30''"
  by code_simp

lemma edited_fields:
  "\<exists>sd. pane edited = DetailPane sd \<and> sd_detail sd = demo_detail \<and> \<not> sd_apply_disabled sd \<and>
     edited_value sd ''delay'' = ''30''"
  "selectedUPS edited = Some ''a''" "dirtyVariables edited = [''delay'']"
proof -
  obtain html where p: "pane session = DetailPane (show_detail demo_detail html)"
    using session_fields(1) by blast
  have d: "sd_detail (show_detail demo_detail html) = demo_detail"
    "sd_edits (show_detail demo_detail html) = []" by (simp_all add: show_detail_def)
  have set: "settings_of demo_detail = [demo_setting]" "find_setting ''delay'' demo_detail = Some demo_setting"
    by (simp_all add: find_setting_def settings_of_def demo_detail_def demo_setting_def)
  have v: "wv_name demo_setting = ''delay''" "or_opt (wv_current_value demo_setting) [] = ''20''"
    by (simp_all add: demo_setting_def or_opt_def)
  show "\<exists>sd. pane edited = DetailPane sd \<and> sd_detail sd = demo_detail \<and> \<not> sd_apply_disabled sd \<and>
     edited_value sd ''delay'' = ''30''"
    "selectedUPS edited = Some ''a''" "dirtyVariables edited = [''delay'']"
    by (simp_all add: edited_def edit_input_def p d set v demo_trim handleVariableInputChange_def
        updateSettingsApplyButton_def set_add_def session_fields edited_value_def Let_def)
qed

section \<open>The theorems on the session\<close>

lemma dashboard_view_consistent_witness:
  "ups_grid edited \<in> {None, Some (ups_grid_html (selectedUPS edited) (upses edited))} \<and>
   confirm_open edited = (pendingCommand edited \<noteq> None)"
  using dashboard_view_consistent [OF edited_reachable] by blast

lemma demo_click:
  "commands_sent (dash_handler demo_browser (NInt 0, CommandClick ''mute'') session) \<noteq> commands_sent session"
proof -
  obtain html where "pane session = DetailPane (show_detail demo_detail html)"
    using session_fields(1) by blast
  moreover have "sd_detail (show_detail demo_detail html) = demo_detail" by (simp add: show_detail_def)
  ultimately show ?thesis
    by (simp add: command_click_def demo_parts session_fields truthy_name_def)
qed

lemma commands_need_click_or_confirmation_witness:
  "\<exists>c. commands_sent (dash_handler demo_browser (NInt 0, CommandClick ''mute'') session) =
     commands_sent session @ [command_request (selectedUPS session) c]"
  using commands_need_click_or_confirmation [OF session_reachable demo_click] by blast

lemma session_orderly: "orderly demo_browser session"
proof -
  have "in_order (start_dash True) (StreamHealth (Some demo_health))" by (simp add: in_order_def)
  from orderly.step [OF orderly.start this, of demo_browser "NInt 0"]
  have "orderly demo_browser announced" by (simp add: announced_def)
  moreover have "in_order announced (DetailReply 0 (ok_reply demo_detail))"
    by (simp add: in_order_def announced_fields demo_detail_def)
  ultimately show ?thesis unfolding session_def by (rule orderly.step)
qed

lemma view_matches_selection_in_order_witness:
  "\<exists>sd. pane session = DetailPane sd \<and> selectedUPS session = Some (ud_name (sd_detail sd))"
proof -
  obtain sd where sd: "pane session = DetailPane sd" using session_fields(1) by blast
  have "selectedUPS session = Some (ud_name (sd_detail sd))"
    by (rule view_matches_selection_in_order [OF session_orderly _ _ sd])
       (simp_all add: session_fields truthy_name_def)
  with sd show ?thesis by blast
qed

lemma apply_writes_changed_settings_witness:
  "sent (fold (dash_handler demo_browser) (setvar_answers (NInt 0) (next_request edited) [ok_reply ()])
       (dash_handler demo_browser (NInt 0, ApplyClick) edited)) =
   sent edited @ [setvar_request (Some ''a'') ''delay'' ''30'', GET (ups_url (Some ''a'') [])]"
proof -
  obtain sd where sd: "pane edited = DetailPane sd" "sd_detail sd = demo_detail" "\<not> sd_apply_disabled sd"
    "edited_value sd ''delay'' = ''30''"
    using edited_fields(1) by blast
  have "settings_of (sd_detail sd) \<noteq> []" by (simp add: sd(2) settings_of_def demo_detail_def)
  from apply_writes_changed_settings [OF edited_reachable sd(1) this sd(3), of "[ok_reply ()]" "NInt 0"]
  show ?thesis by (simp add: edited_fields truthy_name_def sd(4) Let_def)
qed

lemma live_update_keeps_edits_witness:
  "dirtyVariables (updateLiveUPSData [example_health ''b'', example_health ''a''] edited) = [''delay'']"
proof -
  have "truthy_name (selectedUPS edited)"
    "has_ups (selectedUPS edited) [example_health ''b'', example_health ''a'']"
    by (simp_all add: edited_fields truthy_name_def has_ups_demo)
  from live_update_keeps_edits [OF this] show ?thesis by (simp add: Let_def edited_fields)
qed

lemma stale_command_goes_to_new_selection_witness:
  "\<exists>t. t = fold (dash_handler demo_browser)
        [(NInt 0, SelectCard ''b'' True), (NInt 0, CommandClick ''mute'')] session \<and>
      commands_sent t = commands_sent session @ [command_request (Some ''b'') demo_mute]"
proof -
  obtain html where p: "pane session = DetailPane (show_detail demo_detail html)"
    using session_fields(1) by blast
  have d: "sd_detail (show_detail demo_detail html) = demo_detail" by (simp add: show_detail_def)
  have c: "ud_commands (sd_detail (show_detail demo_detail html)) = Some [demo_mute, demo_off]"
    by (simp add: d demo_parts)
  note f = demo_parts(3)
  have "\<not> uc_destructive demo_mute" "''b'' \<noteq> ud_name (sd_detail (show_detail demo_detail html))"
    "''b'' \<noteq> []" "has_ups (Some ''b'') (upses session)"
    by (simp_all add: demo_parts d session_fields has_ups_demo)
  from stale_command_goes_to_new_selection [OF p c f this, of demo_browser "NInt 0"]
  show ?thesis by (simp only: Let_def) blast
qed

definition asking :: dash where
  "asking = dash_handler demo_browser (NInt 0, CommandClick ''off'') session"

lemma asking_reachable: "dash_reachable demo_browser asking"
  unfolding asking_def by (rule dash_reachable.step [OF session_reachable dash_step.event])

lemma asking_fields: "pendingCommand asking = Some demo_off" "selectedUPS asking = Some ''a''"
proof -
  obtain html where p: "pane session = DetailPane (show_detail demo_detail html)"
    using session_fields(1) by blast
  have d: "sd_detail (show_detail demo_detail html) = demo_detail" by (simp add: show_detail_def)
  show "pendingCommand asking = Some demo_off" "selectedUPS asking = Some ''a''"
    by (simp_all add: asking_def command_click_def p d demo_parts openConfirmModal_def session_fields)
qed

definition demo_health_without_a :: node_health where
  "demo_health_without_a = demo_health\<lparr>nh_upses := [example_health ''b'']\<rparr>"

lemma confirmed_command_goes_to_new_selection_witness:
  "\<exists>t. t = dash_handler demo_browser (NInt 0, StreamHealth (Some demo_health_without_a)) asking \<and>
     commands_sent (dash_handler demo_browser (NInt 0, ConfirmSubmit) t) =
       commands_sent asking @ [command_request (Some ''b'') demo_off]"
proof -
  have "\<not> has_ups (selectedUPS asking) (nh_upses demo_health_without_a)"
    "nh_upses demo_health_without_a = example_health ''b'' # []" "uh_name (example_health ''b'') \<noteq> []"
    by (simp_all add: asking_fields demo_health_without_a_def has_ups_def example_health_def)
  from confirmed_command_goes_to_new_selection [OF asking_reachable asking_fields(1) this, of "NInt 0"]
  show ?thesis by (simp add: Let_def example_health_def)
qed

definition dialog :: dash where
  "dialog = dash_handler demo_browser (NInt 0, MetricCardClick ''CPU usage'') (start_dash True)"

lemma dialog_reachable: "dash_reachable demo_browser dialog"
  unfolding dialog_def by (rule dash_reachable.step [OF dash_reachable.start dash_step.event])

lemma dialog_fields: "metric_open dialog" "timers dialog = (None, [], 1)"
  by (simp_all add: dialog_def openMetricDetailModal_def selectMetricDetailWindow_def Let_def
      TREND_EXTRACTORS_def start_dash_def initial_dash_def renderEmptyDetail_def clear_refresh_timer_def)
     (simp add: timers_def)

lemma leaked_refresh_timer_witness:
  "intervals (fold (dash_handler demo_browser)
     [(NInt 0, WindowClick ''1h''), (NInt 0, WindowClick ''6h''),
      (NInt 0, HistoryReply (next_request dialog) (ok_reply [])),
      (NInt 0, HistoryReply (Suc (next_request dialog)) (ok_reply [])), (NInt 0, MetricClose)] dialog) = [1]"
proof -
  have w: "''1h'' \<noteq> ''10m''" "''6h'' \<noteq> ''10m''" by simp_all
  from leaked_refresh_timer [OF dialog_reachable dialog_fields w fetch_ok_reply fetch_ok_reply]
  show ?thesis unfolding Let_def by blast
qed

end
