(* ===== verification/Agent_Hover.thy ===== *)
theory Agent_Hover
  imports Agent_Dashboard Event_System
begin

text \<open>
  What the pointer draws over the chart of the metric dialog: two guide lines, a point and the tooltip.
  \<open>handleMetricDetailHover\<close> of \<open>Agent_Chart\<close> decides; here are the elements that it and
  \<open>handleMetricDetailLeave\<close> change, together with the events of the dashboard.

  The script shows and hides the elements by their property \<open>hidden\<close>.  On an HTML element the property is
  the content attribute of that name.  An SVG element has no such property: an assignment makes an
  ordinary property of the object and leaves the attribute, by which the style sheet hides the lines
  (\<open>styles.css\<close>, \<open>.chart-hover-guide[hidden]\<close>).
\<close>

section \<open>Elements\<close>

datatype element_kind = HtmlElement | SvgElement

record element =
  el_kind :: element_kind
  hidden_attribute :: bool
  own_hidden :: "bool option"

definition assign_hidden :: "bool \<Rightarrow> element \<Rightarrow> element" where
  "assign_hidden b e =
     (case el_kind e of
        HtmlElement \<Rightarrow> e\<lparr>hidden_attribute := b\<rparr>
      | SvgElement \<Rightarrow> e\<lparr>own_hidden := Some b\<rparr>)"

definition visible :: "element \<Rightarrow> bool" where
  "visible e \<longleftrightarrow> \<not> hidden_attribute e"

lemma assign_hidden_kind [simp]: "el_kind (assign_hidden b e) = el_kind e"
  by (simp add: assign_hidden_def split: element_kind.splits)

lemma html_hidden [simp]: "el_kind e = HtmlElement \<Longrightarrow> visible (assign_hidden b e) \<longleftrightarrow> \<not> b"
  by (simp add: assign_hidden_def visible_def)

lemma svg_hidden [simp]: "el_kind e = SvgElement \<Longrightarrow> visible (assign_hidden b e) \<longleftrightarrow> visible e"
  by (simp add: assign_hidden_def visible_def)

lemma svg_own_hidden [simp]: "el_kind e = SvgElement \<Longrightarrow> own_hidden (assign_hidden b e) = Some b"
  by (simp add: assign_hidden_def)

record overlay =
  guide :: element
  guide_x1 :: string
  guide_x2 :: string
  guideY :: element
  guide_y1 :: string
  guide_y2 :: string
  marker :: element
  marker_left :: string
  marker_top :: string
  tooltip :: element
  tooltip_inner :: string
  tooltip_left :: string
  tooltip_top :: string

definition hidden_element :: "element_kind \<Rightarrow> element" where
  "hidden_element k = \<lparr>el_kind = k, hidden_attribute = True, own_hidden = None\<rparr>"

text \<open>The elements as the page is served: two \<open>line\<close>s in the \<open>svg\<close> and two \<open>div\<close>s, all hidden.\<close>

definition initial_overlay :: overlay where
  "initial_overlay =
     \<lparr>guide = hidden_element SvgElement, guide_x1 = ''0'', guide_x2 = ''0'',
      guideY = hidden_element SvgElement, guide_y1 = ''0'', guide_y2 = ''0'',
      marker = hidden_element HtmlElement, marker_left = [], marker_top = [],
      tooltip = hidden_element HtmlElement, tooltip_inner = [], tooltip_left = [], tooltip_top = []\<rparr>"

section \<open>The handlers\<close>

definition hideChartTooltip :: "overlay \<Rightarrow> overlay" where
  "hideChartTooltip v = v\<lparr>tooltip := assign_hidden True (tooltip v)\<rparr>"

definition tooltip_offset :: int where
  "tooltip_offset = 14"

definition showChartTooltip :: "jsnum \<Rightarrow> jsnum \<Rightarrow> string \<Rightarrow> overlay \<Rightarrow> overlay" where
  "showChartTooltip clientX clientY html v =
     v\<lparr>tooltip_inner := html, tooltip := assign_hidden False (tooltip v),
       tooltip_left := num_to_string (num_add clientX (NInt tooltip_offset)) @ ''px'',
       tooltip_top := num_to_string (num_add clientY (NInt tooltip_offset)) @ ''px''\<rparr>"

definition handleMetricDetailLeave :: "overlay \<Rightarrow> overlay" where
  "handleMetricDetailLeave v =
     hideChartTooltip
       (v\<lparr>guide := assign_hidden True (guide v), guideY := assign_hidden True (guideY v),
          marker := assign_hidden True (marker v)\<rparr>)"

definition percent_of :: "jsnum \<Rightarrow> int \<Rightarrow> string" where
  "percent_of x extent = toFixed 2 (num_mul (num_div x (NInt extent)) (NInt 100)) @ ''%''"

definition draw_crosshair :: "jsnum \<Rightarrow> jsnum \<Rightarrow> overlay \<Rightarrow> overlay" where
  "draw_crosshair guideX guideY' v =
     v\<lparr>guide_x1 := toFixed 2 guideX, guide_x2 := toFixed 2 guideX, guide := assign_hidden False (guide v),
       guide_y1 := toFixed 2 guideY', guide_y2 := toFixed 2 guideY', guideY := assign_hidden False (guideY v),
       marker_left := percent_of guideX chart_width, marker_top := percent_of guideY' chart_height,
       marker := assign_hidden False (marker v)\<rparr>"

definition apply_hover :: "jsnum \<Rightarrow> jsnum \<Rightarrow> hover_effect \<Rightarrow> overlay \<Rightarrow> overlay" where
  "apply_hover clientX clientY eff v =
     (case eff of
        HoverLeave \<Rightarrow> handleMetricDetailLeave v
      | HoverUnchanged \<Rightarrow> v
      | HoverShow guideX guideY' html p \<Rightarrow>
          showChartTooltip clientX clientY html (draw_crosshair guideX guideY' v))"

text \<open>The decision of \<open>handleMetricDetailHover\<close>, on the state of the dashboard.\<close>

definition hover_decision :: "browser \<Rightarrow> rect \<Rightarrow> jsnum \<Rightarrow> jsnum \<Rightarrow> dash \<Rightarrow> hover_effect" where
  "hover_decision env rc clientX clientY s =
     handleMetricDetailHover (date_format env) (metricDetailLabel s)
       (Option.bind (metricDetailLabel s) (trendCache s)) rc clientX clientY"

datatype pointer_event =
    PointerMove rect jsnum jsnum
  | PointerLeave
  | Other "jsnum \<times> dash_event"

fun hover_handler :: "browser \<Rightarrow> pointer_event \<Rightarrow> dash \<times> overlay \<Rightarrow> dash \<times> overlay" where
  "hover_handler env (PointerMove rc clientX clientY) (s, v) =
     (s, apply_hover clientX clientY (hover_decision env rc clientX clientY s) v)"
| "hover_handler env PointerLeave (s, v) = (s, handleMetricDetailLeave v)"
| "hover_handler env (Other ev) (s, v) = (dash_handler env ev s, v)"

section \<open>What is drawn\<close>

text \<open>
  The lines are SVG elements and hidden; the point and the tooltip are HTML elements, shown or hidden
  together.
\<close>

definition drawn :: "bool \<Rightarrow> overlay \<Rightarrow> bool" where
  "drawn b v \<longleftrightarrow> visible (marker v) = b \<and> visible (tooltip v) = b"

definition overlay_ok :: "overlay \<Rightarrow> bool" where
  "overlay_ok v \<longleftrightarrow>
     el_kind (guide v) = SvgElement \<and> el_kind (guideY v) = SvgElement \<and>
     el_kind (marker v) = HtmlElement \<and> el_kind (tooltip v) = HtmlElement \<and>
     \<not> visible (guide v) \<and> \<not> visible (guideY v) \<and> visible (marker v) = visible (tooltip v)"

lemma leave_ok: "overlay_ok v \<Longrightarrow> overlay_ok (handleMetricDetailLeave v) \<and> drawn False (handleMetricDetailLeave v)"
  by (simp add: overlay_ok_def handleMetricDetailLeave_def hideChartTooltip_def drawn_def)

lemma show_ok:
  "overlay_ok v \<Longrightarrow> overlay_ok (showChartTooltip x y html (draw_crosshair gx gy v)) \<and>
     drawn True (showChartTooltip x y html (draw_crosshair gx gy v))"
  by (simp add: overlay_ok_def showChartTooltip_def draw_crosshair_def drawn_def)

lemma apply_hover_ok: "overlay_ok v \<Longrightarrow> overlay_ok (apply_hover x y eff v)"
  by (cases eff) (simp_all add: apply_hover_def leave_ok show_ok)

interpretation hover: event_system
    "\<lambda>(s, v). (\<exists>b. s = start_dash b) \<and> v = initial_overlay" "hover_handler env" "\<lambda>(s, v). overlay_ok v"
  for env
proof unfold_locales
  fix sv :: "dash \<times> overlay"
  assume "case sv of (s, v) \<Rightarrow> (\<exists>b. s = start_dash b) \<and> v = initial_overlay"
  then show "case sv of (s, v) \<Rightarrow> overlay_ok v"
    by (auto simp: initial_overlay_def overlay_ok_def hidden_element_def visible_def drawn_def)
next
  fix sv :: "dash \<times> overlay" and e
  assume "case sv of (s, v) \<Rightarrow> overlay_ok v"
  then show "case hover_handler env e sv of (s, v) \<Rightarrow> overlay_ok v"
    by (cases sv; cases e) (simp_all add: apply_hover_ok leave_ok)
qed

text \<open>C28: Over all events of the dashboard and of the pointer, the point and the tooltip are shown together,
  after a move exactly when the code decides to show a sample, and hidden when it decides to hide it or
  when no metric is chosen; the two lines of the crosshair are never shown, although the script marks
  them as shown.\<close>

theorem crosshair_lines_never_shown:
  "case fold (hover_handler env) es (start_dash b, initial_overlay) of (s, v) \<Rightarrow>
     \<not> visible (guide v) \<and> \<not> visible (guideY v) \<and> visible (marker v) = visible (tooltip v) \<and>
     drawn False (snd (hover_handler env PointerLeave (s, v))) \<and>
     (case snd (hover_handler env (PointerMove rc x y) (s, v)) of v' \<Rightarrow>
       (case hover_decision env rc x y s of
          HoverLeave \<Rightarrow> drawn False v'
        | HoverUnchanged \<Rightarrow> v' = v
        | HoverShow gx gy html p \<Rightarrow>
            drawn True v' \<and> tooltip_inner v' = html \<and>
            own_hidden (guide v') = Some False \<and> own_hidden (guideY v') = Some False \<and>
            \<not> visible (guide v') \<and> \<not> visible (guideY v')))"
proof -
  obtain s v where sv: "fold (hover_handler env) es (start_dash b, initial_overlay) = (s, v)"
    by (cases "fold (hover_handler env) es (start_dash b, initial_overlay)")
  have ok: "overlay_ok v"
    using hover.inv_reached [of "(start_dash b, initial_overlay)" env es] sv by auto
  show ?thesis
    using ok leave_ok [OF ok] show_ok [OF ok]
    by (auto simp: sv overlay_ok_def drawn_def apply_hover_def showChartTooltip_def draw_crosshair_def
        split: hover_effect.splits)
qed

lemma no_metric_hides:
  assumes "metricDetailLabel s = None" and "overlay_ok v"
  shows "drawn False (snd (hover_handler env (PointerMove rc x y) (s, v)))"
  using leave_ok [OF assms(2)]
  by (simp add: hover_decision_def assms(1) handleMetricDetailHover_def apply_hover_def)

end
