(* ===== verification/Agent_Theme.thy ===== *)
theory Agent_Theme
  imports Js_Prelude Event_System
begin

text \<open>
  The theme preference and the profile menu of the node dashboard (\<open>app.js\<close>), and the part of
  \<open>about.js\<close> that closes the menu.  The state is what the two scripts write: the fields of \<open>state\<close>,
  the two keys of the browser's storage, and the attributes of the menu's elements.  Storage and
  \<open>prefers-color-scheme\<close> are the browser's; the state holds what it last answered.
\<close>

section \<open>The page\<close>

datatype focus = Option nat | Trigger nat | Elsewhere

record theme_option =
  to_theme :: "string option"
  to_checked :: bool

record theme_ui =
  themePreference :: string
  profileMenuOpen :: bool
  stored :: "string \<Rightarrow> string option"
  prefers_dark :: bool
  document_theme :: "string option"
  theme_options :: "theme_option list"
  panel_hidden :: "bool option"
  toggles_expanded :: "bool list"
  toolbar_open :: "bool option"
  topbar_open :: "bool option"
  focused :: focus

definition THEME_PREF_STORAGE_KEY :: string where
  "THEME_PREF_STORAGE_KEY = ''strom-theme-preference''"

definition LEGACY_THEME_STORAGE_KEY :: string where
  "LEGACY_THEME_STORAGE_KEY = ''strom-theme''"

lemma storage_keys [simp]:
  "THEME_PREF_STORAGE_KEY \<noteq> LEGACY_THEME_STORAGE_KEY"
  "LEGACY_THEME_STORAGE_KEY \<noteq> THEME_PREF_STORAGE_KEY"
  by (simp_all add: THEME_PREF_STORAGE_KEY_def LEGACY_THEME_STORAGE_KEY_def)

section \<open>The theme\<close>

definition normalizeThemePreference :: "string option \<Rightarrow> string option" where
  "normalizeThemePreference value =
     (if value = Some ''system'' \<or> value = Some ''light'' \<or> value = Some ''dark'' then value else None)"

definition resolveTheme :: "bool \<Rightarrow> string \<Rightarrow> string" where
  "resolveTheme dark preference =
     (if preference = ''light'' \<or> preference = ''dark'' then preference
      else if dark then ''dark'' else ''light'')"

definition applyThemePreference :: "string \<Rightarrow> bool \<Rightarrow> theme_ui \<Rightarrow> theme_ui" where
  "applyThemePreference preference persist u =
     (let resolved = resolveTheme (prefers_dark u) preference;
          u = u\<lparr>themePreference := preference, document_theme := Some resolved,
                theme_options := map (\<lambda>opt. opt\<lparr>to_checked := (to_theme opt = Some preference)\<rparr>)
                  (theme_options u)\<rparr>
      in if persist
         then u\<lparr>stored := (stored u)(THEME_PREF_STORAGE_KEY := Some preference,
                                    LEGACY_THEME_STORAGE_KEY := Some resolved)\<rparr>
         else u)"

text \<open>\<open>savedPref || legacyTheme || "system"\<close>.\<close>

definition initial_preference :: "(string \<Rightarrow> string option) \<Rightarrow> string" where
  "initial_preference st =
     (let savedPref = normalizeThemePreference (st THEME_PREF_STORAGE_KEY);
          legacyTheme = normalizeThemePreference (st LEGACY_THEME_STORAGE_KEY)
      in case savedPref of Some p \<Rightarrow> p
         | None \<Rightarrow> (case legacyTheme of Some p \<Rightarrow> p | None \<Rightarrow> ''system''))"

definition initTheme :: "theme_ui \<Rightarrow> theme_ui" where
  "initTheme u = applyThemePreference (initial_preference (stored u)) False u"

definition handleSystemThemeChange :: "theme_ui \<Rightarrow> theme_ui" where
  "handleSystemThemeChange u =
     (if themePreference u \<noteq> ''system'' then u else applyThemePreference ''system'' False u)"

section \<open>The menu\<close>

definition no_menu :: "theme_ui \<Rightarrow> bool" where
  "no_menu u \<longleftrightarrow> panel_hidden u = None \<or> toggles_expanded u = []"

definition closeProfileMenu :: "bool \<Rightarrow> theme_ui \<Rightarrow> theme_ui" where
  "closeProfileMenu focusTrigger u =
     (if no_menu u then u
      else
        (let u = u\<lparr>profileMenuOpen := False, toolbar_open := map_option (\<lambda>_. False) (toolbar_open u),
                   topbar_open := map_option (\<lambda>_. False) (topbar_open u), panel_hidden := Some True,
                   toggles_expanded := map (\<lambda>_. False) (toggles_expanded u)\<rparr>
         in if focusTrigger then u\<lparr>focused := Trigger 0\<rparr> else u))"

text \<open>\<open>findIndex\<close>, with \<open>None\<close> for \<open>-1\<close>.\<close>

fun find_index :: "('a \<Rightarrow> bool) \<Rightarrow> 'a list \<Rightarrow> nat option" where
  "find_index P [] = None"
| "find_index P (x # xs) = (if P x then Some 0 else map_option Suc (find_index P xs))"

text \<open>\<open>themeOptions[index]?.focus()\<close>.\<close>

definition focus_option :: "nat \<Rightarrow> theme_ui \<Rightarrow> theme_ui" where
  "focus_option i u = (if i < length (theme_options u) then u\<lparr>focused := Option i\<rparr> else u)"

definition focusSelectedThemeOption :: "theme_ui \<Rightarrow> theme_ui" where
  "focusSelectedThemeOption u =
     (case find_index to_checked (theme_options u) of
        Some i \<Rightarrow> focus_option i u
      | None \<Rightarrow> focus_option 0 u)"

definition toggleProfileMenu :: "theme_ui \<Rightarrow> theme_ui" where
  "toggleProfileMenu u =
     (if no_menu u then u
      else if profileMenuOpen u then closeProfileMenu False u
      else
        focusSelectedThemeOption
          (u\<lparr>profileMenuOpen := True, toolbar_open := map_option (\<lambda>_. True) (toolbar_open u),
             topbar_open := map_option (\<lambda>_. True) (topbar_open u), panel_hidden := Some False,
             toggles_expanded := map (\<lambda>_. True) (toggles_expanded u)\<rparr>))"

definition focused_index :: "theme_ui \<Rightarrow> nat option" where
  "focused_index u =
     (case focused u of
        Option i \<Rightarrow> if i < length (theme_options u) then Some i else None
      | _ \<Rightarrow> None)"

text \<open>The next and the previous option of the arrow keys; without options the index is no number.\<close>

definition focus_next :: "theme_ui \<Rightarrow> theme_ui" where
  "focus_next u =
     (case focused_index u of
        None \<Rightarrow> focus_option 0 u
      | Some i \<Rightarrow> focus_option ((i + 1) mod length (theme_options u)) u)"

definition focus_previous :: "theme_ui \<Rightarrow> theme_ui" where
  "focus_previous u =
     (let n = length (theme_options u) in
      case focused_index u of
        None \<Rightarrow> if n = 0 then u else focus_option (n - 1) u
      | Some i \<Rightarrow> focus_option ((i + n - 1) mod n) u)"

definition handleMenuOptionNavigation :: "string \<Rightarrow> theme_ui \<Rightarrow> theme_ui" where
  "handleMenuOptionNavigation key u =
     (if \<not> profileMenuOpen u then u
      else if key = ''ArrowDown'' then focus_next u
      else if key = ''ArrowUp'' then focus_previous u
      else if key = ''ArrowRight'' then focus_next u
      else if key = ''ArrowLeft'' then focus_previous u
      else if key = ''Home'' then focus_option 0 u
      else if key = ''End'' then
        (if theme_options u = [] then u else focus_option (length (theme_options u) - 1) u)
      else if key = ''Escape'' then closeProfileMenu True u
      else if key = ''Tab'' then closeProfileMenu False u
      else u)"

section \<open>The About link\<close>

text \<open>
  \<open>closeMenus\<close> of \<open>about.js\<close>, which the About link inside the menu runs: it hides the panel and
  resets the toolbar and the toggles in the document, and knows nothing of \<open>state\<close> or the top bar.
\<close>

definition closeMenus :: "theme_ui \<Rightarrow> theme_ui" where
  "closeMenus u =
     u\<lparr>panel_hidden := map_option (\<lambda>_. True) (panel_hidden u),
       toolbar_open := map_option (\<lambda>_. False) (toolbar_open u),
       toggles_expanded := map (\<lambda>_. False) (toggles_expanded u)\<rparr>"

section \<open>The events\<close>

text \<open>The click handler of a theme option.\<close>

definition select_theme_option :: "nat \<Rightarrow> theme_ui \<Rightarrow> theme_ui" where
  "select_theme_option i u =
     (if i < length (theme_options u)
      then (case normalizeThemePreference (to_theme (theme_options u ! i)) of
              None \<Rightarrow> u
            | Some p \<Rightarrow> closeProfileMenu False (applyThemePreference p True u))
      else u)"

definition toggle_keydown :: "string \<Rightarrow> theme_ui \<Rightarrow> theme_ui" where
  "toggle_keydown key u =
     (if key = ''ArrowDown'' \<or> key = ''Enter'' \<or> key = '' ''
      then (if profileMenuOpen u then u else toggleProfileMenu u) else u)"

definition document_click :: "bool \<Rightarrow> theme_ui \<Rightarrow> theme_ui" where
  "document_click inside_menu u =
     (if \<not> profileMenuOpen u then u else if inside_menu then u else closeProfileMenu False u)"

definition document_keydown :: "string \<Rightarrow> theme_ui \<Rightarrow> theme_ui" where
  "document_keydown key u =
     (if key = ''Escape'' \<and> profileMenuOpen u then closeProfileMenu True u else u)"

text \<open>
  A key pressed in the panel reaches the panel's handler and then the document's.  The user may
  also move the focus by other means (\<open>FocusMoves\<close>), and \<open>prefers-color-scheme\<close> may change.
\<close>

datatype theme_event =
    OptionClick nat
  | SystemChange bool
  | ToggleClick
  | ToggleKey string
  | PanelKey string
  | DocumentClick bool
  | DocumentKey string
  | FocusMoves focus
  | AboutClick

fun theme_handler :: "theme_event \<Rightarrow> theme_ui \<Rightarrow> theme_ui" where
  "theme_handler (OptionClick i) u = document_click True (select_theme_option i u)"
| "theme_handler (SystemChange dark) u = handleSystemThemeChange (u\<lparr>prefers_dark := dark\<rparr>)"
| "theme_handler ToggleClick u = toggleProfileMenu u"
| "theme_handler (ToggleKey key) u = document_keydown key (toggle_keydown key u)"
| "theme_handler (PanelKey key) u = document_keydown key (handleMenuOptionNavigation key u)"
| "theme_handler (DocumentClick inside_menu) u = document_click inside_menu u"
| "theme_handler (DocumentKey key) u = document_keydown key u"
| "theme_handler (FocusMoves f) u = u\<lparr>focused := f\<rparr>"
| "theme_handler AboutClick u = document_click True (closeMenus u)"

text \<open>
  The page as the server sends it: the menu closed, and whatever options, toggles and bars the
  template has.
\<close>

definition fresh_page :: "theme_ui \<Rightarrow> bool" where
  "fresh_page u \<longleftrightarrow>
     themePreference u = ''system'' \<and> \<not> profileMenuOpen u \<and> panel_hidden u \<in> {None, Some True} \<and>
     set (toggles_expanded u) \<subseteq> {False} \<and> toolbar_open u \<in> {None, Some False} \<and>
     topbar_open u \<in> {None, Some False}"

inductive theme_step :: "theme_ui \<Rightarrow> theme_ui \<Rightarrow> bool" where
  event: "theme_step u (theme_handler e u)"

inductive theme_reachable :: "theme_ui \<Rightarrow> bool" where
  load: "fresh_page u \<Longrightarrow> theme_reachable (initTheme u)"
| step: "theme_reachable u \<Longrightarrow> theme_step u v \<Longrightarrow> theme_reachable v"

inductive_cases theme_stepE: "theme_step u v"

section \<open>What the page shows\<close>

definition theme_shown :: "theme_ui \<Rightarrow> bool" where
  "theme_shown u \<longleftrightarrow>
     themePreference u \<in> {''system'', ''light'', ''dark''} \<and>
     document_theme u = Some (resolveTheme (prefers_dark u) (themePreference u)) \<and>
     list_all (\<lambda>opt. to_checked opt = (to_theme opt = Some (themePreference u))) (theme_options u) \<and>
     initial_preference (stored u) = themePreference u"

text \<open>
  The menu's elements agree with the script, or they are as a click on the About link leaves them: the
  panel is hidden, while the script and the top bar take the menu for open.
\<close>

definition menu_agrees :: "theme_ui \<Rightarrow> bool" where
  "menu_agrees u \<longleftrightarrow>
     (no_menu u \<longrightarrow> \<not> profileMenuOpen u) \<and>
     panel_hidden u \<in> {None, Some (\<not> profileMenuOpen u)} \<and>
     set (toggles_expanded u) \<subseteq> {profileMenuOpen u} \<and>
     toolbar_open u \<in> {None, Some (profileMenuOpen u)} \<and>
     topbar_open u \<in> {None, Some (profileMenuOpen u)}"

definition left_by_about :: "theme_ui \<Rightarrow> bool" where
  "left_by_about u \<longleftrightarrow>
     \<not> no_menu u \<and> profileMenuOpen u \<and> panel_hidden u = Some True \<and> set (toggles_expanded u) \<subseteq> {False} \<and>
     toolbar_open u \<in> {None, Some False} \<and> topbar_open u \<in> {None, Some True}"

definition menu_shown :: "theme_ui \<Rightarrow> bool" where
  "menu_shown u \<longleftrightarrow> menu_agrees u \<or> left_by_about u"

lemmas menu_defs = menu_shown_def menu_agrees_def left_by_about_def no_menu_def

definition page_shown :: "theme_ui \<Rightarrow> bool" where
  "page_shown u \<longleftrightarrow> theme_shown u \<and> menu_shown u"

lemma normalize_cases:
  "normalizeThemePreference v = Some p \<Longrightarrow> v = Some p \<and> p \<in> {''system'', ''light'', ''dark''}"
  by (auto simp: normalizeThemePreference_def split: if_splits)

lemma normalize_known [simp]:
  "p \<in> {''system'', ''light'', ''dark''} \<Longrightarrow> normalizeThemePreference (Some p) = Some p"
  by (auto simp: normalizeThemePreference_def)

lemma initial_preference_known: "initial_preference st \<in> {''system'', ''light'', ''dark''}"
  by (auto simp: initial_preference_def Let_def dest: normalize_cases split: option.splits)

lemma initial_preference_stored [simp]:
  "p \<in> {''system'', ''light'', ''dark''} \<Longrightarrow>
    initial_preference (st(THEME_PREF_STORAGE_KEY := Some p, LEGACY_THEME_STORAGE_KEY := q)) = p"
  by (simp add: initial_preference_def del: insert_iff)

lemma apply_fields [simp]:
  "themePreference (applyThemePreference p b u) = p"
  "document_theme (applyThemePreference p b u) = Some (resolveTheme (prefers_dark u) p)"
  "prefers_dark (applyThemePreference p b u) = prefers_dark u"
  "theme_options (applyThemePreference p b u) =
     map (\<lambda>opt. opt\<lparr>to_checked := (to_theme opt = Some p)\<rparr>) (theme_options u)"
  "stored (applyThemePreference p False u) = stored u"
  "menu_agrees (applyThemePreference p b u) = menu_agrees u"
  "left_by_about (applyThemePreference p b u) = left_by_about u"
  "menu_shown (applyThemePreference p b u) = menu_shown u"
  by (simp_all add: applyThemePreference_def menu_defs Let_def)

lemma apply_shown:
  assumes "p \<in> {''system'', ''light'', ''dark''}"
    and "b \<or> initial_preference (stored u) = p"
  shows "theme_shown (applyThemePreference p b u)"
proof -
  have "initial_preference (stored (applyThemePreference p b u)) = p"
    using assms by (auto simp: applyThemePreference_def Let_def)
  then show ?thesis using assms(1) by (simp add: theme_shown_def list_all_iff)
qed

lemma close_fields [simp]:
  "theme_shown (closeProfileMenu b u) = theme_shown u"
  "theme_options (closeProfileMenu b u) = theme_options u"
  by (simp_all add: closeProfileMenu_def theme_shown_def Let_def)

lemma close_menu_agrees: "menu_shown u \<Longrightarrow> menu_agrees (closeProfileMenu b u)"
  by (auto simp: closeProfileMenu_def menu_defs Let_def)

lemma agrees_shown: "menu_agrees u \<Longrightarrow> menu_shown u"
  by (simp add: menu_shown_def)

lemma close_shown:
  "menu_agrees u \<Longrightarrow> menu_agrees (closeProfileMenu b u)"
  "menu_shown u \<Longrightarrow> menu_shown (closeProfileMenu b u)"
  by (blast intro: close_menu_agrees agrees_shown)+

lemma focus_option_fields [simp]:
  "theme_shown (focus_option i u) = theme_shown u"
  "menu_agrees (focus_option i u) = menu_agrees u"
  "left_by_about (focus_option i u) = left_by_about u"
  "menu_shown (focus_option i u) = menu_shown u"
  "profileMenuOpen (focus_option i u) = profileMenuOpen u"
  "theme_options (focus_option i u) = theme_options u"
  by (simp_all add: focus_option_def theme_shown_def menu_defs)

lemma focusSelected_fields [simp]:
  "theme_shown (focusSelectedThemeOption u) = theme_shown u"
  "menu_agrees (focusSelectedThemeOption u) = menu_agrees u"
  by (simp_all add: focusSelectedThemeOption_def split: option.split)

lemma toggle_shown:
  "theme_shown (toggleProfileMenu u) = theme_shown u"
  "menu_shown u \<Longrightarrow> menu_agrees (toggleProfileMenu u)"
proof -
  show "theme_shown (toggleProfileMenu u) = theme_shown u"
    by (simp add: toggleProfileMenu_def) (simp add: theme_shown_def)
  show "menu_agrees (toggleProfileMenu u)" if "menu_shown u"
    using that close_menu_agrees [OF that, of False]
    by (auto simp: toggleProfileMenu_def) (auto simp: menu_defs)
qed

lemma toggle_keeps_shown:
  "menu_agrees u \<Longrightarrow> menu_agrees (toggleProfileMenu u)"
  "menu_shown u \<Longrightarrow> menu_shown (toggleProfileMenu u)"
  by (blast intro: toggle_shown agrees_shown)+

lemma navigation_shown:
  "theme_shown (handleMenuOptionNavigation key u) = theme_shown u"
  "menu_agrees u \<Longrightarrow> menu_agrees (handleMenuOptionNavigation key u)"
  "menu_shown u \<Longrightarrow> menu_shown (handleMenuOptionNavigation key u)"
  by (simp_all add: handleMenuOptionNavigation_def focus_next_def focus_previous_def Let_def
      close_shown split: option.split)

lemmas handler_defs = select_theme_option_def toggle_keydown_def document_click_def
  document_keydown_def handleSystemThemeChange_def

text \<open>Only the About link takes the menu's elements out of step with the script.\<close>

lemma handler_menu_agrees:
  assumes "menu_agrees u" and "e \<noteq> AboutClick"
  shows "menu_agrees (theme_handler e u)"
proof (cases e)
  case (SystemChange d)
  have "menu_agrees (u\<lparr>prefers_dark := d\<rparr>)" using assms(1) by (simp add: menu_defs)
  with SystemChange show ?thesis by (simp add: handler_defs)
next
  case (FocusMoves f)
  with assms(1) show ?thesis by (simp add: menu_defs)
qed (use assms in \<open>simp_all add: handler_defs close_shown toggle_keeps_shown navigation_shown
       split: option.split\<close>)

lemma handler_menu_shown:
  assumes "menu_shown u"
  shows "menu_shown (theme_handler e u)"
proof (cases e)
  case (SystemChange d)
  have "menu_shown (u\<lparr>prefers_dark := d\<rparr>)" using assms by (simp add: menu_defs)
  with SystemChange show ?thesis by (simp add: handler_defs)
next
  case (FocusMoves f)
  with assms show ?thesis by (simp add: menu_defs)
next
  case AboutClick
  with assms show ?thesis by (auto simp: handler_defs closeMenus_def menu_defs)
qed (use assms in \<open>simp_all add: handler_defs close_shown toggle_keeps_shown navigation_shown
       split: option.split\<close>)

lemma handler_theme_shown: "theme_shown u \<Longrightarrow> theme_shown (theme_handler e u)"
proof (cases e)
  case (OptionClick i)
  assume "theme_shown u"
  moreover have "theme_shown (applyThemePreference p True u)"
    if "normalizeThemePreference v = Some p" for p v
    using normalize_cases [OF that] by (intro apply_shown) auto
  ultimately show ?thesis using OptionClick
    by (auto simp: handler_defs split: option.split)
next
  case (SystemChange d)
  assume u: "theme_shown u"
  have "theme_shown (applyThemePreference ''system'' False (u\<lparr>prefers_dark := d\<rparr>))"
    if "themePreference u = ''system''"
    using u that by (intro apply_shown) (auto simp: theme_shown_def)
  moreover have "theme_shown (u\<lparr>prefers_dark := d\<rparr>)" if "themePreference u \<noteq> ''system''"
    using u that by (auto simp: theme_shown_def resolveTheme_def)
  ultimately show ?thesis using SystemChange by (simp add: handler_defs)
next
  case (FocusMoves f)
  assume "theme_shown u"
  with FocusMoves show ?thesis by (simp add: theme_shown_def)
next
  case AboutClick
  assume "theme_shown u"
  with AboutClick show ?thesis by (simp add: handler_defs closeMenus_def theme_shown_def)
qed (auto simp: handler_defs toggle_shown navigation_shown)

lemma init_shown: "fresh_page u \<Longrightarrow> page_shown (initTheme u)"
  unfolding page_shown_def initTheme_def
  using initial_preference_known [of "stored u"]
  by (auto simp: apply_shown simp del: insert_iff)
     (auto simp: fresh_page_def menu_defs)

interpretation theme: event_system "\<lambda>v. \<exists>u. fresh_page u \<and> v = initTheme u" theme_handler page_shown
proof
  fix v assume "\<exists>u. fresh_page u \<and> v = initTheme u"
  then show "page_shown v" using init_shown by blast
next
  fix u e assume "page_shown u"
  then show "page_shown (theme_handler e u)"
    by (simp add: page_shown_def handler_menu_shown handler_theme_shown)
qed

lemma reachable_run: "theme_reachable v \<Longrightarrow> \<exists>u es. fresh_page u \<and> v = fold theme_handler es (initTheme u)"
proof (induction rule: theme_reachable.induct)
  case (load u)
  then have "fresh_page u \<and> initTheme u = fold theme_handler [] (initTheme u)" by simp
  then show ?case by blast
next
  case (step w v)
  then obtain u es e where "fresh_page u" "w = fold theme_handler es (initTheme u)" "v = theme_handler e w"
    by (auto elim: theme_stepE)
  then have "fresh_page u \<and> v = fold theme_handler (es @ [e]) (initTheme u)" by simp
  then show ?case by blast
qed

lemma reachable_shown: "theme_reachable v \<Longrightarrow> page_shown v"
  using reachable_run theme.inv_reached by blast

section \<open>Properties\<close>

text \<open>C18: After any sequence of clicks, keys and system theme changes, the document has the theme the
  preference resolves to, exactly the preference's option is checked, and reloading the page would find
  the same preference.  The panel, the toggles and the two bars agree with the script on whether the menu
  is open, or they are as the About link of the open menu leaves them: panel and toolbar closed, script and
  top bar open.  No other event takes them out of step, and the next click on a toggle brings them back
  with the menu closed.\<close>

theorem theme_and_menu_consistent:
  assumes "theme_reachable u"
  shows "document_theme u = Some (resolveTheme (prefers_dark u) (themePreference u)) \<and>
    list_all (\<lambda>opt. to_checked opt = (to_theme opt = Some (themePreference u))) (theme_options u) \<and>
    themePreference (initTheme u) = themePreference u \<and>
    (panel_hidden u \<in> {None, Some (\<not> profileMenuOpen u)} \<and>
     set (toggles_expanded u) \<subseteq> {profileMenuOpen u} \<and>
     toolbar_open u \<in> {None, Some (profileMenuOpen u)} \<and> topbar_open u \<in> {None, Some (profileMenuOpen u)} \<or>
     left_by_about u) \<and>
    (menu_agrees u \<and> e \<noteq> AboutClick \<longrightarrow> menu_agrees (theme_handler e u)) \<and>
    (left_by_about u \<longrightarrow>
      menu_agrees (theme_handler ToggleClick u) \<and> \<not> profileMenuOpen (theme_handler ToggleClick u))"
proof -
  have s: "theme_shown u" "menu_shown u" using reachable_shown [OF assms] by (simp_all add: page_shown_def)
  have "\<not> profileMenuOpen (toggleProfileMenu u)" if "left_by_about u"
    using that by (simp add: left_by_about_def toggleProfileMenu_def closeProfileMenu_def Let_def)
  with s toggle_shown(2) [OF s(2)] handler_menu_agrees [of u e] show ?thesis
    by (auto simp: theme_shown_def menu_shown_def menu_agrees_def [of u] initTheme_def)
qed

text \<open>In the open menu the arrow keys go round the options: \<open>k\<close> times down from option \<open>i\<close> is option
  \<open>(i + k) mod n\<close>, and an up undoes a down.\<close>

theorem arrow_keys_cycle:
  assumes "profileMenuOpen u" and "focused_index u = Some i"
  shows "focused_index ((handleMenuOptionNavigation ''ArrowDown'' ^^ k) u) =
      Some ((i + k) mod length (theme_options u)) \<and>
    handleMenuOptionNavigation ''ArrowUp'' (handleMenuOptionNavigation ''ArrowDown'' u) = u"
proof
  let ?n = "length (theme_options u)"
  let ?down = "handleMenuOptionNavigation ''ArrowDown''"
  from assms(2) have i: "focused u = Option i" "i < ?n"
    by (auto simp: focused_index_def split: focus.splits if_splits)
  have pos: "x mod ?n < ?n" for x using i(2) by (intro mod_less_divisor) linarith
  have run: "(?down ^^ k) u = u\<lparr>focused := Option ((i + k) mod ?n)\<rparr>" for k
  proof (induction k)
    case 0
    with i show ?case by (simp flip: i(1))
  next
    case (Suc k)
    with assms(1) pos [of "i + k"] pos [of "i + k + 1"] show ?case
      by (simp add: handleMenuOptionNavigation_def focus_next_def focused_index_def focus_option_def
          mod_Suc_eq)
  qed
  from pos show "focused_index ((?down ^^ k) u) = Some ((i + k) mod ?n)"
    by (simp add: run focused_index_def)
  have "?down u = u\<lparr>focused := Option ((i + 1) mod ?n)\<rparr>" using run [of 1] by simp
  moreover have "((i + 1) mod ?n + ?n - 1) mod ?n = i"
    using i(2) by (cases "i + 1 = ?n") simp_all
  moreover note pos [of "i + 1"]
  ultimately show "handleMenuOptionNavigation ''ArrowUp'' (?down u) = u"
    using assms(1) i
    by (simp add: handleMenuOptionNavigation_def focus_previous_def focused_index_def focus_option_def
        Let_def flip: i(1))
qed

text \<open>Opening the About dialog from the menu hides the panel but leaves the script's state open and
  the top bar's open class set, so the next click on the menu button does not show the menu.\<close>

theorem about_link_leaves_menu_open:
  assumes "theme_reachable u" and "profileMenuOpen u" and "panel_hidden u = Some False"
  shows "panel_hidden (closeMenus u) = Some True \<and> profileMenuOpen (closeMenus u) \<and>
    topbar_open (closeMenus u) = topbar_open u \<and>
    panel_hidden (toggleProfileMenu (closeMenus u)) = Some True"
proof -
  from reachable_shown [OF assms(1)] assms(2)
  have "toggles_expanded u \<noteq> []" by (auto simp: page_shown_def menu_defs)
  with assms(2,3) show ?thesis
    by (simp add: closeMenus_def toggleProfileMenu_def closeProfileMenu_def no_menu_def Let_def)
qed

section \<open>Examples\<close>

text \<open>The dashboard's own page: three options, one toggle, a toolbar and a top bar.\<close>

definition dashboard_page :: theme_ui where
  "dashboard_page =
     \<lparr>themePreference = ''system'', profileMenuOpen = False, stored = (\<lambda>_. None), prefers_dark = True,
      document_theme = None,
      theme_options = [\<lparr>to_theme = Some ''system'', to_checked = True\<rparr>,
        \<lparr>to_theme = Some ''light'', to_checked = False\<rparr>, \<lparr>to_theme = Some ''dark'', to_checked = False\<rparr>],
      panel_hidden = Some True, toggles_expanded = [False], toolbar_open = Some False,
      topbar_open = Some False, focused = Elsewhere\<rparr>"

definition open_page :: theme_ui where
  "open_page = theme_handler ToggleClick (initTheme dashboard_page)"

lemma open_page_reachable: "theme_reachable open_page"
  unfolding open_page_def
  by (rule theme_reachable.step [OF theme_reachable.load theme_step.event])
     (simp add: fresh_page_def dashboard_page_def)

lemma open_page_fields:
  "profileMenuOpen open_page" "focused_index open_page = Some 0" "length (theme_options open_page) = 3"
  "panel_hidden open_page = Some False"
  by (simp_all add: open_page_def toggleProfileMenu_def initTheme_def applyThemePreference_def
      dashboard_page_def no_menu_def focusSelectedThemeOption_def focus_option_def focused_index_def
      initial_preference_def normalizeThemePreference_def Let_def)

definition after_about :: theme_ui where
  "after_about = theme_handler AboutClick open_page"

lemma after_about_reachable: "theme_reachable after_about"
  unfolding after_about_def by (rule theme_reachable.step [OF open_page_reachable theme_step.event])

lemma after_about_left: "left_by_about after_about"
  by (simp add: after_about_def open_page_def toggleProfileMenu_def initTheme_def applyThemePreference_def
      dashboard_page_def no_menu_def focusSelectedThemeOption_def focus_option_def document_click_def
      closeMenus_def left_by_about_def initial_preference_def normalizeThemePreference_def Let_def)

lemma theme_and_menu_consistent_witness:
  "document_theme open_page = Some (resolveTheme (prefers_dark open_page) (themePreference open_page)) \<and>
   \<not> profileMenuOpen (theme_handler ToggleClick after_about)"
  using theme_and_menu_consistent [OF open_page_reachable] after_about_left
    theme_and_menu_consistent [OF after_about_reachable] by blast

lemma arrow_keys_cycle_witness:
  "focused_index ((handleMenuOptionNavigation ''ArrowDown'' ^^ 4) open_page) = Some 1"
  using arrow_keys_cycle [OF open_page_fields(1,2), of 4] by (simp add: open_page_fields(3))

lemma about_link_leaves_menu_open_witness:
  "panel_hidden (toggleProfileMenu (closeMenus open_page)) = Some True"
  using about_link_leaves_menu_open [OF open_page_reachable open_page_fields(1,4)] by blast

end
