(* ===== verification/Agent_About.thy ===== *)
theory Agent_About
  imports Js_Number Event_System
begin

text \<open>
  The About and acknowledgements dialogs of the node (\<open>about.js\<close>).  A DOM element is its tag, class,
  link target, own text and children; \<open>closeMenus\<close>, which opening the dialog also runs, is in the theory
  of the theme and menu.
\<close>

section \<open>Elements\<close>

datatype dom =
  Dom (dom_tag: string) (dom_class: string) (dom_href: "string option") (dom_text: string) (dom_children: "dom list")

definition text_element :: "string \<Rightarrow> string \<Rightarrow> string \<Rightarrow> dom" where
  "text_element tag v className = Dom tag className None v []"

definition link_element :: "string \<Rightarrow> string \<Rightarrow> dom" where
  "link_element label href = Dom ''a'' [] (Some href) label []"

definition formatDuration :: "jsnum option \<Rightarrow> string" where
  "formatDuration seconds =
     (let total = math_max [NInt 0, num_or (case seconds of None \<Rightarrow> NaN | Some s \<Rightarrow> s) (NInt 0)];
          days = num_floor (num_div total (NInt 86400));
          hours = num_floor (num_div (num_mod total (NInt 86400)) (NInt 3600));
          minutes = num_floor (num_div (num_mod total (NInt 3600)) (NInt 60))
      in if num_truthy days then num_to_string days @ ''d '' @ num_to_string hours @ ''h''
         else if num_truthy hours then num_to_string hours @ ''h '' @ num_to_string minutes @ ''m''
         else num_to_string minutes @ ''m'')"

definition detailList :: "(string \<times> string option) list \<Rightarrow> dom" where
  "detailList items =
     Dom ''dl'' ''about-details'' None []
       (concat (map (\<lambda>(label, v). [text_element ''dt'' label [], text_element ''dd'' (or_opt v ''Unavailable'') []]) items))"

definition heading :: "string \<Rightarrow> string option \<Rightarrow> dom list \<Rightarrow> dom" where
  "heading title description more =
     Dom ''section'' ''about-section'' None []
       ([text_element ''h3'' title []] @
        (if truthy description then [text_element ''p'' (the description) ''helper''] else []) @ more)"

section \<open>Data\<close>

record dependency =
  dp_name :: string
  dp_version :: "string option"
  dp_source :: "string option"
  dp_architecture :: "string option"

record about_data =
  ab_version :: "string option"
  ab_serial :: "string option"
  ab_hostname :: "string option"
  ab_adopted :: bool
  ab_operating_system :: "string option"
  ab_kernel :: "string option"
  ab_architecture :: "string option"
  ab_go_version :: "string option"
  ab_uptime_seconds :: "jsnum option"
  ab_featured :: "dependency list option"
  ab_go_modules :: "dependency list option"
  ab_debian_packages :: "dependency list option"
  ab_warnings :: "string list option"

definition or_empty :: "'a list option \<Rightarrow> 'a list" where
  "or_empty xs = (case xs of None \<Rightarrow> [] | Some ys \<Rightarrow> ys)"

section \<open>Rendering\<close>

definition dependency_item :: "bool \<Rightarrow> dependency \<Rightarrow> dom" where
  "dependency_item with_architecture d =
     Dom ''li'' [] None []
       ([if truthy (dp_source d) then link_element (dp_name d) (the (dp_source d))
         else text_element ''span'' (dp_name d) []] @
        (if truthy (dp_version d) then [text_element ''span'' ('' '' @ the (dp_version d)) ''helper''] else []) @
        (if with_architecture \<and> truthy (dp_architecture d)
         then [text_element ''span'' ('' ('' @ the (dp_architecture d) @ '')'') ''helper''] else []))"

definition about_node_items :: "about_data \<Rightarrow> (string \<times> string option) list" where
  "about_node_items d =
     [(''Strom version'', ab_version d), (''Node serial'', ab_serial d), (''Hostname'', ab_hostname d),
      (''Deployment'', Some (if ab_adopted d then ''Managed by a Strom controller'' else ''Standalone node'')),
      (''Operating system'', ab_operating_system d), (''Kernel'', ab_kernel d),
      (''Architecture'', ab_architecture d), (''Go runtime'', ab_go_version d),
      (''Agent uptime'', Some (formatDuration (ab_uptime_seconds d)))]"

definition middle_dot :: string where
  "middle_dot = '' '' @ [CHR 0xC2, CHR 0xB7] @ '' ''"

definition about_links :: dom where
  "about_links =
     Dom ''p'' ''about-links'' None []
       [link_element ''Documentation'' ''https://foehammer82.github.io/strom/getting-started/'',
        text_element ''span'' middle_dot [],
        link_element ''Source'' ''https://github.com/Foehammer82/strom'',
        text_element ''span'' middle_dot [],
        link_element ''MIT License'' ''https://github.com/Foehammer82/strom/blob/main/LICENSE'']"

definition renderAbout :: "about_data \<Rightarrow> dom list" where
  "renderAbout d =
     [heading ''Strom Node'' (Some ''A local UPS node that configures Network UPS Tools, exposes live telemetry, and can be managed through a Strom controller.'')
        [about_links],
      heading ''This node'' None [detailList (about_node_items d)],
      heading ''Open-source acknowledgments'' (Some ''Strom is grateful to every project and maintainer whose work makes this node possible.'')
        [Dom ''ul'' ''about-featured-list'' None []
           (if or_empty (ab_featured d) = []
            then [text_element ''li'' ''Acknowledgement metadata is unavailable for this build.'' ''helper'']
            else map (dependency_item False) (or_empty (ab_featured d))),
         text_element ''button'' ''View all acknowledgments'' ''button button--ghost'']] @
     (if or_empty (ab_warnings d) = [] then []
      else [text_element ''p'' (join '' '' (or_empty (ab_warnings d))) ''helper''])"

text \<open>
  The filter of a record: \<open>None\<close> where \<open>value.version.toLowerCase()\<close> throws, because the name does not
  match and the server left out the version.
\<close>

definition matches :: "string \<Rightarrow> dependency \<Rightarrow> bool option" where
  "matches query d =
     (if query = [] \<or> js_includes (toLowerCase (dp_name d)) query then Some True
      else map_option (\<lambda>v. js_includes (toLowerCase v) query) (dp_version d))"

fun filter_matches :: "string \<Rightarrow> dependency list \<Rightarrow> dependency list option" where
  "filter_matches query [] = Some []"
| "filter_matches query (d # ds) =
     (case matches query d of
        None \<Rightarrow> None
      | Some b \<Rightarrow> map_option (\<lambda>xs. if b then d # xs else xs) (filter_matches query ds))"

definition append_group :: "string \<Rightarrow> string \<Rightarrow> dependency list \<Rightarrow> bool \<Rightarrow> dom list option" where
  "append_group query title records debian =
     map_option (\<lambda>visible.
       if visible = [] then []
       else [heading title (Some (nat_dec (length visible) @ '' shown''))
               [Dom ''ul'' ''acknowledgement-list'' None [] (map (dependency_item debian) visible)]])
       (filter_matches query records)"

text \<open>What the list shows, and whether the rendering threw, after which the groups before it stay.\<close>

definition renderAcknowledgements :: "about_data \<Rightarrow> string \<Rightarrow> string \<Rightarrow> bool \<times> dom list" where
  "renderAcknowledgements d search category =
     (let query = toLowerCase (trim search) in
      case (if category \<noteq> ''debian'' then append_group query ''Go modules'' (or_empty (ab_go_modules d)) False
            else Some []) of
        None \<Rightarrow> (True, [])
      | Some go \<Rightarrow>
          (case (if category \<noteq> ''go''
                 then append_group query ''Installed Debian packages'' (or_empty (ab_debian_packages d)) True
                 else Some []) of
             None \<Rightarrow> (True, go)
           | Some debian \<Rightarrow>
               (False, if go @ debian = []
                       then [text_element ''p'' ''No acknowledgments match this filter.'' ''helper'']
                       else go @ debian)))"

definition renderError :: "string \<Rightarrow> dom list" where
  "renderError message = [text_element ''p'' message ''about-error'']"

section \<open>State and events\<close>

record about_page =
  ap_data :: "about_data option"
  ap_content :: "dom list"
  ap_list :: "dom list"
  ap_about_open :: bool
  ap_ack_open :: bool
  ap_filter :: string
  ap_search :: string
  ap_requests :: nat

text \<open>The answer to \<open>GET /api/about\<close>: a failure of the network or of the body, a status, or the data.\<close>

datatype about_reply = AboutThrows string | AboutStatus | AboutData about_data

datatype about_event =
    AboutOpen
  | AboutReply about_reply
  | AboutClose
  | AckClose
  | AckBack
  | ViewAll
  | Backdrop bool
  | SetFilter string
  | SetSearch string

definition loading_text :: string where
  "loading_text = ''Loading node information'' @ [CHR 0xE2, CHR 0x80, CHR 0xA6]"

definition show_acknowledgements :: "about_page \<Rightarrow> about_page" where
  "show_acknowledgements p =
     (case ap_data p of
        None \<Rightarrow> p
      | Some d \<Rightarrow> p\<lparr>ap_list := snd (renderAcknowledgements d (ap_search p) (ap_filter p))\<rparr>)"

definition open_about :: "about_page \<Rightarrow> about_page" where
  "open_about p =
     (let p = p\<lparr>ap_about_open := True\<rparr> in
      case ap_data p of
        Some d \<Rightarrow> p\<lparr>ap_content := renderAbout d\<rparr>
      | None \<Rightarrow> p\<lparr>ap_content := renderError loading_text, ap_requests := Suc (ap_requests p)\<rparr>)"

definition about_replied :: "about_reply \<Rightarrow> about_page \<Rightarrow> about_page" where
  "about_replied r p =
     (if ap_requests p = 0 then p
      else (let p = p\<lparr>ap_requests := ap_requests p - 1\<rparr> in
            case r of
              AboutThrows m \<Rightarrow> p\<lparr>ap_content := renderError m\<rparr>
            | AboutStatus \<Rightarrow> p\<lparr>ap_content := renderError ''Unable to load node information.''\<rparr>
            | AboutData d \<Rightarrow> p\<lparr>ap_data := Some d, ap_content := renderAbout d\<rparr>))"

fun about_handler :: "about_event \<Rightarrow> about_page \<Rightarrow> about_page" where
  "about_handler AboutOpen p = open_about p"
| "about_handler (AboutReply r) p = about_replied r p"
| "about_handler AboutClose p = p\<lparr>ap_about_open := False\<rparr>"
| "about_handler AckClose p = p\<lparr>ap_ack_open := False\<rparr>"
| "about_handler AckBack p = p\<lparr>ap_ack_open := False, ap_about_open := True\<rparr>"
| "about_handler ViewAll p =
     (if ap_data p = None then p
      else show_acknowledgements (p\<lparr>ap_about_open := False, ap_ack_open := True\<rparr>))"
| "about_handler (Backdrop about) p =
     (if about then p\<lparr>ap_about_open := False\<rparr> else p\<lparr>ap_ack_open := False\<rparr>)"
| "about_handler (SetFilter c) p = show_acknowledgements (p\<lparr>ap_filter := c\<rparr>)"
| "about_handler (SetSearch s) p = show_acknowledgements (p\<lparr>ap_search := s\<rparr>)"

section \<open>The filter\<close>

definition wanted :: "string \<Rightarrow> dependency \<Rightarrow> bool" where
  "wanted query d \<longleftrightarrow>
     js_includes (toLowerCase (dp_name d)) query \<or> js_includes (toLowerCase (or_opt (dp_version d) [])) query"

definition throws_on :: "string \<Rightarrow> dependency \<Rightarrow> bool" where
  "throws_on query d \<longleftrightarrow>
     dp_version d = None \<and> \<not> js_includes (toLowerCase (dp_name d)) query"

lemma includes_empty [simp]: "js_includes s []"
  by (cases s) simp_all

lemma matches_wanted: "matches query d = (if throws_on query d then None else Some (wanted query d))"
  by (auto simp: matches_def throws_on_def wanted_def or_str_def split: option.split)

lemma filter_matches_wanted:
  "filter_matches query ds =
     (if \<exists>d\<in>set ds. throws_on query d then None else Some (filter (wanted query) ds))"
  by (induction ds) (auto simp: matches_wanted)

lemma group_nonempty:
  "append_group query title ds debian = Some doms \<Longrightarrow> doms = [] \<longleftrightarrow> filter (wanted query) ds = []"
  by (auto simp: append_group_def filter_matches_wanted split: if_splits)

text \<open>C36: The list of acknowledgements shows, for each selected category, exactly the records whose name or
  version holds the search text, whatever its case, or a message when there are none; it throws, and
  leaves the list without the group, exactly when a record of a selected category has no version and its
  name does not match.\<close>

theorem acknowledgements_filtered:
  "let query = toLowerCase (trim search);
       go = (if category = ''debian'' then [] else or_empty (ab_go_modules d));
       debian = (if category = ''go'' then [] else or_empty (ab_debian_packages d));
       list = (\<lambda>title ds b. if filter (wanted query) ds = [] then []
         else [heading title (Some (nat_dec (length (filter (wanted query) ds)) @ '' shown''))
                 [Dom ''ul'' ''acknowledgement-list'' None [] (map (dependency_item b) (filter (wanted query) ds))]])
   in fst (renderAcknowledgements d search category) = (\<exists>r\<in>set (go @ debian). throws_on query r) \<and>
      (fst (renderAcknowledgements d search category) \<or>
       snd (renderAcknowledgements d search category) =
         (if filter (wanted query) (go @ debian) = []
          then [text_element ''p'' ''No acknowledgments match this filter.'' ''helper'']
          else list ''Go modules'' go False @ list ''Installed Debian packages'' debian True))"
  by (auto simp: renderAcknowledgements_def append_group_def filter_matches_wanted Let_def)

end
