(* ===== verification/Agent_Json.thy ===== *)
theory Agent_Json
  imports Agent_Dashboard
begin

text \<open>
  The raw JSON dialog (\<open>highlightJSON\<close>): the JSON text of a UPS's variables, the token
  pattern that colours it, and what the dialog's text is.  The pattern's alternatives are matched as a
  backtracking matcher does: no two alternatives of the string's body start with the same character, so
  its repetition never has to give a character back.
\<close>

section \<open>JSON text\<close>

definition lower_hex :: "nat \<Rightarrow> char" where
  "lower_hex n = char_of (if n < 10 then 48 + n else 87 + n)"

definition json_quote :: "char \<Rightarrow> string" where
  "json_quote c =
     (let n = of_char c :: nat in
      if n = 34 then [CHR 0x5C, CHR 0x22]
      else if n = 92 then [CHR 0x5C, CHR 0x5C]
      else if n = 8 then [CHR 0x5C, CHR ''b'']
      else if n = 12 then [CHR 0x5C, CHR ''f'']
      else if n = 10 then [CHR 0x5C, CHR ''n'']
      else if n = 13 then [CHR 0x5C, CHR ''r'']
      else if n = 9 then [CHR 0x5C, CHR ''t'']
      else if n < 32 then [CHR 0x5C, CHR ''u'', CHR ''0'', CHR ''0'', lower_hex (n div 16), lower_hex (n mod 16)]
      else [c])"

definition json_string :: "string \<Rightarrow> string" where
  "json_string s = [CHR 0x22] @ concat (map json_quote s) @ [CHR 0x22]"

text \<open>\<open>JSON.stringify(value, null, 2)\<close> for an object whose values are strings.\<close>

definition json_member :: "entry \<Rightarrow> string" where
  "json_member e = ''  '' @ json_string (fst e) @ '': '' @ json_string (snd e)"

definition stringify_variables :: "entry list \<Rightarrow> string" where
  "stringify_variables vars =
     (if vars = [] then ''{}''
      else [CHR ''{'', CHR 0x0A] @ join [CHR '','', CHR 0x0A] (map json_member vars) @ [CHR 0x0A, CHR ''}''])"

section \<open>The token pattern\<close>

definition is_hex :: "char \<Rightarrow> bool" where
  "is_hex c \<longleftrightarrow>
     (let n = of_char c :: nat in 48 \<le> n \<and> n \<le> 57 \<or> 65 \<le> n \<and> n \<le> 70 \<or> 97 \<le> n \<and> n \<le> 102)"

definition is_word :: "char \<Rightarrow> bool" where
  "is_word c \<longleftrightarrow>
     (let n = of_char c :: nat in
      48 \<le> n \<and> n \<le> 57 \<or> 65 \<le> n \<and> n \<le> 90 \<or> 97 \<le> n \<and> n \<le> 122 \<or> n = 95)"

text \<open>The rest of a string literal with its closing quote.\<close>

function string_body :: "string \<Rightarrow> string option" where
  "string_body s =
     (case s of
        [] \<Rightarrow> None
      | c # t \<Rightarrow>
          if c = CHR 0x22 then Some [c]
          else if c = CHR 0x5C
          then (if take 1 t = ''u''
                then (if length t \<ge> 5 \<and> list_all is_hex (take 4 (drop 1 t))
                      then map_option (append (take 6 s)) (string_body (drop 6 s)) else None)
                else if t = [] then None
                else map_option (append (take 2 s)) (string_body (drop 2 s)))
          else map_option (Cons c) (string_body t))"
  by pat_completeness auto
termination
  by (relation "measure length") auto

declare string_body.simps [simp del]

definition match_string :: "string \<Rightarrow> (string \<times> bool) option" where
  "match_string s =
     (case s of
        [] \<Rightarrow> None
      | c # t \<Rightarrow>
          if c \<noteq> CHR 0x22 then None
          else (case string_body t of
                  None \<Rightarrow> None
                | Some b \<Rightarrow>
                    (let r = drop (length b) t; ws = takeWhile is_ws r in
                     if take 1 (dropWhile is_ws r) = '':'' then Some (c # b @ ws @ '':'', True)
                     else Some (c # b, False))))"

definition match_word :: "char option \<Rightarrow> string \<Rightarrow> string \<Rightarrow> (string \<times> bool) option" where
  "match_word prev w s =
     (if startsWith s w \<and> \<not> (\<exists>c. prev = Some c \<and> is_word c) \<and>
         \<not> (drop (length w) s \<noteq> [] \<and> is_word (hd (drop (length w) s)))
      then Some (w, False) else None)"

definition match_fraction :: "string \<Rightarrow> string" where
  "match_fraction s =
     (if take 1 s = ''.'' \<and> takeWhile is_digit (drop 1 s) \<noteq> []
      then ''.'' @ takeWhile is_digit (drop 1 s) else [])"

definition match_exponent :: "string \<Rightarrow> string" where
  "match_exponent s =
     (if take 1 s = ''e'' \<or> take 1 s = ''E''
      then (let sg = (if take 1 (drop 1 s) = ''+'' \<or> take 1 (drop 1 s) = ''-'' then take 1 (drop 1 s) else []);
                ds = takeWhile is_digit (drop (1 + length sg) s)
            in if ds = [] then [] else take 1 s @ sg @ ds)
      else [])"

definition match_number :: "string \<Rightarrow> (string \<times> bool) option" where
  "match_number s =
     (let sg = (if take 1 s = ''-'' then ''-'' else []);
          ds = takeWhile is_digit (drop (length sg) s)
      in if ds = [] then None
         else (let f = match_fraction (drop (length (sg @ ds)) s);
                   e = match_exponent (drop (length (sg @ ds @ f)) s)
               in Some (sg @ ds @ f @ e, False)))"

text \<open>The first alternative that matches at a position, given the character before it.\<close>

definition first_some :: "'a option list \<Rightarrow> 'a option" where
  "first_some ms = (case filter (\<lambda>m. m \<noteq> None) ms of [] \<Rightarrow> None | m # _ \<Rightarrow> m)"

definition match_token :: "char option \<Rightarrow> string \<Rightarrow> (string \<times> bool) option" where
  "match_token prev s =
     first_some [match_string s, match_word prev ''true'' s, match_word prev ''false'' s,
       match_word prev ''null'' s, match_number s]"

lemma match_token_progress: "match_token prev s = Some (m, k) \<Longrightarrow> m \<noteq> [] \<and> s \<noteq> []"
proof -
  have str: "m \<noteq> [] \<and> s \<noteq> []" if "match_string s = Some (m, k)"
    using that by (auto simp: match_string_def Let_def split: list.splits if_splits option.splits)
  have word: "m \<noteq> [] \<and> s \<noteq> []" if "match_word prev w s = Some (m, k)" "w \<noteq> []" for w
    using that by (auto simp: match_word_def startsWith_def split: if_splits)
  have num: "m \<noteq> [] \<and> s \<noteq> []" if "match_number s = Some (m, k)"
    using that by (cases s) (auto simp: match_number_def Let_def split: if_splits)
  assume "match_token prev s = Some (m, k)"
  then show ?thesis
    using str num word [of "''true''"] word [of "''false''"] word [of "''null''"]
    by (auto simp: match_token_def first_some_def split: if_splits)
qed

section \<open>Colouring\<close>

definition json_escape :: "string \<Rightarrow> string" where
  "json_escape s =
     replaceAll (CHR ''>'') ''&gt;'' (replaceAll (CHR ''<'') ''&lt;'' (replaceAll (CHR ''&'') ''&amp;'' s))"

definition token_class :: "string \<Rightarrow> bool \<Rightarrow> string" where
  "token_class m isKey =
     (if startsWith m [CHR 0x22] then (if isKey then ''json-token-key'' else ''json-token-string'')
      else if m = ''true'' \<or> m = ''false'' then ''json-token-boolean''
      else if m = ''null'' then ''json-token-null''
      else ''json-token-number'')"

definition token_span :: "string \<Rightarrow> string \<Rightarrow> string" where
  "token_span className m =
     ''<span class='' @ [CHR 0x22] @ className @ [CHR 0x22] @ ''>'' @ m @ ''</span>''"

function highlight_from :: "char option \<Rightarrow> string \<Rightarrow> string" where
  "highlight_from prev s =
     (case match_token prev s of
        Some (m, isKey) \<Rightarrow>
          token_span (token_class m isKey) m @ highlight_from (Some (last m)) (drop (length m) s)
      | None \<Rightarrow> (case s of [] \<Rightarrow> [] | c # t \<Rightarrow> c # highlight_from (Some c) t))"
  by pat_completeness auto
termination
  by (relation "measure (length \<circ> snd)") (auto dest: match_token_progress)

declare highlight_from.simps [simp del]

definition highlightJSON :: "entry list \<Rightarrow> string" where
  "highlightJSON vars = highlight_from None (json_escape (stringify_variables vars))"

section \<open>What the dialog shows\<close>

lemma json_escape_simps [simp]:
  "json_escape [] = []"
  "json_escape (c # s) =
     (if c = CHR ''&'' then ''&amp;'' else if c = CHR ''<'' then ''&lt;''
      else if c = CHR ''>'' then ''&gt;'' else [c]) @ json_escape s"
  by (simp_all add: json_escape_def)

lemma json_escape_append [simp]: "json_escape (s @ t) = json_escape s @ json_escape t"
  by (induction s) auto

lemma string_body_Cons:
  "string_body (CHR 0x22 # t) = Some [CHR 0x22]"
  "c \<noteq> CHR 0x22 \<Longrightarrow> c \<noteq> CHR 0x5C \<Longrightarrow> string_body (c # t) = map_option (Cons c) (string_body t)"
  "c \<noteq> CHR ''u'' \<Longrightarrow>
     string_body (CHR 0x5C # c # t) = map_option (append [CHR 0x5C, c]) (string_body t)"
  "list_all is_hex [c1, c2, c3, c4] \<Longrightarrow>
     string_body (CHR 0x5C # CHR ''u'' # c1 # c2 # c3 # c4 # t) =
       map_option (append [CHR 0x5C, CHR ''u'', c1, c2, c3, c4]) (string_body t)"
  by (subst string_body.simps, simp add: eval_nat_numeral)+

lemma is_hex_lower [simp]: "n < 16 \<Longrightarrow> is_hex (lower_hex n)"
  by (auto simp: is_hex_def lower_hex_def Let_def)

lemma lower_hex_plain [simp]:
  assumes "n < 16"
  shows "lower_hex n \<noteq> CHR ''&''" "lower_hex n \<noteq> CHR ''<''" "lower_hex n \<noteq> CHR ''>''"
proof -
  have "(of_char (lower_hex n) :: nat) \<notin> {38, 60, 62}" using assms by (auto simp: lower_hex_def)
  then show "lower_hex n \<noteq> CHR ''&''" "lower_hex n \<noteq> CHR ''<''" "lower_hex n \<noteq> CHR ''>''" by auto
qed

lemma is_hex_zero [simp]: "is_hex (CHR ''0'')"
  by (simp add: is_hex_def)

lemma append_eta: "(@) (c # xs) = (\<lambda>ys. c # xs @ ys)"
  by auto

lemma string_body_quote:
  "string_body (json_escape (json_quote c) @ r) =
     map_option (append (json_escape (json_quote c))) (string_body r)"
proof -
  define n where "n = (of_char c :: nat)"
  have n: "n < 256" by (simp add: n_def)
  have c: "c = char_of n" by (simp add: n_def)
  consider "n = 34" | "n = 92" | "n \<in> {8, 9, 10, 12, 13}" | "n < 32" "n \<notin> {8, 9, 10, 12, 13}" | "n = 38"
    | "n = 60" | "n = 62" | "\<not> n < 32" "n \<notin> {34, 38, 60, 62, 92}"
    by auto
  then show ?thesis
  proof cases
    case 4
    then have "json_quote c = [CHR 0x5C, CHR ''u'', CHR ''0'', CHR ''0'', lower_hex (n div 16), lower_hex (n mod 16)]"
      by (simp add: json_quote_def n_def [symmetric] Let_def)
    moreover from 4 have "n div 16 < 16" "n mod 16 < 16" by auto
    ultimately show ?thesis by (simp add: string_body_Cons)
  next
    case 8
    then have "c \<noteq> CHR 0x22" "c \<noteq> CHR 0x5C" "c \<noteq> CHR ''&''" "c \<noteq> CHR ''<''" "c \<noteq> CHR ''>''"
      by (auto simp: n_def)
    with 8 show ?thesis
      by (simp add: json_quote_def n_def [symmetric] Let_def string_body_Cons append_eta)
  next
    case 5
    then have "c = CHR ''&''" by (intro of_char_eq_iff [where 'a = nat, THEN iffD1]) (simp add: n_def)
    then show ?thesis by (simp add: json_quote_def string_body_Cons option.map_comp comp_def append_eta)
  next
    case 6
    then have "c = CHR ''<''" by (intro of_char_eq_iff [where 'a = nat, THEN iffD1]) (simp add: n_def)
    then show ?thesis by (simp add: json_quote_def string_body_Cons option.map_comp comp_def append_eta)
  next
    case 7
    then have "c = CHR ''>''" by (intro of_char_eq_iff [where 'a = nat, THEN iffD1]) (simp add: n_def)
    then show ?thesis by (simp add: json_quote_def string_body_Cons option.map_comp comp_def append_eta)
  qed (auto simp: json_quote_def n_def [symmetric] c Let_def string_body_Cons)
qed

lemma string_body_chars:
  "string_body (json_escape (concat (map json_quote s)) @ CHR 0x22 # r) =
     Some (json_escape (concat (map json_quote s)) @ [CHR 0x22])"
  by (induction s) (simp_all add: string_body_Cons string_body_quote)

lemma match_json_string:
  "match_string (json_escape (json_string s) @ r) =
     (let q = json_escape (json_string s); ws = takeWhile is_ws r
      in if take 1 (dropWhile is_ws r) = '':'' then Some (q @ ws @ '':'', True) else Some (q, False))"
proof -
  define b where "b = json_escape (concat (map json_quote s))"
  have "json_escape (json_string s) = CHR 0x22 # b @ [CHR 0x22]" by (simp add: json_string_def b_def)
  moreover have "string_body (b @ CHR 0x22 # r) = Some (b @ [CHR 0x22])"
    unfolding b_def by (rule string_body_chars)
  ultimately show ?thesis by (simp add: match_string_def Let_def)
qed

lemma match_token_string: "match_string s = Some m \<Longrightarrow> match_token prev s = Some m"
  by (simp add: match_token_def first_some_def)

definition plain_char :: "char \<Rightarrow> bool" where
  "plain_char c \<longleftrightarrow> c \<in> {CHR ''{'', CHR ''}'', CHR '','', CHR '' '', CHR 0x0A}"

lemma highlight_plain:
  assumes "plain_char c"
  shows "highlight_from prev (c # r) = c # highlight_from (Some c) r"
proof -
  have c: "c \<noteq> CHR 0x22" "c \<noteq> CHR ''t''" "c \<noteq> CHR ''f''" "c \<noteq> CHR ''n''" "c \<noteq> CHR ''-''" "\<not> is_digit c"
    using assms by (auto simp: plain_char_def is_digit_def)
  have "match_string (c # r) = None" "match_word prev ''true'' (c # r) = None"
    "match_word prev ''false'' (c # r) = None" "match_word prev ''null'' (c # r) = None"
    using c by (simp_all add: match_string_def match_word_def)
  moreover have "match_number (c # r) = None" using c by (simp add: match_number_def)
  ultimately have "match_token prev (c # r) = None" by (simp add: match_token_def first_some_def)
  then show ?thesis by (subst highlight_from.simps) simp
qed

lemma highlight_plains:
  "list_all plain_char p \<Longrightarrow> \<exists>prev'. highlight_from prev (p @ r) = p @ highlight_from prev' r"
  by (induction p arbitrary: prev) (auto simp: highlight_plain)

lemma highlight_string:
  fixes s r prev
  defines "q \<equiv> json_escape (json_string s)"
  shows "take 1 (dropWhile is_ws r) \<noteq> '':'' \<Longrightarrow>
      \<exists>prev'. highlight_from prev (q @ r) = token_span ''json-token-string'' q @ highlight_from prev' r"
    and "\<exists>prev'. highlight_from prev (q @ '':'' @ r) = token_span ''json-token-key'' (q @ '':'') @ highlight_from prev' r"
proof -
  have q: "take 1 q = [CHR 0x22]" "q \<noteq> []" by (simp_all add: q_def json_string_def)
  have ws: "\<not> is_ws (CHR '':'')" by (simp add: is_ws_def)
  show "\<exists>prev'. highlight_from prev (q @ r) = token_span ''json-token-string'' q @ highlight_from prev' r"
    if "take 1 (dropWhile is_ws r) \<noteq> '':''"
  proof -
    have "match_token prev (q @ r) = Some (q, False)"
      using that by (intro match_token_string) (simp add: q_def match_json_string Let_def)
    then show ?thesis
      using q by (subst highlight_from.simps) (auto simp: token_class_def startsWith_def)
  qed
  have "match_token prev (q @ '':'' @ r) = Some (q @ '':'', True)"
    using ws by (intro match_token_string) (simp add: q_def match_json_string Let_def)
  then show "\<exists>prev'. highlight_from prev (q @ '':'' @ r) = token_span ''json-token-key'' (q @ '':'') @ highlight_from prev' r"
    using q by (subst highlight_from.simps) (auto simp: token_class_def startsWith_def)
qed

definition member_html :: "entry \<Rightarrow> string" where
  "member_html e =
     ''  '' @ token_span ''json-token-key'' (json_escape (json_string (fst e)) @ '':'') @ '' '' @
     token_span ''json-token-string'' (json_escape (json_string (snd e)))"

lemma highlight_member:
  assumes "take 1 (dropWhile is_ws r) \<noteq> '':''"
  shows "\<exists>prev'. highlight_from prev (json_escape (json_member e) @ r) = member_html e @ highlight_from prev' r"
proof -
  define k v where "k = json_escape (json_string (fst e))" and "v = json_escape (json_string (snd e))"
  obtain p1 where 1: "highlight_from prev (''  '' @ k @ '':'' @ '' '' @ v @ r) = ''  '' @ highlight_from p1 (k @ '':'' @ '' '' @ v @ r)"
    using highlight_plains [of "''  ''"] by (force simp: plain_char_def)
  obtain p2 where 2: "highlight_from p1 (k @ '':'' @ '' '' @ v @ r) = token_span ''json-token-key'' (k @ '':'') @ highlight_from p2 ('' '' @ v @ r)"
    using highlight_string(2) unfolding k_def by blast
  obtain p3 where 3: "highlight_from p2 ('' '' @ v @ r) = '' '' @ highlight_from p3 (v @ r)"
    using highlight_plains [of "'' ''"] by (force simp: plain_char_def)
  obtain p4 where 4: "highlight_from p3 (v @ r) = token_span ''json-token-string'' v @ highlight_from p4 r"
    using highlight_string(1) [OF assms] unfolding v_def by blast
  have "json_escape (json_member e) @ r = ''  '' @ k @ '':'' @ '' '' @ v @ r"
    by (simp add: json_member_def k_def v_def)
  with 1 2 3 4 show ?thesis by (auto simp: member_html_def k_def v_def)
qed

text \<open>The whole text: the members with the separators between them.\<close>

definition highlighted_variables :: "entry list \<Rightarrow> string" where
  "highlighted_variables vars =
     (if vars = [] then ''{}''
      else [CHR ''{'', CHR 0x0A] @ join [CHR '','', CHR 0x0A] (map member_html vars) @ [CHR 0x0A, CHR ''}''])"

lemma highlight_members:
  "\<exists>prev'. highlight_from prev (json_escape (join [CHR '','', CHR 0x0A] (map json_member (e # es))) @ [CHR 0x0A, CHR ''}'']) =
     join [CHR '','', CHR 0x0A] (map member_html (e # es)) @ highlight_from prev' [CHR 0x0A, CHR ''}'']"
proof (induction es arbitrary: e prev)
  case Nil
  have "take 1 (dropWhile is_ws [CHR 0x0A, CHR ''}'']) \<noteq> '':''" by (simp add: is_ws_def)
  from highlight_member [OF this] show ?case by simp
next
  case (Cons e' es)
  define r where
    "r = json_escape (join [CHR '','', CHR 0x0A] (map json_member (e' # es))) @ [CHR 0x0A, CHR ''}'']"
  have "take 1 (dropWhile is_ws ([CHR '','', CHR 0x0A] @ r)) \<noteq> '':''" by (simp add: is_ws_def)
  from highlight_member [OF this]
  obtain p1 where 1: "highlight_from prev (json_escape (json_member e) @ [CHR '','', CHR 0x0A] @ r) =
      member_html e @ highlight_from p1 ([CHR '','', CHR 0x0A] @ r)"
    by blast
  obtain p2 where 2: "highlight_from p1 ([CHR '','', CHR 0x0A] @ r) = [CHR '','', CHR 0x0A] @ highlight_from p2 r"
    using highlight_plains [of "[CHR '','', CHR 0x0A]"] by (force simp: plain_char_def)
  from Cons.IH obtain p3 where 3: "highlight_from p2 r =
      join [CHR '','', CHR 0x0A] (map member_html (e' # es)) @ highlight_from p3 [CHR 0x0A, CHR ''}'']"
    unfolding r_def by blast
  from 1 2 3 show ?case by (auto simp: r_def)
qed

lemma highlight_exact: "highlightJSON vars = highlighted_variables vars"
proof (cases vars)
  case Nil
  then show ?thesis
    by (simp add: highlightJSON_def stringify_variables_def highlighted_variables_def highlight_plain
        plain_char_def) (subst highlight_from.simps, simp add: match_token_def first_some_def match_string_def match_word_def match_number_def)
next
  case (Cons e es)
  obtain p1 where 1: "highlight_from None ([CHR ''{'', CHR 0x0A] @ r) = [CHR ''{'', CHR 0x0A] @ highlight_from p1 r" for r
    using highlight_plain by (fastforce simp: plain_char_def)
  obtain p2 where 2: "highlight_from p1 (json_escape (join [CHR '','', CHR 0x0A] (map json_member (e # es))) @ [CHR 0x0A, CHR ''}'']) =
     join [CHR '','', CHR 0x0A] (map member_html (e # es)) @ highlight_from p2 [CHR 0x0A, CHR ''}'']"
    using highlight_members by blast
  have 3: "highlight_from p [CHR 0x0A, CHR ''}''] = [CHR 0x0A, CHR ''}'']" for p
    by (simp add: highlight_plain plain_char_def)
       (subst highlight_from.simps, simp add: match_token_def first_some_def match_string_def match_word_def match_number_def)
  from 1 2 3 Cons show ?thesis
    by (simp add: highlightJSON_def stringify_variables_def highlighted_variables_def)
qed

text \<open>The text of markup: tags left out, character references decoded.\<close>

fun untag :: "bool \<Rightarrow> string \<Rightarrow> string" where
  "untag inside [] = []"
| "untag inside (c # s) =
     (if inside then untag (c \<noteq> CHR ''>'') s
      else if c = CHR ''<'' then untag True s
      else c # untag False s)"

definition text_content :: "string \<Rightarrow> string" where
  "text_content html = decode_refs (untag False html)"

lemma untag_escaped: "untag False (json_escape s @ r) = json_escape s @ untag False r"
  by (induction s) auto

lemma untag_span: "untag False (token_span c (json_escape s) @ r) = json_escape s @ untag False r"
  if "CHR ''>'' \<notin> set c"
proof -
  have c: "untag True (c @ CHR 0x22 # CHR ''>'' # r') = untag False r'" for r'
    using that by (induction c) auto
  show ?thesis by (simp add: token_span_def c untag_escaped)
qed

lemma untag_plain: "list_all plain_char p \<Longrightarrow> untag False (p @ r) = p @ untag False r"
  by (induction p) (auto simp: plain_char_def)

lemma escape_plain: "list_all plain_char p \<Longrightarrow> json_escape p = p"
  by (induction p) (auto simp: plain_char_def)

lemma untag_member: "untag False (member_html e @ r) = json_escape (json_member e) @ untag False r"
proof -
  have colon: "k @ '':'' = json_escape (k' @ '':'')" if "k = json_escape k'" for k k'
    using that by simp
  show ?thesis
    unfolding member_html_def json_member_def colon [OF refl]
    by (simp add: untag_span del: json_escape_append) simp
qed

lemma untag_members:
  assumes "list_all plain_char sep"
  shows "untag False (join sep (map member_html es) @ r) = json_escape (join sep (map json_member es)) @ untag False r"
  using assms
  by (induction es rule: induct_list012) (simp_all add: untag_member untag_plain escape_plain)

lemma decode_json_escape: "decode_refs (json_escape s) = s"
  by (induction s) simp_all

text \<open>C16: Colouring the raw JSON of a UPS changes nothing a reader sees and marks exactly what it
  should.  Whatever the names and values of the variables hold (quotes, backslashes, control characters,
  markup, things that look like numbers or like true and null), the text of the markup is the JSON text,
  and the markup is the JSON text with each name, its colon included, in one span of the class of keys
  and each value in one span of the class of strings.\<close>

theorem raw_json_faithful:
  "text_content (highlightJSON vars) = stringify_variables vars \<and>
   highlightJSON vars = highlighted_variables vars"
proof -
  have 1: "list_all plain_char [CHR '','', CHR 0x0A]" by (simp add: plain_char_def)
  have "untag False (highlighted_variables vars) = json_escape (stringify_variables vars)"
    using untag_members [OF 1, of vars]
    by (simp add: highlighted_variables_def stringify_variables_def)
  then show ?thesis by (simp add: text_content_def highlight_exact decode_json_escape)
qed

end
