(* ===== verification/Js_ToNumber.thy ===== *)
theory Js_ToNumber
  imports Js_Number
begin

text \<open>
  \<open>Number(text)\<close>: the decimal, hexadecimal, octal and binary literals, \<open>Infinity\<close>, and the empty text,
  which is 0.  A decimal value is rounded to binary64, and overflows to infinity where binary64 does.
\<close>

section \<open>Literals\<close>

definition digit_value :: "char \<Rightarrow> nat" where
  "digit_value c =
     (let n = of_char c in if 97 \<le> n then n - 87 else if 65 \<le> n then n - 55 else n - 48)"

definition radix_digit :: "nat \<Rightarrow> char \<Rightarrow> bool" where
  "radix_digit b c \<longleftrightarrow>
     (is_digit c \<or> (65 \<le> (of_char c :: nat) \<and> (of_char c :: nat) \<le> 70) \<or>
      (97 \<le> (of_char c :: nat) \<and> (of_char c :: nat) \<le> 102)) \<and> digit_value c < b"

definition read_radix :: "nat \<Rightarrow> string \<Rightarrow> rat option" where
  "read_radix b ds =
     (if ds \<noteq> [] \<and> list_all (radix_digit b) ds
      then Some (of_nat (foldl (\<lambda>n c. n * b + digit_value c) 0 ds)) else None)"

definition take_sign :: "string \<Rightarrow> int \<times> string" where
  "take_sign s =
     (case s of
        c # t \<Rightarrow> if c = CHR ''-'' then (- 1, t) else if c = CHR ''+'' then (1, t) else (1, s)
      | [] \<Rightarrow> (1, s))"

definition read_exponent :: "string \<Rightarrow> int option" where
  "read_exponent s =
     (case s of
        [] \<Rightarrow> Some 0
      | c # t \<Rightarrow>
          if c \<noteq> CHR ''e'' \<and> c \<noteq> CHR ''E'' then None
          else (let (sg, ds) = take_sign t in
                if ds \<noteq> [] \<and> list_all is_digit ds then Some (sg * int (read_dec 0 ds)) else None))"

definition read_decimal :: "string \<Rightarrow> rat option" where
  "read_decimal s =
     (let ip = takeWhile is_digit s;
          r = dropWhile is_digit s;
          (fp, e) = (case r of
              c # t \<Rightarrow> if c = CHR ''.'' then (takeWhile is_digit t, dropWhile is_digit t) else ([], r)
            | [] \<Rightarrow> ([], r))
      in if ip = [] \<and> fp = [] then None
         else map_option (\<lambda>x. of_nat (read_dec 0 (ip @ fp)) / 10 ^ length fp * 10 powi x) (read_exponent e))"

text \<open>The least magnitude that rounds to infinity.\<close>

definition num_overflow :: rat where
  "num_overflow = 2 ^ 1024 - 2 ^ 970"

definition num_of_rat :: "rat \<Rightarrow> jsnum" where
  "num_of_rat x = (if num_overflow \<le> x then PInf else if x \<le> - num_overflow then NInf else Fin (rnd53 x))"

definition num_of_literal :: "rat option \<Rightarrow> jsnum" where
  "num_of_literal v = (case v of None \<Rightarrow> NaN | Some x \<Rightarrow> num_of_rat x)"

definition js_Number :: "string \<Rightarrow> jsnum" where
  "js_Number text =
     (let s = trim text in
      if s = [] then NInt 0
      else if take 2 s \<in> {''0x'', ''0X''} then num_of_literal (read_radix 16 (drop 2 s))
      else if take 2 s \<in> {''0o'', ''0O''} then num_of_literal (read_radix 8 (drop 2 s))
      else if take 2 s \<in> {''0b'', ''0B''} then num_of_literal (read_radix 2 (drop 2 s))
      else (let (sg, t) = take_sign s in
            if t = ''Infinity'' then inf_of_sgn sg
            else num_of_literal (map_option (\<lambda>x. of_int sg * x) (read_decimal t))))"

section \<open>Reading back what is printed\<close>

lemma trim_digits:
  assumes "list_all is_digit s"
  shows "trim s = s"
proof -
  have nw: "\<not> is_ws c" if "is_digit c" for c using that by (auto simp: is_digit_def is_ws_def)
  have d: "dropWhile is_ws r = r" if "list_all is_digit r" for r
    using that nw by (cases r) auto
  show ?thesis using assms by (simp add: trim_def d list_all_rev)
qed

lemma js_Number_nat:
  assumes "n \<le> 2 ^ 53"
  shows "js_Number (nat_dec n) = NInt (int n)"
proof -
  let ?s = "nat_dec n"
  have dig: "list_all is_digit ?s" by (rule nat_dec_digits)
  then obtain c t where s: "?s = c # t" "is_digit c" "list_all is_digit t"
    by (cases ?s) auto
  have pre: "take 2 ?s \<noteq> [CHR ''0'', x]" if "\<not> is_digit x" for x
    using s that by (cases t) auto
  have all: "takeWhile is_digit ?s = ?s" "dropWhile is_digit ?s = []"
    using dig by (auto simp: list_all_iff)
  have dec: "read_decimal ?s = Some (of_nat n)"
    by (simp add: read_decimal_def all read_exponent_def read_nat_dec)
  have c: "c \<noteq> CHR ''-''" "c \<noteq> CHR ''+''" "c \<noteq> CHR ''I''" using s(2) by (auto simp: is_digit_def)
  then have sg: "take_sign ?s = (1, ?s)" by (simp add: take_sign_def s(1))
  have inf: "?s \<noteq> ''Infinity''" using c s(1) by auto
  have "(of_nat n :: rat) \<le> 2 ^ 53" using assms by (metis of_nat_le_iff of_nat_numeral of_nat_power)
  then have small: "\<not> num_overflow \<le> of_nat n" "\<not> of_nat n \<le> - num_overflow"
    by (simp_all add: num_overflow_def)
  have "rnd53 (of_int (int n)) = of_int (int n)" using assms by (intro fl.rnd_int) simp
  then have "num_of_rat (of_nat n) = NInt (int n)" using small by (simp add: num_of_rat_def)
  then show ?thesis
    using pre by (simp add: js_Number_def Let_def trim_digits [OF dig] sg inf dec num_of_literal_def is_digit_def)
qed

end
