(* ===== verification/Ctl_Types.thy ===== *)
theory Ctl_Types
  imports Js_ToNumber
begin

text \<open>
  The types of the controller's web UI (\<open>types.ts\<close> and the types of \<open>api.ts\<close>).  An optional property
  is an \<open>option\<close>.  The answers of the API are not validated when they are read, so what the server sends
  as \<open>null\<close> where the types promise a value is an option too: the tags of a UPS and the samples of a
  history when there are none, and the variables of a UPS while its driver starts.
\<close>

section \<open>Types of the application (\<open>types.ts\<close>)\<close>

datatype theme_preference = System | Light | Dark

datatype toast_severity = ToastSuccess | ToastError | ToastWarning | ToastInfo

type_synonym toast_request = "string \<times> toast_severity"

datatype confirm_tone = Danger | Warn

record confirm_request =
  cq_title :: string
  cq_message :: string
  cq_confirm_label :: string
  cq_cancel_label :: "string option"
  cq_tone :: "confirm_tone option"

section \<open>Types of the API (\<open>api.ts\<close>)\<close>

record ups_metadata =
  um_display_name :: string
  um_tags :: "string list option"

record ups_summary =
  us_name :: string
  us_driver :: string
  us_metadata :: ups_metadata
  us_status :: "string option"
  us_battery_charge_percent :: "jsnum option"
  us_load_percent :: "jsnum option"
  us_runtime_seconds :: "jsnum option"
  us_captured_at :: "string option"

record node_record =
  nr_id :: string
  nr_instance :: string
  nr_hostname :: string
  nr_address :: string
  nr_port :: jsnum
  nr_version :: string
  nr_ups_count :: jsnum
  nr_display_name :: string
  nr_location_label :: string
  nr_site_label :: string
  nr_local_ui_policy_managed :: bool
  nr_local_ui_policy_enabled :: bool
  nr_adopted :: bool
  nr_live :: bool
  nr_status :: string
  nr_comms_state :: string
  nr_poll_failures :: jsnum
  nr_last_polled_at :: "string option"
  nr_last_poll_error :: "string option"
  nr_last_seen :: string
  nr_ups_summaries :: "ups_summary list option"

record health_ups =
  hu_name :: string
  hu_driver :: string
  hu_status :: string

record health_info =
  hi_version :: "string option"
  hi_uptime_seconds :: "jsnum option"
  hi_serial :: "string option"
  hi_cpu_temperature_celsius :: "jsnum option"
  hi_disk_free_bytes :: "jsnum option"
  hi_upses :: "health_ups list option"

record battery_trend =
  bt_baseline_runtime_seconds :: jsnum
  bt_latest_runtime_seconds :: jsnum
  bt_replacement_threshold_seconds :: jsnum
  bt_trend_seconds_per_30d :: jsnum
  bt_samples_used :: jsnum
  bt_latest_sampled_at :: string
  bt_estimated_replace_by :: "string option"

record ups_command_info =
  ci_name :: string
  ci_description :: "string option"
  ci_destructive :: bool

record ups_writable_info =
  wi_name :: string
  wi_description :: "string option"
  wi_editor :: string
  wi_current_value :: "string option"

record ups_detail_response =
  dr_node_id :: string
  dr_name :: string
  dr_driver :: string
  dr_metadata :: ups_metadata
  dr_status :: "string option"
  dr_metrics :: "ups_summary option"
  dr_battery_runtime_trend :: "battery_trend option"
  dr_variables :: "(string \<times> string) list option"
  dr_commands :: "ups_command_info list option"
  dr_writable :: "ups_writable_info list option"
  dr_live :: bool
  dr_captured_at :: "string option"

record history_sample =
  hs_variable :: string
  hs_value :: string
  hs_captured_at :: string

record alert_rule =
  ar_id :: jsnum
  ar_kind :: string
  ar_ups_var :: "string option"
  ar_threshold :: "jsnum option"
  ar_webhook_url :: string
  ar_debounce_seconds :: jsnum
  ar_enabled :: bool
  ar_created_at :: string

record alert_event =
  ae_id :: jsnum
  ae_rule_id :: jsnum
  ae_node_id :: string
  ae_ups_id :: "string option"
  ae_subject_key :: string
  ae_kind :: string
  ae_message :: string
  ae_created_at :: string
  ae_delivered :: bool
  ae_delivery_error :: "string option"

record controller_settings =
  cs_enabled :: bool
  cs_listen :: string
  cs_active :: bool

record command_output =
  co_command :: string
  co_output :: string

text \<open>
  What depends on the browser: the formats of dates, the collation of names, and the message of the
  \<open>TypeError\<close> it throws when \<open>null\<close> is spread into an array or a property of \<open>null\<close> is read.
\<close>

record page_env =
  pe_date :: "string \<Rightarrow> string"
  pe_time :: "string \<Rightarrow> string"
  pe_date_time :: "string \<Rightarrow> string"
  pe_collate :: "string \<Rightarrow> string \<Rightarrow> bool"
  pe_type_error :: string

section \<open>Errors and severities\<close>

text \<open>\<open>unknown\<close> in a \<open>catch\<close>: an \<open>Error\<close> with its message, or another value.\<close>

datatype thrown = ErrorObject string | ThrownText string | ThrownOther

datatype severity = Default | Success | Warning | Severe

instantiation severity :: linorder
begin

definition severity_rank :: "severity \<Rightarrow> nat" where
  "severity_rank s = (case s of Default \<Rightarrow> 0 | Success \<Rightarrow> 1 | Warning \<Rightarrow> 2 | Severe \<Rightarrow> 3)"

definition less_eq_severity :: "severity \<Rightarrow> severity \<Rightarrow> bool" where
  "less_eq_severity a b \<longleftrightarrow> severity_rank a \<le> severity_rank b"

definition less_severity :: "severity \<Rightarrow> severity \<Rightarrow> bool" where
  "less_severity a b \<longleftrightarrow> severity_rank a < severity_rank b"

instance
  by standard
     (auto simp: less_eq_severity_def less_severity_def severity_rank_def split: severity.splits)

end

lemma severity_less_eq [simp]:
  "Default \<le> (s :: severity)" "s \<le> Severe"
  "Success \<le> Warning" "\<not> Warning \<le> Success" "\<not> Severe \<le> Warning" "\<not> Severe \<le> Success"
  "\<not> Success \<le> Default" "\<not> Warning \<le> Default" "\<not> Severe \<le> Default"
  by (auto simp: less_eq_severity_def severity_rank_def split: severity.splits)

lemma severity_max [simp]:
  "max Severe s = (Severe :: severity)" "max s Severe = Severe" "max Default s = s" "max s Default = s"
  "max Success Warning = Warning" "max Warning Success = Warning"
  by (simp_all add: max_def antisym)

end
