(* ===== verification/Ctl_Format.thy ===== *)
theory Ctl_Format
  imports Ctl_Types
begin

text \<open>
  The formatting functions of the controller's web UI (\<open>lib/format.ts\<close>) with the tables of
  \<open>StatusChip.tsx\<close>, \<open>ToastSnackbar.tsx\<close> and \<open>ChartCard.tsx\<close>.  The bullet is written as its UTF-8 bytes.
\<close>

definition bullet :: string where
  "bullet = '' '' @ [CHR 0xE2, CHR 0x80, CHR 0xA2] @ '' ''"

section \<open>Severities\<close>

definition UPS_STATUS_ERROR :: "string list" where
  "UPS_STATUS_ERROR = [''OB'', ''LB'', ''FSD'', ''OVER'', ''OFF'', ''ALARM'']"

definition UPS_STATUS_WARNING :: "string list" where
  "UPS_STATUS_WARNING = [''RB'', ''CAL'', ''BYPASS'', ''TRIM'', ''BOOST'', ''DISCHRG'']"

definition UPS_STATUS_OK :: "string list" where
  "UPS_STATUS_OK = [''OL'', ''CHRG'']"

text \<open>The loop of \<open>statusToSeverity\<close> over the tokens, with the variable \<open>severity\<close>.\<close>

fun severity_loop :: "severity \<Rightarrow> string list \<Rightarrow> severity" where
  "severity_loop sev [] = sev"
| "severity_loop sev (token # tokens) =
     (if token = [] then severity_loop sev tokens
      else if token \<in> set UPS_STATUS_ERROR then Severe
      else if token \<in> set UPS_STATUS_WARNING then severity_loop Warning tokens
      else if token \<in> set UPS_STATUS_OK \<and> sev = Default then severity_loop Success tokens
      else severity_loop sev tokens)"

definition statusToSeverity :: "string option \<Rightarrow> severity" where
  "statusToSeverity status =
     (case status of
        None \<Rightarrow> Default
      | Some s \<Rightarrow> if s = [] then Default else severity_loop Default (split_runs is_ws (toUpperCase s)))"

definition commsStateToSeverity :: "string option \<Rightarrow> severity" where
  "commsStateToSeverity state =
     (let s = toLowerCase (or_opt state []) in
      if s = ''healthy'' then Success
      else if s = ''degraded'' then Warning
      else if s = ''offline'' then Severe
      else Default)"

text \<open>The severity of one token, and the specification: the most severe token decides.\<close>

definition token_severity :: "string \<Rightarrow> severity" where
  "token_severity token =
     (if token \<in> set UPS_STATUS_ERROR then Severe
      else if token \<in> set UPS_STATUS_WARNING then Warning
      else if token \<in> set UPS_STATUS_OK then Success
      else Default)"

definition status_tokens :: "string option \<Rightarrow> string list" where
  "status_tokens status = split_runs is_ws (toUpperCase (or_opt status []))"

lemma severity_tables:
  "[] \<notin> set UPS_STATUS_ERROR" "[] \<notin> set UPS_STATUS_WARNING" "[] \<notin> set UPS_STATUS_OK"
  by (simp_all add: UPS_STATUS_ERROR_def UPS_STATUS_WARNING_def UPS_STATUS_OK_def)

lemma severity_loop_fold:
  "sev \<noteq> Severe \<Longrightarrow> severity_loop sev ts = foldl max sev (map token_severity ts)"
proof (induction ts arbitrary: sev)
  case (Cons t ts)
  have top: "foldl max Severe xs = Severe" for xs :: "severity list"
    by (induction xs) simp_all
  show ?case
    using Cons severity_tables
    by (cases sev) (auto simp: token_severity_def top)
qed simp

lemma statusToSeverity_fold:
  "statusToSeverity status = foldl max Default (map token_severity (status_tokens status))"
proof -
  have "token_severity [] = Default" by (simp add: token_severity_def severity_tables)
  then show ?thesis
    by (cases status)
      (auto simp: statusToSeverity_def status_tokens_def severity_loop_fold or_str_def
        split_runs.simps [of is_ws "[]"])
qed

lemma statusToSeverity_ge:
  "s \<le> statusToSeverity status \<longleftrightarrow> s = Default \<or> (\<exists>t\<in>set (status_tokens status). s \<le> token_severity t)"
proof -
  have "s \<le> foldl max a (map token_severity ts) \<longleftrightarrow> s \<le> a \<or> (\<exists>t\<in>set ts. s \<le> token_severity t)" for a ts
    by (induction ts arbitrary: a) (auto simp: le_max_iff_disj)
  moreover have "s \<le> Default \<longleftrightarrow> s = Default" by (cases s) simp_all
  ultimately show ?thesis by (simp add: statusToSeverity_fold)
qed

text \<open>C22: The severity shown for a UPS status is that of its most severe token, whatever the order, the
  case and the spacing of the tokens: the loop that returns early and keeps one variable computes the
  maximum.\<close>

theorem status_severity_is_most_severe:
  "statusToSeverity status = Max (insert Default (token_severity ` set (status_tokens status)))"
  unfolding statusToSeverity_fold by (subst foldl_max_Max) simp

section \<open>Names and errors\<close>

definition theme_text :: "theme_preference \<Rightarrow> string" where
  "theme_text theme = (case theme of System \<Rightarrow> ''system'' | Light \<Rightarrow> ''light'' | Dark \<Rightarrow> ''dark'')"

definition formatThemeLabel :: "theme_preference \<Rightarrow> string" where
  "formatThemeLabel theme = toUpperCase (take 1 (theme_text theme)) @ drop 1 (theme_text theme)"

definition formatNodeDisplayName :: "node_record \<Rightarrow> string" where
  "formatNodeDisplayName node =
     or_str (nr_display_name node) (or_str (nr_instance node) (or_str (nr_hostname node) (nr_id node)))"

definition formatNodeReference :: "node_record \<Rightarrow> string" where
  "formatNodeReference node =
     (let name = formatNodeDisplayName node in
      if name = nr_id node then name else name @ '' ('' @ nr_id node @ '')'')"

definition ERROR_REWRITES :: "(string \<times> string) list" where
  "ERROR_REWRITES =
    [(''ciphertext too short'',
      ''Node detail is unavailable because controller credentials are invalid for this node. Re-adopt the node and try again.''),
     (''unsupported protocol scheme'',
      ''Delivery failed: the webhook URL is missing a valid scheme (e.g. https://).'')]"

definition thrown_text :: "thrown \<Rightarrow> string \<Rightarrow> string" where
  "thrown_text e fallback =
     (case e of
        ErrorObject message \<Rightarrow> message
      | ThrownText s \<Rightarrow> if s \<noteq> [] then s else fallback
      | ThrownOther \<Rightarrow> fallback)"

definition humanizeError :: "thrown \<Rightarrow> string \<Rightarrow> string" where
  "humanizeError e fallback =
     (let raw = thrown_text e fallback in
      case find_first (\<lambda>(m, friendly). js_includes (toLowerCase raw) m) ERROR_REWRITES of
        Some (m, friendly) \<Rightarrow> friendly
      | None \<Rightarrow> raw)"

definition formatCommsState :: "string option \<Rightarrow> jsnum \<Rightarrow> string option \<Rightarrow> string" where
  "formatCommsState state failures err =
     (let normalized = or_opt state ''unknown'' in
      if normalized = ''healthy'' then ''healthy''
      else if normalized = ''offline''
      then (if num_less (NInt 0) failures
            then ''offline ('' @ num_to_string failures @ '' failed polls)'' else ''offline'')
      else if normalized = ''degraded''
      then (if truthy err then ''degraded: '' @ the err else ''degraded'')
      else ''unknown'')"

section \<open>Measurements\<close>

definition formatDuration :: "jsnum option \<Rightarrow> string" where
  "formatDuration value =
     (case value of
        None \<Rightarrow> ''unknown''
      | Some totalSeconds \<Rightarrow>
          (let hours = num_floor (num_div totalSeconds (NInt 3600));
               minutes = num_floor (num_div (num_mod totalSeconds (NInt 3600)) (NInt 60));
               seconds = num_mod totalSeconds (NInt 60)
           in if num_less (NInt 0) hours
              then num_to_string hours @ ''h '' @ num_to_string minutes @ ''m''
              else if num_less (NInt 0) minutes
              then num_to_string minutes @ ''m '' @ num_to_string seconds @ ''s''
              else num_to_string seconds @ ''s''))"

definition formatUPSMetrics :: "ups_summary \<Rightarrow> string" where
  "formatUPSMetrics summary =
     (let parts =
        (case us_battery_charge_percent summary of None \<Rightarrow> [] | Some v \<Rightarrow> [num_to_string v @ ''% battery'']) @
        (case us_load_percent summary of None \<Rightarrow> [] | Some v \<Rightarrow> [num_to_string v @ ''% load'']) @
        (case us_runtime_seconds summary of None \<Rightarrow> [] | Some v \<Rightarrow> [formatDuration (Some v)])
      in or_str (join bullet parts) (or_str (us_driver summary) ''no recent telemetry''))"

definition formatBatteryTrend :: "page_env \<Rightarrow> battery_trend option \<Rightarrow> string" where
  "formatBatteryTrend env trend =
     (case trend of
        None \<Rightarrow> ''insufficient data''
      | Some t \<Rightarrow>
          (let per30Days = num_round (bt_trend_seconds_per_30d t) in
           if truthy (bt_estimated_replace_by t)
           then num_to_string per30Days @ ''s/30d'' @ bullet @ ''replace by '' @
                pe_date env (the (bt_estimated_replace_by t))
           else if num_less per30Days (NInt 0) then num_to_string per30Days @ ''s/30d''
           else num_to_string per30Days @ ''s/30d'' @ bullet @ ''stable''))"

definition bytes_units :: "string list" where
  "bytes_units = [''B'', ''KB'', ''MB'', ''GB'', ''TB'']"

text \<open>The loop of \<open>formatBytes\<close>, on its variables \<open>value\<close> and \<open>unitIndex\<close>.\<close>

function bytes_loop :: "jsnum \<Rightarrow> nat \<Rightarrow> jsnum \<times> nat" where
  "bytes_loop v unitIndex =
     (if num_le (NInt 1024) v \<and> unitIndex < length bytes_units - 1
      then bytes_loop (num_div v (NInt 1024)) (unitIndex + 1)
      else (v, unitIndex))"
  by pat_completeness auto
termination
  by (relation "measure (\<lambda>(v, unitIndex). length bytes_units - unitIndex)") auto

declare bytes_loop.simps [simp del]

definition formatBytes :: "jsnum \<Rightarrow> string" where
  "formatBytes bytes =
     (if \<not> isFinite bytes \<or> num_le bytes (NInt 0) then ''unknown''
      else (let (v, unitIndex) = bytes_loop bytes 0
            in toFixed (if num_le (NInt 10) v \<or> unitIndex = 0 then 0 else 1) v @ '' '' @ bytes_units ! unitIndex))"

section \<open>Charts\<close>

type_synonym chart_point = "string \<times> jsnum"

text \<open>\<open>[...samples]\<close> throws when the server sent \<open>null\<close>.\<close>

definition toChartSeries :: "page_env \<Rightarrow> history_sample list option \<Rightarrow> thrown + chart_point list" where
  "toChartSeries env samples =
     (case samples of
        None \<Rightarrow> Inl (ErrorObject (pe_type_error env))
      | Some ss \<Rightarrow>
          Inr (filter (\<lambda>(t, v). isFinite v)
                 (map (\<lambda>s. (pe_time env (hs_captured_at s), js_Number (hs_value s))) (rev ss))))"

record series_summary =
  ss_latest :: jsnum
  ss_latest_at :: string
  ss_min :: jsnum
  ss_max :: jsnum
  ss_count :: nat

definition summarizeSeries :: "chart_point list \<Rightarrow> series_summary option" where
  "summarizeSeries data =
     (if data = [] then None
      else Some \<lparr>ss_latest = snd (last data), ss_latest_at = fst (last data),
        ss_min = math_min (map snd data), ss_max = math_max (map snd data), ss_count = length data\<rparr>)"

definition chart_aria_label :: "string \<Rightarrow> chart_point list \<Rightarrow> string" where
  "chart_aria_label title data =
     (case summarizeSeries data of
        Some s \<Rightarrow> title @ '' chart. Latest '' @ num_to_string (ss_latest s) @ '' at '' @ ss_latest_at s @
          ''. Range '' @ num_to_string (ss_min s) @ '' to '' @ num_to_string (ss_max s) @ '' across '' @
          nat_dec (ss_count s) @ '' samples.''
      | None \<Rightarrow> title @ '' chart. No stored samples yet.'')"

section \<open>Chips and toasts\<close>

definition SEVERITY_ICON :: "severity \<Rightarrow> string" where
  "SEVERITY_ICON s =
     (case s of Severe \<Rightarrow> ''ErrorIcon'' | Warning \<Rightarrow> ''WarningAmberIcon''
      | Success \<Rightarrow> ''CheckCircleIcon'' | Default \<Rightarrow> ''HelpIcon'')"

definition SEVERITY_COLOR :: "severity \<Rightarrow> string" where
  "SEVERITY_COLOR s =
     (case s of Severe \<Rightarrow> ''error'' | Warning \<Rightarrow> ''warning'' | Success \<Rightarrow> ''success'' | Default \<Rightarrow> ''default'')"

definition AUTO_HIDE_MS :: "toast_severity \<Rightarrow> nat option" where
  "AUTO_HIDE_MS s =
     (case s of ToastSuccess \<Rightarrow> Some 3200 | ToastInfo \<Rightarrow> Some 3200 | ToastWarning \<Rightarrow> Some 4500 | ToastError \<Rightarrow> None)"

end
