(* ===== verification/Clients_Agree.thy ===== *)
theory Clients_Agree
  imports Agent_Format Ctl_Format
begin

text \<open>
  The two web clients side by side: the node dashboard (\<open>app.js\<close>) and the controller's web UI
  (\<open>lib/format.ts\<close>) format the same measurements and judge the same UPS status.
\<close>

section \<open>Measurements\<close>

lemma bytes_loop_scale: "bytes_loop v i = scale_bytes v i"
proof (induction v i rule: bytes_loop.induct)
  case (1 v i)
  show ?case
    using 1 by (simp add: bytes_loop.simps [of v i] scale_bytes.simps [of v i] bytes_units_def byte_units_def)
qed

text \<open>Both clients show the same text for a duration, and for a positive number of bytes the same quotient in
  the same unit, in which they differ only by the decimal the controller leaves out from ten up.\<close>

theorem clients_show_same_measurements:
  "Ctl_Format.formatDuration (Some v) = Agent_Format.formatDuration (Some v) \<and>
   (0 < x \<longrightarrow>
      (\<exists>q unit. Agent_Format.formatBytes (Fin x) = toFixed (if unit = 0 then 0 else 1) q @ '' '' @ byte_units ! unit \<and>
         Ctl_Format.formatBytes (Fin x) =
           toFixed (if unit = 0 \<or> num_le (NInt 10) q then 0 else 1) q @ '' '' @ byte_units ! unit))"
proof -
  obtain q unit where "scale_bytes (Fin x) 0 = (q, unit)" by fastforce
  moreover have "\<not> num_le (Fin x) (NInt 0)" if "0 < x" using that by (simp add: num_le_def)
  ultimately show ?thesis
    by (auto simp: Ctl_Format.formatDuration_def Agent_Format.formatDuration_def Ctl_Format.formatBytes_def
        Agent_Format.formatBytes_def bytes_loop_scale bytes_units_def byte_units_def Let_def disj_commute
        intro!: exI [of _ q] exI [of _ unit])
qed

section \<open>Severities\<close>

text \<open>What a status chip of the node dashboard says, on the controller's scale.\<close>

definition chip_severity :: "string \<Rightarrow> severity" where
  "chip_severity chip =
     (if chip = ''chip--danger'' then Severe else if chip = ''chip--warn'' then Warning else Success)"

text \<open>The clients disagree on the standard UPS statuses: a low battery, a forced shutdown, an overload, an
  alarm and a battery to be replaced are shown as good by the node dashboard while the controller shows
  an error or a warning, and running on battery is a warning on the node and an error on the controller.\<close>

theorem clients_disagree_on_severity:
  "map (\<lambda>s. (chip_severity (statusClass (Some s)), statusToSeverity (Some s)))
     [''OL LB'', ''OL FSD'', ''OL OVER'', ''OL ALARM'', ''OL RB'', ''OB'', ''OL''] =
   [(Success, Severe), (Success, Severe), (Success, Severe), (Success, Severe), (Success, Warning),
    (Warning, Severe), (Success, Success)]"
  by (simp add: statusClass_def Let_def to_lower_char_def char_of_def bit_0 chip_severity_def
      statusToSeverity_def to_upper_char_def split_runs.simps is_ws_def UPS_STATUS_ERROR_def
      UPS_STATUS_WARNING_def UPS_STATUS_OK_def)

end
