(* ===== verification/Ctl_LiveRefresh.thy ===== *)
theory Ctl_LiveRefresh
  imports Event_System
begin

text \<open>
  The hook \<open>useLiveRefresh\<close>: one component's polling, with the browser's live intervals.  The effect
  that is in place has its own variable \<open>intervalId\<close> and its listener; an effect that returned at once
  because the hook is disabled has neither.  \<open>refreshed\<close> counts the calls of \<open>refreshRef.current\<close>.
\<close>

section \<open>State and operations\<close>

record live =
  lr_hidden :: bool
  lr_deps :: "(bool \<times> nat) option"
  lr_listening :: bool
  lr_intervalId :: "nat option"
  lr_intervals :: "(nat \<times> nat) list"
  lr_next :: nat
  lr_refreshed :: nat

definition lr_refresh :: "live \<Rightarrow> live" where
  "lr_refresh l = l\<lparr>lr_refreshed := Suc (lr_refreshed l)\<rparr>"

definition start :: "nat \<Rightarrow> live \<Rightarrow> live" where
  "start intervalMs l =
     (if lr_intervalId l \<noteq> None then l
      else l\<lparr>lr_intervalId := Some (lr_next l), lr_intervals := lr_intervals l @ [(lr_next l, intervalMs)],
             lr_next := Suc (lr_next l)\<rparr>)"

definition stop :: "live \<Rightarrow> live" where
  "stop l =
     (case lr_intervalId l of
        None \<Rightarrow> l
      | Some i \<Rightarrow> l\<lparr>lr_intervals := filter (\<lambda>(j, ms). j \<noteq> i) (lr_intervals l), lr_intervalId := None\<rparr>)"

definition handleVisibilityChange :: "nat \<Rightarrow> live \<Rightarrow> live" where
  "handleVisibilityChange intervalMs l =
     (if lr_hidden l then stop l else start intervalMs (lr_refresh l))"

text \<open>The effect's body, with fresh variables, and the function it returns.\<close>

definition live_effect :: "bool \<Rightarrow> nat \<Rightarrow> live \<Rightarrow> live" where
  "live_effect enabled intervalMs l =
     (if \<not> enabled then l
      else (let l = l\<lparr>lr_intervalId := None\<rparr>;
                l = (if \<not> lr_hidden l then start intervalMs l else l)
            in l\<lparr>lr_listening := True\<rparr>))"

definition live_cleanup :: "live \<Rightarrow> live" where
  "live_cleanup l = (if lr_listening l then (stop l)\<lparr>lr_listening := False\<rparr> else l)"

text \<open>
  \<open>Render\<close> is a render of the component with its two dependencies, the first one mounting it: React
  runs the clean-up and the effect again when they changed.  \<open>Period\<close> lets every live interval fire once.
\<close>

datatype live_event = Render bool nat | Unmount | Visibility bool | Period

fun live_handler :: "live_event \<Rightarrow> live \<Rightarrow> live" where
  "live_handler (Render enabled ms) l =
     (if lr_deps l = Some (enabled, ms) then l
      else live_effect enabled ms (live_cleanup (l\<lparr>lr_deps := Some (enabled, ms)\<rparr>)))"
| "live_handler Unmount l = (live_cleanup l)\<lparr>lr_deps := None\<rparr>"
| "live_handler (Visibility hidden) l =
     (let l = l\<lparr>lr_hidden := hidden\<rparr> in
      case lr_deps l of
        None \<Rightarrow> l
      | Some (enabled, ms) \<Rightarrow> if lr_listening l then handleVisibilityChange ms l else l)"
| "live_handler Period l = fold (\<lambda>i. lr_refresh) (lr_intervals l) l"

definition fresh_live :: "live \<Rightarrow> bool" where
  "fresh_live l \<longleftrightarrow>
     lr_deps l = None \<and> \<not> lr_listening l \<and> lr_intervalId l = None \<and> lr_intervals l = [] \<and> lr_refreshed l = 0"

section \<open>Specification\<close>

text \<open>Poll while the component is mounted and enabled and the tab visible; refresh on becoming visible.\<close>

record polling =
  po_watch :: "(bool \<times> nat) option"
  po_visible :: bool
  po_refreshed :: nat

definition po_active :: "polling \<Rightarrow> nat option" where
  "po_active p =
     (case po_watch p of Some (enabled, ms) \<Rightarrow> if enabled then Some ms else None | None \<Rightarrow> None)"

fun polling_spec :: "live_event \<Rightarrow> polling \<Rightarrow> polling" where
  "polling_spec (Render enabled ms) p = p\<lparr>po_watch := Some (enabled, ms)\<rparr>"
| "polling_spec Unmount p = p\<lparr>po_watch := None\<rparr>"
| "polling_spec (Visibility hidden) p =
     p\<lparr>po_visible := \<not> hidden,
       po_refreshed := po_refreshed p + (if \<not> hidden \<and> po_active p \<noteq> None then 1 else 0)\<rparr>"
| "polling_spec Period p =
     p\<lparr>po_refreshed := po_refreshed p + (if po_visible p \<and> po_active p \<noteq> None then 1 else 0)\<rparr>"

definition live_abs :: "live \<Rightarrow> polling" where
  "live_abs l = \<lparr>po_watch = lr_deps l, po_visible = \<not> lr_hidden l, po_refreshed = lr_refreshed l\<rparr>"

text \<open>The live intervals and the listener are those the specification asks for.\<close>

definition live_inv :: "live \<Rightarrow> bool" where
  "live_inv l \<longleftrightarrow>
     lr_listening l = (po_active (live_abs l) \<noteq> None) \<and>
     (case po_active (live_abs l) of
        Some ms \<Rightarrow>
          (if lr_hidden l then lr_intervals l = [] \<and> lr_intervalId l = None
           else \<exists>i. lr_intervals l = [(i, ms)] \<and> lr_intervalId l = Some i)
      | None \<Rightarrow> lr_intervals l = [])"

lemmas live_simps = live_inv_def live_abs_def po_active_def fresh_live_def start_def stop_def lr_refresh_def
  handleVisibilityChange_def live_effect_def live_cleanup_def Let_def

lemma live_inv_event: "live_inv l \<Longrightarrow> live_inv (live_handler e l)"
  by (cases e) (auto simp: live_simps split: option.splits prod.splits if_splits)

lemma live_simulates: "live_inv l \<Longrightarrow> live_abs (live_handler e l) = polling_spec e (live_abs l)"
  by (cases e) (auto simp: live_simps split: option.splits prod.splits if_splits)

interpretation lr: refined_system fresh_live live_handler live_inv live_abs polling_spec
proof
  show "live_inv l" if "fresh_live l" for l using that by (simp add: live_simps)
qed (rule live_inv_event live_simulates, assumption)+

text \<open>C8: The hook refines its specification: after any sequence of renders, unmounting, visibility changes
  and periods it has refreshed exactly when it should, and the browser has one live interval, with the
  given period, if the component is mounted and enabled and the tab is visible, and none otherwise.\<close>

theorem live_refresh_refines:
  assumes "fresh_live l"
  shows "live_abs (fold live_handler es l) = fold polling_spec es (live_abs l) \<and>
    map snd (lr_intervals (fold live_handler es l)) =
      (let p = fold polling_spec es (live_abs l) in
       case po_active p of Some ms \<Rightarrow> if po_visible p then [ms] else [] | None \<Rightarrow> [])"
proof -
  let ?l = "fold live_handler es l"
  have abs: "live_abs ?l = fold polling_spec es (live_abs l)" using assms by (rule lr.reached_refines)
  have "live_inv ?l" using assms by (rule lr.inv_reached)
  then show ?thesis
    unfolding abs [symmetric] Let_def live_inv_def
    by (auto simp: live_abs_def split: option.splits if_splits)
qed

definition demo_live :: live where
  "demo_live = \<lparr>lr_hidden = False, lr_deps = None, lr_listening = False, lr_intervalId = None,
     lr_intervals = [], lr_next = 0, lr_refreshed = 0\<rparr>"

lemma demo_live_fresh: "fresh_live demo_live"
  by (simp add: fresh_live_def demo_live_def)

lemma live_refresh_refines_witness:
  "map snd (lr_intervals (fold live_handler
     [Render True 10000, Period, Visibility True, Period, Visibility False, Period] demo_live)) = [10000] \<and>
   po_refreshed (live_abs (fold live_handler
     [Render True 10000, Period, Visibility True, Period, Visibility False, Period] demo_live)) = 3"
  using live_refresh_refines [OF demo_live_fresh,
    of "[Render True 10000, Period, Visibility True, Period, Visibility False, Period]"]
  by (simp add: demo_live_def live_abs_def po_active_def)

end
