(* ===== verification/Ctl_Ui.thy ===== *)
theory Ctl_Ui
  imports Ctl_Format
begin

text \<open>
  What a React component of the controller's web UI shows: the texts, chips, charts, fields and the
  elements that can be clicked with what the click does, in the order of the JSX.  The layout
  (\<open>Box\<close>, \<open>Grid\<close>, \<open>Stack\<close>, \<open>sx\<close>) is left out.  A user can do \<open>actions\<close> and type into \<open>open_fields\<close>.
\<close>

section \<open>Elements\<close>

datatype 'a ui =
    Text string
  | Chip (chip_label: string) (chip_color: string) (chip_icon: "string option")
  | Button (button_label: string) (button_color: string) (button_disabled: bool) (button_action: 'a)
  | Field (field_label: string) (field_value: string) (field_helper: string) (field_disabled: bool)
  | Switch string bool 'a
  | Area 'a "'a ui list"
  | Card string "'a ui list"
  | Group "'a ui list"
  | Chart string string "chart_point list"
  | Dialog bool "'a option" "'a ui list"

text \<open>The actions a user can trigger: not those of disabled buttons and closed dialogs.\<close>

fun actions :: "'a ui \<Rightarrow> 'a list" where
  "actions (Text _) = []"
| "actions (Chip _ _ _) = []"
| "actions (Button _ _ disabled a) = (if disabled then [] else [a])"
| "actions (Field _ _ _ _) = []"
| "actions (Switch _ _ a) = [a]"
| "actions (Area a us) = a # concat (map actions us)"
| "actions (Card _ us) = concat (map actions us)"
| "actions (Group us) = concat (map actions us)"
| "actions (Chart _ _ _) = []"
| "actions (Dialog shown onClose us) =
     (if shown then (case onClose of None \<Rightarrow> [] | Some a \<Rightarrow> [a]) @ concat (map actions us) else [])"

fun open_fields :: "'a ui \<Rightarrow> string list" where
  "open_fields (Field label _ _ disabled) = (if disabled then [] else [label])"
| "open_fields (Area a us) = concat (map open_fields us)"
| "open_fields (Card _ us) = concat (map open_fields us)"
| "open_fields (Group us) = concat (map open_fields us)"
| "open_fields (Dialog shown onClose us) = (if shown then concat (map open_fields us) else [])"
| "open_fields _ = []"

definition show_if :: "bool \<Rightarrow> 'a ui \<Rightarrow> 'a ui list" where
  "show_if b u = (if b then [u] else [])"

text \<open>The dashed box with a message that the pages show instead of their content.\<close>

definition message_box :: "string \<Rightarrow> 'a ui" where
  "message_box m = Group [Text m]"

lemma actions_map: "actions (map_ui f u) = map f (actions u)"
proof (induction u)
  case (Dialog s c us)
  then show ?case by (auto simp: map_concat comp_def split: option.split cong: map_cong)
qed (auto simp: map_concat comp_def cong: map_cong)

lemma actions_show_if [simp]: "concat (map actions (show_if b u)) = (if b then actions u else [])"
  by (simp add: show_if_def)

lemma actions_message_box [simp]: "actions (message_box m) = []"
  by (simp add: message_box_def)

section \<open>Shared components\<close>

definition StatusChip :: "string \<Rightarrow> severity \<Rightarrow> 'a ui" where
  "StatusChip label sev = Chip label (SEVERITY_COLOR sev) (Some (SEVERITY_ICON sev))"

definition StatCard :: "string \<Rightarrow> string \<Rightarrow> string option \<Rightarrow> string \<Rightarrow> 'a ui" where
  "StatCard label v caption color =
     (let accent = (if color = ''default'' then ''divider'' else color @ ''.main'')
      in Card accent ([Text label, Text v] @ (if truthy caption then [Text (the caption)] else [])))"

definition ChartCard :: "string \<Rightarrow> chart_point list \<Rightarrow> 'a ui" where
  "ChartCard title data =
     Card []
       ([Text title] @
        [if data = [] then message_box ''No stored samples yet.'' else Chart title (chart_aria_label title data) data] @
        (case summarizeSeries data of
           None \<Rightarrow> []
         | Some s \<Rightarrow>
             [Group [Text (title @ '' summary''),
                Text ''Latest'', Text (num_to_string (ss_latest s) @ '' at '' @ ss_latest_at s),
                Text ''Minimum'', Text (num_to_string (ss_min s)),
                Text ''Maximum'', Text (num_to_string (ss_max s)),
                Text ''Samples'', Text (nat_dec (ss_count s))]]))"

datatype confirm_answer = OnCancel | OnAccept

definition ConfirmDialog :: "confirm_request \<Rightarrow> confirm_answer ui" where
  "ConfirmDialog request =
     Dialog True (Some OnCancel)
       [Text ''Confirm action'', Text (cq_title request), Text (cq_message request),
        Button (or_opt (cq_cancel_label request) ''Cancel'') ''inherit'' False OnCancel,
        Button (cq_confirm_label request)
          (case cq_tone request of Some Danger \<Rightarrow> ''error'' | Some Warn \<Rightarrow> ''warning'' | None \<Rightarrow> ''primary'')
          False OnAccept]"

text \<open>
  The snackbar asks to be closed with a reason; a click elsewhere does not close it, and an error has no
  timeout, so only its own close button removes it.
\<close>

datatype close_reason = Timeout | Clickaway | EscapeKey | AlertClose

definition toast_hide_after :: "toast_request option \<Rightarrow> nat option" where
  "toast_hide_after request = (case request of None \<Rightarrow> None | Some (m, sev) \<Rightarrow> AUTO_HIDE_MS sev)"

definition toast_onClose :: "close_reason \<Rightarrow> toast_request option \<Rightarrow> toast_request option" where
  "toast_onClose reason request = (if reason = Clickaway then request else None)"

definition ToastSnackbar :: "toast_request option \<Rightarrow> close_reason ui" where
  "ToastSnackbar request =
     (case request of
        None \<Rightarrow> Group []
      | Some (message, sev) \<Rightarrow>
          Group [Text message,
            Button ''Close''
              (case sev of ToastSuccess \<Rightarrow> ''success'' | ToastError \<Rightarrow> ''error'' | ToastWarning \<Rightarrow> ''warning''
               | ToastInfo \<Rightarrow> ''info'') False AlertClose])"

lemma actions_shared [simp]:
  "actions (StatusChip l s) = []" "actions (StatCard l v c k) = []" "actions (ChartCard t d) = []"
  by (auto simp: StatusChip_def StatCard_def ChartCard_def Let_def split: option.split)

end
