(* ===== verification/Ctl_Router.thy ===== *)
theory Ctl_Router
  imports Js_Prelude
begin

text \<open>
  What the pages use of the browser's history and of \<open>URLSearchParams\<close>.  The history holds the entries
  of this application; going back from the first one would leave it, which is not modelled.
\<close>

type_synonym search = "(string \<times> string) list"

record location =
  lo_path :: string
  lo_search :: search

record router =
  rt_back :: "location list"
  rt_here :: location
  rt_forward :: "location list"

definition push :: "location \<Rightarrow> router \<Rightarrow> router" where
  "push l r = \<lparr>rt_back = rt_here r # rt_back r, rt_here = l, rt_forward = []\<rparr>"

definition go_back :: "router \<Rightarrow> router" where
  "go_back r =
     (case rt_back r of
        [] \<Rightarrow> r
      | l # ls \<Rightarrow> \<lparr>rt_back = ls, rt_here = l, rt_forward = rt_here r # rt_forward r\<rparr>)"

definition go_forward :: "router \<Rightarrow> router" where
  "go_forward r =
     (case rt_forward r of
        [] \<Rightarrow> r
      | l # ls \<Rightarrow> \<lparr>rt_back = rt_here r # rt_back r, rt_here = l, rt_forward = ls\<rparr>)"

definition search_get :: "string \<Rightarrow> search \<Rightarrow> string option" where
  "search_get k ps = map_of ps k"

fun search_set :: "string \<Rightarrow> string \<Rightarrow> search \<Rightarrow> search" where
  "search_set k v [] = [(k, v)]"
| "search_set k v ((k', x) # ps) =
     (if k' = k then (k, v) # filter (\<lambda>p. fst p \<noteq> k) ps else (k', x) # search_set k v ps)"

text \<open>
  The routes of the application.  The router matches a path without regard to case and to slashes at its
  end.
\<close>

datatype route = FleetRoute | AlertsRoute | SettingsRoute | NoRoute

definition route_of :: "location \<Rightarrow> route" where
  "route_of l =
     (let p = toLowerCase (rev (dropWhile (\<lambda>c. c = CHR ''/'') (rev (lo_path l)))) in
      if p = [] then FleetRoute
      else if p = ''/alerts'' then AlertsRoute
      else if p = ''/settings'' then SettingsRoute
      else NoRoute)"

lemma route_of_search [simp]: "route_of \<lparr>lo_path = lo_path l, lo_search = ps\<rparr> = route_of l"
  by (simp add: route_of_def)

text \<open>\<open>navigate(path)\<close>, and \<open>setSearchParams(params)\<close>, which keeps the path.\<close>

definition navigate_to :: "string \<Rightarrow> router \<Rightarrow> router" where
  "navigate_to path r = push \<lparr>lo_path = path, lo_search = []\<rparr> r"

definition set_search :: "search \<Rightarrow> router \<Rightarrow> router" where
  "set_search ps r = push \<lparr>lo_path = lo_path (rt_here r), lo_search = ps\<rparr> r"

lemma search_get_set: "search_get k (search_set k' v ps) = (if k = k' then Some v else search_get k ps)"
proof -
  have f: "map_of (filter (\<lambda>p. fst p \<noteq> k') qs) k = map_of qs k" if "k \<noteq> k'" for k' and qs :: search
    using that by (induction qs) auto
  show ?thesis by (induction k' v ps rule: search_set.induct) (auto simp: search_get_def f)
qed

lemma back_after_push [simp]:
  "rt_here (go_back (push l r)) = rt_here r" "rt_back (go_back (push l r)) = rt_back r"
  "rt_here (push l r) = l" "rt_here (navigate_to p r) = \<lparr>lo_path = p, lo_search = []\<rparr>"
  "rt_here (set_search ps r) = \<lparr>lo_path = lo_path (rt_here r), lo_search = ps\<rparr>"
  "rt_here (go_back (set_search ps r)) = rt_here r" "rt_back (go_back (set_search ps r)) = rt_back r"
  by (simp_all add: push_def go_back_def navigate_to_def set_search_def)

end
