(* ===== verification/Ctl_Menu.thy ===== *)
theory Ctl_Menu
  imports Ctl_Ui Ctl_Router Event_System
begin

text \<open>
  The theme of the controller's web UI (\<open>App.tsx\<close>) and its header menu (\<open>HeaderMenu.tsx\<close>).  A change of
  state renders the component again, and then React runs the effect that writes the theme when one of
  its dependencies changed.
\<close>

section \<open>Theme\<close>

definition THEME_PREF_STORAGE_KEY :: string where
  "THEME_PREF_STORAGE_KEY = ''strom-theme-preference''"

definition LEGACY_THEME_STORAGE_KEY :: string where
  "LEGACY_THEME_STORAGE_KEY = ''strom-theme''"

record theme_app =
  th_preference :: theme_preference
  th_prefers_dark :: bool
  th_storage :: "string \<Rightarrow> string option"
  th_dataset :: "theme_preference option"
  th_written :: "(theme_preference \<times> theme_preference) option"

definition normalizeThemePreference :: "string option \<Rightarrow> theme_preference option" where
  "normalizeThemePreference v = find_first (\<lambda>t. v = Some (theme_text t)) [System, Light, Dark]"

text \<open>The value the first effect sets.\<close>

definition saved_preference :: "(string \<Rightarrow> string option) \<Rightarrow> theme_preference" where
  "saved_preference st =
     (let savedPref = normalizeThemePreference (st THEME_PREF_STORAGE_KEY);
          legacyTheme = normalizeThemePreference (st LEGACY_THEME_STORAGE_KEY)
      in case savedPref of
           Some p \<Rightarrow> p
         | None \<Rightarrow> (case legacyTheme of Some t \<Rightarrow> if t = Light \<or> t = Dark then t else System | None \<Rightarrow> System))"

definition resolvedTheme :: "theme_app \<Rightarrow> theme_preference" where
  "resolvedTheme t =
     (if th_preference t = System then (if th_prefers_dark t then Dark else Light) else th_preference t)"

definition write_theme :: "theme_app \<Rightarrow> theme_app" where
  "write_theme t =
     t\<lparr>th_dataset := Some (resolvedTheme t),
       th_storage := (th_storage t)(THEME_PREF_STORAGE_KEY \<mapsto> theme_text (th_preference t),
         LEGACY_THEME_STORAGE_KEY \<mapsto> theme_text (resolvedTheme t)),
       th_written := Some (resolvedTheme t, th_preference t)\<rparr>"

definition theme_rendered :: "theme_app \<Rightarrow> theme_app" where
  "theme_rendered t =
     (if th_written t = Some (resolvedTheme t, th_preference t) then t else write_theme t)"

definition theme_mount :: "bool \<Rightarrow> (string \<Rightarrow> string option) \<Rightarrow> theme_app" where
  "theme_mount dark st =
     (let t = \<lparr>th_preference = System, th_prefers_dark = dark, th_storage = st, th_dataset = None,
                th_written = None\<rparr>;
          saved = saved_preference (th_storage t);
          t = theme_rendered t
      in theme_rendered (t\<lparr>th_preference := saved\<rparr>))"

text \<open>
  The same under \<open>React.StrictMode\<close> in a development build: after the first render React runs all the
  effects, and then all of them again, before the state that they set is rendered.
\<close>

definition theme_mount_strict :: "bool \<Rightarrow> (string \<Rightarrow> string option) \<Rightarrow> theme_app" where
  "theme_mount_strict dark st =
     (let t = \<lparr>th_preference = System, th_prefers_dark = dark, th_storage = st, th_dataset = None,
                th_written = None\<rparr>;
          t = write_theme t;
          saved = saved_preference (th_storage t);
          t = write_theme t
      in theme_rendered (t\<lparr>th_preference := saved\<rparr>))"

datatype theme_change = ChangePreference theme_preference | MediaChange bool

fun theme_change_handler :: "theme_change \<Rightarrow> theme_app \<Rightarrow> theme_app" where
  "theme_change_handler (ChangePreference next_theme) t = theme_rendered (t\<lparr>th_preference := next_theme\<rparr>)"
| "theme_change_handler (MediaChange matches) t = theme_rendered (t\<lparr>th_prefers_dark := matches\<rparr>)"

definition theme_inv :: "theme_app \<Rightarrow> bool" where
  "theme_inv t \<longleftrightarrow>
     th_written t = Some (resolvedTheme t, th_preference t) \<and> th_dataset t = Some (resolvedTheme t) \<and>
     th_storage t THEME_PREF_STORAGE_KEY = Some (theme_text (th_preference t)) \<and>
     th_storage t LEGACY_THEME_STORAGE_KEY = Some (theme_text (resolvedTheme t))"

lemma keys_differ: "THEME_PREF_STORAGE_KEY \<noteq> LEGACY_THEME_STORAGE_KEY"
  by (simp add: THEME_PREF_STORAGE_KEY_def LEGACY_THEME_STORAGE_KEY_def)

lemma resolvedTheme_update [simp]:
  "resolvedTheme (t\<lparr>th_dataset := d, th_storage := st, th_written := w\<rparr>) = resolvedTheme t"
  by (simp add: resolvedTheme_def)

lemma write_theme_inv: "theme_inv (write_theme t)"
  using keys_differ by (simp add: theme_inv_def write_theme_def resolvedTheme_def)

text \<open>Whatever was written last, the state is consistent once the change is rendered.\<close>

definition written_ok :: "theme_app \<Rightarrow> bool" where
  "written_ok t \<longleftrightarrow>
     (\<forall>r p. th_written t = Some (r, p) \<longrightarrow>
        th_dataset t = Some r \<and> th_storage t THEME_PREF_STORAGE_KEY = Some (theme_text p) \<and>
        th_storage t LEGACY_THEME_STORAGE_KEY = Some (theme_text r))"

lemma theme_rendered_inv: "written_ok t \<Longrightarrow> theme_inv (theme_rendered t)"
  using write_theme_inv [of t] by (auto simp: theme_rendered_def theme_inv_def written_ok_def)

lemma theme_inv_written: "theme_inv t \<Longrightarrow> written_ok (t\<lparr>th_preference := p\<rparr>) \<and> written_ok (t\<lparr>th_prefers_dark := b\<rparr>)"
  by (simp add: theme_inv_def written_ok_def)

lemma theme_mount_inv: "theme_inv (theme_mount dark st)"
  unfolding theme_mount_def Let_def
  by (rule theme_rendered_inv, rule theme_inv_written [THEN conjunct1], rule theme_rendered_inv)
     (simp add: written_ok_def)

lemma theme_change_inv: "theme_inv t \<Longrightarrow> theme_inv (theme_change_handler e t)"
  by (cases e) (simp_all add: theme_rendered_inv theme_inv_written)

definition mounted_theme :: "theme_app \<Rightarrow> bool" where
  "mounted_theme t \<longleftrightarrow> (\<exists>dark st. t = theme_mount dark st)"

interpretation th: event_system mounted_theme theme_change_handler theme_inv
  by unfold_locales (auto simp: mounted_theme_def theme_mount_inv theme_change_inv)

lemma normalize_text [simp]: "normalizeThemePreference (Some (theme_text p)) = Some p"
  by (cases p) (simp_all add: normalizeThemePreference_def theme_text_def)

lemma theme_rendered_preference [simp]: "th_preference (theme_rendered t) = th_preference t"
  by (simp add: theme_rendered_def write_theme_def)

lemma theme_mount_preference: "th_preference (theme_mount dark st) = saved_preference st"
  by (simp add: theme_mount_def Let_def)

text \<open>C27: The theme preference survives a reload: mounting the application again from the storage that any
  changes of preference and of the system's colour scheme left behind restores the preference, whatever
  the storage and the colour scheme were at the beginning and are at the reload, and the page shows it.\<close>

theorem preference_survives_reload:
  "let t = fold theme_change_handler es (theme_mount dark st); t' = theme_mount dark' (th_storage t) in
   th_preference t' = th_preference t \<and> th_dataset t' = Some (resolvedTheme t') \<and>
   th_dataset t = Some (resolvedTheme t)"
proof -
  let ?t = "fold theme_change_handler es (theme_mount dark st)"
  have i: "theme_inv ?t" by (rule th.inv_reached) (auto simp: mounted_theme_def)
  then have "saved_preference (th_storage ?t) = th_preference ?t"
    by (simp add: theme_inv_def saved_preference_def)
  with i theme_mount_inv [of dark' "th_storage ?t"] show ?thesis
    by (simp add: Let_def theme_mount_preference theme_inv_def)
qed

text \<open>In a development build, where React runs the effects twice on mounting, the saved preference is
  lost: the effect that writes the initial preference runs before the saved one is read again.\<close>

theorem strict_mode_forgets_preference:
  "th_preference (theme_mount_strict dark st) = System \<and>
   th_storage (theme_mount_strict dark st) THEME_PREF_STORAGE_KEY = Some ''system''"
proof -
  let ?t = "write_theme (write_theme \<lparr>th_preference = System, th_prefers_dark = dark, th_storage = st,
    th_dataset = None, th_written = None\<rparr>)"
  have i: "theme_inv ?t" by (rule write_theme_inv)
  have p: "th_preference ?t = System" by (simp add: write_theme_def)
  have "saved_preference (th_storage (write_theme \<lparr>th_preference = System, th_prefers_dark = dark,
      th_storage = st, th_dataset = None, th_written = None\<rparr>)) = System"
    using keys_differ normalize_text [of System]
    by (simp add: saved_preference_def write_theme_def Let_def)
  then have "theme_mount_strict dark st = theme_rendered (?t\<lparr>th_preference := System\<rparr>)"
    by (simp add: theme_mount_strict_def Let_def)
  moreover have "?t\<lparr>th_preference := System\<rparr> = ?t" using p by simp
  moreover have "theme_rendered ?t = ?t" using i by (simp add: theme_rendered_def theme_inv_def)
  ultimately show ?thesis using i p by (simp add: theme_inv_def theme_text_def)
qed

section \<open>Header menu\<close>

datatype menu_action = OpenMenu | CloseMenu | FleetItem | LinkItem string | DocsItem | PickTheme theme_preference

record header =
  hd_open :: bool
  hd_router :: router
  hd_fleet_refresh :: nat
  hd_theme :: theme_app

definition THEME_OPTIONS :: "theme_preference list" where
  "THEME_OPTIONS = [System, Light, Dark]"

definition handleClose :: "header \<Rightarrow> header" where
  "handleClose h = h\<lparr>hd_open := False\<rparr>"

definition handleNavigate :: "string \<Rightarrow> header \<Rightarrow> header" where
  "handleNavigate path h =
     handleClose
       (if path = ''/'' \<and> lo_path (rt_here (hd_router h)) = ''/''
        then h\<lparr>hd_fleet_refresh := Suc (hd_fleet_refresh h)\<rparr>
        else h\<lparr>hd_router := navigate_to path (hd_router h)\<rparr>)"

text \<open>
  A router link runs its own click handler and then, unless that prevented the default, navigates: it
  replaces the entry when the link leads to the location it was rendered at, and pushes one otherwise.
\<close>

definition router_link :: "location \<Rightarrow> string \<Rightarrow> bool \<Rightarrow> header \<Rightarrow> header" where
  "router_link rendered_at to prevented h =
     (if prevented then h
      else if rendered_at = \<lparr>lo_path = to, lo_search = []\<rparr>
      then h\<lparr>hd_router := (hd_router h)\<lparr>rt_here := \<lparr>lo_path = to, lo_search = []\<rparr>\<rparr>\<rparr>
      else h\<lparr>hd_router := navigate_to to (hd_router h)\<rparr>)"

fun menu_handler :: "menu_action \<Rightarrow> header \<Rightarrow> header" where
  "menu_handler OpenMenu h = h\<lparr>hd_open := True\<rparr>"
| "menu_handler CloseMenu h = handleClose h"
| "menu_handler FleetItem h =
     router_link (rt_here (hd_router h)) ''/'' (lo_path (rt_here (hd_router h)) = ''/'') (handleNavigate ''/'' h)"
| "menu_handler (LinkItem path) h = router_link (rt_here (hd_router h)) path False (handleClose h)"
| "menu_handler DocsItem h = handleClose h"
| "menu_handler (PickTheme t) h =
     handleClose (h\<lparr>hd_theme := theme_change_handler (ChangePreference t) (hd_theme h)\<rparr>)"

definition HeaderMenu :: "header \<Rightarrow> menu_action ui" where
  "HeaderMenu h =
     Group
       [Button ''Open controller menu'' ''default'' False OpenMenu,
        Dialog (hd_open h) (Some CloseMenu)
          ([Text ''CA'', Text ''Signed in as'', Text ''Controller Admin'',
            Area FleetItem [Text ''Fleet''], Area (LinkItem ''/alerts'') [Text ''Alerts''],
            Area (LinkItem ''/settings'') [Text ''Settings''], Area DocsItem [Text ''Docs''],
            Text ''Appearance''] @
           map (\<lambda>option_theme. Switch (formatThemeLabel option_theme) (th_preference (hd_theme h) = option_theme)
                  (PickTheme option_theme)) THEME_OPTIONS)]"

text \<open>Choosing Fleet in the menu on another page pushes two entries for it, because the item is a link
  that navigates by itself and its handler navigates too: going back once from the fleet page shows the
  fleet page again, and only going back twice leads to the page before.\<close>

theorem fleet_item_pushes_twice:
  assumes "lo_path (rt_here (hd_router h)) \<noteq> ''/''"
  shows "rt_here (go_back (hd_router (menu_handler FleetItem h))) = \<lparr>lo_path = ''/'', lo_search = []\<rparr> \<and>
    rt_here (go_back (go_back (hd_router (menu_handler FleetItem h)))) = rt_here (hd_router h)"
  using assms
  by (auto simp: handleNavigate_def handleClose_def router_link_def navigate_to_def push_def go_back_def)

definition demo_header :: header where
  "demo_header = \<lparr>hd_open = True,
     hd_router = \<lparr>rt_back = [], rt_here = \<lparr>lo_path = ''/alerts'', lo_search = []\<rparr>, rt_forward = []\<rparr>,
     hd_fleet_refresh = 0, hd_theme = theme_mount True (\<lambda>_. None)\<rparr>"

lemma fleet_item_pushes_twice_witness:
  "rt_here (go_back (hd_router (menu_handler FleetItem demo_header))) = \<lparr>lo_path = ''/'', lo_search = []\<rparr>"
  using fleet_item_pushes_twice [of demo_header] by (simp add: demo_header_def)

end
