(* ===== verification/Ctl_Api.thy ===== *)
theory Ctl_Api
  imports Ctl_Types Js_Url
begin

text \<open>
  The requests of the controller's web UI (\<open>api.ts\<close>): method, path and JSON body of each call, the type
  its answer is read as, and what \<open>requestJSON\<close> makes of a reply.
\<close>

section \<open>Requests and replies\<close>

datatype json = JText string | JNum jsnum | JBool bool | JList "json list" | JObject "(string \<times> json) list"

text \<open>The type argument of \<open>requestJSON\<close>, and the payloads of these types.\<close>

datatype payload_type =
    TNodes | TNode | THealth | TDetail | THistory | TCommand | TMetadata | TRules | TEvents | TRule | TEvent
  | TSettings | TUnknown

datatype payload =
    PNodes "node_record list option"
  | PNode node_record
  | PHealth health_info
  | PDetail ups_detail_response
  | PHistory "history_sample list option"
  | PCommand command_output
  | PMetadata ups_metadata
  | PRules "alert_rule list option"
  | PEvents "alert_event list option"
  | PRule alert_rule
  | PEvent alert_event
  | PSettings controller_settings
  | PUnknown

fun type_of_payload :: "payload \<Rightarrow> payload_type" where
  "type_of_payload (PNodes _) = TNodes"
| "type_of_payload (PNode _) = TNode"
| "type_of_payload (PHealth _) = THealth"
| "type_of_payload (PDetail _) = TDetail"
| "type_of_payload (PHistory _) = THistory"
| "type_of_payload (PCommand _) = TCommand"
| "type_of_payload (PMetadata _) = TMetadata"
| "type_of_payload (PRules _) = TRules"
| "type_of_payload (PEvents _) = TEvents"
| "type_of_payload (PRule _) = TRule"
| "type_of_payload (PEvent _) = TEvent"
| "type_of_payload (PSettings _) = TSettings"
| "type_of_payload PUnknown = TUnknown"

record api_request =
  rq_type :: payload_type
  rq_method :: string
  rq_path :: string
  rq_body :: "json option"

text \<open>The headers of a request: no caller passes headers of its own, which would replace these.\<close>

definition request_headers :: "api_request \<Rightarrow> (string \<times> string) list" where
  "request_headers q =
     (''Accept'', ''application/json'') #
     (case rq_body q of None \<Rightarrow> [] | Some _ \<Rightarrow> [(''Content-Type'', ''application/json'')])"

datatype api_reply =
    NetworkFailure string
  | HttpReply (hr_ok: bool) (hr_status: int) (hr_status_text: string) (hr_error: "string option") (hr_payload: payload)

definition requestJSON :: "api_reply \<Rightarrow> thrown + payload" where
  "requestJSON r =
     (case r of
        NetworkFailure m \<Rightarrow> Inl (ErrorObject m)
      | HttpReply ok status status_text err payload \<Rightarrow>
          if \<not> ok then Inl (ErrorObject (or_opt err (int_dec status @ '' '' @ status_text))) else Inr payload)"

definition api_get :: "payload_type \<Rightarrow> string \<Rightarrow> api_request" where
  "api_get t path = \<lparr>rq_type = t, rq_method = ''GET'', rq_path = path, rq_body = None\<rparr>"

definition api_send :: "payload_type \<Rightarrow> string \<Rightarrow> string \<Rightarrow> json option \<Rightarrow> api_request" where
  "api_send t m path body = \<lparr>rq_type = t, rq_method = m, rq_path = path, rq_body = body\<rparr>"

section \<open>Paths\<close>

definition node_path :: "string \<Rightarrow> string \<Rightarrow> string" where
  "node_path nodeID rest = ''/api/nodes/'' @ encodeURIComponent nodeID @ rest"

definition ups_path :: "string \<Rightarrow> string \<Rightarrow> string \<Rightarrow> string" where
  "ups_path nodeID upsName rest = node_path nodeID (''/ups/'' @ encodeURIComponent upsName @ rest)"

text \<open>\<open>URLSearchParams.toString()\<close>: letters, digits and \<open>* - . _\<close> stay, a space becomes a plus.\<close>

definition form_unreserved :: "char \<Rightarrow> bool" where
  "form_unreserved c \<longleftrightarrow>
     (let n = of_char c :: nat in
      48 \<le> n \<and> n \<le> 57 \<or> 65 \<le> n \<and> n \<le> 90 \<or> 97 \<le> n \<and> n \<le> 122 \<or> c \<in> set ''*-._'')"

definition form_encode :: "string \<Rightarrow> string" where
  "form_encode s = concat (map (\<lambda>c.
     if form_unreserved c then [c] else if c = CHR '' '' then ''+''
     else [CHR ''%'', hex_digit (of_char c div 16), hex_digit (of_char c mod 16)]) s)"

definition search_params :: "(string \<times> string) list \<Rightarrow> string" where
  "search_params ps = join ''&'' (map (\<lambda>(k, v). form_encode k @ ''='' @ form_encode v) ps)"

section \<open>The calls\<close>

definition fetchNodes :: api_request where
  "fetchNodes = api_get TNodes ''/api/nodes''"

definition fetchNode :: "string \<Rightarrow> api_request" where
  "fetchNode nodeID = api_get TNode (node_path nodeID [])"

definition fetchNodeHealth :: "string \<Rightarrow> api_request" where
  "fetchNodeHealth nodeID = api_get THealth (node_path nodeID ''/health'')"

definition fetchUPSDetail :: "string \<Rightarrow> string \<Rightarrow> api_request" where
  "fetchUPSDetail nodeID upsName = api_get TDetail (ups_path nodeID upsName [])"

text \<open>With the default arguments \<open>hours = 24\<close> and \<open>limit = 400\<close>, which every caller uses.\<close>

definition fetchUPSHistory :: "string \<Rightarrow> string \<Rightarrow> string \<Rightarrow> api_request" where
  "fetchUPSHistory nodeID upsName variable =
     (let params = search_params [(''var'', variable), (''hours'', ''24''), (''limit'', ''400'')]
      in api_get THistory (ups_path nodeID upsName (''/history?'' @ params)))"

definition runUPSCommand :: "string \<Rightarrow> string \<Rightarrow> string \<Rightarrow> api_request" where
  "runUPSCommand nodeID upsName command =
     api_send TCommand ''POST'' (ups_path nodeID upsName ''/command'') (Some (JObject [(''cmd'', JText command)]))"

definition updateUPSMetadata :: "string \<Rightarrow> string \<Rightarrow> string \<Rightarrow> string list \<Rightarrow> api_request" where
  "updateUPSMetadata nodeID upsName display_name tags =
     api_send TMetadata ''PATCH'' (ups_path nodeID upsName ''/metadata'')
       (Some (JObject [(''display_name'', JText display_name), (''tags'', JList (map JText tags))]))"

definition adoptNode :: "string \<Rightarrow> api_request" where
  "adoptNode nodeID = api_send TUnknown ''POST'' (node_path nodeID ''/adopt'') None"

definition forgetNode :: "string \<Rightarrow> api_request" where
  "forgetNode nodeID = api_send TUnknown ''DELETE'' (node_path nodeID []) None"

text \<open>A property that is \<open>undefined\<close> is left out by \<open>JSON.stringify\<close>.\<close>

definition opt_field :: "string \<Rightarrow> json option \<Rightarrow> (string \<times> json) list" where
  "opt_field name v = (case v of None \<Rightarrow> [] | Some j \<Rightarrow> [(name, j)])"

record node_patch =
  np_display_name :: "string option"
  np_location_label :: "string option"
  np_site_label :: "string option"
  np_managed :: "bool option"
  np_enabled :: "bool option"

definition updateNode :: "string \<Rightarrow> node_patch \<Rightarrow> api_request" where
  "updateNode nodeID p =
     api_send TNode ''PATCH'' (node_path nodeID [])
       (Some (JObject
         (opt_field ''display_name'' (map_option JText (np_display_name p)) @
          opt_field ''location_label'' (map_option JText (np_location_label p)) @
          opt_field ''site_label'' (map_option JText (np_site_label p)) @
          opt_field ''local_ui_policy_managed'' (map_option JBool (np_managed p)) @
          opt_field ''local_ui_policy_enabled'' (map_option JBool (np_enabled p)))))"

definition fetchAlertRules :: api_request where
  "fetchAlertRules = api_get TRules ''/api/alerts/rules''"

definition fetchAlertEvents :: api_request where
  "fetchAlertEvents = api_get TEvents (''/api/alerts/events?limit='' @ nat_dec 50)"

record rule_payload =
  rp_kind :: string
  rp_webhook_url :: string
  rp_debounce_seconds :: jsnum
  rp_threshold :: "jsnum option"
  rp_ups_var :: "string option"

definition createAlertRule :: "rule_payload \<Rightarrow> api_request" where
  "createAlertRule p =
     api_send TRule ''POST'' ''/api/alerts/rules''
       (Some (JObject
         ([(''kind'', JText (rp_kind p)), (''webhook_url'', JText (rp_webhook_url p)),
           (''debounce_seconds'', JNum (rp_debounce_seconds p))] @
          opt_field ''threshold'' (map_option JNum (rp_threshold p)) @
          opt_field ''ups_var'' (map_option JText (rp_ups_var p)))))"

definition deleteAlertRule :: "jsnum \<Rightarrow> api_request" where
  "deleteAlertRule i = api_send TUnknown ''DELETE'' (''/api/alerts/rules/'' @ num_to_string i) None"

definition testAlertRule :: "jsnum \<Rightarrow> api_request" where
  "testAlertRule i = api_send TEvent ''POST'' (''/api/alerts/rules/'' @ num_to_string i @ ''/test'') None"

definition fetchControllerSettings :: api_request where
  "fetchControllerSettings = api_get TSettings ''/api/settings/controller''"

definition updateControllerSettings :: "bool option \<Rightarrow> string option \<Rightarrow> api_request" where
  "updateControllerSettings enabled listen =
     api_send TSettings ''PATCH'' ''/api/settings/controller''
       (Some (JObject (opt_field ''aggregate_nut_enabled'' (map_option JBool enabled) @
                       opt_field ''aggregate_nut_listen'' (map_option JText listen))))"

lemmas api_calls = fetchNodes_def fetchNode_def fetchNodeHealth_def fetchUPSDetail_def fetchUPSHistory_def
  runUPSCommand_def updateUPSMetadata_def adoptNode_def forgetNode_def updateNode_def fetchAlertRules_def
  fetchAlertEvents_def createAlertRule_def deleteAlertRule_def testAlertRule_def
  fetchControllerSettings_def updateControllerSettings_def

section \<open>The body of a change of a node\<close>

text \<open>It determines the change: its fields are read back by name.\<close>

lemma map_of_opt_field:
  "map_of (opt_field k v @ fs) k' = (if k = k' \<and> v \<noteq> None then v else map_of fs k')"
  "map_of (opt_field k v) k' = (if k = k' then v else None)"
  by (auto simp: opt_field_def split: option.split)

lemma map_JText_eq: "map_option JText a = map_option JText b \<longleftrightarrow> a = b"
  by (cases a; cases b) auto

lemma map_JBool_eq: "map_option JBool a = map_option JBool b \<longleftrightarrow> a = b"
  by (cases a; cases b) auto

lemma updateNode_inj:
  assumes "updateNode n p = updateNode n' p'"
  shows "p = p'"
proof -
  define fs where "fs = (\<lambda>p :: node_patch.
    opt_field ''display_name'' (map_option JText (np_display_name p)) @
    opt_field ''location_label'' (map_option JText (np_location_label p)) @
    opt_field ''site_label'' (map_option JText (np_site_label p)) @
    opt_field ''local_ui_policy_managed'' (map_option JBool (np_managed p)) @
    opt_field ''local_ui_policy_enabled'' (map_option JBool (np_enabled p)))"
  have eq: "fs p = fs p'" using assms by (simp add: updateNode_def api_send_def fs_def)
  have "map_of (fs q) ''display_name'' = map_option JText (np_display_name q)"
    "map_of (fs q) ''location_label'' = map_option JText (np_location_label q)"
    "map_of (fs q) ''site_label'' = map_option JText (np_site_label q)"
    "map_of (fs q) ''local_ui_policy_managed'' = map_option JBool (np_managed q)"
    "map_of (fs q) ''local_ui_policy_enabled'' = map_option JBool (np_enabled q)" for q
    by (auto simp: fs_def map_of_opt_field simp del: map_of_append)
  with eq have "np_display_name p = np_display_name p'" "np_location_label p = np_location_label p'"
    "np_site_label p = np_site_label p'" "np_managed p = np_managed p'" "np_enabled p = np_enabled p'"
    by (metis map_JText_eq map_JBool_eq)+
  then show ?thesis by simp
qed

end
