(* ===== verification/Ctl_Routes.thy ===== *)
theory Ctl_Routes
  imports Ctl_Api
begin

text \<open>
  Where the controller takes the requests about nodes and UPSes: the routing of its server
  (\<open>handleNodes\<close> and \<open>handleNodeUPS\<close> in \<open>cmd/controller/main.go\<close>), and that the paths of the web UI lead
  to the operations they are meant for.
\<close>

section \<open>The server's routing\<close>

text \<open>
  The operations with the node id and the UPS name they work on, and the answers that refuse a request.
\<close>

datatype server_route =
    ListNodes
  | GetNode string
  | GetHealth string
  | Adopt string
  | Forget string
  | UpdateMetadata string
  | ListUPS string
  | GetUPS string string
  | UpdateUPS string string
  | CommandUPS string string
  | HistoryUPS string string
  | RouteNotFound
  | MethodNotAllowed
  | InvalidUPSName

text \<open>Percent decoding in Go's \<open>net/url\<close>, which fails on anything but two hexadecimal digits.\<close>

definition go_hex :: "char \<Rightarrow> nat option" where
  "go_hex c =
     (let n = of_char c :: nat in
      if 48 \<le> n \<and> n \<le> 57 then Some (n - 48)
      else if 65 \<le> n \<and> n \<le> 70 then Some (n - 55)
      else if 97 \<le> n \<and> n \<le> 102 then Some (n - 87) else None)"

fun PathUnescape :: "string \<Rightarrow> string option" where
  "PathUnescape [] = Some []"
| "PathUnescape (c # s) =
     (if c \<noteq> CHR ''%'' then map_option ((#) c) (PathUnescape s)
      else case s of
        h # l # t \<Rightarrow>
          (case (go_hex h, go_hex l) of
             (Some m, Some n) \<Rightarrow> map_option ((#) (char_of (16 * m + n))) (PathUnescape t)
           | _ \<Rightarrow> None)
      | _ \<Rightarrow> None)"

definition TrimPrefix :: "string \<Rightarrow> string \<Rightarrow> string" where
  "TrimPrefix s p = (if prefix p s then drop (length p) s else s)"

definition TrimSuffix :: "string \<Rightarrow> string \<Rightarrow> string" where
  "TrimSuffix s p = (if suffix p s then take (length s - length p) s else s)"

text \<open>\<open>blank\<close> stands for the test \<open>strings.TrimSpace(upsName) == ""\<close>.\<close>

definition handleNodeUPS :: "(string \<Rightarrow> bool) \<Rightarrow> string \<Rightarrow> string \<Rightarrow> server_route" where
  "handleNodeUPS blank method path =
     (if method \<notin> {''GET'', ''POST'', ''PATCH''} then MethodNotAllowed
      else let parts = split1 CHR ''/'' (TrimPrefix path ''/api/nodes/'') in
        if length parts < 2 \<or> parts ! 0 = [] \<or> parts ! 1 \<noteq> ''ups'' then RouteNotFound
        else let nodeID = parts ! 0 in
          if length parts = 2 then ListUPS nodeID
          else case PathUnescape (parts ! 2) of
            None \<Rightarrow> InvalidUPSName
          | Some upsName \<Rightarrow>
              if blank upsName then InvalidUPSName
              else if length parts = 4 \<and> parts ! 3 = ''metadata''
              then if method \<noteq> ''PATCH'' then MethodNotAllowed else UpdateUPS nodeID upsName
              else if length parts = 3 then GetUPS nodeID upsName
              else if length parts = 4 \<and> parts ! 3 = ''command'' then CommandUPS nodeID upsName
              else if length parts = 4 \<and> parts ! 3 = ''history'' then HistoryUPS nodeID upsName
              else RouteNotFound)"

text \<open>What the handlers of nodes take as the id.\<close>

definition handleAdoptNode :: "string \<Rightarrow> server_route" where
  "handleAdoptNode path =
     (let i = TrimSuffix (TrimSuffix (TrimPrefix path ''/api/nodes/'') ''/adopt'') ''/''
      in if i = [] then RouteNotFound else Adopt i)"

definition handleForgetNode :: "string \<Rightarrow> server_route" where
  "handleForgetNode path =
     (let i = TrimSuffix (TrimPrefix path ''/api/nodes/'') ''/''
      in if i = [] \<or> CHR ''/'' \<in> set i then RouteNotFound else Forget i)"

definition handleUpdateNodeMetadata :: "string \<Rightarrow> server_route" where
  "handleUpdateNodeMetadata path =
     (let i = TrimSuffix (TrimPrefix path ''/api/nodes/'') ''/''
      in if i = [] \<or> CHR ''/'' \<in> set i then RouteNotFound else UpdateMetadata i)"

definition handleTrustedNodeHealth :: "string \<Rightarrow> server_route" where
  "handleTrustedNodeHealth path =
     (let i = TrimSuffix (TrimSuffix (TrimPrefix path ''/api/nodes/'') ''/health'') ''/''
      in if i = [] then RouteNotFound else GetHealth i)"

definition handleNodes :: "(string \<Rightarrow> bool) \<Rightarrow> string \<Rightarrow> string \<Rightarrow> server_route" where
  "handleNodes blank method path =
     (if method = ''POST'' \<and> suffix ''/adopt'' path then handleAdoptNode path
      else if method = ''PATCH'' \<and> sublist ''/ups/'' path then handleNodeUPS blank method path
      else if method = ''PATCH'' \<and> prefix ''/api/nodes/'' path then handleUpdateNodeMetadata path
      else if method = ''DELETE'' \<and> prefix ''/api/nodes/'' path then handleForgetNode path
      else if method = ''POST'' \<and> sublist ''/ups/'' path then handleNodeUPS blank method path
      else if method \<noteq> ''GET'' then MethodNotAllowed
      else if path = ''/api/nodes'' then ListNodes
      else if sublist ''/ups'' path then handleNodeUPS blank method path
      else if suffix ''/health'' path then handleTrustedNodeHealth path
      else let i = drop (length ''/api/nodes/'') path in if i = [] then RouteNotFound else GetNode i)"

text \<open>
  A request arrives with the path of its URL decoded, without the query.  (The path goes through
  the \<open>ServeMux\<close>, which takes \<open>/api/nodes\<close> and what is below it to \<open>handleNodes\<close>.)
\<close>

definition served :: "(string \<Rightarrow> bool) \<Rightarrow> api_request \<Rightarrow> server_route option" where
  "served blank q =
     map_option (handleNodes blank (rq_method q)) (PathUnescape (takeWhile (\<lambda>c. c \<noteq> CHR ''?'') (rq_path q)))"

section \<open>Decoding what was encoded\<close>

lemma go_hex_digit: "n < 16 \<Longrightarrow> go_hex (hex_digit n) = Some n"
  by (auto simp: go_hex_def hex_digit_def Let_def)

lemma unescape_encode_char: "PathUnescape (encode_char c @ s) = map_option ((#) c) (PathUnescape s)"
  by (auto simp: encode_char_def go_hex_digit)

lemma unescape_encode: "PathUnescape (encodeURIComponent s @ t) = map_option ((@) s) (PathUnescape t)"
  by (induction s)
     (simp_all add: encodeURIComponent_def unescape_encode_char option.map_comp comp_def option.map_ident)

lemma unescape_plain: "CHR ''%'' \<notin> set s \<Longrightarrow> PathUnescape s = Some s"
  by (induction s) auto

lemma takeWhile_segment:
  "CHR ''?'' \<notin> set a \<Longrightarrow> takeWhile (\<lambda>c. c \<noteq> CHR ''?'') (a @ b) = a @ takeWhile (\<lambda>c. c \<noteq> CHR ''?'') b"
  by (induction a) auto

lemma split1_segment: "c \<notin> set a \<Longrightarrow> split1 c (a @ c # b) = a # split1 c b"
  by (induction a) auto

lemma split1_single: "c \<notin> set a \<Longrightarrow> split1 c a = [a]"
  by (induction a) auto

lemma no_slash_sublist: "CHR ''/'' \<notin> set n \<Longrightarrow> \<not> sublist (CHR ''/'' # w) n"
  by (auto dest: set_mono_sublist)

lemma sublist_segment:
  "CHR ''/'' \<notin> set n \<Longrightarrow> sublist (CHR ''/'' # w) (n @ t) \<longleftrightarrow> sublist (CHR ''/'' # w) t"
  by (induction n) (auto simp: sublist_Cons_right)

lemma unescape_append: "CHR ''%'' \<notin> set a \<Longrightarrow> PathUnescape (a @ b) = map_option ((@) a) (PathUnescape b)"
  by (cases "PathUnescape b"; induction a) auto

lemma takeWhile_path: "CHR ''?'' \<notin> set r \<Longrightarrow> t = [] \<or> hd t = CHR ''?'' \<Longrightarrow> takeWhile (\<lambda>c. c \<noteq> CHR ''?'') (r @ t) = r"
  by (cases t) (auto simp: takeWhile_segment takeWhile_eq_all_conv)

section \<open>Requests reach what they are meant for\<close>

text \<open>
  Ids and names that are routed as they should be.  A name \<open>.\<close> or \<open>..\<close> is excluded because the browser
  and the \<open>ServeMux\<close>, which are not modelled, resolve it as a relative path.
\<close>

definition routable_id :: "string \<Rightarrow> bool" where
  "routable_id n \<longleftrightarrow>
     n \<notin> {[], ''.'', ''..'', ''health''} \<and> CHR ''/'' \<notin> set n \<and> \<not> prefix ''ups'' n"

definition routable_name :: "(string \<Rightarrow> bool) \<Rightarrow> string \<Rightarrow> bool" where
  "routable_name blank u \<longleftrightarrow>
     \<not> blank u \<and> u \<notin> {[], ''.'', ''..''} \<and> CHR ''/'' \<notin> set u \<and> CHR ''%'' \<notin> set u"

lemma served_node:
  assumes "rq_path q = node_path n (r @ t)" and "t = [] \<or> hd t = CHR ''?''" "CHR ''?'' \<notin> set r" "CHR ''%'' \<notin> set r"
  shows "served blank q = Some (handleNodes blank (rq_method q) (''/api/nodes/'' @ n @ r))"
proof -
  have "takeWhile (\<lambda>c. c \<noteq> CHR ''?'') (''/api/nodes/'' @ encodeURIComponent n @ r @ t) =
      ''/api/nodes/'' @ encodeURIComponent n @ r"
    using takeWhile_path [of "''/api/nodes/'' @ encodeURIComponent n @ r" t] assms(2,3) by simp
  moreover have "PathUnescape (''/api/nodes/'' @ encodeURIComponent n @ r) = Some (''/api/nodes/'' @ n @ r)"
    by (subst unescape_append) (simp_all add: unescape_encode unescape_plain assms(4))
  ultimately show ?thesis by (simp only: served_def node_path_def assms(1) append_assoc option.map)
qed

lemma served_ups:
  assumes "rq_path q = ups_path n u (r @ t)" and "t = [] \<or> hd t = CHR ''?''" "CHR ''?'' \<notin> set r" "CHR ''%'' \<notin> set r"
  shows "served blank q = Some (handleNodes blank (rq_method q) (''/api/nodes/'' @ n @ ''/ups/'' @ u @ r))"
proof -
  let ?e = "''/api/nodes/'' @ encodeURIComponent n @ ''/ups/'' @ encodeURIComponent u @ r"
  have "takeWhile (\<lambda>c. c \<noteq> CHR ''?'') (?e @ t) = ?e"
    by (rule takeWhile_path) (use assms(2,3) in auto)
  moreover have "PathUnescape ?e = Some (''/api/nodes/'' @ n @ ''/ups/'' @ u @ r)"
    by (subst unescape_append, simp, subst unescape_encode, subst unescape_append, simp, subst unescape_encode)
      (simp add: unescape_plain assms(4))
  ultimately show ?thesis by (simp only: served_def node_path_def ups_path_def assms(1) append_assoc option.map)
qed

lemma trim_prefix: "TrimPrefix (''/api/nodes/'' @ s) ''/api/nodes/'' = s"
  by (simp add: TrimPrefix_def)

lemma trim_suffix: "TrimSuffix (s @ t) t = s"
  by (simp add: TrimSuffix_def suffix_def)

lemma trim_nothing: "\<not> suffix t s \<Longrightarrow> TrimSuffix s t = s"
  by (simp add: TrimSuffix_def)

lemma no_slash_suffix: "CHR ''/'' \<notin> set n \<Longrightarrow> \<not> suffix (CHR ''/'' # t) n"
  by (auto simp: suffix_def)

lemma ups_parts:
  assumes "routable_id n" "routable_name blank u"
  shows "handleNodeUPS blank m (''/api/nodes/'' @ n @ ''/ups/'' @ u) =
      (if m \<in> {''GET'', ''POST'', ''PATCH''} then GetUPS n u else MethodNotAllowed)"
    and "CHR ''/'' \<notin> set w \<Longrightarrow> handleNodeUPS blank m (''/api/nodes/'' @ n @ ''/ups/'' @ u @ CHR ''/'' # w) =
      (if m \<notin> {''GET'', ''POST'', ''PATCH''} then MethodNotAllowed
       else if w = ''metadata'' then if m \<noteq> ''PATCH'' then MethodNotAllowed else UpdateUPS n u
       else if w = ''command'' then CommandUPS n u
       else if w = ''history'' then HistoryUPS n u else RouteNotFound)"
proof -
  have n: "n \<noteq> []" "CHR ''/'' \<notin> set n" and u: "CHR ''/'' \<notin> set u" "PathUnescape u = Some u" "\<not> blank u"
    using assms by (auto simp: routable_id_def routable_name_def unescape_plain)
  have "split1 CHR ''/'' (n @ ''/ups/'' @ u) = [n, ''ups'', u]"
    using split1_segment [OF n(2)] split1_single [OF u(1)] by simp
  then show "handleNodeUPS blank m (''/api/nodes/'' @ n @ ''/ups/'' @ u) =
      (if m \<in> {''GET'', ''POST'', ''PATCH''} then GetUPS n u else MethodNotAllowed)"
    unfolding handleNodeUPS_def trim_prefix Let_def using n u by simp
  show "handleNodeUPS blank m (''/api/nodes/'' @ n @ ''/ups/'' @ u @ CHR ''/'' # w) =
      (if m \<notin> {''GET'', ''POST'', ''PATCH''} then MethodNotAllowed
       else if w = ''metadata'' then if m \<noteq> ''PATCH'' then MethodNotAllowed else UpdateUPS n u
       else if w = ''command'' then CommandUPS n u
       else if w = ''history'' then HistoryUPS n u else RouteNotFound)" if "CHR ''/'' \<notin> set w"
  proof -
    have "split1 CHR ''/'' (n @ ''/ups/'' @ u @ CHR ''/'' # w) = [n, ''ups'', u, w]"
      using split1_segment [OF n(2)] split1_segment [OF u(1)] split1_single [OF that] by simp
    then have "split1 CHR ''/'' (TrimPrefix (''/api/nodes/'' @ n @ ''/ups/'' @ u @ CHR ''/'' # w) ''/api/nodes/'') =
        [n, ''ups'', u, w]" by (simp only: trim_prefix)
    then show ?thesis unfolding handleNodeUPS_def Let_def by (simp only:) (use n u in simp)
  qed
qed

lemma suffix_segment:
  assumes "CHR ''/'' \<notin> set w" and "CHR ''/'' \<notin> set n"
  shows "suffix (CHR ''/'' # w) (s @ CHR ''/'' # n) \<longleftrightarrow> w = n"
proof
  have last: "rev (takeWhile (\<lambda>c. c \<noteq> CHR ''/'') (rev (r @ CHR ''/'' # v))) = v" if "CHR ''/'' \<notin> set v" for r v
  proof -
    have "takeWhile (\<lambda>c. c \<noteq> CHR ''/'') (rev v) = rev v" using that by (auto simp: takeWhile_eq_all_conv)
    then have "rev (takeWhile (\<lambda>c. c \<noteq> CHR ''/'') (rev v)) = v" by (simp only: rev_rev_ident)
    then show ?thesis by (simp add: takeWhile_tail)
  qed
  assume "suffix (CHR ''/'' # w) (s @ CHR ''/'' # n)"
  then obtain r where "r @ CHR ''/'' # w = s @ CHR ''/'' # n" by (auto simp: suffix_def)
  with last [OF assms(1), of r] last [OF assms(2), of s] show "w = n" by simp
qed (simp add: suffix_def)

lemma ups_below:
  assumes "CHR ''/'' \<notin> set n" and "\<not> prefix ''ups'' n" and "t = [] \<or> hd t = CHR ''/''"
  shows "sublist ''/ups'' (''/api/nodes/'' @ n @ t) = sublist ''/ups'' t"
proof -
  have "\<not> prefix ''ups'' (n @ t)"
  proof
    assume p: "prefix ''ups'' (n @ t)"
    obtain us where us: "''ups'' = n @ us" "prefix us t" "us \<noteq> []"
      using p assms(2) prefix_append [of "''ups''" n t] by (metis append_Nil2 prefix_order.refl)
    then have "hd us = CHR ''/''" using assms(3) by (cases us; cases t) auto
    with us(1,3) have "CHR ''/'' \<in> set ''ups''" by (metis UnI2 hd_in_set set_append)
    then show False by simp
  qed
  then show ?thesis by (simp add: sublist_Cons_right sublist_segment [OF assms(1)])
qed

lemma no_ups_below: "CHR ''/'' \<notin> set n \<Longrightarrow> \<not> sublist ''/ups/'' (''/api/nodes/'' @ n)"
  by (auto simp: sublist_Cons_right no_slash_sublist prefix_def)

lemma ups_slash_below: "sublist ''/ups/'' (''/api/nodes/'' @ n @ ''/ups/'' @ t)"
  by (metis append_assoc sublist_appendI)

lemma routed_node:
  assumes "routable_id n"
  shows "handleNodes blank ''GET'' (''/api/nodes/'' @ n) = GetNode n"
    "handleNodes blank ''DELETE'' (''/api/nodes/'' @ n) = Forget n"
    "handleNodes blank ''PATCH'' (''/api/nodes/'' @ n) = UpdateMetadata n"
    "handleNodes blank ''GET'' (''/api/nodes/'' @ n @ ''/health'') = GetHealth n"
    "handleNodes blank ''POST'' (''/api/nodes/'' @ n @ ''/adopt'') = Adopt n"
proof -
  have n: "n \<noteq> []" "n \<noteq> ''health''" "CHR ''/'' \<notin> set n" "\<not> prefix ''ups'' n"
    using assms by (auto simp: routable_id_def)
  have e: "\<not> sublist ''/ups'' (''/api/nodes/'' @ n)" "\<not> sublist ''/ups'' (''/api/nodes/'' @ n @ ''/health'')"
    using ups_below [OF n(3,4), of "[]"] ups_below [OF n(3,4), of "''/health''"]
    by (simp_all add: sublist_Cons_right)
  have h: "\<not> suffix ''/health'' (''/api/nodes/'' @ n)"
    using n suffix_segment [of "''health''" n "''/api/nodes''"] by simp
  have s: "\<not> suffix ''/'' n" using n(3) by (auto simp: suffix_def)
  have p: "prefix ''/api/nodes/'' (''/api/nodes/'' @ n)" by simp
  have ne: "''/api/nodes/'' @ n @ t \<noteq> ''/api/nodes''" for t by simp
  show "handleNodes blank ''GET'' (''/api/nodes/'' @ n) = GetNode n"
    unfolding handleNodes_def using n(1) e h by simp
  show "handleNodes blank ''DELETE'' (''/api/nodes/'' @ n) = Forget n"
    unfolding handleNodes_def handleForgetNode_def trim_prefix trim_nothing [OF s] Let_def using n by simp
  show "handleNodes blank ''PATCH'' (''/api/nodes/'' @ n) = UpdateMetadata n"
    unfolding handleNodes_def handleUpdateNodeMetadata_def trim_prefix trim_nothing [OF s] Let_def
    using n no_ups_below [OF n(3)] by simp
  show "handleNodes blank ''GET'' (''/api/nodes/'' @ n @ ''/health'') = GetHealth n"
    unfolding handleNodes_def handleTrustedNodeHealth_def trim_prefix trim_suffix trim_nothing [OF s] Let_def
    using n e by (simp add: suffix_def)
  show "handleNodes blank ''POST'' (''/api/nodes/'' @ n @ ''/adopt'') = Adopt n"
    unfolding handleNodes_def handleAdoptNode_def trim_prefix trim_suffix trim_nothing [OF s] Let_def
    using n by (simp add: suffix_def)
qed

lemma routed_ups:
  assumes "routable_id n" "routable_name blank u"
  shows "handleNodes blank ''GET'' (''/api/nodes/'' @ n @ ''/ups/'' @ u) = GetUPS n u"
    "handleNodes blank ''GET'' (''/api/nodes/'' @ n @ ''/ups/'' @ u @ ''/history'') = HistoryUPS n u"
    "handleNodes blank ''POST'' (''/api/nodes/'' @ n @ ''/ups/'' @ u @ ''/command'') = CommandUPS n u"
    "handleNodes blank ''PATCH'' (''/api/nodes/'' @ n @ ''/ups/'' @ u @ ''/metadata'') = UpdateUPS n u"
proof -
  have l: "sublist ''/ups/'' (''/api/nodes/'' @ n @ ''/ups/'' @ t)" for t by (rule ups_slash_below)
  have l': "sublist ''/ups'' (''/api/nodes/'' @ n @ ''/ups/'' @ t)" for t
    using sublist_appendI [of "''/ups''" "''/api/nodes/'' @ n" "''/'' @ t"] by simp
  have a: "\<not> suffix ''/adopt'' (s @ ''/command'')" for s by (auto simp: suffix_def)
  note parts = ups_parts [OF assms]
  show "handleNodes blank ''GET'' (''/api/nodes/'' @ n @ ''/ups/'' @ u) = GetUPS n u"
    unfolding handleNodes_def using l' parts(1) [of "''GET''"] by simp
  show "handleNodes blank ''GET'' (''/api/nodes/'' @ n @ ''/ups/'' @ u @ ''/history'') = HistoryUPS n u"
    unfolding handleNodes_def using l' [of "u @ ''/history''"] parts(2) [of "''history''" "''GET''"] by simp
  show "handleNodes blank ''POST'' (''/api/nodes/'' @ n @ ''/ups/'' @ u @ ''/command'') = CommandUPS n u"
    unfolding handleNodes_def using l [of "u @ ''/command''"] parts(2) [of "''command''" "''POST''"]
      a [of "''/api/nodes/'' @ n @ ''/ups/'' @ u"] by simp
  show "handleNodes blank ''PATCH'' (''/api/nodes/'' @ n @ ''/ups/'' @ u @ ''/metadata'') = UpdateUPS n u"
    unfolding handleNodes_def using l [of "u @ ''/metadata''"] parts(2) [of "''metadata''" "''PATCH''"] by simp
qed

text \<open>C17: Every request of the web UI about a node or a UPS reaches, through the routing of the controller's
  server, the operation it is meant for, with the node id and the UPS name unchanged.  That is so for ids
  and names that are not empty, \<open>.\<close> or \<open>..\<close> and hold no slash; the server needs in addition that an id
  does not start with \<open>ups\<close> and is not \<open>health\<close>, and that a name is not blank and holds no percent sign.\<close>

theorem requests_reach_operations:
  assumes "routable_id n" and "routable_name blank u"
  shows "served blank fetchNodes = Some ListNodes \<and>
    served blank (fetchNode n) = Some (GetNode n) \<and>
    served blank (fetchNodeHealth n) = Some (GetHealth n) \<and>
    served blank (adoptNode n) = Some (Adopt n) \<and>
    served blank (forgetNode n) = Some (Forget n) \<and>
    served blank (updateNode n p) = Some (UpdateMetadata n) \<and>
    served blank (fetchUPSDetail n u) = Some (GetUPS n u) \<and>
    served blank (fetchUPSHistory n u v) = Some (HistoryUPS n u) \<and>
    served blank (runUPSCommand n u c) = Some (CommandUPS n u) \<and>
    served blank (updateUPSMetadata n u d t) = Some (UpdateUPS n u)"
proof -
  have q: "rq_path (fetchUPSHistory n u v) = ups_path n u (''/history'' @
      (CHR ''?'' # search_params [(''var'', v), (''hours'', ''24''), (''limit'', ''400'')]))"
    by (simp add: fetchUPSHistory_def api_get_def Let_def)
  have "served blank (fetchUPSHistory n u v) = Some (HistoryUPS n u)"
    using served_ups [OF q, of blank] routed_ups(2) [OF assms] by (simp add: fetchUPSHistory_def api_get_def Let_def)
  moreover have "served blank fetchNodes = Some ListNodes"
    by (simp add: served_def fetchNodes_def api_get_def handleNodes_def suffix_def unescape_plain)
  moreover have "served blank (fetchNode n) = Some (GetNode n)" "served blank (forgetNode n) = Some (Forget n)"
    "served blank (updateNode n p) = Some (UpdateMetadata n)"
    using routed_node(1-3) [OF assms(1), of blank] served_node [of _ n "[]" "[]" blank]
    by (simp_all add: api_calls api_get_def api_send_def)
  moreover have "served blank (fetchNodeHealth n) = Some (GetHealth n)" "served blank (adoptNode n) = Some (Adopt n)"
    using routed_node(4,5) [OF assms(1), of blank] served_node [of _ n "''/health''" "[]" blank]
      served_node [of _ n "''/adopt''" "[]" blank]
    by (simp_all add: api_calls api_get_def api_send_def)
  moreover have "served blank (fetchUPSDetail n u) = Some (GetUPS n u)"
    using routed_ups(1) [OF assms] served_ups [of _ n u "[]" "[]" blank] by (simp add: api_calls api_get_def)
  moreover have "served blank (runUPSCommand n u c) = Some (CommandUPS n u)"
    "served blank (updateUPSMetadata n u d t) = Some (UpdateUPS n u)"
    using routed_ups(3,4) [OF assms] served_ups [of _ n u "''/command''" "[]" blank]
      served_ups [of _ n u "''/metadata''" "[]" blank] by (simp_all add: api_calls api_send_def)
  ultimately show ?thesis by blast
qed

lemma requests_reach_operations_witness:
  "served (\<lambda>u. u = []) (runUPSCommand ''a b%'' ''rack 1'' ''beeper.mute'') = Some (CommandUPS ''a b%'' ''rack 1'')"
  using requests_reach_operations [of "''a b%''" "\<lambda>u. u = []" "''rack 1''"]
  by (simp add: routable_id_def routable_name_def)

text \<open>
  Without these conditions the server takes the requests elsewhere: it decodes the name of a UPS twice,
  and cuts the path into segments and looks for words in it after it has decoded it.
\<close>

lemma misrouted:
  "served blank (fetchNode ''ups1'') = Some RouteNotFound"
  "served blank (fetchNode ''health'') = Some (GetHealth ''health'')"
  "served (\<lambda>u. u = []) (fetchUPSDetail ''n1'' ''50%41'') = Some (GetUPS ''n1'' ''50A'')"
  "served (\<lambda>u. u = []) (fetchUPSDetail ''n1'' ''rack/1'') = Some RouteNotFound"
  by code_simp+

end
