(* ===== verification/Ctl_App.thy ===== *)
theory Ctl_App
  imports Ctl_Api Ctl_Ui Event_System
begin

text \<open>
  The root component (\<open>App.tsx\<close>) around one page: the toast, the confirmation dialog with its promise,
  the requests in flight, and the theme.  An \<open>async\<close> handler of a component is cut at its \<open>await\<close>s: it
  returns the effects it has up to the next one, and the task that continues it.  The answers to the
  requests of one \<open>Promise.all\<close> are delivered together, or the first failure alone.
\<close>

section \<open>Effects\<close>

datatype ('k, 'p) eff =
    Call "api_request list" 'k
  | Ask confirm_request 'k
  | ShowToast string toast_severity
  | Notify 'p

text \<open>What an \<open>await\<close> gives: the payloads or an error, or the user's answer.\<close>

datatype settled = Settled "thrown + payload list" | Confirmed bool

fun settle :: "api_reply list \<Rightarrow> thrown + payload list" where
  "settle [] = Inr []"
| "settle (r # rs) =
     (case requestJSON r of
        Inl e \<Rightarrow> Inl e
      | Inr p \<Rightarrow> (case settle rs of Inl e \<Rightarrow> Inl e | Inr ps \<Rightarrow> Inr (p # ps)))"

definition replies_fit :: "api_request list \<Rightarrow> api_reply list \<Rightarrow> bool" where
  "replies_fit qs rs =
     (case settle rs of
        Inl e \<Rightarrow> length rs = 1
      | Inr ps \<Rightarrow> map type_of_payload ps = map rq_type qs)"

section \<open>Components within components\<close>

text \<open>
  The effects of a child, as effects of its parent: the child's tasks are wrapped, and its calls of a
  callback are carried out by the parent where the child makes them.
\<close>

fun lift_effs ::
  "('k \<Rightarrow> 'j) \<Rightarrow> ('p \<Rightarrow> 's \<Rightarrow> 's \<times> ('j, 'q) eff list) \<Rightarrow> ('k, 'p) eff list \<Rightarrow> 's \<Rightarrow> 's \<times> ('j, 'q) eff list" where
  "lift_effs wrap out [] f = (f, [])"
| "lift_effs wrap out (Call qs k # es) f = (let (f', fs) = lift_effs wrap out es f in (f', Call qs (wrap k) # fs))"
| "lift_effs wrap out (Ask c k # es) f = (let (f', fs) = lift_effs wrap out es f in (f', Ask c (wrap k) # fs))"
| "lift_effs wrap out (ShowToast m sev # es) f =
     (let (f', fs) = lift_effs wrap out es f in (f', ShowToast m sev # fs))"
| "lift_effs wrap out (Notify p # es) f =
     (let (f1, fs1) = out p f; (f2, fs2) = lift_effs wrap out es f1 in (f2, fs1 @ fs2))"

definition no_out :: "'p \<Rightarrow> 's \<Rightarrow> 's \<times> ('j, 'q) eff list" where
  "no_out p f = (f, [])"

section \<open>State\<close>

record ('s, 'k) app =
  ap_page :: 's
  ap_toast :: "toast_request option"
  confirmRequest :: "confirm_request option"
  confirmResolver :: "'k option"
  ap_calls :: "(nat \<times> api_request list \<times> 'k) list"
  ap_sent :: "api_request list"
  ap_next :: nat

definition showToast :: "string \<Rightarrow> toast_severity \<Rightarrow> ('s, 'k) app \<Rightarrow> ('s, 'k) app" where
  "showToast message sev a = a\<lparr>ap_toast := Some (message, sev)\<rparr>"

text \<open>The resolver of an earlier promise that nobody settled is overwritten.\<close>

definition requestConfirmation :: "confirm_request \<Rightarrow> 'k \<Rightarrow> ('s, 'k) app \<Rightarrow> ('s, 'k) app" where
  "requestConfirmation request k a = a\<lparr>confirmRequest := Some request, confirmResolver := Some k\<rparr>"

definition start_call :: "api_request list \<Rightarrow> 'k \<Rightarrow> ('s, 'k) app \<Rightarrow> ('s, 'k) app" where
  "start_call qs k a =
     a\<lparr>ap_calls := ap_calls a @ [(ap_next a, qs, k)], ap_sent := ap_sent a @ qs, ap_next := Suc (ap_next a)\<rparr>"

fun run_eff :: "('k, 'p) eff \<Rightarrow> ('s, 'k) app \<Rightarrow> ('s, 'k) app" where
  "run_eff (Call qs k) a = start_call qs k a"
| "run_eff (Ask r k) a = requestConfirmation r k a"
| "run_eff (ShowToast m sev) a = showToast m sev a"
| "run_eff (Notify p) a = a"

definition run_page :: "'s \<times> ('k, 'p) eff list \<Rightarrow> ('s, 'k) app \<Rightarrow> ('s, 'k) app" where
  "run_page r a = fold run_eff (snd r) (a\<lparr>ap_page := fst r\<rparr>)"

text \<open>
  \<open>closeConfirmation\<close>: the promise is settled, and its task continues after the dialog is gone.
\<close>

definition closeConfirmation ::
  "('k \<Rightarrow> settled \<Rightarrow> 's \<Rightarrow> 's \<times> ('k, 'p) eff list) \<Rightarrow> bool \<Rightarrow> ('s, 'k) app \<Rightarrow> ('s, 'k) app" where
  "closeConfirmation resume accepted a =
     (let a' = a\<lparr>confirmResolver := None, confirmRequest := None\<rparr> in
      case confirmResolver a of
        None \<Rightarrow> a'
      | Some k \<Rightarrow> run_page (resume k (Confirmed accepted) (ap_page a')) a')"

datatype 'e app_event =
    PageEvent 'e
  | Reply nat "api_reply list"
  | AnswerConfirm confirm_answer
  | CloseToast close_reason

definition call_of :: "nat \<Rightarrow> ('s, 'k) app \<Rightarrow> (api_request list \<times> 'k) option" where
  "call_of n a = map_of (ap_calls a) n"

fun app_handler ::
  "('e \<Rightarrow> 's \<Rightarrow> 's \<times> ('k, 'p) eff list) \<Rightarrow> ('k \<Rightarrow> settled \<Rightarrow> 's \<Rightarrow> 's \<times> ('k, 'p) eff list) \<Rightarrow>
   'e app_event \<Rightarrow> ('s, 'k) app \<Rightarrow> ('s, 'k) app" where
  "app_handler handle resume (PageEvent e) a = run_page (handle e (ap_page a)) a"
| "app_handler handle resume (Reply n rs) a =
     (case call_of n a of
        None \<Rightarrow> a
      | Some (qs, k) \<Rightarrow>
          if replies_fit qs rs
          then run_page (resume k (Settled (settle rs)) (ap_page a))
                 (a\<lparr>ap_calls := filter (\<lambda>c. fst c \<noteq> n) (ap_calls a)\<rparr>)
          else a)"
| "app_handler handle resume (AnswerConfirm b) a =
     (if confirmRequest a = None then a else closeConfirmation resume (b = OnAccept) a)"
| "app_handler handle resume (CloseToast reason) a = a\<lparr>ap_toast := toast_onClose reason (ap_toast a)\<rparr>"

definition start_app :: "'s \<times> ('k, 'p) eff list \<Rightarrow> ('s, 'k) app" where
  "start_app r =
     run_page r \<lparr>ap_page = fst r, ap_toast = None, confirmRequest = None, confirmResolver = None,
       ap_calls = [], ap_sent = [], ap_next = 0\<rparr>"

text \<open>Every call has a number of its own, so an answer settles one call.\<close>

definition calls_numbered :: "('s, 'k) app \<Rightarrow> bool" where
  "calls_numbered a \<longleftrightarrow> distinct (map fst (ap_calls a)) \<and> (\<forall>c\<in>set (ap_calls a). fst c < ap_next a)"

lemma calls_numbered_answer:
  "calls_numbered a \<Longrightarrow> calls_numbered (a\<lparr>ap_calls := filter P (ap_calls a)\<rparr>)"
  by (auto simp: calls_numbered_def distinct_map intro: inj_on_subset)

lemma answered_calls:
  assumes "calls_numbered a" and "call_of n a = Some c"
  shows "length (filter P (filter (\<lambda>d. fst d \<noteq> n) (ap_calls a))) =
    length (filter P (ap_calls a)) - (if P (n, c) then 1 else 0)"
proof -
  have "length (filter P (filter (\<lambda>d. fst d \<noteq> n) cs)) = length (filter P cs) - (if P (n, c) then 1 else 0)"
    if "distinct (map fst cs)" "map_of cs n = Some c" for cs
    using that
  proof (induction cs)
    case (Cons d cs)
    show ?case
    proof (cases "fst d = n")
      case True
      with Cons.prems have d: "d = (n, c)" and "n \<notin> fst ` set cs" by (cases d; auto)+
      then have "filter (\<lambda>d. fst d \<noteq> n) cs = cs" by (auto simp: filter_id_conv)
      with d show ?thesis by simp
    next
      case False
      with Cons.prems have m: "map_of cs n = Some c" "distinct (map fst cs)" by (cases d; simp)+
      then have "P (n, c) \<Longrightarrow> 0 < length (filter P cs)"
        by (metis filter_empty_conv length_greater_0_conv map_of_SomeD)
      with False Cons.IH [OF m(2,1)] show ?thesis by auto
    qed
  qed simp
  with assms show ?thesis by (simp add: calls_numbered_def call_of_def)
qed

section \<open>Confirmation\<close>

text \<open>
  The dialog is open exactly when a promise waits for it, it shows the question of the task that waits,
  and the calls are numbered in their order.  \<open>new_guarded guarded a a' q\<close>: between the two states the
  guarded request \<open>q\<close> was sent.
\<close>

definition confirm_inv :: "('k \<Rightarrow> confirm_request \<Rightarrow> bool) \<Rightarrow> ('s, 'k) app \<Rightarrow> bool" where
  "confirm_inv asks a \<longleftrightarrow>
     (confirmResolver a = None \<longrightarrow> confirmRequest a = None) \<and>
     (\<forall>k. confirmResolver a = Some k \<longrightarrow> (\<exists>c. confirmRequest a = Some c \<and> asks k c)) \<and>
     (\<forall>c\<in>set (ap_calls a). fst c < ap_next a)"

definition new_guarded :: "(api_request \<Rightarrow> bool) \<Rightarrow> ('s, 'k) app \<Rightarrow> ('s, 'k) app \<Rightarrow> api_request \<Rightarrow> bool" where
  "new_guarded guarded a a' q \<longleftrightarrow>
     guarded q \<and> (\<exists>n qs k. (n, qs, k) \<in> set (ap_calls a') \<and> ap_next a \<le> n \<and> q \<in> set qs)"

text \<open>
  The contract of a page: some requests are guarded, that is, an event sends them only where it is
  \<open>allowed\<close> to, and a task only when it continues with the user's consent and has \<open>promised\<close> them; the
  dialog that asked for this consent showed the question of the task (\<open>asks\<close>).
\<close>

locale confirmed_page =
  fixes handle :: "'e \<Rightarrow> 's \<Rightarrow> 's \<times> ('k, 'p) eff list"
    and resume :: "'k \<Rightarrow> settled \<Rightarrow> 's \<Rightarrow> 's \<times> ('k, 'p) eff list"
    and guarded :: "api_request \<Rightarrow> bool"
    and allowed :: "'e \<Rightarrow> 's \<Rightarrow> api_request \<Rightarrow> bool"
    and promised :: "'k \<Rightarrow> api_request \<Rightarrow> bool"
    and asks :: "'k \<Rightarrow> confirm_request \<Rightarrow> bool"
  assumes handle_calls:
      "Call qs k \<in> set (snd (handle e s)) \<Longrightarrow> q \<in> set qs \<Longrightarrow> guarded q \<Longrightarrow> allowed e s q"
    and resume_calls:
      "Call qs k' \<in> set (snd (resume k r s)) \<Longrightarrow> q \<in> set qs \<Longrightarrow> guarded q \<Longrightarrow>
        r = Confirmed True \<and> promised k q"
    and handle_asks: "Ask c k \<in> set (snd (handle e s)) \<Longrightarrow> asks k c"
    and resume_asks: "Ask c k' \<in> set (snd (resume k r s)) \<Longrightarrow> asks k' c"
begin

definition consented :: "'e app_event \<Rightarrow> ('s, 'k) app \<Rightarrow> api_request \<Rightarrow> bool" where
  "consented e a q \<longleftrightarrow>
     (\<exists>p. e = PageEvent p \<and> allowed p (ap_page a) q) \<or>
     e = AnswerConfirm OnAccept \<and>
     (\<exists>c k. confirmRequest a = Some c \<and> confirmResolver a = Some k \<and> asks k c \<and> promised k q)"

lemma run_effs:
  assumes "\<And>c k. Ask c k \<in> set es \<Longrightarrow> asks k c" and "confirm_inv asks a"
  shows "confirm_inv asks (fold run_eff es a) \<and> ap_next a \<le> ap_next (fold run_eff es a) \<and>
    (\<forall>c\<in>set (ap_calls (fold run_eff es a)). c \<in> set (ap_calls a) \<or>
       (ap_next a \<le> fst c \<and> Call (fst (snd c)) (snd (snd c)) \<in> set es))"
  using assms
proof (induction es arbitrary: a)
  case (Cons e es)
  have "confirm_inv asks (run_eff e a)"
    using Cons.prems
    by (cases e) (auto simp: confirm_inv_def start_call_def requestConfirmation_def showToast_def)
  moreover have "ap_next a \<le> ap_next (run_eff e a)"
    "\<forall>c\<in>set (ap_calls (run_eff e a)). c \<in> set (ap_calls a) \<or>
       (ap_next a \<le> fst c \<and> Call (fst (snd c)) (snd (snd c)) \<in> set (e # es))"
    by (cases e; auto simp: start_call_def requestConfirmation_def showToast_def)+
  moreover note Cons.IH [of "run_eff e a"] Cons.prems(1)
  ultimately show ?case by (fastforce dest: order_trans)
qed simp

lemma run_page_inv:
  fixes r :: "'s \<times> ('k, 'p) eff list"
  assumes "\<And>c k. Ask c k \<in> set (snd r) \<Longrightarrow> asks k c" and "confirm_inv asks a"
  shows "confirm_inv asks (run_page r a)"
    and "new_guarded guarded a (run_page r a) q \<Longrightarrow> guarded q \<and> (\<exists>qs k. Call qs k \<in> set (snd r) \<and> q \<in> set qs)"
proof -
  have i: "confirm_inv asks (a\<lparr>ap_page := fst r\<rparr>)" using assms(2) by (simp add: confirm_inv_def)
  note e = run_effs [where es = "snd r", OF assms(1) i]
  then show "confirm_inv asks (run_page r a)" by (simp add: run_page_def)
  assume "new_guarded guarded a (run_page r a) q"
  then obtain n qs k where n: "(n, qs, k) \<in> set (ap_calls (run_page r a))" "ap_next a \<le> n"
    "q \<in> set qs" "guarded q" by (auto simp: new_guarded_def)
  moreover have "(n, qs, k) \<notin> set (ap_calls a)" using assms(2) n(2) by (auto simp: confirm_inv_def)
  ultimately show "guarded q \<and> (\<exists>qs k. Call qs k \<in> set (snd r) \<and> q \<in> set qs)"
    using e by (fastforce simp: run_page_def)
qed

lemma drop_call_inv: "confirm_inv asks a \<Longrightarrow> confirm_inv asks (a\<lparr>ap_calls := filter P (ap_calls a)\<rparr>)"
  by (auto simp: confirm_inv_def)

lemma app_step:
  assumes "confirm_inv asks a"
  shows "confirm_inv asks (app_handler handle resume e a)"
    and "new_guarded guarded a (app_handler handle resume e a) q \<Longrightarrow> consented e a q"
proof -
  have same: "\<not> new_guarded guarded a a' q" if "set (ap_calls a') \<subseteq> set (ap_calls a)" for a'
    using assms that by (fastforce simp: new_guarded_def confirm_inv_def)
  have "confirm_inv asks (app_handler handle resume e a) \<and> (new_guarded guarded a (app_handler handle resume e a) q \<longrightarrow> consented e a q)"
  proof (cases e)
    case (PageEvent p)
    show ?thesis
      using run_page_inv [where r = "handle p (ap_page a)", OF handle_asks assms] handle_calls PageEvent
      by (fastforce simp: consented_def)
  next
    case (Reply n rs)
    show ?thesis
    proof (cases "call_of n a")
      case None
      then show ?thesis using assms same [of a] Reply by simp
    next
      case (Some c)
      obtain qs k where c: "c = (qs, k)" by (cases c)
      let ?a = "a\<lparr>ap_calls := filter (\<lambda>c. fst c \<noteq> n) (ap_calls a)\<rparr>"
      let ?r = "resume k (Settled (settle rs)) (ap_page a)"
      have i: "confirm_inv asks ?a" by (rule drop_call_inv [OF assms])
      have ng: "new_guarded guarded a (run_page ?r ?a) q \<Longrightarrow> new_guarded guarded ?a (run_page ?r ?a) q"
        by (simp add: new_guarded_def)
      have "\<not> new_guarded guarded a (run_page ?r ?a) q"
        using ng run_page_inv(2) [where r = ?r, OF resume_asks i] resume_calls by fastforce
      then show ?thesis
        using assms same [of a] run_page_inv(1) [where r = ?r, OF resume_asks i]
          Some c Reply by simp
    qed
  next
    case (AnswerConfirm b)
    let ?a = "a\<lparr>confirmResolver := None, confirmRequest := None\<rparr>"
    have i: "confirm_inv asks ?a" using assms by (simp add: confirm_inv_def)
    show ?thesis
    proof (cases "confirmResolver a")
      case None
      then have "app_handler handle resume e a = a"
        using assms AnswerConfirm by (simp add: confirm_inv_def)
      then show ?thesis using assms same [of a] by simp
    next
      case (Some k)
      with assms obtain c where c: "confirmRequest a = Some c" "asks k c"
        by (auto simp: confirm_inv_def split: option.splits)
      let ?r = "resume k (Confirmed (b = OnAccept)) (ap_page a)"
      have h: "app_handler handle resume e a = run_page ?r ?a"
        using Some c AnswerConfirm by (simp add: closeConfirmation_def)
      have ng: "new_guarded guarded a (run_page ?r ?a) q \<Longrightarrow> new_guarded guarded ?a (run_page ?r ?a) q"
        by (simp add: new_guarded_def)
      show ?thesis unfolding h
        using ng run_page_inv [where r = ?r, OF resume_asks i] resume_calls c Some
          AnswerConfirm by (fastforce simp: consented_def)
    qed
  next
    case (CloseToast reason)
    then show ?thesis
      using assms same [of "a\<lparr>ap_toast := toast_onClose reason (ap_toast a)\<rparr>"]
      by (simp add: confirm_inv_def)
  qed
  then show "confirm_inv asks (app_handler handle resume e a)"
    and "new_guarded guarded a (app_handler handle resume e a) q \<Longrightarrow> consented e a q"
    by blast+
qed

lemma start_inv:
  fixes r :: "'s \<times> ('k, 'p) eff list"
  assumes "\<And>c k. Ask c k \<in> set (snd r) \<Longrightarrow> asks k c"
  shows "confirm_inv asks (start_app r)"
  unfolding start_app_def
  by (rule run_page_inv(1) [OF assms]) (simp_all add: confirm_inv_def)

lemma run_inv:
  "confirm_inv asks a \<Longrightarrow> confirm_inv asks (fold (app_handler handle resume) es a)"
  by (induction es arbitrary: a) (simp_all add: app_step(1))

lemma guarded_needs_consent:
  assumes "confirm_inv asks a"
    and "new_guarded guarded (fold (app_handler handle resume) es a)
      (app_handler handle resume e (fold (app_handler handle resume) es a)) q"
  shows "consented e (fold (app_handler handle resume) es a) q"
  using assms(2) by (rule app_step(2) [OF run_inv [OF assms(1)]])

end

section \<open>Requests\<close>

text \<open>A page that keeps an invariant of its state and sends only requests of a certain form.\<close>

locale sending_page =
  fixes handle :: "'e \<Rightarrow> 's \<Rightarrow> 's \<times> ('k, 'p) eff list"
    and resume :: "'k \<Rightarrow> settled \<Rightarrow> 's \<Rightarrow> 's \<times> ('k, 'p) eff list"
    and page_inv :: "'s \<Rightarrow> bool"
    and request_ok :: "api_request \<Rightarrow> bool"
  assumes handle_inv: "page_inv s \<Longrightarrow> page_inv (fst (handle e s))"
    and resume_inv: "page_inv s \<Longrightarrow> page_inv (fst (resume k r s))"
    and handle_ok: "page_inv s \<Longrightarrow> Call qs k \<in> set (snd (handle e s)) \<Longrightarrow> q \<in> set qs \<Longrightarrow> request_ok q"
    and resume_ok: "page_inv s \<Longrightarrow> Call qs k' \<in> set (snd (resume k r s)) \<Longrightarrow> q \<in> set qs \<Longrightarrow> request_ok q"
begin

lemma sent_page:
  fixes r :: "'s \<times> ('k, 'p) eff list"
  assumes "page_inv (fst r)" and "\<And>qs k q. Call qs k \<in> set (snd r) \<Longrightarrow> q \<in> set qs \<Longrightarrow> request_ok q"
    and "\<forall>q\<in>set (ap_sent a). request_ok q"
  shows "page_inv (ap_page (run_page r a)) \<and> (\<forall>q\<in>set (ap_sent (run_page r a)). request_ok q)"
proof -
  have "ap_page (fold run_eff es b) = ap_page b \<and>
      (\<forall>q\<in>set (ap_sent (fold run_eff es b)). q \<in> set (ap_sent b) \<or> (\<exists>qs k. Call qs k \<in> set es \<and> q \<in> set qs))"
    for es :: "('k, 'p) eff list" and b :: "('s, 'k) app"
  proof (induction es arbitrary: b)
    case (Cons e es)
    have "ap_page (run_eff e b) = ap_page b"
      "\<forall>q\<in>set (ap_sent (run_eff e b)). q \<in> set (ap_sent b) \<or> (\<exists>qs k. e = Call qs k \<and> q \<in> set qs)"
      by (cases e; auto simp: start_call_def requestConfirmation_def showToast_def)+
    with Cons.IH [of "run_eff e b"] show ?case by fastforce
  qed simp
  from this [of "snd r" "a\<lparr>ap_page := fst r\<rparr>"] assms show ?thesis by (fastforce simp: run_page_def)
qed

lemma sent_step:
  assumes "page_inv (ap_page a) \<and> (\<forall>q\<in>set (ap_sent a). request_ok q)"
  shows "page_inv (ap_page (app_handler handle resume e a)) \<and>
    (\<forall>q\<in>set (ap_sent (app_handler handle resume e a)). request_ok q)"
proof (cases e)
  case (PageEvent p)
  then show ?thesis
    using sent_page [of "handle p (ap_page a)" a] handle_inv handle_ok assms by simp blast
next
  case (Reply n rs)
  show ?thesis
  proof (cases "call_of n a")
    case (Some c)
    obtain qs k where "c = (qs, k)" by (cases c)
    with Some Reply assms
      sent_page [of "resume k (Settled (settle rs)) (ap_page a)" "a\<lparr>ap_calls := filter (\<lambda>c. fst c \<noteq> n) (ap_calls a)\<rparr>"]
      resume_inv resume_ok
    show ?thesis by simp blast
  qed (use Reply assms in simp)
next
  case (AnswerConfirm b)
  show ?thesis
  proof (cases "confirmResolver a")
    case (Some k)
    with AnswerConfirm assms
      sent_page [of "resume k (Confirmed (b = OnAccept)) (ap_page a)" "a\<lparr>confirmResolver := None, confirmRequest := None\<rparr>"]
      resume_inv resume_ok
    show ?thesis by (simp add: closeConfirmation_def Let_def) blast
  qed (use AnswerConfirm assms in \<open>simp add: closeConfirmation_def\<close>)
qed (use assms in simp)

lemma sent_run:
  assumes "page_inv (ap_page a) \<and> (\<forall>q\<in>set (ap_sent a). request_ok q)"
  shows "page_inv (ap_page (fold (app_handler handle resume) es a)) \<and>
    (\<forall>q\<in>set (ap_sent (fold (app_handler handle resume) es a)). request_ok q)"
  using assms
proof (induction es arbitrary: a)
  case (Cons e es)
  from Cons.IH [OF sent_step [OF Cons.prems]] show ?case by simp
qed simp

lemma sent_start:
  fixes r :: "'s \<times> ('k, 'p) eff list"
  assumes "page_inv (fst r)" and "\<And>qs k q. Call qs k \<in> set (snd r) \<Longrightarrow> q \<in> set qs \<Longrightarrow> request_ok q"
  shows "page_inv (ap_page (fold (app_handler handle resume) es (start_app r))) \<and>
    (\<forall>q\<in>set (ap_sent (fold (app_handler handle resume) es (start_app r))). request_ok q)"
  unfolding start_app_def by (rule sent_run, rule sent_page [OF assms]) simp_all

end

end
