(* ===== verification/Ctl_Settings.thy ===== *)
theory Ctl_Settings
  imports Ctl_App
begin

text \<open>The settings page (\<open>SettingsPage.tsx\<close>): the aggregate listener's switch and address.\<close>

section \<open>State and operations\<close>

record settings_page =
  se_settings :: "controller_settings option"
  se_listen :: string
  se_saving :: bool
  se_error :: "string option"

datatype settings_task = SeLoad | SeToggled | SeListenSaved

datatype settings_action = SeToggle | SeSubmit

type_synonym settings_step = "settings_page \<times> (settings_task, unit) eff list"

definition se_load :: "settings_page \<Rightarrow> settings_step" where
  "se_load s = (s, [Call [fetchControllerSettings] SeLoad])"

definition se_loaded :: "thrown + payload list \<Rightarrow> settings_page \<Rightarrow> settings_step" where
  "se_loaded r s =
     (case r of
        Inl e \<Rightarrow> (s\<lparr>se_error := Some (case e of ErrorObject m \<Rightarrow> m | _ \<Rightarrow> ''Unknown error'')\<rparr>, [])
      | Inr [PSettings payload] \<Rightarrow>
          (s\<lparr>se_settings := Some payload, se_listen := or_str (cs_listen payload) '':3493'', se_error := None\<rparr>, [])
      | _ \<Rightarrow> (s, []))"

definition settings_mount :: settings_step where
  "settings_mount =
     se_load \<lparr>se_settings = None, se_listen = '':3493'', se_saving = False, se_error = None\<rparr>"

definition se_handleToggle :: "settings_page \<Rightarrow> settings_step" where
  "se_handleToggle s =
     (case se_settings s of
        None \<Rightarrow> (s, [])
      | Some settings \<Rightarrow>
          (s\<lparr>se_saving := True\<rparr>,
           [Call [updateControllerSettings (Some (\<not> cs_enabled settings)) (Some (se_listen s))] SeToggled]))"

definition handleListenSave :: "settings_page \<Rightarrow> settings_step" where
  "handleListenSave s =
     (case se_settings s of
        None \<Rightarrow> (s, [])
      | Some settings \<Rightarrow>
          (s\<lparr>se_saving := True\<rparr>, [Call [updateControllerSettings None (Some (se_listen s))] SeListenSaved]))"

text \<open>What both do with the answer, but for the message of success.\<close>

definition se_saved ::
  "(controller_settings \<Rightarrow> string) \<Rightarrow> thrown + payload list \<Rightarrow> settings_page \<Rightarrow> settings_step" where
  "se_saved message r s =
     (case r of
        Inl e \<Rightarrow>
          (let m = humanizeError e ''Settings update failed.''
           in (s\<lparr>se_error := Some m, se_saving := False\<rparr>, [ShowToast m ToastError]))
      | Inr [PSettings updated] \<Rightarrow>
          (s\<lparr>se_settings := Some updated, se_listen := cs_listen updated, se_error := None, se_saving := False\<rparr>,
           [ShowToast (message updated) ToastSuccess])
      | _ \<Rightarrow> (s\<lparr>se_saving := False\<rparr>, []))"

definition se_toggled :: "thrown + payload list \<Rightarrow> settings_page \<Rightarrow> settings_step" where
  "se_toggled =
     se_saved (\<lambda>updated. if cs_enabled updated then ''Aggregate NUT listener enabled.''
                         else ''Aggregate NUT listener disabled.'')"

definition se_listen_saved :: "thrown + payload list \<Rightarrow> settings_page \<Rightarrow> settings_step" where
  "se_listen_saved =
     se_saved (\<lambda>updated. ''Aggregate listener address set to '' @ cs_listen updated @ ''.'')"

section \<open>Rendering and events\<close>

definition settings_view :: "settings_page \<Rightarrow> settings_action ui" where
  "settings_view s =
     Group
       ([Text ''Controller settings'',
         Text ''Global controller controls for aggregate NUT exposure and admin-level operations.''] @
        (if truthy (se_error s) then [message_box (the (se_error s))] else []) @
        (case se_settings s of
           None \<Rightarrow> [message_box ''Loading controller settings...'']
         | Some settings \<Rightarrow>
             [Text ''Aggregate NUT listener'',
              Text ''Enable or disable the controller aggregate NUT TCP listener on port 3493 without restarting the controller.'',
              Chip (if cs_active settings then ''active'' else ''inactive'')
                (if cs_active settings then ''success'' else ''error'') None,
              Text ''Configured state'', Text (if cs_enabled settings then ''enabled'' else ''disabled''),
              Text ''Persisted setting applied immediately and kept across controller restarts.'',
              Text ''Listen address'', Text (cs_listen settings),
              Text ''Use host:port or :port. Default is :3493.'',
              Button (if se_saving s then ''Applying...''
                      else if cs_enabled settings then ''Disable listener'' else ''Enable listener'')
                ''primary'' (se_saving s) SeToggle,
              Field ''Listener address'' (se_listen s) [] (se_saving s),
              Button ''Save address'' ''primary'' (se_saving s) SeSubmit]))"

datatype settings_event = SeAct settings_action | SeType string

fun settings_handle :: "settings_event \<Rightarrow> settings_page \<Rightarrow> settings_step" where
  "settings_handle (SeAct a) s =
     (if a \<in> set (actions (settings_view s))
      then (case a of SeToggle \<Rightarrow> se_handleToggle s | SeSubmit \<Rightarrow> handleListenSave s)
      else (s, []))"
| "settings_handle (SeType v) s =
     (if ''Listener address'' \<in> set (open_fields (settings_view s)) then (s\<lparr>se_listen := v\<rparr>, []) else (s, []))"

fun settings_resume :: "settings_task \<Rightarrow> settled \<Rightarrow> settings_page \<Rightarrow> settings_step" where
  "settings_resume SeLoad (Settled r) s = se_loaded r s"
| "settings_resume SeToggled (Settled r) s = se_toggled r s"
| "settings_resume SeListenSaved (Settled r) s = se_listen_saved r s"
| "settings_resume _ (Confirmed _) s = (s, [])"

definition settings_handler ::
  "settings_event app_event \<Rightarrow> (settings_page, settings_task) app \<Rightarrow> (settings_page, settings_task) app" where
  "settings_handler = app_handler settings_handle settings_resume"

definition start_settings :: "(settings_page, settings_task) app" where
  "start_settings = start_app settings_mount"

section \<open>One update at a time\<close>

definition is_update :: "nat \<times> api_request list \<times> settings_task \<Rightarrow> bool" where
  "is_update c \<longleftrightarrow> snd (snd c) \<noteq> SeLoad"

definition settings_inv :: "(settings_page, settings_task) app \<Rightarrow> bool" where
  "settings_inv a \<longleftrightarrow>
     calls_numbered a \<and>
     length (filter is_update (ap_calls a)) = (if se_saving (ap_page a) then 1 else 0)"

lemma settings_action_when:
  "a \<in> set (actions (settings_view s)) \<longleftrightarrow> se_settings s \<noteq> None \<and> \<not> se_saving s"
  by (cases a) (auto simp: settings_view_def split: option.split)

lemma settings_inv_page:
  assumes "settings_inv a"
  shows "settings_inv (run_page (settings_handle e (ap_page a)) a)"
  using assms
  by (cases e)
     (auto simp: settings_inv_def run_page_def settings_action_when se_handleToggle_def handleListenSave_def
        start_call_def is_update_def calls_numbered_def split: settings_action.split option.split)

text \<open>An answer starts no call, and ends the saving unless it answers the load.\<close>

lemma saved_frame:
  "\<not> se_saving (fst (se_saved m r s))" "\<forall>e\<in>set (snd (se_saved m r s)). \<exists>t v. e = ShowToast t v"
  by (auto simp: se_saved_def Let_def split: sum.split list.split payload.split)

lemma loaded_frame: "se_saving (fst (se_loaded r s)) = se_saving s \<and> snd (se_loaded r s) = []"
  by (auto simp: se_loaded_def split: sum.split list.split payload.split)

lemma toasts_frame:
  assumes "\<forall>e\<in>set es. \<exists>t v. e = ShowToast t v"
  shows "ap_calls (fold run_eff es a) = ap_calls a \<and> ap_next (fold run_eff es a) = ap_next a \<and>
    ap_page (fold run_eff es a) = ap_page a"
  using assms by (induction es arbitrary: a) (auto simp: showToast_def)

lemma settings_reply_frame:
  "ap_calls (run_page (settings_resume k (Settled r) s) a) = ap_calls a \<and>
   ap_next (run_page (settings_resume k (Settled r) s) a) = ap_next a \<and>
   se_saving (ap_page (run_page (settings_resume k (Settled r) s) a)) = (k = SeLoad \<and> se_saving s)"
  by (cases k)
     (simp_all add: run_page_def se_toggled_def se_listen_saved_def toasts_frame [OF saved_frame(2)]
        saved_frame(1) loaded_frame)

lemma settings_inv_reply:
  assumes inv: "settings_inv a" and c: "call_of n a = Some (qs, k)"
  shows "settings_inv (run_page (settings_resume k (Settled r) (ap_page a))
    (a\<lparr>ap_calls := filter (\<lambda>c. fst c \<noteq> n) (ap_calls a)\<rparr>))"
proof -
  have rem: "length (filter is_update (filter (\<lambda>c. fst c \<noteq> n) (ap_calls a))) =
      length (filter is_update (ap_calls a)) - (if k = SeLoad then 0 else 1)"
    using answered_calls [of a n "(qs, k)" is_update] inv c by (simp add: settings_inv_def is_update_def)
  have num: "calls_numbered (a\<lparr>ap_calls := filter (\<lambda>c. fst c \<noteq> n) (ap_calls a)\<rparr>)"
    using inv calls_numbered_answer by (auto simp: settings_inv_def)
  show ?thesis
    using inv num rem settings_reply_frame [of k r "ap_page a" "a\<lparr>ap_calls := filter (\<lambda>c. fst c \<noteq> n) (ap_calls a)\<rparr>"]
    by (auto simp: settings_inv_def calls_numbered_def)
qed

lemma settings_inv_event: "settings_inv a \<Longrightarrow> settings_inv (settings_handler e a)"
proof (cases e)
  case (Reply n rs)
  assume "settings_inv a"
  with Reply show ?thesis
    using settings_inv_reply [of a n] by (simp add: settings_handler_def split: option.split)
next
  case (AnswerConfirm b)
  assume i: "settings_inv a"
  have r: "settings_resume k (Confirmed c) s = (s, [])" for k c s by (cases k) simp_all
  from i AnswerConfirm show ?thesis
    by (auto simp: settings_handler_def closeConfirmation_def r run_page_def settings_inv_def calls_numbered_def
        Let_def split: option.split)
next
  case (CloseToast reason)
  assume "settings_inv a"
  with CloseToast show ?thesis by (simp add: settings_handler_def settings_inv_def calls_numbered_def)
qed (simp add: settings_handler_def settings_inv_page)

lemma settings_inv_start: "settings_inv start_settings"
  by (simp add: start_settings_def start_app_def settings_mount_def se_load_def run_page_def start_call_def
      settings_inv_def calls_numbered_def is_update_def)

interpretation se: event_system "\<lambda>a. a = start_settings" settings_handler settings_inv
  by unfold_locales (simp_all add: settings_inv_start settings_inv_event)

lemma settings_inputs:
  "set (actions (settings_view s)) = (if se_settings s \<noteq> None \<and> \<not> se_saving s then {SeToggle, SeSubmit} else {})"
  "open_fields (settings_view s) = (if se_settings s \<noteq> None \<and> \<not> se_saving s then [''Listener address''] else [])"
  by (auto simp: settings_view_def message_box_def split: option.split)

text \<open>C19: From one mounting of the settings page to the next, whatever the user does and in whatever order the
  answers come: at most one update of the settings that this mounting has sent is in flight, and the switch,
  the address field and the button that saves it take input exactly when the settings have been loaded and
  none is.  (The flag that disables them is state of the component: a user who leaves the page during an
  update and comes back can send a second one.)\<close>

theorem one_settings_update:
  "let a = fold settings_handler es start_settings;
       updates = length (filter is_update (ap_calls a));
       usable = (se_settings (ap_page a) \<noteq> None \<and> updates = 0)
   in updates \<le> 1 \<and>
      set (actions (settings_view (ap_page a))) = (if usable then {SeToggle, SeSubmit} else {}) \<and>
      open_fields (settings_view (ap_page a)) = (if usable then [''Listener address''] else [])"
proof -
  let ?a = "fold settings_handler es start_settings"
  have "length (filter is_update (ap_calls ?a)) = (if se_saving (ap_page ?a) then 1 else 0)"
    using se.inv_reached [OF refl, of es] by (simp add: settings_inv_def)
  then show ?thesis by (simp only: Let_def settings_inputs split: if_split) simp
qed

end
