(* ===== verification/Ctl_Node.thy ===== *)
theory Ctl_Node
  imports Ctl_App
begin

text \<open>
  The node dialog (\<open>NodeDetailDialog.tsx\<close>) with its two tabs.  An operation returns the new state and
  its effects; a task holds what the code after an \<open>await\<close> has captured.  \<open>nd_config\<close> is the state of
  the \<open>ConfigTab\<close> while it is mounted, numbered so that a task that outlives it does not change the
  next one.
\<close>

section \<open>State\<close>

record config_form =
  cf_key :: nat
  cf_display_name :: string
  cf_location_label :: string
  cf_site_label :: string
  cf_saving :: bool

record detail_values =
  dv_display_name :: string
  dv_location_label :: string
  dv_site_label :: string

record node_dialog =
  nd_nodeId :: "string option"
  nd_node :: "node_record option"
  nd_health :: "health_info option"
  nd_error :: "string option"
  nd_tab :: nat
  nd_activeRef :: "string option"
  nd_config :: "config_form option"
  nd_mounts :: nat

datatype node_task =
    NdLoad string bool
  | NdPolicy node_record bool
  | NdPolicySent node_record bool
  | NdRelease node_record
  | NdReleaseSent node_record
  | NdEditSent node_record detail_values nat
  | NdForget node_record string
  | NdForgetSent string

text \<open>The callbacks of the parent.\<close>

datatype node_out = NodeChanged | NodeClose | NodeOpenUPS string string

datatype node_action =
    NdClose | NdTab nat | NdOpenUPS string | NdToggle | NdReleaseClick | NdSave | NdForgetClick

type_synonym node_step = "node_dialog \<times> (node_task, node_out) eff list"

section \<open>Rendering\<close>

definition MAX_LABEL_LENGTH :: nat where
  "MAX_LABEL_LENGTH = 120"

definition fieldError :: "string \<Rightarrow> string option" where
  "fieldError v =
     (if MAX_LABEL_LENGTH < js_length v
      then Some (''Must be '' @ nat_dec MAX_LABEL_LENGTH @ '' characters or fewer.'') else None)"

definition config_errors :: "config_form \<Rightarrow> bool" where
  "config_errors c \<longleftrightarrow>
     fieldError (cf_display_name c) \<noteq> None \<or> fieldError (cf_location_label c) \<noteq> None \<or>
     fieldError (cf_site_label c) \<noteq> None"

definition location_text :: "node_record \<Rightarrow> string" where
  "location_text node =
     or_str (join '' / '' (filter (\<lambda>s. s \<noteq> []) [nr_location_label node, nr_site_label node])) ''unassigned''"

definition summaries_of :: "node_record \<Rightarrow> ups_summary list" where
  "summaries_of node = (case nr_ups_summaries node of None \<Rightarrow> [] | Some us \<Rightarrow> us)"

definition status_chip :: "string option \<Rightarrow> 'a ui list" where
  "status_chip status =
     (if truthy status then [StatusChip (the status) (statusToSeverity status)] else [])"

definition OverviewTab :: "node_record \<Rightarrow> health_info \<Rightarrow> node_action ui" where
  "OverviewTab node health =
     Group
       ([Text ''Agent version'', Text (or_opt (hi_version health) (or_str (nr_version node) ''dev'')),
         Text ''CPU temp'',
         Text (case hi_cpu_temperature_celsius health of Some t \<Rightarrow> toFixed 1 t @ '' C'' | None \<Rightarrow> ''unknown''),
         Text ''Disk free'',
         Text (formatBytes (case hi_disk_free_bytes health of Some b \<Rightarrow> b | None \<Rightarrow> NInt 0)),
         Text ''Location'', Text (location_text node),
         Text ''UPS inventory'',
         Text ''Drill into any UPS for live detail, history charts, and instant commands.''] @
        (if summaries_of node = []
         then [message_box ''No UPS telemetry has been stored for this node yet.'']
         else map (\<lambda>summary.
                Area (NdOpenUPS (us_name summary))
                  ([Text (or_str (um_display_name (us_metadata summary)) (us_name summary))] @
                   show_if (um_display_name (us_metadata summary) \<noteq> []) (Text (us_name summary)) @
                   status_chip (us_status summary) @ [Text (formatUPSMetrics summary)]))
              (summaries_of node)))"

definition config_field :: "string \<Rightarrow> string \<Rightarrow> bool \<Rightarrow> 'a ui" where
  "config_field label v saving = Field label v (or_opt (fieldError v) '' '') saving"

definition ConfigTab :: "node_record \<Rightarrow> config_form \<Rightarrow> node_action ui" where
  "ConfigTab node c =
     Group
       ([Text ''Details'', Text ''Display name and location/site labels shown across the fleet grid.'',
         config_field ''Display name'' (cf_display_name c) (cf_saving c),
         config_field ''Location label'' (cf_location_label c) (cf_saving c),
         config_field ''Site label'' (cf_site_label c) (cf_saving c),
         Button ''Save details'' ''primary'' (config_errors c \<or> cf_saving c) NdSave] @
        (if nr_adopted node
         then [Text ''Local UI'',
               Switch
                 (if nr_local_ui_policy_managed node
                  then ''Controller-managed: '' @
                       (if nr_local_ui_policy_enabled node then ''enabled'' else ''disabled'') @ ''.''
                  else ''Node-managed. Toggling takes controller ownership of this setting.'')
                 (nr_local_ui_policy_enabled node) NdToggle] @
              show_if (nr_local_ui_policy_managed node)
                (Button ''Release local UI policy'' ''primary'' False NdReleaseClick)
         else [message_box ''Local UI policy can be managed only after adoption.'']))"

text \<open>What the content shows: an error, the loading message, or one of the tabs.\<close>

definition config_shown :: "node_dialog \<Rightarrow> bool" where
  "config_shown d \<longleftrightarrow> \<not> truthy (nd_error d) \<and> nd_node d \<noteq> None \<and> nd_health d \<noteq> None \<and> nd_tab d \<noteq> 0"

definition node_content :: "node_dialog \<Rightarrow> node_action ui" where
  "node_content d =
     (if truthy (nd_error d) then message_box (the (nd_error d))
      else case (nd_node d, nd_health d) of
        (Some node, Some health) \<Rightarrow>
          (if nd_tab d = 0 then OverviewTab node health
           else case nd_config d of Some c \<Rightarrow> ConfigTab node c | None \<Rightarrow> Group [])
      | _ \<Rightarrow> message_box ''Loading node detail...'')"

definition node_view :: "node_dialog \<Rightarrow> node_action ui" where
  "node_view d =
     Dialog (truthy (nd_nodeId d)) (Some NdClose)
       [Text (case nd_node d of Some node \<Rightarrow> formatNodeDisplayName node | None \<Rightarrow> ''Node detail''),
        Text ''Live controller-to-node reads.'',
        Button ''Close node detail'' ''default'' False NdClose,
        Switch ''Overview'' (nd_tab d = 0) (NdTab 0), Switch ''Config'' (nd_tab d = 1) (NdTab 1),
        node_content d,
        Button ''Forget node'' ''error'' (nd_node d = None) NdForgetClick]"

text \<open>Mounting and unmounting the \<open>ConfigTab\<close>, with its initial state from the node.\<close>

definition config_init :: "nat \<Rightarrow> node_record \<Rightarrow> config_form" where
  "config_init key node =
     \<lparr>cf_key = key, cf_display_name = nr_display_name node, cf_location_label = nr_location_label node,
      cf_site_label = nr_site_label node, cf_saving = False\<rparr>"

definition node_rendered :: "node_dialog \<Rightarrow> node_dialog" where
  "node_rendered d =
     (if \<not> config_shown d then d\<lparr>nd_config := None\<rparr>
      else case (nd_config d, nd_node d) of
        (None, Some node) \<Rightarrow> d\<lparr>nd_config := Some (config_init (nd_mounts d) node), nd_mounts := Suc (nd_mounts d)\<rparr>
      | _ \<Rightarrow> d)"

section \<open>Operations\<close>

definition nd_load :: "bool \<Rightarrow> node_dialog \<Rightarrow> node_step" where
  "nd_load silent d =
     (if truthy (nd_nodeId d)
      then (let nodeId = the (nd_nodeId d)
            in (d, [Call [fetchNode nodeId, fetchNodeHealth nodeId] (NdLoad nodeId silent)]))
      else (d, []))"

definition nd_loaded :: "string \<Rightarrow> bool \<Rightarrow> thrown + payload list \<Rightarrow> node_dialog \<Rightarrow> node_step" where
  "nd_loaded requestedNodeId silent r d =
     (case r of
        Inl loadError \<Rightarrow>
          if nd_activeRef d \<noteq> Some requestedNodeId \<or> silent then (d, [])
          else (d\<lparr>nd_error := Some (humanizeError loadError ''Unknown error'')\<rparr>, [])
      | Inr [PNode node, PHealth health] \<Rightarrow>
          if nd_activeRef d \<noteq> Some requestedNodeId then (d, [])
          else (d\<lparr>nd_node := Some node, nd_health := Some health, nd_error := None\<rparr>, [])
      | _ \<Rightarrow> (d, []))"

text \<open>The effect that runs when the prop \<open>nodeId\<close> has changed.\<close>

definition nd_set_nodeId :: "string option \<Rightarrow> node_dialog \<Rightarrow> node_step" where
  "nd_set_nodeId nodeId d =
     (if nodeId = nd_nodeId d then (d, [])
      else nd_load False
        (d\<lparr>nd_nodeId := nodeId, nd_activeRef := nodeId, nd_tab := 0, nd_node := None, nd_health := None,
           nd_error := None\<rparr>))"

text \<open>
  The dialog is mounted with the page, and its effect runs once.
\<close>

definition nd_mount :: "string option \<Rightarrow> node_step" where
  "nd_mount nodeId =
     nd_load False
       \<lparr>nd_nodeId = nodeId, nd_node = None, nd_health = None, nd_error = None, nd_tab = 0,
        nd_activeRef = nodeId, nd_config = None, nd_mounts = 0\<rparr>"

definition no_patch :: node_patch where
  "no_patch = \<lparr>np_display_name = None, np_location_label = None, np_site_label = None,
     np_managed = None, np_enabled = None\<rparr>"

definition policy_question :: "node_record \<Rightarrow> bool \<Rightarrow> confirm_request" where
  "policy_question node nextEnabled =
     (let verb = (if nextEnabled then ''enable'' else ''disable'')
      in \<lparr>cq_title = toUpperCase (take 1 verb) @ drop 1 verb @ '' local UI for '' @
            formatNodeDisplayName node @ ''?'',
          cq_message = ''This updates policy ownership from the controller and applies immediately.'',
          cq_confirm_label = (if nextEnabled then ''Enable local UI'' else ''Disable local UI''),
          cq_cancel_label = None, cq_tone = Some Warn\<rparr>)"

definition policy_patch :: "bool \<Rightarrow> node_patch" where
  "policy_patch nextEnabled = no_patch\<lparr>np_managed := Some True, np_enabled := Some nextEnabled\<rparr>"

definition handleToggleLocalUIPolicy :: "node_dialog \<Rightarrow> node_step" where
  "handleToggleLocalUIPolicy d =
     (case nd_node d of
        None \<Rightarrow> (d, [])
      | Some node \<Rightarrow>
          (let nextEnabled = (\<not> nr_local_ui_policy_enabled node)
           in (d, [Ask (policy_question node nextEnabled) (NdPolicy node nextEnabled)])))"

definition policy_confirmed :: "node_record \<Rightarrow> bool \<Rightarrow> bool \<Rightarrow> node_dialog \<Rightarrow> node_step" where
  "policy_confirmed node nextEnabled confirmed d =
     (if confirmed
      then (d, [Call [updateNode (nr_id node) (policy_patch nextEnabled)] (NdPolicySent node nextEnabled)])
      else (d, []))"

definition policy_updated :: "bool \<Rightarrow> thrown + payload list \<Rightarrow> node_dialog \<Rightarrow> node_step" where
  "policy_updated nextEnabled r d =
     (case r of
        Inl e \<Rightarrow> (d, [ShowToast (humanizeError e ''Local UI policy update failed.'') ToastError])
      | Inr [PNode updated] \<Rightarrow>
          (d\<lparr>nd_node := Some updated\<rparr>,
           [ShowToast (if nextEnabled then ''Controller enabled local UI.'' else ''Controller disabled local UI.'')
              ToastSuccess, Notify NodeChanged])
      | _ \<Rightarrow> (d, []))"

definition release_question :: "node_record \<Rightarrow> confirm_request" where
  "release_question node =
     \<lparr>cq_title = ''Release local UI policy for '' @ formatNodeDisplayName node @ ''?'',
      cq_message = ''After release, node-local administrators regain direct UI policy control.'',
      cq_confirm_label = ''Release policy'', cq_cancel_label = None, cq_tone = Some Warn\<rparr>"

definition release_patch :: node_patch where
  "release_patch = no_patch\<lparr>np_managed := Some False\<rparr>"

definition handleReleaseLocalUIPolicy :: "node_dialog \<Rightarrow> node_step" where
  "handleReleaseLocalUIPolicy d =
     (case nd_node d of
        None \<Rightarrow> (d, [])
      | Some node \<Rightarrow>
          if \<not> nr_local_ui_policy_managed node then (d, [])
          else (d, [Ask (release_question node) (NdRelease node)]))"

definition release_confirmed :: "node_record \<Rightarrow> bool \<Rightarrow> node_dialog \<Rightarrow> node_step" where
  "release_confirmed node confirmed d =
     (if confirmed
      then (d, [Call [updateNode (nr_id node) release_patch] (NdReleaseSent node)])
      else (d, []))"

definition release_updated :: "thrown + payload list \<Rightarrow> node_dialog \<Rightarrow> node_step" where
  "release_updated r d =
     (case r of
        Inl e \<Rightarrow> (d, [ShowToast (humanizeError e ''Local UI policy release failed.'') ToastError])
      | Inr [PNode updated] \<Rightarrow>
          (d\<lparr>nd_node := Some updated\<rparr>,
           [ShowToast ''Released controller local UI policy.'' ToastSuccess, Notify NodeChanged])
      | _ \<Rightarrow> (d, []))"

text \<open>\<open>handleSave\<close> of the tab and \<open>handleEdit\<close> of the dialog, which it calls.\<close>

definition set_saving :: "nat \<Rightarrow> bool \<Rightarrow> node_dialog \<Rightarrow> node_dialog" where
  "set_saving key b d =
     (case nd_config d of
        Some c \<Rightarrow> if cf_key c = key then d\<lparr>nd_config := Some (c\<lparr>cf_saving := b\<rparr>)\<rparr> else d
      | None \<Rightarrow> d)"

definition values_patch :: "detail_values \<Rightarrow> node_patch" where
  "values_patch values =
     no_patch\<lparr>np_display_name := Some (dv_display_name values),
       np_location_label := Some (dv_location_label values), np_site_label := Some (dv_site_label values)\<rparr>"

definition handleEdit :: "detail_values \<Rightarrow> nat \<Rightarrow> node_dialog \<Rightarrow> node_step" where
  "handleEdit values key d =
     (case nd_node d of
        None \<Rightarrow> (set_saving key False d, [])
      | Some node \<Rightarrow>
          (d, [Call [updateNode (nr_id node) (values_patch values)] (NdEditSent node values key)]))"

definition handleSave :: "node_dialog \<Rightarrow> node_step" where
  "handleSave d =
     (case nd_config d of
        None \<Rightarrow> (d, [])
      | Some c \<Rightarrow>
          if config_errors c \<or> cf_saving c then (d, [])
          else handleEdit
                 \<lparr>dv_display_name = trim (cf_display_name c), dv_location_label = trim (cf_location_label c),
                  dv_site_label = trim (cf_site_label c)\<rparr>
                 (cf_key c) (set_saving (cf_key c) True d))"

definition edit_updated ::
  "node_record \<Rightarrow> detail_values \<Rightarrow> nat \<Rightarrow> thrown + payload list \<Rightarrow> node_dialog \<Rightarrow> node_step" where
  "edit_updated node values key r d =
     (case r of
        Inl e \<Rightarrow> (set_saving key False d, [ShowToast (humanizeError e ''Update failed.'') ToastError])
      | Inr [PNode updated] \<Rightarrow>
          (set_saving key False (d\<lparr>nd_node := Some updated\<rparr>),
           [ShowToast (''Updated details for '' @
              formatNodeReference (node\<lparr>nr_display_name := dv_display_name values,
                nr_location_label := dv_location_label values, nr_site_label := dv_site_label values\<rparr>) @ ''.'')
              ToastSuccess, Notify NodeChanged])
      | _ \<Rightarrow> (d, []))"

text \<open>The question before a node is forgotten, the same in the dialog and on the node's card.\<close>

definition forget_question :: "node_record \<Rightarrow> confirm_request" where
  "forget_question node =
     \<lparr>cq_title = ''Forget '' @ formatNodeDisplayName node @ ''?'',
      cq_message = ''This removes the controller record and stored trust material.'',
      cq_confirm_label = ''Forget node'', cq_cancel_label = None, cq_tone = Some Danger\<rparr>"

definition nd_handleForget :: "node_dialog \<Rightarrow> node_step" where
  "nd_handleForget d =
     (case nd_node d of
        None \<Rightarrow> (d, [])
      | Some node \<Rightarrow> (d, [Ask (forget_question node) (NdForget node (formatNodeReference node))]))"

definition nd_forget_confirmed :: "node_record \<Rightarrow> string \<Rightarrow> bool \<Rightarrow> node_dialog \<Rightarrow> node_step" where
  "nd_forget_confirmed node reference confirmed d =
     (if confirmed then (d, [Call [forgetNode (nr_id node)] (NdForgetSent reference)]) else (d, []))"

definition nd_forgotten :: "string \<Rightarrow> thrown + payload list \<Rightarrow> node_dialog \<Rightarrow> node_step" where
  "nd_forgotten reference r d =
     (case r of
        Inl e \<Rightarrow> (d, [ShowToast (humanizeError e ''Forget failed.'') ToastError])
      | Inr _ \<Rightarrow>
          (d, [ShowToast (''Forgot '' @ reference @ ''.'') ToastSuccess, Notify NodeChanged, Notify NodeClose]))"

definition edit_field :: "string \<Rightarrow> string \<Rightarrow> config_form \<Rightarrow> config_form" where
  "edit_field label v c =
     (if label = ''Display name'' then c\<lparr>cf_display_name := v\<rparr>
      else if label = ''Location label'' then c\<lparr>cf_location_label := v\<rparr>
      else if label = ''Site label'' then c\<lparr>cf_site_label := v\<rparr> else c)"

section \<open>Events\<close>

datatype node_event = NdProp "string option" | NdAct node_action | NdType string string | NdTick

fun node_do :: "node_action \<Rightarrow> node_dialog \<Rightarrow> node_step" where
  "node_do NdClose d = (d, [Notify NodeClose])"
| "node_do (NdTab i) d = (d\<lparr>nd_tab := i\<rparr>, [])"
| "node_do (NdOpenUPS upsName) d =
     (case nd_node d of Some node \<Rightarrow> (d, [Notify (NodeOpenUPS (nr_id node) upsName)]) | None \<Rightarrow> (d, []))"
| "node_do NdToggle d = handleToggleLocalUIPolicy d"
| "node_do NdReleaseClick d = handleReleaseLocalUIPolicy d"
| "node_do NdSave d = handleSave d"
| "node_do NdForgetClick d = nd_handleForget d"

fun node_event_step :: "node_event \<Rightarrow> node_dialog \<Rightarrow> node_step" where
  "node_event_step (NdProp nodeId) d = nd_set_nodeId nodeId d"
| "node_event_step (NdAct a) d = (if a \<in> set (actions (node_view d)) then node_do a d else (d, []))"
| "node_event_step (NdType label v) d =
     (if label \<in> set (open_fields (node_view d))
      then (d\<lparr>nd_config := map_option (edit_field label v) (nd_config d)\<rparr>, []) else (d, []))"
| "node_event_step NdTick d = nd_load True d"

fun node_resume_step :: "node_task \<Rightarrow> settled \<Rightarrow> node_dialog \<Rightarrow> node_step" where
  "node_resume_step (NdLoad i silent) (Settled r) d = nd_loaded i silent r d"
| "node_resume_step (NdPolicy node b) (Confirmed c) d = policy_confirmed node b c d"
| "node_resume_step (NdPolicySent node b) (Settled r) d = policy_updated b r d"
| "node_resume_step (NdRelease node) (Confirmed c) d = release_confirmed node c d"
| "node_resume_step (NdReleaseSent node) (Settled r) d = release_updated r d"
| "node_resume_step (NdEditSent node v k) (Settled r) d = edit_updated node v k r d"
| "node_resume_step (NdForget node ref) (Confirmed c) d = nd_forget_confirmed node ref c d"
| "node_resume_step (NdForgetSent ref) (Settled r) d = nd_forgotten ref r d"
| "node_resume_step _ _ d = (d, [])"

text \<open>Every step ends with a render.\<close>

definition node_handle :: "node_event \<Rightarrow> node_dialog \<Rightarrow> node_step" where
  "node_handle e d = (let (d', es) = node_event_step e d in (node_rendered d', es))"

definition node_resume :: "node_task \<Rightarrow> settled \<Rightarrow> node_dialog \<Rightarrow> node_step" where
  "node_resume k r d = (let (d', es) = node_resume_step k r d in (node_rendered d', es))"

end
