(* ===== verification/Ctl_Ups.thy ===== *)
theory Ctl_Ups
  imports Ctl_App
begin

text \<open>
  The UPS dialog (\<open>UPSDetailDialog.tsx\<close>) with its metadata editor, in the style of the node dialog.  Its
  rendering can throw, so \<open>ups_view\<close> gives an error or what is shown.
\<close>

section \<open>State\<close>

record ups_dialog =
  ud_nodeId :: "string option"
  ud_upsName :: "string option"
  ud_detail :: "ups_detail_response option"
  ud_chargeHistory :: "chart_point list"
  ud_loadHistory :: "chart_point list"
  ud_runtimeHistory :: "chart_point list"
  ud_error :: "string option"
  ud_editorOpen :: bool
  ud_displayName :: string
  ud_tags :: string
  ud_savingMetadata :: bool
  ud_activeKey :: string

datatype ups_task =
    UdLoad string string bool
  | UdCommand string string string
  | UdCommandSent string string string
  | UdRefetched string string
  | UdMetadataSent string string

datatype ups_out = UpsClose

datatype ups_action = UdClose | UdEdit | UdRun string bool | UdCancelEditor | UdSaveEditor

type_synonym ups_step = "ups_dialog \<times> (ups_task, ups_out) eff list"

text \<open>\<open>`${nodeId}/${upsName}`\<close>, where \<open>null\<close> prints as such.\<close>

definition null_text :: "string option \<Rightarrow> string" where
  "null_text v = (case v of None \<Rightarrow> ''null'' | Some s \<Rightarrow> s)"

definition ups_key :: "string option \<Rightarrow> string option \<Rightarrow> string" where
  "ups_key nodeId upsName = null_text nodeId @ ''/'' @ null_text upsName"

definition ups_open :: "ups_dialog \<Rightarrow> bool" where
  "ups_open d \<longleftrightarrow> truthy (ud_nodeId d) \<and> truthy (ud_upsName d)"

section \<open>Rendering\<close>

definition percent_or_unknown :: "jsnum option \<Rightarrow> string" where
  "percent_or_unknown v = (case v of Some p \<Rightarrow> num_to_string p @ ''%'' | None \<Rightarrow> ''unknown'')"

definition ups_status_text :: "ups_detail_response \<Rightarrow> string" where
  "ups_status_text detail =
     or_opt (dr_status detail)
       (or_opt (case dr_metrics detail of None \<Rightarrow> None | Some m \<Rightarrow> us_status m) ''unknown'')"

definition ups_metric :: "(ups_summary \<Rightarrow> jsnum option) \<Rightarrow> ups_detail_response \<Rightarrow> jsnum option" where
  "ups_metric f detail = (case dr_metrics detail of None \<Rightarrow> None | Some m \<Rightarrow> f m)"

definition ups_summary_cards :: "page_env \<Rightarrow> ups_detail_response \<Rightarrow> 'a ui list" where
  "ups_summary_cards env detail =
     [Text ''Status'', StatusChip (ups_status_text detail) (statusToSeverity (Some (ups_status_text detail))),
      Text ''Battery'', Text (percent_or_unknown (ups_metric us_battery_charge_percent detail)),
      Text ''Load'', Text (percent_or_unknown (ups_metric us_load_percent detail)),
      Text ''Runtime'', Text (formatDuration (ups_metric us_runtime_seconds detail)),
      Text ''Battery trend'', Text (formatBatteryTrend env (dr_battery_runtime_trend detail))]"

definition command_card :: "ups_command_info \<Rightarrow> ups_action ui" where
  "command_card command =
     Card []
       [Text (if ci_destructive command then ''Destructive'' else ''Command''),
        Text (ci_name command),
        Text (or_opt (ci_description command) ''No description reported by NUT.''),
        Button (if ci_destructive command then ''Confirm and run'' else ''Run command'')
          (if ci_destructive command then ''error'' else ''primary'') False
          (UdRun (ci_name command) (ci_destructive command))]"

definition commands_of :: "ups_detail_response \<Rightarrow> ups_command_info list" where
  "commands_of detail = (case dr_commands detail of None \<Rightarrow> [] | Some cs \<Rightarrow> cs)"

definition command_section :: "ups_detail_response \<Rightarrow> ups_action ui list" where
  "command_section detail =
     [Text ''Instant commands'',
      Text ''Trusted controller-side passthrough over the pinned HTTPS channel.''] @
     (if commands_of detail = [] then [message_box ''This UPS does not report any instant commands.'']
      else map command_card (commands_of detail))"

definition variable_section :: "page_env \<Rightarrow> (string \<times> string) list \<Rightarrow> 'a ui list" where
  "variable_section env variables =
     [Text ''Latest variables'',
      Text ''Raw NUT variables from the most recent trusted/live or stored UPS detail.''] @
     map (\<lambda>(key, v). Card [] [Text key, Text v])
       (sort_by (\<lambda>l r. pe_collate env (fst l) (fst r)) variables)"

text \<open>
  \<open>detail.metadata.tags.length\<close> throws when the tags are \<open>null\<close>, and \<open>Object.entries(detail.variables)\<close>
  when the variables are.
\<close>

definition ups_detail_view :: "page_env \<Rightarrow> ups_dialog \<Rightarrow> ups_detail_response \<Rightarrow> thrown + ups_action ui" where
  "ups_detail_view env d detail =
     (case um_tags (dr_metadata detail) of
        None \<Rightarrow> Inl (ErrorObject (pe_type_error env))
      | Some tags \<Rightarrow>
          (case dr_variables detail of
             None \<Rightarrow> Inl (ErrorObject (pe_type_error env))
           | Some variables \<Rightarrow>
               Inr (Group
                 (ups_summary_cards env detail @
                  show_if (tags \<noteq> []) (Group (Text ''UPS details'' # map Text tags)) @
                  [ChartCard ''Battery charge'' (ud_chargeHistory d), ChartCard ''UPS load'' (ud_loadHistory d),
                   ChartCard ''Runtime'' (ud_runtimeHistory d)] @
                  command_section detail @ variable_section env variables))))"

definition ups_content :: "page_env \<Rightarrow> ups_dialog \<Rightarrow> thrown + ups_action ui" where
  "ups_content env d =
     (if truthy (ud_error d) then Inr (message_box (the (ud_error d)))
      else case ud_detail d of
        None \<Rightarrow> Inr (message_box ''Loading UPS detail...'')
      | Some detail \<Rightarrow> ups_detail_view env d detail)"

definition ups_title :: "ups_dialog \<Rightarrow> ups_action ui list" where
  "ups_title d =
     (case ud_detail d of
        None \<Rightarrow>
          [Text (or_opt (ud_upsName d) ''UPS detail''),
           Text ''Live controller-side UPS detail with 24h charts and instant commands.'']
      | Some detail \<Rightarrow>
          [Text (or_str (um_display_name (dr_metadata detail))
             (or_str (dr_name detail) (or_opt (ud_upsName d) ''UPS detail''))),
           Text ((if um_display_name (dr_metadata detail) \<noteq> [] then dr_name detail @ '' - '' else []) @
             ''Live controller-side UPS detail with 24h charts and instant commands.'')] @
          show_if (dr_live detail) (Button ''Edit details'' ''primary'' False UdEdit))"

definition metadata_editor :: "ups_dialog \<Rightarrow> ups_action ui" where
  "metadata_editor d =
     Dialog (ud_editorOpen d) (if ud_savingMetadata d then None else Some UdCancelEditor)
       [Text ''Edit UPS details'',
        Field ''Friendly name'' (ud_displayName d) [] False,
        Field ''Tags'' (ud_tags d) ''Separate tags with commas.'' False,
        Button ''Cancel'' ''primary'' (ud_savingMetadata d) UdCancelEditor,
        Button ''Save details'' ''primary'' (ud_savingMetadata d) UdSaveEditor]"

definition ups_view :: "page_env \<Rightarrow> ups_dialog \<Rightarrow> thrown + ups_action ui" where
  "ups_view env d =
     (case ups_content env d of
        Inl e \<Rightarrow> Inl e
      | Inr content \<Rightarrow>
          Inr (Group
            [Dialog (ups_open d) (Some UdClose)
               (ups_title d @ [Button ''Close UPS detail'' ''default'' False UdClose, content]),
             metadata_editor d]))"

definition view_actions :: "thrown + 'a ui \<Rightarrow> 'a list" where
  "view_actions v = (case v of Inl _ \<Rightarrow> [] | Inr u \<Rightarrow> actions u)"

definition view_fields :: "thrown + 'a ui \<Rightarrow> string list" where
  "view_fields v = (case v of Inl _ \<Rightarrow> [] | Inr u \<Rightarrow> open_fields u)"

section \<open>Operations\<close>

definition ud_load :: "bool \<Rightarrow> ups_dialog \<Rightarrow> ups_step" where
  "ud_load silent d =
     (if ups_open d
      then (let nodeId = the (ud_nodeId d); upsName = the (ud_upsName d)
            in (d, [Call [fetchUPSDetail nodeId upsName, fetchUPSHistory nodeId upsName ''battery.charge'',
                      fetchUPSHistory nodeId upsName ''ups.load'', fetchUPSHistory nodeId upsName ''battery.runtime'']
                    (UdLoad nodeId upsName silent)]))
      else (d, []))"

text \<open>The answers are applied one after the other until one of the series throws.\<close>

definition ud_apply ::
  "page_env \<Rightarrow> ups_detail_response \<Rightarrow> history_sample list option \<Rightarrow> history_sample list option \<Rightarrow>
   history_sample list option \<Rightarrow> ups_dialog \<Rightarrow> thrown option \<times> ups_dialog" where
  "ud_apply env detail charge loadSamples runtime d =
     (let d = d\<lparr>ud_detail := Some detail\<rparr> in
      case toChartSeries env charge of
        Inl e \<Rightarrow> (Some e, d)
      | Inr c \<Rightarrow>
          (let d = d\<lparr>ud_chargeHistory := c\<rparr> in
           case toChartSeries env loadSamples of
             Inl e \<Rightarrow> (Some e, d)
           | Inr l \<Rightarrow>
               (let d = d\<lparr>ud_loadHistory := l\<rparr> in
                case toChartSeries env runtime of
                  Inl e \<Rightarrow> (Some e, d)
                | Inr r \<Rightarrow> (None, d\<lparr>ud_runtimeHistory := r, ud_error := None\<rparr>))))"

definition ud_loaded ::
  "page_env \<Rightarrow> string \<Rightarrow> string \<Rightarrow> bool \<Rightarrow> thrown + payload list \<Rightarrow> ups_dialog \<Rightarrow> ups_step" where
  "ud_loaded env nodeId upsName silent r d =
     (let requestedKey = ups_key (Some nodeId) (Some upsName);
          failed = (\<lambda>e d. if ud_activeKey d \<noteq> requestedKey \<or> silent then (d, [])
                          else (d\<lparr>ud_error := Some (humanizeError e ''Unknown error'')\<rparr>, []))
      in case r of
           Inl e \<Rightarrow> failed e d
         | Inr [PDetail detail, PHistory charge, PHistory loadSamples, PHistory runtime] \<Rightarrow>
             if ud_activeKey d \<noteq> requestedKey then (d, [])
             else (case ud_apply env detail charge loadSamples runtime d of
                     (Some e, d) \<Rightarrow> failed e d
                   | (None, d) \<Rightarrow> (d, []))
         | _ \<Rightarrow> (d, []))"

definition ud_set_ups :: "string option \<Rightarrow> string option \<Rightarrow> ups_dialog \<Rightarrow> ups_step" where
  "ud_set_ups nodeId upsName d =
     (if nodeId = ud_nodeId d \<and> upsName = ud_upsName d then (d, [])
      else ud_load False
        (d\<lparr>ud_nodeId := nodeId, ud_upsName := upsName, ud_activeKey := ups_key nodeId upsName,
           ud_detail := None, ud_chargeHistory := [], ud_loadHistory := [], ud_runtimeHistory := [],
           ud_error := None\<rparr>))"

definition ud_mount :: "string option \<Rightarrow> string option \<Rightarrow> ups_step" where
  "ud_mount nodeId upsName =
     ud_load False
       \<lparr>ud_nodeId = nodeId, ud_upsName = upsName, ud_detail = None, ud_chargeHistory = [],
        ud_loadHistory = [], ud_runtimeHistory = [], ud_error = None, ud_editorOpen = False,
        ud_displayName = [], ud_tags = [], ud_savingMetadata = False, ud_activeKey = ups_key nodeId upsName\<rparr>"

definition destructive_question :: "string \<Rightarrow> confirm_request" where
  "destructive_question commandName =
     \<lparr>cq_title = ''Run destructive command '' @ commandName @ ''?'',
      cq_message = ''This command changes UPS state immediately and may impact attached equipment.'',
      cq_confirm_label = ''Run command'', cq_cancel_label = None, cq_tone = Some Danger\<rparr>"

definition ud_handleCommand :: "string \<Rightarrow> bool \<Rightarrow> ups_dialog \<Rightarrow> ups_step" where
  "ud_handleCommand commandName destructive d =
     (if \<not> ups_open d then (d, [])
      else (let nodeId = the (ud_nodeId d); upsName = the (ud_upsName d) in
            if destructive
            then (d, [Ask (destructive_question commandName) (UdCommand nodeId upsName commandName)])
            else (d, [Call [runUPSCommand nodeId upsName commandName]
                        (UdCommandSent nodeId upsName commandName)])))"

definition command_confirmed :: "string \<Rightarrow> string \<Rightarrow> string \<Rightarrow> bool \<Rightarrow> ups_dialog \<Rightarrow> ups_step" where
  "command_confirmed nodeId upsName commandName confirmed d =
     (if confirmed
      then (d, [Call [runUPSCommand nodeId upsName commandName] (UdCommandSent nodeId upsName commandName)])
      else (d, []))"

definition command_failed :: "thrown \<Rightarrow> ups_dialog \<Rightarrow> ups_step" where
  "command_failed e d = (d, [ShowToast (humanizeError e ''Command failed.'') ToastError])"

definition command_ran :: "string \<Rightarrow> string \<Rightarrow> thrown + payload list \<Rightarrow> ups_dialog \<Rightarrow> ups_step" where
  "command_ran nodeId upsName r d =
     (case r of
        Inl e \<Rightarrow> command_failed e d
      | Inr [PCommand p] \<Rightarrow>
          (d, [ShowToast (co_command p @ '': '' @ or_str (co_output p) ''OK'') ToastSuccess,
               Call [fetchUPSDetail nodeId upsName] (UdRefetched nodeId upsName)])
      | _ \<Rightarrow> (d, []))"

definition command_refetched :: "thrown + payload list \<Rightarrow> ups_dialog \<Rightarrow> ups_step" where
  "command_refetched r d =
     (case r of
        Inl e \<Rightarrow> command_failed e d
      | Inr [PDetail updated] \<Rightarrow> (d\<lparr>ud_detail := Some updated\<rparr>, [])
      | _ \<Rightarrow> (d, []))"

definition openMetadataEditor :: "ups_dialog \<Rightarrow> ups_step" where
  "openMetadataEditor d =
     (case ud_detail d of
        None \<Rightarrow> (d, [])
      | Some detail \<Rightarrow>
          (case um_tags (dr_metadata detail) of
             None \<Rightarrow> (d, [])
           | Some tags \<Rightarrow>
               (d\<lparr>ud_displayName := um_display_name (dr_metadata detail), ud_tags := join '', '' tags,
                  ud_editorOpen := True\<rparr>, [])))"

definition parse_tags :: "string \<Rightarrow> string list" where
  "parse_tags text = filter (\<lambda>t. t \<noteq> []) (map trim (split1 CHR '','' text))"

definition handleMetadataSave :: "ups_dialog \<Rightarrow> ups_step" where
  "handleMetadataSave d =
     (if \<not> ups_open d then (d, [])
      else (let nodeId = the (ud_nodeId d); upsName = the (ud_upsName d)
            in (d\<lparr>ud_savingMetadata := True\<rparr>,
                [Call [updateUPSMetadata nodeId upsName (trim (ud_displayName d)) (parse_tags (ud_tags d))]
                   (UdMetadataSent nodeId upsName)])))"

definition metadata_saved :: "thrown + payload list \<Rightarrow> ups_dialog \<Rightarrow> ups_step" where
  "metadata_saved r d =
     (case r of
        Inl e \<Rightarrow>
          (d\<lparr>ud_savingMetadata := False\<rparr>,
           [ShowToast (humanizeError e ''Unable to save UPS details.'') ToastError])
      | Inr [PMetadata m] \<Rightarrow>
          (d\<lparr>ud_detail := map_option (\<lambda>current. current\<lparr>dr_metadata := m\<rparr>) (ud_detail d),
             ud_editorOpen := False, ud_savingMetadata := False\<rparr>,
           [ShowToast ''UPS details saved.'' ToastSuccess])
      | _ \<Rightarrow> (d, []))"

section \<open>Events\<close>

text \<open>The inputs of the editor have \<open>maxLength\<close> 120, which bounds what a user can type.\<close>

definition editor_input :: "string \<Rightarrow> string \<Rightarrow> bool" where
  "editor_input old v \<longleftrightarrow> js_length v \<le> max 120 (js_length old)"

definition type_editor :: "string \<Rightarrow> string \<Rightarrow> ups_dialog \<Rightarrow> ups_dialog" where
  "type_editor label v d =
     (if label = ''Friendly name'' \<and> editor_input (ud_displayName d) v then d\<lparr>ud_displayName := v\<rparr>
      else if label = ''Tags'' \<and> editor_input (ud_tags d) v then d\<lparr>ud_tags := v\<rparr>
      else d)"

datatype ups_event = UdProp "string option" "string option" | UdAct ups_action | UdType string string | UdTick

fun ups_do :: "ups_action \<Rightarrow> ups_dialog \<Rightarrow> ups_step" where
  "ups_do UdClose d = (d, [Notify UpsClose])"
| "ups_do UdEdit d = openMetadataEditor d"
| "ups_do (UdRun commandName destructive) d = ud_handleCommand commandName destructive d"
| "ups_do UdCancelEditor d = (d\<lparr>ud_editorOpen := False\<rparr>, [])"
| "ups_do UdSaveEditor d = handleMetadataSave d"

fun ups_handle :: "page_env \<Rightarrow> ups_event \<Rightarrow> ups_dialog \<Rightarrow> ups_step" where
  "ups_handle env (UdProp nodeId upsName) d = ud_set_ups nodeId upsName d"
| "ups_handle env (UdAct a) d = (if a \<in> set (view_actions (ups_view env d)) then ups_do a d else (d, []))"
| "ups_handle env (UdType label v) d =
     (if label \<in> set (view_fields (ups_view env d)) then (type_editor label v d, []) else (d, []))"
| "ups_handle env UdTick d = ud_load True d"

fun ups_resume :: "page_env \<Rightarrow> ups_task \<Rightarrow> settled \<Rightarrow> ups_dialog \<Rightarrow> ups_step" where
  "ups_resume env (UdLoad n u silent) (Settled r) d = ud_loaded env n u silent r d"
| "ups_resume env (UdCommand n u c) (Confirmed b) d = command_confirmed n u c b d"
| "ups_resume env (UdCommandSent n u c) (Settled r) d = command_ran n u r d"
| "ups_resume env (UdRefetched n u) (Settled r) d = command_refetched r d"
| "ups_resume env (UdMetadataSent n u) (Settled r) d = metadata_saved r d"
| "ups_resume env _ _ d = (d, [])"

end
