(* ===== verification/Ctl_Fleet.thy ===== *)
theory Ctl_Fleet
  imports Ctl_Node Ctl_Ups Ctl_Router
begin

text \<open>
  The fleet page (\<open>FleetPage.tsx\<close>) with the cards of its nodes (\<open>NodeCard.tsx\<close>) and the two dialogs,
  whose node and UPS are parameters of the URL.  A child's call of a callback is carried out where the
  child makes it, between its other effects.
\<close>

section \<open>Node cards\<close>

datatype card_action = CardOpen string | CardOpenUPS string string | CardAdopt node_record | CardForget node_record

datatype card_task =
    AdoptSent string
  | CardForgetAsked node_record string
  | CardForgetSent string

datatype card_out = CardChanged | CardOpenDetail string | CardShowUPS string string

definition statusColor :: "string \<Rightarrow> string" where
  "statusColor status =
     (if status = ''pending'' then ''warning''
      else if status = ''adopted-online'' then ''success'' else ''error'')"

definition ups_alerting :: "ups_summary \<Rightarrow> bool" where
  "ups_alerting summary \<longleftrightarrow>
     (let sev = statusToSeverity (us_status summary) in sev = Severe \<or> sev = Warning)"

definition alerting :: "node_record \<Rightarrow> ups_summary list" where
  "alerting node = filter ups_alerting (summaries_of node)"

definition card_rows :: "node_record \<Rightarrow> (string \<times> string) list" where
  "card_rows node =
     [(''Version'', or_str (nr_version node) ''dev''), (''UPS count'', num_to_string (nr_ups_count node))] @
     (if nr_status node = ''pending'' \<or> nr_status node = ''adopted-online'' \<and> nr_comms_state node = ''healthy''
      then []
      else [(''Comms'', formatCommsState (Some (nr_comms_state node)) (nr_poll_failures node)
               (nr_last_poll_error node))]) @
     [(''Location'', location_text node)]"

definition can_adopt :: "node_record \<Rightarrow> bool" where
  "can_adopt node \<longleftrightarrow> nr_status node = ''pending'' \<and> nr_live node"

definition card_summary :: "node_record \<Rightarrow> card_action ui list" where
  "card_summary node =
     [Text (nr_id node), Text (formatNodeDisplayName node),
      Text (or_str (nr_address node) ''address unavailable'' @
        (if num_truthy (nr_port node) then bullet @ ''port '' @ num_to_string (nr_port node) else []))] @
     show_if (nr_status node = ''adopted-online'') (StatusChip ''Online'' Success) @
     show_if (nr_status node = ''adopted-offline'') (StatusChip ''Offline'' Severe) @
     show_if (can_adopt node) (Button ''Adopt'' ''warning'' False (CardAdopt node)) @
     map (\<lambda>(label, v). Group [Text label, Text v]) (card_rows node)"

definition card_alerts :: "node_record \<Rightarrow> card_action ui list" where
  "card_alerts node =
     (if alerting node = [] then []
      else [Group (Text ''UPS alerts'' #
              map (\<lambda>summary. Area (CardOpenUPS (nr_id node) (us_name summary))
                     (Text (us_name summary) # status_chip (us_status summary))) (alerting node))])"

definition NodeCard :: "node_record \<Rightarrow> card_action ui" where
  "NodeCard node =
     Card (statusColor (nr_status node) @ ''.main'')
       ([if nr_adopted node then Area (CardOpen (nr_id node)) (card_summary node)
         else Group (card_summary node)] @
        card_alerts node @
        (if nr_adopted node then []
         else show_if (\<not> can_adopt node) (Text ''Waiting for node to come online.'') @
              [Button (''Forget '' @ formatNodeReference node) ''default'' False (CardForget node)]))"

text \<open>The handlers of a card, which has no state.\<close>

definition handleAdopt :: "node_record \<Rightarrow> (card_task, card_out) eff list" where
  "handleAdopt node = [Call [adoptNode (nr_id node)] (AdoptSent (formatNodeReference node))]"

definition adopted :: "string \<Rightarrow> thrown + payload list \<Rightarrow> (card_task, card_out) eff list" where
  "adopted reference r =
     (case r of
        Inl e \<Rightarrow> [ShowToast (humanizeError e ''Adoption failed.'') ToastError]
      | Inr _ \<Rightarrow> [ShowToast (''Adopted '' @ reference @ ''.'') ToastSuccess, Notify CardChanged])"

definition card_handleForget :: "node_record \<Rightarrow> (card_task, card_out) eff list" where
  "card_handleForget node = [Ask (forget_question node) (CardForgetAsked node (formatNodeReference node))]"

definition card_forget_confirmed :: "node_record \<Rightarrow> string \<Rightarrow> bool \<Rightarrow> (card_task, card_out) eff list" where
  "card_forget_confirmed node reference confirmed =
     (if confirmed then [Call [forgetNode (nr_id node)] (CardForgetSent reference)] else [])"

definition card_forgotten :: "string \<Rightarrow> thrown + payload list \<Rightarrow> (card_task, card_out) eff list" where
  "card_forgotten reference r =
     (case r of
        Inl e \<Rightarrow> [ShowToast (humanizeError e ''Forget failed.'') ToastError]
      | Inr _ \<Rightarrow> [ShowToast (''Forgot '' @ reference @ ''.'') ToastSuccess, Notify CardChanged])"

fun card_do :: "card_action \<Rightarrow> (card_task, card_out) eff list" where
  "card_do (CardOpen i) = [Notify (CardOpenDetail i)]"
| "card_do (CardOpenUPS i u) = [Notify (CardShowUPS i u)]"
| "card_do (CardAdopt node) = handleAdopt node"
| "card_do (CardForget node) = card_handleForget node"

fun card_resume :: "card_task \<Rightarrow> settled \<Rightarrow> (card_task, card_out) eff list" where
  "card_resume (AdoptSent ref) (Settled r) = adopted ref r"
| "card_resume (CardForgetAsked node ref) (Confirmed c) = card_forget_confirmed node ref c"
| "card_resume (CardForgetSent ref) (Settled r) = card_forgotten ref r"
| "card_resume _ _ = []"

section \<open>State of the page\<close>

datatype fleet_task = FlLoad bool | FlNode node_task | FlUps ups_task | FlCard card_task

record fleet =
  fl_nodes :: "node_record list"
  fl_loading :: bool
  fl_error :: "string option"
  fl_router :: router
  fl_node :: node_dialog
  fl_ups :: ups_dialog
  fl_crashed :: bool

type_synonym fleet_result = "fleet \<times> (fleet_task, unit) eff list"

section \<open>Counts\<close>

definition offlineNodes :: "node_record list \<Rightarrow> node_record list" where
  "offlineNodes nodes =
     filter (\<lambda>node. nr_status node = ''adopted-offline'' \<or>
               commsStateToSeverity (Some (nr_comms_state node)) = Severe) nodes"

definition degradedNodes :: "node_record list \<Rightarrow> node_record list" where
  "degradedNodes nodes = filter (\<lambda>node. commsStateToSeverity (Some (nr_comms_state node)) = Warning) nodes"

definition count_ups :: "ups_summary \<Rightarrow> nat \<times> nat \<Rightarrow> nat \<times> nat" where
  "count_ups ups summary =
     (let sev = statusToSeverity (us_status ups) in
      if sev = Severe then (Suc (fst summary), snd summary)
      else if sev = Warning then (fst summary, Suc (snd summary)) else summary)"

definition upsAttention :: "node_record list \<Rightarrow> nat \<times> nat" where
  "upsAttention nodes = fold (\<lambda>node. fold count_ups (summaries_of node)) nodes (0, 0)"

definition hasAlerts :: "node_record list \<Rightarrow> bool" where
  "hasAlerts nodes \<longleftrightarrow>
     0 < length (offlineNodes nodes) \<or> 0 < length (degradedNodes nodes) \<or>
     0 < fst (upsAttention nodes) \<or> 0 < snd (upsAttention nodes)"

definition alertCount :: "node_record list \<Rightarrow> nat" where
  "alertCount nodes =
     length (offlineNodes nodes) + length (degradedNodes nodes) + fst (upsAttention nodes) + snd (upsAttention nodes)"

section \<open>Operations of the page\<close>

definition openNodeId :: "fleet \<Rightarrow> string option" where
  "openNodeId f = search_get ''node'' (lo_search (rt_here (fl_router f)))"

definition openUpsNodeId :: "fleet \<Rightarrow> string option" where
  "openUpsNodeId f = search_get ''upsNode'' (lo_search (rt_here (fl_router f)))"

definition openUpsName :: "fleet \<Rightarrow> string option" where
  "openUpsName f = search_get ''ups'' (lo_search (rt_here (fl_router f)))"

definition loadNodes :: "bool \<Rightarrow> fleet \<Rightarrow> fleet_result" where
  "loadNodes silent f = (if silent then f else f\<lparr>fl_loading := True\<rparr>, [Call [fetchNodes] (FlLoad silent)])"

definition error_message :: "thrown \<Rightarrow> string" where
  "error_message e = (case e of ErrorObject m \<Rightarrow> m | _ \<Rightarrow> ''Unknown error'')"

definition nodes_loaded :: "bool \<Rightarrow> thrown + payload list \<Rightarrow> fleet \<Rightarrow> fleet_result" where
  "nodes_loaded silent r f =
     (case r of
        Inl e \<Rightarrow>
          (if silent then f\<lparr>fl_loading := False\<rparr>
           else f\<lparr>fl_error := Some (error_message e), fl_loading := False\<rparr>, [])
      | Inr [PNodes nodes] \<Rightarrow>
          (f\<lparr>fl_nodes := (case nodes of None \<Rightarrow> [] | Some ns \<Rightarrow> ns), fl_error := None, fl_loading := False\<rparr>, [])
      | _ \<Rightarrow> (f, []))"

text \<open>
  A change of the URL gives the dialogs new properties, unless it leads to the route of another page:
  then the page is unmounted, and the effects of its components do not run.
\<close>

definition set_router :: "router \<Rightarrow> fleet \<Rightarrow> fleet_result" where
  "set_router r f =
     (let old = route_of (rt_here (fl_router f)); f = f\<lparr>fl_router := r\<rparr> in
      if route_of (rt_here r) \<noteq> old then (f, [])
      else let (nd, ne) = node_handle (NdProp (openNodeId f)) (fl_node f);
          (ud, ue) = ud_set_ups (openUpsNodeId f) (openUpsName f) (fl_ups f);
          (f, fs) = lift_effs FlNode no_out ne (f\<lparr>fl_node := nd, fl_ups := ud\<rparr>);
          (f, gs) = lift_effs FlUps no_out ue f
      in (f, fs @ gs))"

definition openDetail :: "string \<Rightarrow> fleet \<Rightarrow> fleet_result" where
  "openDetail nodeId f = set_router (set_search [(''node'', nodeId)] (fl_router f)) f"

definition closeDetail :: "fleet \<Rightarrow> fleet_result" where
  "closeDetail f = set_router (go_back (fl_router f)) f"

definition openUPS :: "string \<Rightarrow> string \<Rightarrow> fleet \<Rightarrow> fleet_result" where
  "openUPS nodeId upsName f =
     (let previous = lo_search (rt_here (fl_router f));
          next_params = search_set ''ups'' upsName (search_set ''upsNode'' nodeId previous)
      in set_router (set_search next_params (fl_router f)) f)"

definition closeUPS :: "fleet \<Rightarrow> fleet_result" where
  "closeUPS f = set_router (go_back (fl_router f)) f"

fun node_out_step :: "node_out \<Rightarrow> fleet \<Rightarrow> fleet_result" where
  "node_out_step NodeChanged f = loadNodes True f"
| "node_out_step NodeClose f = closeDetail f"
| "node_out_step (NodeOpenUPS n u) f = openUPS n u f"

fun ups_out_step :: "ups_out \<Rightarrow> fleet \<Rightarrow> fleet_result" where
  "ups_out_step UpsClose f = closeUPS f"

fun card_out_step :: "card_out \<Rightarrow> fleet \<Rightarrow> fleet_result" where
  "card_out_step CardChanged f = loadNodes True f"
| "card_out_step (CardOpenDetail i) f = openDetail i f"
| "card_out_step (CardShowUPS n u) f = openUPS n u f"

section \<open>Rendering\<close>

datatype fleet_action = CardAct card_action | NodeAct node_action | UpsAct ups_action

definition fleet_stats :: "node_record list \<Rightarrow> 'a ui list" where
  "fleet_stats nodes =
     [StatCard ''Nodes'' (nat_dec (length nodes)) None ''default'',
      StatCard ''Offline'' (nat_dec (length (offlineNodes nodes))) None
        (if 0 < length (offlineNodes nodes) then ''error'' else ''success''),
      StatCard ''Alerts'' (nat_dec (alertCount nodes)) None (if hasAlerts nodes then ''error'' else ''success'')]"

definition fleet_cards :: "fleet \<Rightarrow> card_action ui list" where
  "fleet_cards f =
     (if truthy (fl_error f) \<or> fl_loading f then []
      else if fl_nodes f = [] then [message_box ''No nodes discovered yet.'']
      else map NodeCard (fl_nodes f))"

definition fleet_view :: "page_env \<Rightarrow> fleet \<Rightarrow> thrown + fleet_action ui" where
  "fleet_view env f =
     (case ups_view env (fl_ups f) of
        Inl e \<Rightarrow> Inl e
      | Inr ups \<Rightarrow>
          Inr (Group
            ([Text ''Fleet''] @ fleet_stats (fl_nodes f) @
             (if truthy (fl_error f) then [message_box (the (fl_error f))] else []) @
             show_if (\<not> truthy (fl_error f) \<and> fl_loading f) (message_box ''Loading controller inventory...'') @
             map (map_ui CardAct) (fleet_cards f) @
             [map_ui NodeAct (node_view (fl_node f)), map_ui UpsAct ups])))"

section \<open>Events\<close>

text \<open>
  \<open>Reload\<close> is the effect on a new \<open>reloadSignal\<close>; \<open>Back\<close> and \<open>Forward\<close> are the browser's buttons; the
  ticks are those of the three instances of \<open>useLiveRefresh\<close>.
\<close>

datatype fleet_event =
    Reload
  | Tick
  | NodeTick
  | UpsTick
  | Back
  | Forward
  | Click fleet_action
  | TypeNode string string
  | TypeUps string string

definition run_node :: "node_step \<Rightarrow> fleet \<Rightarrow> fleet_result" where
  "run_node r f = lift_effs FlNode node_out_step (snd r) (f\<lparr>fl_node := fst r\<rparr>)"

definition run_ups :: "ups_step \<Rightarrow> fleet \<Rightarrow> fleet_result" where
  "run_ups r f = lift_effs FlUps ups_out_step (snd r) (f\<lparr>fl_ups := fst r\<rparr>)"

definition run_card :: "(card_task, card_out) eff list \<Rightarrow> fleet \<Rightarrow> fleet_result" where
  "run_card es f = lift_effs FlCard card_out_step es f"

fun fleet_step :: "page_env \<Rightarrow> fleet_event \<Rightarrow> fleet \<Rightarrow> fleet_result" where
  "fleet_step env Reload f = loadNodes False f"
| "fleet_step env Tick f = loadNodes True f"
| "fleet_step env NodeTick f = run_node (node_handle NdTick (fl_node f)) f"
| "fleet_step env UpsTick f = run_ups (ups_handle env UdTick (fl_ups f)) f"
| "fleet_step env Back f = set_router (go_back (fl_router f)) f"
| "fleet_step env Forward f = set_router (go_forward (fl_router f)) f"
| "fleet_step env (Click (CardAct a)) f =
     (if a \<in> set (concat (map actions (fleet_cards f))) then run_card (card_do a) f else (f, []))"
| "fleet_step env (Click (NodeAct a)) f = run_node (node_handle (NdAct a) (fl_node f)) f"
| "fleet_step env (Click (UpsAct a)) f = run_ups (ups_handle env (UdAct a) (fl_ups f)) f"
| "fleet_step env (TypeNode label v) f = run_node (node_handle (NdType label v) (fl_node f)) f"
| "fleet_step env (TypeUps label v) f = run_ups (ups_handle env (UdType label v) (fl_ups f)) f"

fun fleet_resume_step :: "page_env \<Rightarrow> fleet_task \<Rightarrow> settled \<Rightarrow> fleet \<Rightarrow> fleet_result" where
  "fleet_resume_step env (FlLoad silent) (Settled r) f = nodes_loaded silent r f"
| "fleet_resume_step env (FlNode k) s f = run_node (node_resume k s (fl_node f)) f"
| "fleet_resume_step env (FlUps k) s f = run_ups (ups_resume env k s (fl_ups f)) f"
| "fleet_resume_step env (FlCard k) s f = run_card (card_resume k s) f"
| "fleet_resume_step env _ _ f = (f, [])"

text \<open>
  An exception while rendering unmounts the application, which has no error boundary: nothing is shown
  and nothing can be done any more.
\<close>

definition fleet_rendered :: "page_env \<Rightarrow> fleet_result \<Rightarrow> fleet_result" where
  "fleet_rendered env r =
     (case fleet_view env (fst r) of Inl _ \<Rightarrow> ((fst r)\<lparr>fl_crashed := True\<rparr>, snd r) | Inr _ \<Rightarrow> r)"

definition fleet_handle :: "page_env \<Rightarrow> fleet_event \<Rightarrow> fleet \<Rightarrow> fleet_result" where
  "fleet_handle env e f = (if fl_crashed f then (f, []) else fleet_rendered env (fleet_step env e f))"

text \<open>
  A task that outlives the components it was started by: the state it sets is gone, but the rest of it
  runs, with what it has captured.  Closed dialogs stand for the state it can no longer reach.  The
  callbacks navigate from wherever the user is by then; \<open>setSearchParams\<close> leads to the path of the page
  that is gone.  (\<open>openUPS\<close> adds to the parameters it has captured, for which the current ones stand here;
  \<open>late_tasks_open_nothing\<close> shows that no task calls it.)
\<close>

definition left_search :: "search \<Rightarrow> router \<Rightarrow> router" where
  "left_search ps r = push \<lparr>lo_path = ''/'', lo_search = ps\<rparr> r"

definition left_openUPS :: "string \<Rightarrow> string \<Rightarrow> router \<Rightarrow> router" where
  "left_openUPS nodeId upsName r =
     left_search (search_set ''ups'' upsName (search_set ''upsNode'' nodeId (lo_search (rt_here r)))) r"

fun node_out_left :: "node_out \<Rightarrow> router \<Rightarrow> router \<times> (fleet_task, unit) eff list" where
  "node_out_left NodeChanged r = (r, [Call [fetchNodes] (FlLoad True)])"
| "node_out_left NodeClose r = (go_back r, [])"
| "node_out_left (NodeOpenUPS n u) r = (left_openUPS n u r, [])"

fun ups_out_left :: "ups_out \<Rightarrow> router \<Rightarrow> router \<times> (fleet_task, unit) eff list" where
  "ups_out_left UpsClose r = (go_back r, [])"

fun card_out_left :: "card_out \<Rightarrow> router \<Rightarrow> router \<times> (fleet_task, unit) eff list" where
  "card_out_left CardChanged r = (r, [Call [fetchNodes] (FlLoad True)])"
| "card_out_left (CardOpenDetail i) r = (left_search [(''node'', i)] r, [])"
| "card_out_left (CardShowUPS n u) r = (left_openUPS n u r, [])"

fun fleet_left :: "page_env \<Rightarrow> fleet_task \<Rightarrow> settled \<Rightarrow> router \<Rightarrow> router \<times> (fleet_task, unit) eff list" where
  "fleet_left env (FlLoad silent) s r = (r, [])"
| "fleet_left env (FlNode k) s r = lift_effs FlNode node_out_left (snd (node_resume_step k s (fst (nd_mount None)))) r"
| "fleet_left env (FlUps k) s r = lift_effs FlUps ups_out_left (snd (ups_resume env k s (fst (ud_mount None None)))) r"
| "fleet_left env (FlCard k) s r = lift_effs FlCard card_out_left (card_resume k s) r"

definition fleet_resume :: "page_env \<Rightarrow> fleet_task \<Rightarrow> settled \<Rightarrow> fleet \<Rightarrow> fleet_result" where
  "fleet_resume env k s f =
     (if fl_crashed f then (let (r, es) = fleet_left env k s (fl_router f) in (f\<lparr>fl_router := r\<rparr>, es))
      else fleet_rendered env (fleet_resume_step env k s f))"

text \<open>The closed dialogs are as good as any: the effects of a task do not depend on the state.\<close>

lemma node_effects_captured: "snd (node_resume_step k s d) = snd (node_resume_step k s d')"
  by (cases k; cases s)
     (simp_all add: nd_loaded_def policy_confirmed_def policy_updated_def release_confirmed_def
        release_updated_def edit_updated_def nd_forget_confirmed_def nd_forgotten_def
        split: sum.split list.split payload.split)

lemma ups_effects_captured: "snd (ups_resume env k s d) = snd (ups_resume env k s d')"
  by (cases k; cases s)
     (simp_all add: ud_loaded_def command_confirmed_def command_ran_def command_failed_def
        command_refetched_def metadata_saved_def Let_def case_prod_beta
        split: sum.split list.split payload.split option.split)

text \<open>
  What the dialogs and cards tell the page: a change of their properties nothing, a task that continues
  only that something has changed, and in the node dialog that it closes.
\<close>

definition tells :: "('k, 'p) eff list \<Rightarrow> 'p list" where
  "tells es = concat (map (\<lambda>e. case e of Notify p \<Rightarrow> [p] | _ \<Rightarrow> []) es)"

lemma tells_simps [simp]:
  "tells [] = []" "tells (Call qs k # es) = tells es" "tells (Ask c k # es) = tells es"
  "tells (ShowToast m sev # es) = tells es" "tells (Notify p # es) = p # tells es"
  by (simp_all add: tells_def)

lemma late_tasks_open_nothing:
  "tells (snd (ups_resume env uk s d)) = []"
  "set (tells (card_resume ck s)) \<subseteq> {CardChanged}"
  "set (tells (snd (node_resume_step nk s nd))) \<subseteq> {NodeChanged, NodeClose}"
proof -
  show "tells (snd (ups_resume env uk s d)) = []"
    by (cases uk; cases s)
       (simp_all add: ud_loaded_def command_confirmed_def command_ran_def command_failed_def
          command_refetched_def metadata_saved_def Let_def case_prod_beta
          split: sum.split list.split payload.split option.split)
  show "set (tells (card_resume ck s)) \<subseteq> {CardChanged}"
    by (cases ck; cases s)
       (simp_all add: adopted_def card_forget_confirmed_def card_forgotten_def split: sum.split)
  show "set (tells (snd (node_resume_step nk s nd))) \<subseteq> {NodeChanged, NodeClose}"
    by (cases nk; cases s)
       (simp_all add: nd_loaded_def policy_confirmed_def policy_updated_def release_confirmed_def
          release_updated_def edit_updated_def nd_forget_confirmed_def nd_forgotten_def
          split: sum.split list.split payload.split)
qed

lemma props_tell_nothing:
  "tells (snd (ud_set_ups n u d)) = []" "tells (snd (ud_mount n u)) = []"
  "tells (snd (nd_mount i)) = []" "tells (snd (node_handle (NdProp i) nd)) = []"
  by (simp_all add: ud_set_ups_def ud_mount_def ud_load_def nd_mount_def node_handle_def nd_set_nodeId_def
      nd_load_def case_prod_beta Let_def)

text \<open>The page is mounted at an entry of the history, its effects run in the order of the components.\<close>

definition fleet_mount :: "router \<Rightarrow> fleet_result" where
  "fleet_mount r =
     (let get = (\<lambda>k. search_get k (lo_search (rt_here r)));
          (nd, ne) = nd_mount (get ''node'');
          (ud, ue) = ud_mount (get ''upsNode'') (get ''ups'');
          f = \<lparr>fl_nodes = [], fl_loading = True, fl_error = None, fl_router = r, fl_node = nd, fl_ups = ud,
               fl_crashed = False\<rparr>;
          (f, fs) = lift_effs FlNode no_out ne f;
          (f, gs) = lift_effs FlUps no_out ue f;
          (f, hs) = loadNodes False f
      in (f, fs @ gs @ hs))"

definition fleet_handler :: "page_env \<Rightarrow> fleet_event app_event \<Rightarrow> (fleet, fleet_task) app \<Rightarrow> (fleet, fleet_task) app" where
  "fleet_handler env = app_handler (fleet_handle env) (fleet_resume env)"

definition start_fleet :: "router \<Rightarrow> (fleet, fleet_task) app" where
  "start_fleet r = start_app (fleet_mount r)"

end
