(* ===== verification/Ctl_FleetEffects.thy ===== *)
theory Ctl_FleetEffects
  imports Ctl_Fleet
begin

text \<open>
  What the fleet page sends and asks is what its dialogs and cards send and ask, and the loads of its
  inventory: a contract of the components on their calls and questions gives one of the page.
\<close>

section \<open>Calls and questions\<close>

fun eff_keeps ::
  "(api_request list \<Rightarrow> 'k \<Rightarrow> bool) \<Rightarrow> (confirm_request \<Rightarrow> 'k \<Rightarrow> bool) \<Rightarrow> ('k, 'p) eff \<Rightarrow> bool" where
  "eff_keeps call ask (Call qs k) = call qs k"
| "eff_keeps call ask (Ask c k) = ask c k"
| "eff_keeps call ask (ShowToast m sev) = True"
| "eff_keeps call ask (Notify p) = True"

definition effs_keep ::
  "(api_request list \<Rightarrow> 'k \<Rightarrow> bool) \<Rightarrow> (confirm_request \<Rightarrow> 'k \<Rightarrow> bool) \<Rightarrow> ('k, 'p) eff list \<Rightarrow> bool" where
  "effs_keep call ask es \<longleftrightarrow> list_all (eff_keeps call ask) es"

lemma effs_keep_simps [simp]:
  "effs_keep call ask []" "effs_keep call ask (e # es) = (eff_keeps call ask e \<and> effs_keep call ask es)"
  "effs_keep call ask (es @ es') = (effs_keep call ask es \<and> effs_keep call ask es')"
  by (simp_all add: effs_keep_def)

lemma effs_keepD:
  "effs_keep call ask es \<Longrightarrow> Call qs k \<in> set es \<Longrightarrow> call qs k"
  "effs_keep call ask es \<Longrightarrow> Ask c k \<in> set es \<Longrightarrow> ask c k"
  by (auto simp: effs_keep_def list_all_iff dest!: bspec)

lemma effs_keep_mono:
  "effs_keep call ask es \<Longrightarrow> (\<And>qs k. call qs k \<Longrightarrow> call' qs k) \<Longrightarrow> (\<And>c k. ask c k \<Longrightarrow> ask' c k) \<Longrightarrow>
     effs_keep call' ask' es"
proof (induction es)
  case (Cons e es)
  then show ?case by (cases e) simp_all
qed simp

lemma effs_keep_map:
  "effs_keep call ask (map (map_eff g h) es) = effs_keep (\<lambda>qs k. call qs (g k)) (\<lambda>c k. ask c (g k)) es"
proof (induction es)
  case (Cons e es)
  then show ?case by (cases e) simp_all
qed simp

lemma lift_keeps:
  assumes "\<And>p f. effs_keep call ask (snd (out p f))"
  shows "effs_keep (\<lambda>qs k. call qs (wrap k)) (\<lambda>c k. ask c (wrap k)) es \<Longrightarrow>
    effs_keep call ask (snd (lift_effs wrap out es f))"
proof (induction es arbitrary: f)
  case (Cons e es)
  from Cons show ?case using assms by (cases e) (simp_all add: case_prod_beta Let_def)
qed simp

section \<open>The fleet page\<close>

text \<open>
  \<open>call\<close> and \<open>ask\<close> are the contract of what happens on events, except on a click in the UPS dialog that
  is not \<open>bound\<close>, and \<open>resumed k x\<close> that of the task \<open>k\<close> when its \<open>await\<close> gives \<open>x\<close>.
\<close>

locale fleet_effects =
  fixes call :: "api_request list \<Rightarrow> fleet_task \<Rightarrow> bool"
    and ask :: "confirm_request \<Rightarrow> fleet_task \<Rightarrow> bool"
    and resumed :: "fleet_task \<Rightarrow> settled \<Rightarrow> api_request list \<Rightarrow> fleet_task \<Rightarrow> bool"
    and bound :: "ups_action \<Rightarrow> bool"
  assumes call_resumed: "call qs k \<Longrightarrow> resumed k' x qs k"
    and inventory: "call [fetchNodes] (FlLoad silent)"
    and node_event: "effs_keep (\<lambda>qs k. call qs (FlNode k)) (\<lambda>c k. ask c (FlNode k)) (snd (node_handle e d))"
    and node_resumed: "effs_keep (\<lambda>qs k. resumed (FlNode nk) x qs (FlNode k)) (\<lambda>c k. ask c (FlNode k))
      (snd (node_resume nk x d))"
    and ups_event: "\<forall>a. e' = UdAct a \<longrightarrow> bound a \<Longrightarrow>
      effs_keep (\<lambda>qs k. call qs (FlUps k)) (\<lambda>c k. ask c (FlUps k)) (snd (ups_handle env e' u))"
    and ups_resumed: "effs_keep (\<lambda>qs k. resumed (FlUps uk) x qs (FlUps k)) (\<lambda>c k. ask c (FlUps k))
      (snd (ups_resume env uk x u))"
    and card_event: "effs_keep (\<lambda>qs k. call qs (FlCard k)) (\<lambda>c k. ask c (FlCard k)) (card_do a)"
    and card_resumed: "effs_keep (\<lambda>qs k. resumed (FlCard ck) x qs (FlCard k)) (\<lambda>c k. ask c (FlCard k))
      (card_resume ck x)"
begin

abbreviation keeps :: "(fleet_task, 'p) eff list \<Rightarrow> bool" where
  "keeps es \<equiv> effs_keep call ask es"

abbreviation keeps_after :: "fleet_task \<Rightarrow> settled \<Rightarrow> (fleet_task, 'p) eff list \<Rightarrow> bool" where
  "keeps_after k x es \<equiv> effs_keep (resumed k x) ask es"

lemma weaken: "keeps es \<Longrightarrow> keeps_after k x es"
  by (erule effs_keep_mono) (rule call_resumed, assumption+)

lemma no_out_keeps: "effs_keep c' a' (snd (no_out p f))"
  by (simp add: no_out_def)

lemma loads: "keeps (snd (loadNodes b f))"
  by (simp add: loadNodes_def inventory)

lemma routed: "keeps (snd (set_router r f))"
proof -
  have u: "effs_keep (\<lambda>qs k. call qs (FlUps k)) (\<lambda>c k. ask c (FlUps k)) (snd (ud_set_ups i v d))" for i v d
    using ups_event [of "UdProp i v" env d for env] by simp
  show ?thesis by (simp add: set_router_def case_prod_beta Let_def lift_keeps no_out_keeps node_event u)
qed

lemma outs:
  "keeps (snd (node_out_step p f))" "keeps (snd (ups_out_step p' f))" "keeps (snd (card_out_step p'' f))"
  by (cases p; simp add: loads closeDetail_def openUPS_def routed Let_def)
     (cases p'; cases p''; simp add: loads closeUPS_def openUPS_def openDetail_def routed Let_def)+

definition bound_event :: "fleet_event \<Rightarrow> bool" where
  "bound_event e \<longleftrightarrow> (case e of Click (UpsAct a) \<Rightarrow> bound a | _ \<Rightarrow> True)"

lemma step: "bound_event e \<Longrightarrow> keeps (snd (fleet_step env e f))"
proof (cases e)
  case (Click a)
  assume "bound_event e"
  with Click show ?thesis
    by (cases a) (simp_all add: run_node_def run_ups_def run_card_def lift_keeps outs node_event ups_event card_event
        bound_event_def del: ups_handle.simps)
qed (simp_all add: run_node_def run_ups_def lift_keeps outs node_event ups_event loads routed del: ups_handle.simps)

lemma handled: "bound_event e \<Longrightarrow> keeps (snd (fleet_handle env e f))"
  using step by (simp add: fleet_handle_def fleet_rendered_def split: sum.split)

lemma resume_step: "keeps_after k x (snd (fleet_resume_step env k x f))"
  by (cases k; cases x)
     (simp_all add: nodes_loaded_def run_node_def run_ups_def run_card_def lift_keeps outs [THEN weaken]
        node_resumed ups_resumed card_resumed split: sum.split list.split payload.split del: ups_resume.simps)

lemma left_outs:
  "keeps (snd (node_out_left p r))" "keeps (snd (card_out_left p' r))" "keeps (snd (ups_out_left p'' r))"
  by ((cases p; simp add: inventory), (cases p'; simp add: inventory), (cases p''; simp))

lemma left: "keeps_after k x (snd (fleet_left env k x r))"
proof -
  have n: "effs_keep (\<lambda>qs j. resumed (FlNode nk) x qs (FlNode j)) (\<lambda>c j. ask c (FlNode j)) (snd (node_resume_step nk x d))"
    for nk d using node_resumed [of nk x d] by (simp add: node_resume_def case_prod_beta Let_def)
  show ?thesis
    by (cases k) (simp_all add: lift_keeps left_outs [THEN weaken] no_out_keeps n ups_resumed card_resumed
        del: ups_resume.simps)
qed

lemma resumes: "keeps_after k x (snd (fleet_resume env k x f))"
  using resume_step left by (simp add: fleet_resume_def fleet_rendered_def case_prod_beta Let_def split: sum.split)

lemma mounted: "keeps (snd (fleet_mount r))"
proof -
  have n: "effs_keep (\<lambda>qs k. call qs (FlNode k)) (\<lambda>c k. ask c (FlNode k)) (snd (nd_mount i))" for i
  proof -
    let ?d = "fst (nd_mount i)"
    have "snd (nd_mount i) = snd (node_handle (NdProp i) (?d\<lparr>nd_nodeId := None\<rparr>))"
      by (simp add: nd_mount_def node_handle_def nd_set_nodeId_def nd_load_def case_prod_beta Let_def)
    then show ?thesis by (simp add: node_event)
  qed
  have u: "effs_keep (\<lambda>qs k. call qs (FlUps k)) (\<lambda>c k. ask c (FlUps k)) (snd (ud_mount i v))" for i v
  proof -
    let ?d = "fst (ud_mount i v)"
    have "snd (ud_mount i v) = snd (ups_handle env (UdProp i v) (?d\<lparr>ud_nodeId := None, ud_upsName := None\<rparr>))" for env
      by (auto simp: ud_mount_def ud_set_ups_def ud_load_def ups_open_def Let_def)
    then show ?thesis using ups_event [of "UdProp i v"] by (metis ups_event.distinct(1))
  qed
  show ?thesis by (simp add: fleet_mount_def case_prod_beta Let_def lift_keeps no_out_keeps n u loads)
qed

end

end
