(* ===== verification/Ctl_Consent.thy ===== *)
theory Ctl_Consent
  imports Ctl_FleetEffects
begin

text \<open>
  Consent on the fleet page: deleting a node, taking or releasing the policy of a node's local UI and
  running a destructive UPS command each need the user's consent to the question that names the node or
  the command.
\<close>

section \<open>Guarded requests\<close>

definition fleet_guarded :: "api_request \<Rightarrow> bool" where
  "fleet_guarded q \<longleftrightarrow>
     rq_method q = ''DELETE'' \<or> (\<exists>n p. q = updateNode n p \<and> np_managed p \<noteq> None) \<or>
     (\<exists>n u c. q = runUPSCommand n u c)"

text \<open>
  The only one that is sent without a question is the command of a UPS whose card, in the detail that is
  shown, does not call it destructive.
\<close>

definition runs_harmless :: "ups_action \<Rightarrow> ups_dialog \<Rightarrow> api_request \<Rightarrow> bool" where
  "runs_harmless a d q \<longleftrightarrow>
     (\<exists>detail command. ud_detail d = Some detail \<and> command \<in> set (commands_of detail) \<and>
        \<not> ci_destructive command \<and> a = UdRun (ci_name command) False \<and>
        q = runUPSCommand (the (ud_nodeId d)) (the (ud_upsName d)) (ci_name command))"

definition fleet_harmless :: "fleet_event \<Rightarrow> fleet \<Rightarrow> api_request \<Rightarrow> bool" where
  "fleet_harmless e f q \<longleftrightarrow> (\<exists>a. e = Click (UpsAct a) \<and> runs_harmless a (fl_ups f) q)"

text \<open>What a task that waits for consent sends when it gets it.\<close>

fun fleet_promised :: "fleet_task \<Rightarrow> api_request \<Rightarrow> bool" where
  "fleet_promised (FlNode (NdPolicy node b)) q = (q = updateNode (nr_id node) (policy_patch b))"
| "fleet_promised (FlNode (NdRelease node)) q = (q = updateNode (nr_id node) release_patch)"
| "fleet_promised (FlNode (NdForget node _)) q = (q = forgetNode (nr_id node))"
| "fleet_promised (FlCard (CardForgetAsked node _)) q = (q = forgetNode (nr_id node))"
| "fleet_promised (FlUps (UdCommand n u c)) q = (q = runUPSCommand n u c)"
| "fleet_promised _ q = False"

text \<open>The question it has asked.\<close>

fun fleet_asks :: "fleet_task \<Rightarrow> confirm_request \<Rightarrow> bool" where
  "fleet_asks (FlNode (NdPolicy node b)) c = (c = policy_question node b)"
| "fleet_asks (FlNode (NdRelease node)) c = (c = release_question node)"
| "fleet_asks (FlNode (NdForget node _)) c = (c = forget_question node)"
| "fleet_asks (FlCard (CardForgetAsked node _)) c = (c = forget_question node)"
| "fleet_asks (FlUps (UdCommand n u name)) c = (c = destructive_question name)"
| "fleet_asks _ c = False"

lemma updateNode_managed: "updateNode n p = updateNode n' p' \<Longrightarrow> np_managed p = np_managed p'"
  by (drule updateNode_inj) simp

lemma updateNode_fields: "rq_method (updateNode n p) = ''PATCH''" "rq_type (updateNode n p) = TNode"
  by (simp_all add: updateNode_def api_send_def)

lemma not_update:
  "rq_method q \<noteq> ''PATCH'' \<or> rq_type q \<noteq> TNode \<Longrightarrow> q \<noteq> updateNode n p"
  using updateNode_fields by metis

lemma command_fields: "rq_type (runUPSCommand n u c) = TCommand" "rq_method (runUPSCommand n u c) = ''POST''"
  by (simp_all add: runUPSCommand_def api_send_def Let_def)

lemma not_command:
  "rq_method q \<noteq> ''POST'' \<or> rq_type q \<noteq> TCommand \<Longrightarrow> q \<noteq> runUPSCommand n u c"
  using command_fields by metis

lemma unguarded_request:
  assumes "rq_method q \<noteq> ''DELETE''" and "rq_method q \<noteq> ''PATCH'' \<or> rq_type q \<noteq> TNode"
    and "rq_method q \<noteq> ''POST'' \<or> rq_type q \<noteq> TCommand"
  shows "\<not> fleet_guarded q"
  using assms not_update not_command unfolding fleet_guarded_def by blast

lemma guarded_simps [simp]:
  "\<not> fleet_guarded fetchNodes" "\<not> fleet_guarded (fetchNode n)" "\<not> fleet_guarded (fetchNodeHealth n)"
  "\<not> fleet_guarded (fetchUPSDetail n u)" "\<not> fleet_guarded (fetchUPSHistory n u v)"
  "\<not> fleet_guarded (adoptNode n)" "\<not> fleet_guarded (updateUPSMetadata n u d t)"
  "fleet_guarded (runUPSCommand n u c)" "fleet_guarded (forgetNode n)"
  "fleet_guarded (updateNode n p) = (np_managed p \<noteq> None)"
proof -
  show "\<not> fleet_guarded fetchNodes" "\<not> fleet_guarded (fetchNode n)" "\<not> fleet_guarded (fetchNodeHealth n)"
    "\<not> fleet_guarded (fetchUPSDetail n u)" "\<not> fleet_guarded (fetchUPSHistory n u v)"
    "\<not> fleet_guarded (adoptNode n)" "\<not> fleet_guarded (updateUPSMetadata n u d t)"
    by (rule unguarded_request; simp add: api_calls api_get_def api_send_def Let_def)+
  show "fleet_guarded (runUPSCommand n u c)" unfolding fleet_guarded_def by blast
  show "fleet_guarded (forgetNode n)" by (simp add: fleet_guarded_def forgetNode_def api_send_def)
  have "updateNode n p \<noteq> runUPSCommand m u c" for m u c by (rule not_command) (simp add: updateNode_fields)
  then show "fleet_guarded (updateNode n p) = (np_managed p \<noteq> None)"
    unfolding fleet_guarded_def by (auto simp: updateNode_fields dest: updateNode_managed)
qed

lemma patch_managed [simp]: "np_managed (values_patch v) = None"
  by (simp add: values_patch_def no_patch_def)

section \<open>The steps of the components\<close>

text \<open>A call is fine when its guarded requests are allowed, a question when it is the one of the task.\<close>

definition guarded_only :: "(api_request \<Rightarrow> bool) \<Rightarrow> api_request list \<Rightarrow> bool" where
  "guarded_only allowed qs \<longleftrightarrow> (\<forall>q\<in>set qs. fleet_guarded q \<longrightarrow> allowed q)"

abbreviation asked_by :: "confirm_request \<Rightarrow> fleet_task \<Rightarrow> bool" where
  "asked_by c k \<equiv> fleet_asks k c"

text \<open>The clicks of the UPS dialog that never send anything guarded: all but those that run a harmless command.\<close>

definition asks_first :: "ups_action \<Rightarrow> bool" where
  "asks_first a \<longleftrightarrow> (\<forall>name. a \<noteq> UdRun name False)"

lemma guarded_only_simps [simp]:
  "guarded_only allowed []"
  "guarded_only allowed (q # qs) = ((fleet_guarded q \<longrightarrow> allowed q) \<and> guarded_only allowed qs)"
  by (simp_all add: guarded_only_def)

text \<open>A task continues with what it promised, if it was confirmed.\<close>

definition confirmed_with :: "fleet_task \<Rightarrow> settled \<Rightarrow> api_request \<Rightarrow> bool" where
  "confirmed_with k r q \<longleftrightarrow> r = Confirmed True \<and> fleet_promised k q"

lemmas node_simps = nd_load_def nd_loaded_def nd_set_nodeId_def handleToggleLocalUIPolicy_def
  policy_confirmed_def policy_updated_def handleReleaseLocalUIPolicy_def release_confirmed_def
  release_updated_def handleEdit_def handleSave_def edit_updated_def nd_handleForget_def
  nd_forget_confirmed_def nd_forgotten_def Let_def

lemmas ups_simps = ud_load_def ud_loaded_def ud_set_ups_def ud_handleCommand_def command_confirmed_def
  command_failed_def command_ran_def command_refetched_def openMetadataEditor_def handleMetadataSave_def
  metadata_saved_def Let_def

lemmas outcome_splits = sum.split list.split payload.split option.split if_split

interpretation consent: fleet_effects "\<lambda>qs k. guarded_only (\<lambda>_. False) qs" asked_by
  "\<lambda>k x qs k'. guarded_only (confirmed_with k x) qs" asks_first
proof
  fix qs k k' x silent e d nk env e' u uk a ck
  show "guarded_only (\<lambda>_. False) qs \<Longrightarrow> guarded_only (confirmed_with k' x) qs"
    by (simp add: guarded_only_def)
  show "guarded_only (\<lambda>_. False) [fetchNodes]" by simp
  have "effs_keep (\<lambda>qs k. guarded_only (\<lambda>_. False) qs) (\<lambda>c k. asked_by c (FlNode k)) (snd (node_do a d))" for a
    by (cases a) (simp_all add: node_simps split: outcome_splits)
  then have "effs_keep (\<lambda>qs k. guarded_only (\<lambda>_. False) qs) (\<lambda>c k. asked_by c (FlNode k)) (snd (node_event_step e d))"
    by (cases e) (simp_all add: nd_load_def nd_set_nodeId_def Let_def)
  then show "effs_keep (\<lambda>qs k. guarded_only (\<lambda>_. False) qs) (\<lambda>c k. asked_by c (FlNode k)) (snd (node_handle e d))"
    by (simp add: node_handle_def case_prod_beta Let_def)
  have "effs_keep (\<lambda>qs k. guarded_only (confirmed_with (FlNode nk) x) qs) (\<lambda>c k. asked_by c (FlNode k))
      (snd (node_resume_step nk x d))"
    by (cases nk; cases x) (simp_all add: node_simps confirmed_with_def split: outcome_splits)
  then show "effs_keep (\<lambda>qs k. guarded_only (confirmed_with (FlNode nk) x) qs) (\<lambda>c k. asked_by c (FlNode k))
      (snd (node_resume nk x d))" by (simp add: node_resume_def case_prod_beta Let_def)
  have "asks_first a \<Longrightarrow>
      effs_keep (\<lambda>qs k. guarded_only (\<lambda>_. False) qs) (\<lambda>c k. asked_by c (FlUps k)) (snd (ups_do a u))" for a
    by (cases a) (simp_all add: ups_simps asks_first_def split: outcome_splits)
  then show "\<forall>a. e' = UdAct a \<longrightarrow> asks_first a \<Longrightarrow>
      effs_keep (\<lambda>qs k. guarded_only (\<lambda>_. False) qs) (\<lambda>c k. asked_by c (FlUps k)) (snd (ups_handle env e' u))"
    by (cases e') (simp_all add: ud_load_def ud_set_ups_def Let_def)
  show "effs_keep (\<lambda>qs k. guarded_only (confirmed_with (FlUps uk) x) qs) (\<lambda>c k. asked_by c (FlUps k))
      (snd (ups_resume env uk x u))"
    by (cases uk; cases x) (simp_all add: ups_simps confirmed_with_def case_prod_beta split: outcome_splits)
  show "effs_keep (\<lambda>qs k. guarded_only (\<lambda>_. False) qs) (\<lambda>c k. asked_by c (FlCard k)) (card_do a)"
    by (cases a) (simp_all add: handleAdopt_def card_handleForget_def)
  show "effs_keep (\<lambda>qs k. guarded_only (confirmed_with (FlCard ck) x) qs) (\<lambda>c k. asked_by c (FlCard k))
      (card_resume ck x)"
    by (cases ck; cases x)
       (simp_all add: adopted_def card_forget_confirmed_def card_forgotten_def confirmed_with_def split: outcome_splits)
qed

text \<open>The command cards are the only place where the UPS dialog runs commands.\<close>

lemma runs_in_view:
  assumes "UdRun name b \<in> set (view_actions (ups_view env d))"
  shows "\<exists>detail command. ud_detail d = Some detail \<and> command \<in> set (commands_of detail) \<and>
    name = ci_name command \<and> b = ci_destructive command"
proof -
  have s: "UdRun name b \<notin> set (concat (map actions (ups_summary_cards env r)))"
    "UdRun name b \<notin> set (concat (map actions (variable_section env vs)))"
    "UdRun name b \<notin> set (concat (map actions (ups_title d)))"
    for r vs by (auto simp: ups_summary_cards_def variable_section_def ups_title_def show_if_def split: option.splits if_splits)
  show ?thesis
    using assms s
    by (auto simp: view_actions_def ups_view_def ups_content_def ups_detail_view_def command_section_def
        command_card_def metadata_editor_def split: sum.splits option.splits if_splits)
qed

lemma direct_command:
  assumes "Call qs k \<in> set (snd (fleet_handle env (Click (UpsAct (UdRun name False))) f))" and "q \<in> set qs"
  shows "fleet_harmless (Click (UpsAct (UdRun name False))) f q"
proof -
  let ?r = "ups_handle env (UdAct (UdRun name False)) (fl_ups f)"
  from assms have c: "Call qs k \<in> set (snd (run_ups ?r f))"
    by (auto simp: fleet_handle_def fleet_rendered_def split: if_splits sum.splits simp del: ups_handle.simps)
  then have v: "UdRun name False \<in> set (view_actions (ups_view env (fl_ups f)))"
    by (auto simp: run_ups_def split: if_splits)
  with c have "q = runUPSCommand (the (ud_nodeId (fl_ups f))) (the (ud_upsName (fl_ups f))) name"
    using assms(2) by (auto simp: run_ups_def ud_handleCommand_def Let_def split: if_splits)
  with runs_in_view [OF v] show ?thesis by (auto simp: fleet_harmless_def runs_harmless_def)
qed

section \<open>The page\<close>

interpretation fleet: confirmed_page "fleet_handle env" "fleet_resume env" fleet_guarded fleet_harmless
  fleet_promised fleet_asks
proof
  fix e f qs k q r k' c
  note ups_handle.simps [simp del]
  show "fleet_harmless e f q" if "Call qs k \<in> set (snd (fleet_handle env e f))" "q \<in> set qs" "fleet_guarded q"
  proof (cases "consent.bound_event e")
    case True
    then show ?thesis using effs_keepD(1) [OF consent.handled [OF True] that(1)] that(2,3) by (simp add: guarded_only_def)
  next
    case False
    then obtain name where "e = Click (UpsAct (UdRun name False))"
      by (auto simp: consent.bound_event_def asks_first_def split: fleet_event.splits fleet_action.splits)
    with direct_command that show ?thesis by blast
  qed
  show "r = Confirmed True \<and> fleet_promised k q"
    if "Call qs k' \<in> set (snd (fleet_resume env k r f))" "q \<in> set qs" "fleet_guarded q"
    using effs_keepD(1) [OF consent.resumes that(1)] that(2,3) by (simp add: guarded_only_def confirmed_with_def)
  show "fleet_asks k c" if "Ask c k \<in> set (snd (fleet_handle env e f))"
  proof (cases "consent.bound_event e")
    case True
    then show ?thesis using effs_keepD(2) [OF consent.handled [OF True] that] by simp
  next
    case False
    then obtain name where e: "e = Click (UpsAct (UdRun name False))"
      by (auto simp: consent.bound_event_def asks_first_def split: fleet_event.splits fleet_action.splits)
    with that have "Ask c k \<in> set (snd (run_ups (ups_handle env (UdAct (UdRun name False)) (fl_ups f)) f))"
      by (auto simp: fleet_handle_def fleet_rendered_def split: if_splits sum.splits)
    then show ?thesis by (auto simp: ups_handle.simps run_ups_def ud_handleCommand_def Let_def split: if_splits)
  qed
  show "fleet_asks k' c" if "Ask c k' \<in> set (snd (fleet_resume env k r f))"
    using effs_keepD(2) [OF consent.resumes that] by simp
qed

text \<open>On the fleet page alone, whatever the user does, the URL says and the server answers in whatever order,
  a guarded request is sent only by clicking a command that its card does not call destructive, or by
  accepting the confirmation dialog, which shows the question of the task that sends it.\<close>

theorem destructive_requests_need_consent:
  assumes "a = fold (fleet_handler env) es (start_fleet r)"
    and "new_guarded fleet_guarded a (fleet_handler env e a) q"
  shows "(\<exists>p. e = PageEvent p \<and> fleet_harmless p (ap_page a) q) \<or>
    e = AnswerConfirm OnAccept \<and>
    (\<exists>c k. confirmRequest a = Some c \<and> confirmResolver a = Some k \<and> fleet_asks k c \<and> fleet_promised k q)"
proof -
  have i: "confirm_inv fleet_asks (start_fleet r)"
    unfolding start_fleet_def by (rule fleet.start_inv) (use effs_keepD(2) [OF consent.mounted] in blast)
  show ?thesis
    using fleet.guarded_needs_consent [OF i] assms by (simp add: fleet_handler_def fleet.consented_def)
qed

end
