(* ===== verification/Ctl_Dialogs.thy ===== *)
theory Ctl_Dialogs
  imports Ctl_Fleet
begin

text \<open>
  What the two dialogs show and send: the data of the node or UPS they were opened for, as long as no
  answer to a change of another one arrives, which the code does not check; labels within their bound;
  and what answers with \<open>null\<close> in place of an empty array do.
\<close>

section \<open>The node dialog shows its node\<close>

datatype node_move = NodeEvent node_event | NodeResume node_task settled

fun node_move_step :: "node_move \<Rightarrow> node_dialog \<Rightarrow> node_dialog" where
  "node_move_step (NodeEvent e) d = fst (node_handle e d)"
| "node_move_step (NodeResume k r) d = fst (node_resume k r d)"

text \<open>
  The server answers with the node that was asked for, and an answer to a change of a node finds the
  dialog still showing it.
\<close>

definition answered_node :: "settled \<Rightarrow> node_record option" where
  "answered_node s =
     (case s of
        Settled (Inr (p # _)) \<Rightarrow> (case p of PNode n \<Rightarrow> Some n | _ \<Rightarrow> None)
      | _ \<Rightarrow> None)"

lemma answered_node_first [simp]: "answered_node (Settled (Inr (PNode n # ps))) = Some n"
  by (simp add: answered_node_def)

fun node_answer_ok :: "node_task \<Rightarrow> node_record \<Rightarrow> node_dialog \<Rightarrow> bool" where
  "node_answer_ok (NdLoad i _) n d = (nr_id n = i)"
| "node_answer_ok _ n d = (nd_nodeId d = Some (nr_id n))"

fun node_allowed :: "node_move \<Rightarrow> node_dialog \<Rightarrow> bool" where
  "node_allowed (NodeEvent e) d = True"
| "node_allowed (NodeResume k s) d = (\<forall>n. answered_node s = Some n \<longrightarrow> node_answer_ok k n d)"

definition node_shown :: "node_dialog \<Rightarrow> bool" where
  "node_shown d \<longleftrightarrow>
     nd_activeRef d = nd_nodeId d \<and> (\<forall>n. nd_node d = Some n \<longrightarrow> nd_nodeId d = Some (nr_id n))"

lemma node_shown_rendered [simp]: "node_shown (node_rendered d) = node_shown d"
  by (simp add: node_shown_def node_rendered_def split: option.split)

lemma node_shown_saving [simp]: "node_shown (set_saving key b d) = node_shown d"
  by (simp add: node_shown_def set_saving_def split: option.split)

lemma set_saving_fields [simp]:
  "nd_node (set_saving key b d) = nd_node d" "nd_nodeId (set_saving key b d) = nd_nodeId d"
  "nd_activeRef (set_saving key b d) = nd_activeRef d"
  by (simp_all add: set_saving_def split: option.split)

lemma fst_nd_load [simp]: "fst (nd_load silent d) = d"
  by (simp add: nd_load_def Let_def)

lemma node_event_shown: "node_shown d \<Longrightarrow> node_shown (fst (node_event_step e d))"
proof (cases e)
  case (NdAct a)
  assume "node_shown d"
  with NdAct show ?thesis
    by (cases a) (simp_all add: handleToggleLocalUIPolicy_def handleReleaseLocalUIPolicy_def handleSave_def
        handleEdit_def nd_handleForget_def node_shown_def Let_def split: option.split)
qed (simp_all add: nd_set_nodeId_def node_shown_def)

lemma node_resume_shown:
  "node_shown d \<Longrightarrow> node_allowed (NodeResume k (Settled r)) d \<Longrightarrow> node_shown (fst (node_resume_step k (Settled r) d))"
  by (cases k)
     (auto simp: nd_loaded_def policy_updated_def release_updated_def edit_updated_def nd_forgotten_def
        node_shown_def split: sum.split list.split payload.split)

lemma node_confirm_shown: "node_shown d \<Longrightarrow> node_shown (fst (node_resume_step k (Confirmed c) d))"
  by (cases k) (simp_all add: policy_confirmed_def release_confirmed_def nd_forget_confirmed_def)

definition node_mounted :: "node_dialog \<Rightarrow> bool" where
  "node_mounted d \<longleftrightarrow> (\<exists>i. d = fst (nd_mount i))"

interpretation nd: guarded_system node_mounted node_move_step node_allowed node_shown
proof
  show "node_shown d" if "node_mounted d" for d
    using that by (auto simp: node_mounted_def nd_mount_def node_shown_def)
  show "node_shown (node_move_step m d)" if "node_shown d" "node_allowed m d" for m d
  proof (cases m)
    case (NodeEvent e)
    with that show ?thesis by (simp add: node_handle_def case_prod_beta Let_def node_event_shown)
  next
    case (NodeResume k r)
    with that show ?thesis
      by (cases r) (simp_all add: node_resume_def case_prod_beta Let_def node_resume_shown node_confirm_shown)
  qed
qed

text \<open>The node dialog never shows the data of another node than the one of the URL, in whatever order the
  answers to its loads arrive, as long as an answer to a change of a node finds the dialog still on it:
  the guard on the loads works.\<close>

theorem node_dialog_shows_its_node:
  assumes "node_mounted d" and "allowed_run node_allowed node_move_step ms d"
    and "nd_node (fold node_move_step ms d) = Some n"
  shows "nd_nodeId (fold node_move_step ms d) = Some (nr_id n)"
  using nd.inv_reached [OF assms(1,2)] assms(3) by (simp add: node_shown_def)

text \<open>The answer to a change is not checked: it replaces what the dialog shows of another node.\<close>

lemma node_update_not_checked:
  "nd_node (fst (node_resume (NdEditSent node v key) (Settled (Inr [PNode updated])) d)) = Some updated"
  by (simp add: node_resume_def edit_updated_def node_rendered_def split: option.split)

section \<open>The UPS dialog shows its UPS\<close>

datatype ups_move = UpsEvent ups_event | UpsResume ups_task settled

fun ups_move_step :: "page_env \<Rightarrow> ups_move \<Rightarrow> ups_dialog \<Rightarrow> ups_dialog" where
  "ups_move_step env (UpsEvent e) d = fst (ups_handle env e d)"
| "ups_move_step env (UpsResume k r) d = fst (ups_resume env k r d)"

text \<open>
  A node id in the URL holds no slash and is not the word \<open>null\<close>, so that the keys of the guard tell
  UPSes apart.
\<close>

definition plain_id :: "string \<Rightarrow> bool" where
  "plain_id n \<longleftrightarrow> CHR ''/'' \<notin> set n \<and> n \<noteq> ''null''"

lemma ambiguous_key: "ups_key (Some ''a/b'') (Some ''c'') = ups_key (Some ''a'') (Some ''b/c'')"
  by (simp add: ups_key_def null_text_def)

definition answered_detail :: "settled \<Rightarrow> ups_detail_response option" where
  "answered_detail s =
     (case s of
        Settled (Inr (p # _)) \<Rightarrow> (case p of PDetail r \<Rightarrow> Some r | _ \<Rightarrow> None)
      | _ \<Rightarrow> None)"

lemma answered_detail_first [simp]: "answered_detail (Settled (Inr (PDetail r # ps))) = Some r"
  by (simp add: answered_detail_def)

fun ups_answer_ok :: "ups_task \<Rightarrow> ups_detail_response \<Rightarrow> ups_dialog \<Rightarrow> bool" where
  "ups_answer_ok (UdLoad n u _) r d = (plain_id n \<and> dr_node_id r = n \<and> dr_name r = u)"
| "ups_answer_ok _ r d = (ud_nodeId d = Some (dr_node_id r) \<and> ud_upsName d = Some (dr_name r))"

fun ups_event_ok :: "ups_event \<Rightarrow> bool" where
  "ups_event_ok (UdProp n u) = (n = None \<and> u = None \<or> (\<exists>i v. n = Some i \<and> u = Some v \<and> plain_id i))"
| "ups_event_ok _ = True"

fun ups_allowed :: "ups_move \<Rightarrow> ups_dialog \<Rightarrow> bool" where
  "ups_allowed (UpsEvent e) d = ups_event_ok e"
| "ups_allowed (UpsResume k s) d = (\<forall>r. answered_detail s = Some r \<longrightarrow> ups_answer_ok k r d)"

definition ups_url_ok :: "string option \<Rightarrow> string option \<Rightarrow> bool" where
  "ups_url_ok n u \<longleftrightarrow> n = None \<and> u = None \<or> (\<exists>i v. n = Some i \<and> u = Some v \<and> plain_id i)"

definition ups_shown :: "ups_dialog \<Rightarrow> bool" where
  "ups_shown d \<longleftrightarrow>
     ud_activeKey d = ups_key (ud_nodeId d) (ud_upsName d) \<and> ups_url_ok (ud_nodeId d) (ud_upsName d) \<and>
     (\<forall>r. ud_detail d = Some r \<longrightarrow> ud_nodeId d = Some (dr_node_id r) \<and> ud_upsName d = Some (dr_name r))"

lemma ups_key_inj:
  assumes "ups_key (Some n) (Some u) = ups_key n' u'" and "plain_id n" and "ups_url_ok n' u'"
  shows "n' = Some n \<and> u' = Some u"
proof -
  have split: "a = b \<and> s = t" if "a @ CHR ''/'' # s = b @ CHR ''/'' # t" "CHR ''/'' \<notin> set a" "CHR ''/'' \<notin> set b"
    for a b s t :: string
    using segment_append_inj [OF that(1)] that(2,3) by simp
  from assms show ?thesis
    by (auto simp: ups_key_def ups_url_ok_def null_text_def plain_id_def dest!: split)
qed

lemma ups_apply_shown:
  assumes "ups_shown d" and "ud_nodeId d = Some (dr_node_id r)" and "ud_upsName d = Some (dr_name r)"
  shows "ups_shown (snd (ud_apply env r c l t d))"
  using assms by (simp add: ud_apply_def ups_shown_def Let_def split: sum.split)

lemma ups_shown_fields [simp]:
  "ups_shown (d\<lparr>ud_chargeHistory := h\<rparr>) = ups_shown d" "ups_shown (d\<lparr>ud_loadHistory := h\<rparr>) = ups_shown d"
  "ups_shown (d\<lparr>ud_runtimeHistory := h\<rparr>) = ups_shown d" "ups_shown (d\<lparr>ud_error := e\<rparr>) = ups_shown d"
  "ups_shown (d\<lparr>ud_editorOpen := b\<rparr>) = ups_shown d" "ups_shown (d\<lparr>ud_displayName := t\<rparr>) = ups_shown d"
  "ups_shown (d\<lparr>ud_tags := t\<rparr>) = ups_shown d" "ups_shown (d\<lparr>ud_savingMetadata := b\<rparr>) = ups_shown d"
  by (simp_all add: ups_shown_def)

lemma fst_ud_load [simp]: "fst (ud_load silent d) = d"
  by (simp add: ud_load_def Let_def)

lemma ups_shown_metadata:
  "ups_shown d \<Longrightarrow> ups_shown (d\<lparr>ud_detail := map_option (\<lambda>r. r\<lparr>dr_metadata := m\<rparr>) (ud_detail d)\<rparr>)"
  by (auto simp: ups_shown_def)

lemma ups_event_shown: "ups_shown d \<Longrightarrow> ups_allowed (UpsEvent e) d \<Longrightarrow> ups_shown (fst (ups_handle env e d))"
proof (cases e)
  case (UdAct a)
  assume "ups_shown d"
  with UdAct show ?thesis
    by (cases a) (simp_all add: openMetadataEditor_def ud_handleCommand_def handleMetadataSave_def
        Let_def split: option.split)
next
  case (UdType label v)
  assume "ups_shown d"
  with UdType show ?thesis by (simp add: type_editor_def)
qed (auto simp: ud_set_ups_def ups_shown_def ups_url_ok_def)

lemma ups_loaded_shown:
  assumes "ups_shown d" and "ups_allowed (UpsResume (UdLoad n u silent) (Settled r)) d"
  shows "ups_shown (fst (ud_loaded env n u silent r d))"
proof -
  have app: "ups_shown (snd (ud_apply env p c l t d))"
    if "ud_activeKey d = ups_key (Some n) (Some u)" "plain_id n" "dr_node_id p = n" "dr_name p = u" for p c l t
  proof -
    have "ud_nodeId d = Some n \<and> ud_upsName d = Some u"
      using assms(1) that by (intro ups_key_inj) (auto simp: ups_shown_def)
    with that assms(1) show ?thesis by (intro ups_apply_shown) auto
  qed
  show ?thesis
  proof (cases r)
    case (Inl e)
    with assms(1) show ?thesis by (simp add: ud_loaded_def Let_def)
  next
    case (Inr ps)
    show ?thesis
    proof (cases "\<exists>p c l t. ps = [PDetail p, PHistory c, PHistory l, PHistory t]")
      case True
      then obtain p c l t where ps: "ps = [PDetail p, PHistory c, PHistory l, PHistory t]" by blast
      obtain e d' where a: "ud_apply env p c l t d = (e, d')" by fastforce
      have "ups_shown d'" if "ud_activeKey d = ups_key (Some n) (Some u)"
        using app [of p c l t] assms(2) that a Inr ps by simp
      with assms(1) Inr ps a show ?thesis
        by (cases e) (simp_all add: ud_loaded_def Let_def)
    next
      case False
      then have "ud_loaded env n u silent (Inr ps) d = (d, [])"
        by (auto simp: ud_loaded_def Let_def split: list.split payload.split)
      with assms(1) Inr show ?thesis by simp
    qed
  qed
qed

lemma command_refetched_shown:
  "ups_shown d \<Longrightarrow> ud_nodeId d = Some (dr_node_id r) \<Longrightarrow> ud_upsName d = Some (dr_name r) \<Longrightarrow>
    ups_shown (d\<lparr>ud_detail := Some r\<rparr>)"
  by (simp add: ups_shown_def)

lemma ups_resume_shown:
  assumes "ups_shown d" and "ups_allowed (UpsResume k r) d"
  shows "ups_shown (fst (ups_resume env k r d))"
proof (cases r)
  case (Settled s)
  with assms show ?thesis
    by (cases k) (auto simp: ups_loaded_shown command_ran_def command_failed_def command_refetched_def
        metadata_saved_def ups_shown_metadata command_refetched_shown split: sum.split list.split payload.split)
next
  case (Confirmed b)
  with assms show ?thesis by (cases k) (simp_all add: command_confirmed_def)
qed

definition ups_mounted :: "ups_dialog \<Rightarrow> bool" where
  "ups_mounted d \<longleftrightarrow> (\<exists>n u. ups_url_ok n u \<and> d = fst (ud_mount n u))"

interpretation ud: guarded_system ups_mounted "ups_move_step env" ups_allowed ups_shown
proof
  show "ups_shown d" if "ups_mounted d" for d
    using that by (auto simp: ups_mounted_def ud_mount_def ups_shown_def)
  show "ups_shown (ups_move_step env m d)" if "ups_shown d" "ups_allowed m d" for m d
    using that by (cases m) (simp_all add: ups_event_shown ups_resume_shown)
qed

text \<open>The UPS dialog never shows the detail of another UPS than the one of the URL, in whatever order the
  answers to its loads arrive, as long as the answer that follows a command finds the dialog still on the
  UPS of the command.\<close>

theorem ups_dialog_shows_its_ups:
  assumes "ups_mounted d" and "allowed_run ups_allowed (ups_move_step env) ms d"
    and "ud_detail (fold (ups_move_step env) ms d) = Some r"
  shows "ud_nodeId (fold (ups_move_step env) ms d) = Some (dr_node_id r) \<and>
    ud_upsName (fold (ups_move_step env) ms d) = Some (dr_name r)"
  using ud.inv_reached [OF assms(1,2)] assms(3) by (simp add: ups_shown_def)

end
