(* ===== verification/Ctl_Alerts.thy ===== *)
theory Ctl_Alerts
  imports Ctl_App
begin

text \<open>The alerts page (\<open>AlertsPage.tsx\<close>): its rules, events and the form that creates a rule.\<close>

section \<open>State\<close>

definition ALERT_KINDS :: "string list" where
  "ALERT_KINDS = [''node_offline'', ''comms_lost'', ''on_battery'', ''low_battery'']"

record alert_form =
  af_kind :: string
  af_webhook_url :: string
  af_debounce_seconds :: jsnum
  af_threshold :: string

record alerts =
  al_rules :: "alert_rule list"
  al_events :: "alert_event list"
  al_error :: "string option"
  al_form :: alert_form

datatype alerts_task = AlLoad | AlCreated string | AlDelete jsnum | AlDeleted jsnum | AlTested jsnum

datatype alerts_action = AlSubmit | AlTest jsnum | AlDeleteClick jsnum

type_synonym alerts_step = "alerts \<times> (alerts_task, unit) eff list"

section \<open>Operations\<close>

definition al_load :: "alerts \<Rightarrow> alerts_step" where
  "al_load s = (s, [Call [fetchAlertRules, fetchAlertEvents] AlLoad])"

definition al_loaded :: "thrown + payload list \<Rightarrow> alerts \<Rightarrow> alerts_step" where
  "al_loaded r s =
     (case r of
        Inl e \<Rightarrow> (s\<lparr>al_error := Some (case e of ErrorObject m \<Rightarrow> m | _ \<Rightarrow> ''Unknown error'')\<rparr>, [])
      | Inr [PRules rules, PEvents events] \<Rightarrow>
          (s\<lparr>al_rules := (case rules of None \<Rightarrow> [] | Some rs \<Rightarrow> rs),
             al_events := (case events of None \<Rightarrow> [] | Some es \<Rightarrow> es), al_error := None\<rparr>, [])
      | _ \<Rightarrow> (s, []))"

definition initial_form :: alert_form where
  "initial_form =
     \<lparr>af_kind = ''node_offline'', af_webhook_url = [], af_debounce_seconds = NInt 300, af_threshold = ''20''\<rparr>"

definition alerts_mount :: alerts_step where
  "alerts_mount = al_load \<lparr>al_rules = [], al_events = [], al_error = None, al_form = initial_form\<rparr>"

definition rule_of_form :: "alert_form \<Rightarrow> rule_payload" where
  "rule_of_form form =
     \<lparr>rp_kind = af_kind form, rp_webhook_url = af_webhook_url form,
      rp_debounce_seconds = af_debounce_seconds form,
      rp_threshold = (if af_kind form = ''low_battery'' then Some (js_Number (af_threshold form)) else None),
      rp_ups_var = (if af_kind form = ''low_battery'' then Some ''battery.charge'' else None)\<rparr>"

definition handleCreate :: "alerts \<Rightarrow> alerts_step" where
  "handleCreate s =
     (s, [Call [createAlertRule (rule_of_form (al_form s))] (AlCreated (af_kind (al_form s)))])"

text \<open>A success shows a toast and loads the page again; \<open>load\<close> handles its own errors.\<close>

definition al_done :: "string \<Rightarrow> string \<Rightarrow> thrown + payload list \<Rightarrow> alerts \<Rightarrow> alerts_step" where
  "al_done success_text fallback r s =
     (case r of
        Inl e \<Rightarrow> (s, [ShowToast (humanizeError e fallback) ToastError])
      | Inr _ \<Rightarrow> (fst (al_load s), ShowToast success_text ToastSuccess # snd (al_load s)))"

definition al_created :: "string \<Rightarrow> thrown + payload list \<Rightarrow> alerts \<Rightarrow> alerts_step" where
  "al_created kind = al_done (''Created '' @ kind @ '' alert rule.'') ''Alert rule creation failed.''"

definition delete_question :: "jsnum \<Rightarrow> confirm_request" where
  "delete_question i =
     \<lparr>cq_title = ''Delete alert rule '' @ num_to_string i @ ''?'',
      cq_message = ''This permanently removes the rule and stops future alert deliveries for it.'',
      cq_confirm_label = ''Delete rule'', cq_cancel_label = None, cq_tone = Some Danger\<rparr>"

definition handleDelete :: "jsnum \<Rightarrow> alerts \<Rightarrow> alerts_step" where
  "handleDelete i s = (s, [Ask (delete_question i) (AlDelete i)])"

definition delete_confirmed :: "jsnum \<Rightarrow> bool \<Rightarrow> alerts \<Rightarrow> alerts_step" where
  "delete_confirmed i confirmed s =
     (s, if confirmed then [Call [deleteAlertRule i] (AlDeleted i)] else [])"

definition al_deleted :: "jsnum \<Rightarrow> thrown + payload list \<Rightarrow> alerts \<Rightarrow> alerts_step" where
  "al_deleted i = al_done (''Deleted alert rule '' @ num_to_string i @ ''.'') ''Delete failed.''"

definition handleTest :: "jsnum \<Rightarrow> alerts \<Rightarrow> alerts_step" where
  "handleTest i s = (s, [Call [testAlertRule i] (AlTested i)])"

definition al_tested :: "jsnum \<Rightarrow> thrown + payload list \<Rightarrow> alerts \<Rightarrow> alerts_step" where
  "al_tested i = al_done (''Test-fired alert rule '' @ num_to_string i @ ''.'') ''Test-fire failed.''"

section \<open>Rendering\<close>

definition rule_row :: "alert_rule \<Rightarrow> alerts_action ui" where
  "rule_row rule =
     Group
       [Text (''#'' @ num_to_string (ar_id rule)), Text (ar_kind rule), Text (ar_webhook_url rule),
        Text (num_to_string (ar_debounce_seconds rule) @ ''s'' @
          (case ar_threshold rule of Some t \<Rightarrow> bullet @ num_to_string t @ ''%'' | None \<Rightarrow> [])),
        Button ''Test fire'' ''primary'' False (AlTest (ar_id rule)),
        Button ''Delete'' ''error'' False (AlDeleteClick (ar_id rule))]"

definition event_row :: "page_env \<Rightarrow> alert_event \<Rightarrow> 'a ui" where
  "event_row env event =
     Group
       ([Text (ae_kind event), Text (ae_message event), Text (pe_date_time env (ae_created_at event))] @
        (if ae_delivered event then [StatusChip ''Delivered'' Success]
         else [StatusChip ''Delivery failed'' Severe,
               Text (humanizeError (ThrownText (or_opt (ae_delivery_error event) ''unknown error''))
                 ''Unknown error'')]))"

definition alert_form_view :: "alert_form \<Rightarrow> alerts_action ui" where
  "alert_form_view form =
     Group
       ([Text ''Create rule'', Text ''Global rules only, keeping Phase 3 simple.'',
         Field ''Kind'' (af_kind form) [] False, Field ''Webhook URL'' (af_webhook_url form) [] False,
         Field ''Debounce seconds'' (num_to_string (af_debounce_seconds form)) [] False] @
        show_if (af_kind form = ''low_battery'') (Field ''Threshold (%)'' (af_threshold form) [] False) @
        [Button ''Create rule'' ''primary'' False AlSubmit])"

definition alerts_view :: "page_env \<Rightarrow> alerts \<Rightarrow> alerts_action ui" where
  "alerts_view env s =
     Group
       ([Text ''Alerts'', Text ''Webhook-only Phase 3 alerting with debounce and recent event history.''] @
        (if truthy (al_error s) then [message_box (the (al_error s))] else []) @
        [alert_form_view (al_form s), Text ''Rules'', Text ''Existing webhook alert rules.''] @
        (if al_rules s = [] then [message_box ''No alert rules yet.''] else map rule_row (al_rules s)) @
        [Text ''Recent events'', Text ''Newest alert events first.''] @
        (if al_events s = [] then [message_box ''No alert events yet.''] else map (event_row env) (al_events s)))"

section \<open>Events\<close>

definition edit_alert_form :: "string \<Rightarrow> string \<Rightarrow> alert_form \<Rightarrow> alert_form" where
  "edit_alert_form label v form =
     (if label = ''Kind'' then (if v \<in> set ALERT_KINDS then form\<lparr>af_kind := v\<rparr> else form)
      else if label = ''Webhook URL'' then form\<lparr>af_webhook_url := v\<rparr>
      else if label = ''Debounce seconds''
      then form\<lparr>af_debounce_seconds := num_or (js_Number v) (NInt 300)\<rparr>
      else if label = ''Threshold (%)'' then form\<lparr>af_threshold := v\<rparr>
      else form)"

datatype alerts_event = AlAct alerts_action | AlType string string

fun alerts_do :: "alerts_action \<Rightarrow> alerts \<Rightarrow> alerts_step" where
  "alerts_do AlSubmit s = handleCreate s"
| "alerts_do (AlTest i) s = handleTest i s"
| "alerts_do (AlDeleteClick i) s = handleDelete i s"

fun alerts_handle :: "page_env \<Rightarrow> alerts_event \<Rightarrow> alerts \<Rightarrow> alerts_step" where
  "alerts_handle env (AlAct a) s = (if a \<in> set (actions (alerts_view env s)) then alerts_do a s else (s, []))"
| "alerts_handle env (AlType label v) s =
     (if label \<in> set (open_fields (alerts_view env s))
      then (s\<lparr>al_form := edit_alert_form label v (al_form s)\<rparr>, []) else (s, []))"

fun alerts_resume :: "alerts_task \<Rightarrow> settled \<Rightarrow> alerts \<Rightarrow> alerts_step" where
  "alerts_resume AlLoad (Settled r) s = al_loaded r s"
| "alerts_resume (AlCreated kind) (Settled r) s = al_created kind r s"
| "alerts_resume (AlDelete i) (Confirmed c) s = delete_confirmed i c s"
| "alerts_resume (AlDeleted i) (Settled r) s = al_deleted i r s"
| "alerts_resume (AlTested i) (Settled r) s = al_tested i r s"
| "alerts_resume _ _ s = (s, [])"

definition alerts_handler ::
  "page_env \<Rightarrow> alerts_event app_event \<Rightarrow> (alerts, alerts_task) app \<Rightarrow> (alerts, alerts_task) app" where
  "alerts_handler env = app_handler (alerts_handle env) alerts_resume"

definition start_alerts :: "(alerts, alerts_task) app" where
  "start_alerts = start_app alerts_mount"

section \<open>Well-formed rules\<close>

definition form_ok :: "alert_form \<Rightarrow> bool" where
  "form_ok form \<longleftrightarrow> af_kind form \<in> set ALERT_KINDS \<and> num_truthy (af_debounce_seconds form)"

definition rule_ok :: "rule_payload \<Rightarrow> bool" where
  "rule_ok p \<longleftrightarrow>
     rp_kind p \<in> set ALERT_KINDS \<and> num_truthy (rp_debounce_seconds p) \<and>
     (if rp_kind p = ''low_battery''
      then rp_threshold p \<noteq> None \<and> rp_ups_var p = Some ''battery.charge''
      else rp_threshold p = None \<and> rp_ups_var p = None)"

definition alert_request_ok :: "api_request \<Rightarrow> bool" where
  "alert_request_ok q \<longleftrightarrow> (\<forall>p. q = createAlertRule p \<longrightarrow> rule_ok p)"

lemma createAlertRule_inj: "createAlertRule p = createAlertRule p' \<Longrightarrow> p = p'"
  by (cases p; cases p') (auto simp: createAlertRule_def api_send_def opt_field_def split: option.splits)

lemma other_requests_ok:
  "alert_request_ok fetchAlertRules" "alert_request_ok fetchAlertEvents"
  "alert_request_ok (deleteAlertRule i)" "alert_request_ok (testAlertRule i)"
  by (simp_all add: alert_request_ok_def api_calls api_get_def api_send_def)

lemma rule_of_form_ok: "form_ok form \<Longrightarrow> alert_request_ok (createAlertRule (rule_of_form form))"
  by (auto simp: alert_request_ok_def form_ok_def rule_ok_def rule_of_form_def dest!: createAlertRule_inj)

lemma edit_alert_form_ok: "form_ok form \<Longrightarrow> form_ok (edit_alert_form label v form)"
  by (simp add: form_ok_def edit_alert_form_def num_or_def num_truthy_def)

lemmas alerts_simps = al_load_def al_loaded_def al_done_def al_created_def al_deleted_def al_tested_def
  handleCreate_def handleDelete_def delete_confirmed_def handleTest_def

lemma alerts_do_simps:
  "fst (alerts_do a s) = s"
  "Call qs k \<in> set (snd (alerts_do a s)) \<Longrightarrow> q \<in> set qs \<Longrightarrow> form_ok (al_form s) \<Longrightarrow> alert_request_ok q"
  by (cases a; auto simp: alerts_simps rule_of_form_ok other_requests_ok)+

lemma alerts_resume_simps:
  "al_form (fst (alerts_resume k r s)) = al_form s"
  "Call qs k' \<in> set (snd (alerts_resume k r s)) \<Longrightarrow> q \<in> set qs \<Longrightarrow> alert_request_ok q"
  by (cases k; cases r; auto simp: alerts_simps other_requests_ok split: sum.splits list.splits payload.splits if_splits)+

interpretation al: sending_page "alerts_handle env" alerts_resume "\<lambda>s. form_ok (al_form s)" alert_request_ok
proof
  fix e and s :: alerts and qs k q
  assume ok: "form_ok (al_form s)"
  show "form_ok (al_form (fst (alerts_handle env e s)))"
    using ok by (cases e) (simp_all add: alerts_do_simps(1) edit_alert_form_ok)
  show "alert_request_ok q" if "Call qs k \<in> set (snd (alerts_handle env e s))" "q \<in> set qs"
    using ok that alerts_do_simps(2) by (cases e) (auto split: if_splits)
qed (simp_all add: alerts_resume_simps)

text \<open>Whatever is typed into the form and whatever the server answers, the page only ever creates rules of
  one of the four kinds, with a debounce that is neither zero nor not-a-number, and with a threshold and
  a variable exactly for a low-battery rule.\<close>

theorem created_rules_well_formed:
  assumes "createAlertRule p \<in> set (ap_sent (fold (alerts_handler env) es start_alerts))"
  shows "rule_ok p"
proof -
  have "\<forall>q\<in>set (ap_sent (fold (alerts_handler env) es start_alerts)). alert_request_ok q"
    unfolding alerts_handler_def start_alerts_def
    by (rule al.sent_start [THEN conjunct2])
      (auto simp: alerts_mount_def al_load_def other_requests_ok form_ok_def initial_form_def ALERT_KINDS_def
        num_truthy_def)
  with assms show ?thesis by (auto simp: alert_request_ok_def)
qed

definition demo_env :: page_env where
  "demo_env = \<lparr>pe_date = id, pe_time = id, pe_date_time = id, pe_collate = (\<lambda>a b. True),
     pe_type_error = ''object null is not iterable''\<rparr>"

definition demo_rule :: rule_payload where
  "demo_rule = \<lparr>rp_kind = ''low_battery'', rp_webhook_url = [], rp_debounce_seconds = NInt 300,
     rp_threshold = Some (NInt 20), rp_ups_var = Some ''battery.charge''\<rparr>"

lemma created_rules_well_formed_witness: "rule_ok demo_rule"
proof (rule created_rules_well_formed)
  have "nat_dec 20 = ''20''" by code_simp
  then have n: "js_Number ''20'' = NInt 20" using js_Number_nat [of 20] by simp
  show "createAlertRule demo_rule \<in> set (ap_sent (fold (alerts_handler demo_env)
      [PageEvent (AlType ''Kind'' ''low_battery''), PageEvent (AlAct AlSubmit)] start_alerts))"
    by (simp add: alerts_handler_def start_alerts_def start_app_def alerts_mount_def al_load_def run_page_def
        start_call_def alerts_view_def alert_form_view_def initial_form_def edit_alert_form_def ALERT_KINDS_def
        handleCreate_def rule_of_form_def demo_rule_def n)
qed

end
