(* ===== verification/Ctl_Answers.thy ===== *)
theory Ctl_Answers
  imports Ctl_Dialogs Ctl_Alerts
begin

text \<open>
  What the dialogs do with answers the code does not expect: an answer that comes after the dialog has
  moved on, and the \<open>null\<close> that the server sends for an empty array.  And what they never send: labels
  that are too long.
\<close>

section \<open>Stale details\<close>

lemma actions_cards: "UdRun c b \<in> set (concat (map actions (ups_summary_cards env detail))) \<Longrightarrow> False"
  by (simp add: ups_summary_cards_def)

lemma command_in_view:
  assumes "\<not> truthy (ud_error d)" and "ud_detail d = Some detail" and "um_tags (dr_metadata detail) = Some tags"
    and "dr_variables detail = Some vs" and "command \<in> set (commands_of detail)" and "ups_open d"
  shows "UdRun (ci_name command) (ci_destructive command) \<in> set (view_actions (ups_view env d))"
proof -
  have "UdRun (ci_name command) (ci_destructive command) \<in> set (concat (map actions (command_section detail)))"
    using assms(5) by (auto simp: command_section_def command_card_def)
  then show ?thesis
    using assms by (auto simp: view_actions_def ups_view_def ups_content_def ups_detail_view_def)
qed

text \<open>C13: The answer that follows a command is not checked against the dialog: when it arrives after the dialog
  has been opened for another UPS, the dialog shows the detail of the first one, and a click on one of
  the first one's commands runs it on the other UPS.\<close>

theorem stale_detail_takes_commands:
  assumes "ups_open d" and "\<not> truthy (ud_error d)" and "um_tags (dr_metadata detail) = Some tags"
    and "dr_variables detail = Some vs" and "command \<in> set (commands_of detail)" and "\<not> ci_destructive command"
  shows "let d' = fst (ups_resume env (UdRefetched n u) (Settled (Inr [PDetail detail])) d);
             n' = the (ud_nodeId d); u' = the (ud_upsName d)
    in ud_detail d' = Some detail \<and>
       snd (ups_handle env (UdAct (UdRun (ci_name command) False)) d') =
         [Call [runUPSCommand n' u' (ci_name command)] (UdCommandSent n' u' (ci_name command))]"
proof -
  let ?d = "d\<lparr>ud_detail := Some detail\<rparr>"
  have "UdRun (ci_name command) False \<in> set (view_actions (ups_view env ?d))"
    using command_in_view [of ?d detail tags vs command env] assms by (simp add: ups_open_def)
  with assms(1) show ?thesis by (simp add: command_refetched_def ud_handleCommand_def ups_open_def Let_def)
qed

section \<open>Empty arrays that are null\<close>

definition unshowable :: "ups_detail_response \<Rightarrow> bool" where
  "unshowable r \<longleftrightarrow> um_tags (dr_metadata r) = None \<or> dr_variables r = None"

lemma ups_view_throws_iff:
  "isl (ups_view env d) \<longleftrightarrow> \<not> truthy (ud_error d) \<and> (\<exists>r. ud_detail d = Some r \<and> unshowable r)"
  by (auto simp: ups_view_def ups_content_def ups_detail_view_def unshowable_def split: option.splits sum.splits)

lemma fleet_view_throws_iff: "isl (fleet_view env f) = isl (ups_view env (fl_ups f))"
  by (simp add: fleet_view_def split: sum.split)

lemma fleet_rendered_crash:
  "fl_crashed (fst (fleet_rendered env r)) = (fl_crashed (fst r) \<or> isl (fleet_view env (fst r)))"
  by (simp add: fleet_rendered_def split: sum.split)

lemma ud_loaded_all:
  assumes "ud_activeKey d = ups_key (Some n) (Some u)"
  shows "ud_loaded env n u silent (Inr [PDetail r, PHistory (Some cs), PHistory (Some ls), PHistory (Some ts)]) d =
    (let d' = fst (ud_loaded env n u silent (Inr [PDetail r, PHistory (Some cs), PHistory (Some ls), PHistory (Some ts)]) d)
     in (d', [])) \<and>
    ud_detail (fst (ud_loaded env n u silent (Inr [PDetail r, PHistory (Some cs), PHistory (Some ls), PHistory (Some ts)]) d)) = Some r \<and>
    ud_error (fst (ud_loaded env n u silent (Inr [PDetail r, PHistory (Some cs), PHistory (Some ls), PHistory (Some ts)]) d)) = None"
  using assms by (simp add: ud_loaded_def ud_apply_def toChartSeries_def Let_def)

text \<open>C20: The detail of a UPS whose tags or variables the server sends as \<open>null\<close>, as it does for a UPS without tags
  and for one whose driver is still starting, makes the rendering of the UPS dialog throw: the whole
  application is gone, and nothing the user does has an effect any more.  With answers that have the
  declared types apart from such nulls, it is the only way in which the fleet page's rendering throws.\<close>

theorem null_detail_crashes_page:
  assumes "\<not> fl_crashed f" and "ud_activeKey (fl_ups f) = ups_key (Some n) (Some u)"
    and "um_tags (dr_metadata r) = None \<or> dr_variables r = None"
  shows "let f' = fst (fleet_resume env (FlUps (UdLoad n u silent))
      (Settled (Inr [PDetail r, PHistory (Some cs), PHistory (Some ls), PHistory (Some ts)])) f)
    in fl_crashed f' \<and> fleet_handle env e f' = (f', []) \<and>
       (isl (fleet_view env f) \<longleftrightarrow> \<not> truthy (ud_error (fl_ups f)) \<and>
          (\<exists>r. ud_detail (fl_ups f) = Some r \<and> (um_tags (dr_metadata r) = None \<or> dr_variables r = None)))"
proof -
  define s where "s = ud_loaded env n u silent
      (Inr [PDetail r, PHistory (Some cs), PHistory (Some ls), PHistory (Some ts)]) (fl_ups f)"
  have s: "snd s = []" "ud_detail (fst s) = Some r" "ud_error (fst s) = None"
    using ud_loaded_all [OF assms(2)] unfolding s_def by (auto simp: Let_def prod_eq_iff)
  have "fleet_resume_step env (FlUps (UdLoad n u silent))
      (Settled (Inr [PDetail r, PHistory (Some cs), PHistory (Some ls), PHistory (Some ts)])) f =
      (f\<lparr>fl_ups := fst s\<rparr>, [])"
    using s(1) by (simp add: run_ups_def flip: s_def)
  then have "fl_crashed (fst (fleet_resume env (FlUps (UdLoad n u silent))
      (Settled (Inr [PDetail r, PHistory (Some cs), PHistory (Some ls), PHistory (Some ts)])) f))"
    using assms(1,3) s(2,3)
    by (simp add: fleet_resume_def fleet_rendered_crash fleet_view_throws_iff ups_view_throws_iff unshowable_def)
  then show ?thesis
    by (simp add: fleet_handle_def fleet_view_throws_iff ups_view_throws_iff unshowable_def Let_def)
qed

lemma humanize_nonempty: "m \<noteq> [] \<Longrightarrow> humanizeError (ErrorObject m) f \<noteq> []"
  by (auto simp: humanizeError_def thrown_text_def ERROR_REWRITES_def Let_def split: option.split)

lemma ud_apply_null:
  assumes "None \<in> {c, l, t}"
  shows "fst (ud_apply env r c l t d) = Some (ErrorObject (pe_type_error env))"
    and "ud_detail (snd (ud_apply env r c l t d)) = Some r"
    and "ud_activeKey (snd (ud_apply env r c l t d)) = ud_activeKey d"
    and "ud_error (snd (ud_apply env r c l t d)) = ud_error d"
  using assms by (cases c; cases l; cases t; simp add: ud_apply_def toChartSeries_def Let_def)+

lemma ud_apply_all:
  "fst (ud_apply env r (Some cs) (Some ls) (Some ts) d) = None"
  "ud_detail (snd (ud_apply env r (Some cs) (Some ls) (Some ts) d)) = Some r"
  "ud_error (snd (ud_apply env r (Some cs) (Some ls) (Some ts) d)) = None"
  by (simp_all add: ud_apply_def toChartSeries_def Let_def)

text \<open>C21: When the server has no samples of one of the three variables in the last day, which it sends as
  \<open>null\<close>, the UPS dialog shows the message of a type error in place of the detail that has arrived.  Any
  number of refreshes that answer in the same way leave it at that; a refresh that brings samples of all three
  variables shows its detail.\<close>

theorem missing_history_hides_detail:
  assumes "ud_activeKey d = ups_key (Some n) (Some u)" and "None \<in> {c, l, t}" and "pe_type_error env \<noteq> []"
  shows "let answer = Inr [PDetail r, PHistory c, PHistory l, PHistory t];
             d' = ((\<lambda>d. fst (ud_loaded env n u True answer d)) ^^ m) (fst (ud_loaded env n u False answer d));
             samples = Inr [PDetail r', PHistory (Some cs), PHistory (Some ls), PHistory (Some ts)]
    in ud_detail d' = Some r \<and>
       ups_content env d' = Inr (message_box (humanizeError (ErrorObject (pe_type_error env)) ''Unknown error'')) \<and>
       ups_content env (fst (ud_loaded env n u True samples d')) =
         ups_detail_view env (fst (ud_loaded env n u True samples d')) r'"
proof -
  let ?e = "humanizeError (ErrorObject (pe_type_error env)) ''Unknown error''"
  let ?answer = "Inr [PDetail r, PHistory c, PHistory l, PHistory t]"
  let ?step = "\<lambda>d. fst (ud_loaded env n u True ?answer d)"
  define d' where "d' = (?step ^^ m) (fst (ud_loaded env n u False ?answer d))"
  have e: "?e \<noteq> []" by (rule humanize_nonempty) (rule assms(3))
  note null = ud_apply_null [OF assms(2), of env r]
  have first: "ud_detail (fst (ud_loaded env n u False ?answer d)) = Some r \<and>
      ud_error (fst (ud_loaded env n u False ?answer d)) = Some ?e \<and>
      ud_activeKey (fst (ud_loaded env n u False ?answer d)) = ups_key (Some n) (Some u)"
    using assms(1) null [of d] by (simp add: ud_loaded_def case_prod_beta Let_def)
  have "ud_detail d' = Some r \<and> ud_error d' = Some ?e \<and> ud_activeKey d' = ups_key (Some n) (Some u)"
    unfolding d'_def
  proof (induction m)
    case 0
    show ?case using first by simp
  next
    case (Suc m)
    then show ?case using null [of "(?step ^^ m) (fst (ud_loaded env n u False ?answer d))"]
      by (simp add: ud_loaded_def case_prod_beta Let_def)
  qed
  moreover from this have "fst (ud_loaded env n u True
      (Inr [PDetail r', PHistory (Some cs), PHistory (Some ls), PHistory (Some ts)]) d') =
      snd (ud_apply env r' (Some cs) (Some ls) (Some ts) d')"
    using ud_apply_all(1) [of env r' cs ls ts d'] by (simp add: ud_loaded_def case_prod_beta Let_def)
  ultimately show ?thesis
    using e ud_apply_all [of env r' cs ls ts d'] by (simp add: ups_content_def Let_def flip: d'_def)
qed

section \<open>Labels\<close>

definition label_ok :: "string option \<Rightarrow> bool" where
  "label_ok v \<longleftrightarrow> (case v of None \<Rightarrow> True | Some s \<Rightarrow> js_length s \<le> 120 \<and> trim s = s)"

definition labels_ok :: "node_patch \<Rightarrow> bool" where
  "labels_ok p \<longleftrightarrow> label_ok (np_display_name p) \<and> label_ok (np_location_label p) \<and> label_ok (np_site_label p)"

definition label_request_ok :: "api_request \<Rightarrow> bool" where
  "label_request_ok q \<longleftrightarrow> (\<forall>n p. q = updateNode n p \<longrightarrow> labels_ok p)"

lemma label_requests [simp]:
  "label_request_ok (fetchNode n)" "label_request_ok (fetchNodeHealth n)" "label_request_ok (forgetNode n)"
  "label_request_ok (updateNode n p) = labels_ok p"
  by (auto simp: label_request_ok_def fetchNode_def fetchNodeHealth_def forgetNode_def api_get_def api_send_def
      dest: updateNode_inj)
     (simp_all add: updateNode_def api_send_def)

lemma labels_policy [simp]: "labels_ok (policy_patch b)" "labels_ok release_patch"
  by (simp_all add: labels_ok_def label_ok_def policy_patch_def release_patch_def no_patch_def)

lemma saved_labels_ok:
  assumes "\<not> config_errors c"
  shows "labels_ok (values_patch \<lparr>dv_display_name = trim (cf_display_name c),
    dv_location_label = trim (cf_location_label c), dv_site_label = trim (cf_site_label c)\<rparr>)"
proof -
  have "js_length (trim v) \<le> 120" if "fieldError v = None" for v
    using that js_length_trim [of v] by (simp add: fieldError_def MAX_LABEL_LENGTH_def split: if_splits)
  with assms show ?thesis
    by (simp add: labels_ok_def label_ok_def values_patch_def no_patch_def config_errors_def)
qed

definition calls_ok :: "(node_task, node_out) eff list \<Rightarrow> bool" where
  "calls_ok es \<longleftrightarrow> (\<forall>qs k. Call qs k \<in> set es \<longrightarrow> list_all label_request_ok qs)"

lemma calls_ok_simps [simp]:
  "calls_ok []" "calls_ok (Call qs k # es) = (list_all label_request_ok qs \<and> calls_ok es)"
  "calls_ok (Ask c k # es) = calls_ok es" "calls_ok (ShowToast m v # es) = calls_ok es"
  "calls_ok (Notify p # es) = calls_ok es"
  by (auto simp: calls_ok_def)

lemmas node_ops = nd_load_def nd_loaded_def nd_set_nodeId_def handleToggleLocalUIPolicy_def
  policy_confirmed_def policy_updated_def handleReleaseLocalUIPolicy_def release_confirmed_def
  release_updated_def handleEdit_def handleSave_def edit_updated_def nd_handleForget_def
  nd_forget_confirmed_def nd_forgotten_def Let_def

lemma node_labels_handle: "calls_ok (snd (node_handle e d))"
proof -
  have "calls_ok (snd (node_do a d))" for a
    by (cases a) (simp_all add: node_ops saved_labels_ok split: option.split)
  then have "calls_ok (snd (node_event_step e d))"
    by (cases e) (simp_all add: nd_set_nodeId_def nd_load_def Let_def)
  then show ?thesis by (simp add: node_handle_def case_prod_beta Let_def)
qed

lemma node_labels_resume: "calls_ok (snd (node_resume k r d))"
proof -
  have "calls_ok (snd (node_resume_step k r d))"
    by (cases k; cases r) (simp_all add: node_ops split: sum.split list.split payload.split)
  then show ?thesis by (simp add: node_resume_def case_prod_beta Let_def)
qed

lemma calls_okD: "calls_ok es \<Longrightarrow> Call qs k \<in> set es \<Longrightarrow> q \<in> set qs \<Longrightarrow> label_request_ok q"
  by (auto simp: calls_ok_def list_all_iff)

interpretation lab: sending_page node_handle node_resume "\<lambda>_. True" label_request_ok
  by unfold_locales (blast intro: calls_okD [OF node_labels_handle] calls_okD [OF node_labels_resume])+

text \<open>Every change of a node that the node dialog sends carries labels without surrounding white space and
  of at most 120 characters, whatever is typed into the fields and whatever the server answers.\<close>

theorem sent_labels_bounded:
  assumes "updateNode i p \<in> set (ap_sent (fold (app_handler node_handle node_resume) es (start_app (nd_mount n))))"
  shows "labels_ok p"
proof -
  have "calls_ok (snd (nd_mount n))" by (simp add: nd_mount_def nd_load_def Let_def)
  then have "\<forall>q\<in>set (ap_sent (fold (app_handler node_handle node_resume) es (start_app (nd_mount n)))).
      label_request_ok q"
    by (intro lab.sent_start [THEN conjunct2]) (auto simp: calls_ok_def list_all_iff)
  with assms show ?thesis by (auto simp: label_request_ok_def)
qed

end
