(* ===== verification/Ctl_FleetProps.thy ===== *)
theory Ctl_FleetProps
  imports Ctl_Fleet
begin

text \<open>The counts of the fleet page, its use of the browser's history, and its loads.\<close>

section \<open>Counts\<close>

lemma count_ups_fold:
  "fold count_ups us (e, w) =
     (e + length (filter (\<lambda>u. statusToSeverity (us_status u) = Severe) us),
      w + length (filter (\<lambda>u. statusToSeverity (us_status u) = Warning) us))"
  by (induction us arbitrary: e w) (auto simp: count_ups_def Let_def)

lemma alerting_length:
  "length (filter ups_alerting us) =
     length (filter (\<lambda>u. statusToSeverity (us_status u) = Severe) us) +
     length (filter (\<lambda>u. statusToSeverity (us_status u) = Warning) us)"
  by (induction us) (auto simp: ups_alerting_def Let_def)

lemma upsAttention_fold:
  "fst (fold (\<lambda>node. fold count_ups (summaries_of node)) nodes (e, w)) +
   snd (fold (\<lambda>node. fold count_ups (summaries_of node)) nodes (e, w)) =
     e + w + length (concat (map alerting nodes))"
proof (induction nodes arbitrary: e w)
  case (Cons node nodes)
  show ?case
    using Cons.IH by (simp add: count_ups_fold alerting_def alerting_length)
qed simp

text \<open>C23: The alert count of the page is the number of nodes that are offline, of nodes that are degraded, and of
  the UPSes that the cards of the nodes list as alerting; it is above zero exactly when the page marks
  itself as having alerts, and that happens for every node whose communication is not healthy and every
  UPS whose status is a warning or worse.\<close>

theorem alert_count_matches_cards:
  "alertCount nodes = length (offlineNodes nodes) + length (degradedNodes nodes) +
     length (concat (map alerting nodes)) \<and>
   (hasAlerts nodes \<longleftrightarrow> alertCount nodes \<noteq> 0) \<and>
   (\<not> hasAlerts nodes \<longleftrightarrow>
      offlineNodes nodes = [] \<and> degradedNodes nodes = [] \<and> concat (map alerting nodes) = [])"
proof -
  have c: "fst (upsAttention nodes) + snd (upsAttention nodes) = length (concat (map alerting nodes))"
    using upsAttention_fold [of nodes 0 0] by (simp add: upsAttention_def)
  have "hasAlerts nodes \<longleftrightarrow> alertCount nodes \<noteq> 0" by (auto simp: hasAlerts_def alertCount_def)
  moreover have "alertCount nodes = length (offlineNodes nodes) + length (degradedNodes nodes) +
     length (concat (map alerting nodes))" using c by (simp add: alertCount_def)
  ultimately show ?thesis by (auto simp del: length_concat concat_eq_Nil_conv)
qed

section \<open>History\<close>

text \<open>The dialogs have the parameters of the URL, and the node dialog is rendered.\<close>

definition fleet_synced :: "fleet \<Rightarrow> bool" where
  "fleet_synced f \<longleftrightarrow>
     nd_nodeId (fl_node f) = openNodeId f \<and> node_rendered (fl_node f) = fl_node f \<and>
     ud_nodeId (fl_ups f) = openUpsNodeId f \<and> ud_upsName (fl_ups f) = openUpsName f"

lemma lift_no_out: "fst (lift_effs wrap no_out es f) = f"
proof (induction es arbitrary: f)
  case (Cons e es)
  then show ?case by (cases e) (simp_all add: case_prod_beta no_out_def Let_def)
qed simp

lemma router_set_router [simp]: "fl_router (fst (set_router r f)) = r"
  by (simp add: set_router_def case_prod_beta Let_def lift_no_out)

lemma fst_set_router:
  "route_of (rt_here r) = route_of (rt_here (fl_router f)) \<Longrightarrow> fst (set_router r f) =
     f\<lparr>fl_router := r,
       fl_node := fst (node_handle (NdProp (openNodeId (f\<lparr>fl_router := r\<rparr>))) (fl_node f)),
       fl_ups := fst (ud_set_ups (openUpsNodeId (f\<lparr>fl_router := r\<rparr>)) (openUpsName (f\<lparr>fl_router := r\<rparr>)) (fl_ups f))\<rparr>"
  by (simp add: set_router_def case_prod_beta Let_def lift_no_out)

lemma open_simps [simp]:
  "openNodeId (f\<lparr>fl_router := r\<rparr>) = search_get ''node'' (lo_search (rt_here r))"
  "openUpsNodeId (f\<lparr>fl_router := r\<rparr>) = search_get ''upsNode'' (lo_search (rt_here r))"
  "openUpsName (f\<lparr>fl_router := r\<rparr>) = search_get ''ups'' (lo_search (rt_here r))"
  "openNodeId (f\<lparr>fl_router := r, fl_node := nd, fl_ups := ud\<rparr>) = search_get ''node'' (lo_search (rt_here r))"
  "openUpsNodeId (f\<lparr>fl_router := r, fl_node := nd, fl_ups := ud\<rparr>) = search_get ''upsNode'' (lo_search (rt_here r))"
  "openUpsName (f\<lparr>fl_router := r, fl_node := nd, fl_ups := ud\<rparr>) = search_get ''ups'' (lo_search (rt_here r))"
  by (simp_all add: openNodeId_def openUpsNodeId_def openUpsName_def)

lemma node_prop_same: "node_handle (NdProp (nd_nodeId d)) d = (node_rendered d, [])"
  by (simp add: node_handle_def nd_set_nodeId_def)

lemma node_prop_id: "nd_nodeId (fst (node_handle (NdProp i) d)) = i"
  by (auto simp: node_handle_def nd_set_nodeId_def nd_load_def node_rendered_def case_prod_beta Let_def
      split: option.split)

lemma ups_prop_id:
  "ud_nodeId (fst (ud_set_ups n u d)) = n" "ud_upsName (fst (ud_set_ups n u d)) = u"
  by (auto simp: ud_set_ups_def ud_load_def Let_def)

text \<open>C34: Opening a UPS from any state of the page, with or without the node dialog, and closing its dialog again
  leaves the page at the entry of the history it was at, and never touches the node dialog beneath it: the
  URL names the UPS in between, and only the UPS dialog changes.\<close>

theorem closing_ups_returns:
  assumes "fleet_synced f"
  shows "let opened = fst (openUPS n u f); closed = fst (closeUPS opened) in
    openUpsNodeId opened = Some n \<and> openUpsName opened = Some u \<and>
    ud_nodeId (fl_ups opened) = Some n \<and> ud_upsName (fl_ups opened) = Some u \<and>
    fl_node opened = fl_node f \<and> fl_node closed = fl_node f \<and>
    rt_here (fl_router closed) = rt_here (fl_router f) \<and> rt_back (fl_router closed) = rt_back (fl_router f) \<and>
    ud_nodeId (fl_ups closed) = openUpsNodeId f \<and> ud_upsName (fl_ups closed) = openUpsName f"
proof -
  let ?ps = "search_set ''ups'' u (search_set ''upsNode'' n (lo_search (rt_here (fl_router f))))"
  let ?r = "set_search ?ps (fl_router f)"
  have o: "fst (openUPS n u f) = fst (set_router ?r f)" by (simp add: openUPS_def Let_def)
  have node: "search_get ''node'' ?ps = openNodeId f"
    by (simp add: search_get_set openNodeId_def)
  have same: "node_handle (NdProp (openNodeId f)) (fl_node f) = (fl_node f, [])"
    using assms node_prop_same [of "fl_node f"] by (simp add: fleet_synced_def)
  have opened: "fl_node (fst (openUPS n u f)) = fl_node f" "fl_router (fst (openUPS n u f)) = ?r"
    by (simp_all add: o fst_set_router node same)
  have c: "fst (closeUPS g) = fst (set_router (go_back (fl_router g)) g)" for g by (simp add: closeUPS_def)
  show ?thesis
    using same
    by (simp add: Let_def c fst_set_router opened ups_prop_id search_get_set o node openNodeId_def
        openUpsNodeId_def openUpsName_def)
qed

text \<open>The node dialog goes back in the history when a node has been forgotten, also when the user has closed
  the dialog in the meantime: then the page leaves the entry it is at for the one before.\<close>

theorem forgetting_goes_back_again:
  assumes "rt_back (fl_router f) = l # ls"
  shows "rt_here (fl_router (fst (fleet_resume_step env (FlNode (NdForgetSent reference)) (Settled (Inr ps)) f))) = l"
  using assms
  by (simp add: run_node_def node_resume_def nd_forgotten_def case_prod_beta Let_def loadNodes_def closeDetail_def
      go_back_def)

section \<open>Loads\<close>

definition nodes_answer :: "bool \<times> (thrown + node_record list option) \<Rightarrow> fleet \<Rightarrow> fleet" where
  "nodes_answer a f = fst (nodes_loaded (fst a) (map_sum id (\<lambda>ns. [PNodes ns]) (snd a)) f)"

definition received :: "(bool \<times> (thrown + node_record list option)) list \<Rightarrow> node_record list list" where
  "received as = concat (map (\<lambda>a. case snd a of Inl e \<Rightarrow> [] | Inr ns \<Rightarrow> [case ns of None \<Rightarrow> [] | Some xs \<Rightarrow> xs]) as)"

text \<open>C33: After any answers to loads, silent or not, in any order, the page holds the inventory of the last
  answer that succeeded, and shows an error exactly if the last answer that was not a failed silent
  refresh failed: background failures neither empty the page nor raise an error, and the next success
  clears an error.  It says that it is loading only until the first answer.\<close>

theorem inventory_is_last_received:
  "let f' = fold nodes_answer as f; told = filter (\<lambda>a. \<not> (fst a \<and> isl (snd a))) as in
   fl_nodes f' = (if received as = [] then fl_nodes f else last (received as)) \<and>
   fl_error f' = (if told = [] then fl_error f
     else case snd (last told) of Inl e \<Rightarrow> Some (error_message e) | Inr _ \<Rightarrow> None) \<and>
   (fl_loading f' \<longleftrightarrow> as = [] \<and> fl_loading f)"
proof (induction as rule: rev_induct)
  case (snoc a as)
  obtain silent r where a: "a = (silent, r)" by (cases a)
  from snoc show ?case
    by (cases r) (simp_all add: a nodes_answer_def nodes_loaded_def received_def Let_def)
qed (simp add: received_def)

end
