(* ===== verification/Ctl_Examples.thy ===== *)
theory Ctl_Examples
  imports Ctl_Consent Ctl_Answers Ctl_FleetProps
begin

text \<open>
  Concrete runs of the controller's web UI: the properties of the dialogs and of the fleet page at inputs
  where their assumptions hold.
\<close>

section \<open>Data\<close>

definition demo_metadata :: ups_metadata where
  "demo_metadata = \<lparr>um_display_name = ''Rack'', um_tags = Some [''lab'']\<rparr>"

definition demo_node :: node_record where
  "demo_node = \<lparr>nr_id = ''n1'', nr_instance = ''strom'', nr_hostname = ''pi'', nr_address = ''10.0.0.2'',
     nr_port = NInt 8080, nr_version = ''1.0'', nr_ups_count = NInt 1, nr_display_name = ''Lab'',
     nr_location_label = [], nr_site_label = [], nr_local_ui_policy_managed = False,
     nr_local_ui_policy_enabled = True, nr_adopted = True, nr_live = True, nr_status = ''adopted-online'',
     nr_comms_state = ''healthy'', nr_poll_failures = NInt 0, nr_last_polled_at = None,
     nr_last_poll_error = None, nr_last_seen = [], nr_ups_summaries = None\<rparr>"

definition demo_health :: health_info where
  "demo_health = \<lparr>hi_version = Some ''1.0'', hi_uptime_seconds = None, hi_serial = None,
     hi_cpu_temperature_celsius = None, hi_disk_free_bytes = None, hi_upses = None\<rparr>"

definition demo_command :: ups_command_info where
  "demo_command = \<lparr>ci_name = ''test'', ci_description = None, ci_destructive = False\<rparr>"

definition demo_detail :: "string \<Rightarrow> string \<Rightarrow> ups_detail_response" where
  "demo_detail n u = \<lparr>dr_node_id = n, dr_name = u, dr_driver = ''usbhid'', dr_metadata = demo_metadata,
     dr_status = Some ''OL'', dr_metrics = None, dr_battery_runtime_trend = None, dr_variables = Some [],
     dr_commands = Some [demo_command], dr_writable = None, dr_live = True, dr_captured_at = None\<rparr>"

definition ok_reply :: "payload \<Rightarrow> api_reply" where
  "ok_reply p = HttpReply True 200 ''OK'' None p"

definition fleet_entry :: "search \<Rightarrow> router" where
  "fleet_entry ps = \<lparr>rt_back = [], rt_here = \<lparr>lo_path = ''/'', lo_search = ps\<rparr>, rt_forward = []\<rparr>"

lemmas mount_simps = fleet_mount_def nd_mount_def nd_load_def ud_mount_def ud_load_def fleet_entry_def
  search_get_def ups_open_def loadNodes_def no_out_def Let_def

section \<open>The UPS dialog\<close>

abbreviation demo_ups :: ups_dialog where
  "demo_ups \<equiv> fst (ud_mount (Some ''n2'') (Some ''u2''))"

lemma stale_detail_takes_commands_witness:
  "let d' = fst (ups_resume demo_env (UdRefetched ''n1'' ''u1'')
     (Settled (Inr [PDetail (demo_detail ''n1'' ''u1'')])) demo_ups)
   in ud_detail d' = Some (demo_detail ''n1'' ''u1'') \<and>
      snd (ups_handle demo_env (UdAct (UdRun ''test'' False)) d') =
        [Call [runUPSCommand ''n2'' ''u2'' ''test''] (UdCommandSent ''n2'' ''u2'' ''test'')]"
proof -
  have "ups_open demo_ups" "\<not> truthy (ud_error demo_ups)"
    and "um_tags (dr_metadata (demo_detail ''n1'' ''u1'')) = Some [''lab'']" "dr_variables (demo_detail ''n1'' ''u1'') = Some []"
    and "demo_command \<in> set (commands_of (demo_detail ''n1'' ''u1''))" "\<not> ci_destructive demo_command"
    by (simp_all add: ud_mount_def ud_load_def ups_open_def Let_def demo_detail_def demo_metadata_def
        demo_command_def commands_of_def)
  from stale_detail_takes_commands [OF this, of demo_env "''n1''" "''u1''"] show ?thesis
    by (simp add: Let_def demo_command_def ud_mount_def ud_load_def ups_open_def)
qed

lemma missing_history_hides_detail_witness:
  "let answer = Inr [PDetail (demo_detail ''n2'' ''u2''), PHistory None, PHistory (Some []), PHistory (Some [])];
       d' = ((\<lambda>d. fst (ud_loaded demo_env ''n2'' ''u2'' True answer d)) ^^ 2)
         (fst (ud_loaded demo_env ''n2'' ''u2'' False answer demo_ups));
       samples = Inr [PDetail (demo_detail ''n2'' ''u2''), PHistory (Some []), PHistory (Some []), PHistory (Some [])]
   in ud_detail d' = Some (demo_detail ''n2'' ''u2'') \<and>
      ups_content demo_env d' =
        Inr (message_box (humanizeError (ErrorObject (pe_type_error demo_env)) ''Unknown error'')) \<and>
      ups_content demo_env (fst (ud_loaded demo_env ''n2'' ''u2'' True samples d')) =
        ups_detail_view demo_env (fst (ud_loaded demo_env ''n2'' ''u2'' True samples d')) (demo_detail ''n2'' ''u2'')"
  by (rule missing_history_hides_detail)
     (simp_all add: ud_mount_def ud_load_def ups_open_def Let_def demo_env_def)

lemma ups_dialog_shows_its_ups_witness:
  "let d = fold (ups_move_step demo_env)
     [UpsResume (UdLoad ''n2'' ''u2'' False)
        (Settled (Inr [PDetail (demo_detail ''n2'' ''u2''), PHistory (Some []), PHistory (Some []), PHistory (Some [])])),
      UpsEvent (UdProp (Some ''n1'') (Some ''u1'')),
      UpsResume (UdLoad ''n2'' ''u2'' True)
        (Settled (Inr [PDetail (demo_detail ''n2'' ''u2''), PHistory (Some []), PHistory (Some []), PHistory (Some [])])),
      UpsResume (UdLoad ''n1'' ''u1'' False)
        (Settled (Inr [PDetail (demo_detail ''n1'' ''u1''), PHistory (Some []), PHistory (Some []), PHistory (Some [])]))]
     demo_ups
   in ud_detail d = Some (demo_detail ''n1'' ''u1'') \<and> ud_nodeId d = Some ''n1'' \<and> ud_upsName d = Some ''u1''"
proof -
  let ?r = "\<lambda>n u b. UpsResume (UdLoad n u b)
        (Settled (Inr [PDetail (demo_detail n u), PHistory (Some []), PHistory (Some []), PHistory (Some [])]))"
  let ?ms = "[?r ''n2'' ''u2'' False, UpsEvent (UdProp (Some ''n1'') (Some ''u1'')), ?r ''n2'' ''u2'' True,
    ?r ''n1'' ''u1'' False]"
  have "ups_url_ok (Some ''n2'') (Some ''u2'')" by (simp add: ups_url_ok_def plain_id_def)
  then have m: "ups_mounted demo_ups" unfolding ups_mounted_def by blast
  have a: "allowed_run ups_allowed (ups_move_step demo_env) ?ms demo_ups"
    by (simp add: plain_id_def demo_detail_def)
  have e: "ud_detail (fold (ups_move_step demo_env) ?ms demo_ups) = Some (demo_detail ''n1'' ''u1'')"
    by (simp add: ud_mount_def ud_load_def ups_open_def Let_def ud_loaded_def ud_set_ups_def ups_key_def
        ud_apply_def toChartSeries_def)
  from ups_dialog_shows_its_ups [OF m a e] e show ?thesis by (simp add: Let_def demo_detail_def)
qed

section \<open>The node dialog\<close>

abbreviation demo_node_dialog :: node_dialog where
  "demo_node_dialog \<equiv> fst (nd_mount (Some ''n1''))"

lemma node_dialog_shows_its_node_witness:
  "let d = fold node_move_step
     [NodeEvent (NdProp (Some ''n2'')), NodeEvent (NdProp (Some ''n1'')),
      NodeResume (NdLoad ''n2'' False) (Settled (Inr [PNode (demo_node\<lparr>nr_id := ''n2''\<rparr>), PHealth demo_health])),
      NodeResume (NdLoad ''n1'' False) (Settled (Inr [PNode demo_node, PHealth demo_health]))]
     demo_node_dialog
   in nd_node d = Some demo_node \<and> nd_nodeId d = Some (nr_id demo_node)"
proof -
  let ?ms = "[NodeEvent (NdProp (Some ''n2'')), NodeEvent (NdProp (Some ''n1'')),
      NodeResume (NdLoad ''n2'' False) (Settled (Inr [PNode (demo_node\<lparr>nr_id := ''n2''\<rparr>), PHealth demo_health])),
      NodeResume (NdLoad ''n1'' False) (Settled (Inr [PNode demo_node, PHealth demo_health]))]"
  have m: "node_mounted demo_node_dialog" by (auto simp: node_mounted_def)
  have a: "allowed_run node_allowed node_move_step ?ms demo_node_dialog" by (simp add: demo_node_def)
  have e: "nd_node (fold node_move_step ?ms demo_node_dialog) = Some demo_node"
    by (simp add: nd_mount_def nd_load_def Let_def nd_set_nodeId_def nd_loaded_def node_handle_def
        node_resume_def node_rendered_def config_shown_def)
  from node_dialog_shows_its_node [OF m a e] e show ?thesis by (simp add: Let_def)
qed

section \<open>The fleet page\<close>

lemma closing_ups_returns_witness:
  "let f = fst (fleet_mount (fleet_entry [(''node'', ''n1'')]));
       opened = fst (openUPS ''n1'' ''u1'' f); closed = fst (closeUPS opened)
   in ud_upsName (fl_ups opened) = Some ''u1'' \<and> rt_here (fl_router closed) = rt_here (fl_router f) \<and>
      ud_upsName (fl_ups closed) = None"
proof -
  let ?f = "fst (fleet_mount (fleet_entry [(''node'', ''n1'')]))"
  have "fleet_synced ?f"
    by (simp add: mount_simps fleet_synced_def openNodeId_def openUpsNodeId_def openUpsName_def
        node_rendered_def config_shown_def)
  moreover have "openUpsName ?f = None" by (simp add: mount_simps openUpsName_def)
  ultimately show ?thesis using closing_ups_returns [of ?f "''n1''" "''u1''"] by (simp add: Let_def)
qed

lemma null_detail_crashes_page_witness:
  "let f = fst (fleet_mount (fleet_entry [(''upsNode'', ''n2''), (''ups'', ''u2'')]));
       untagged = (demo_detail ''n2'' ''u2'')\<lparr>dr_metadata := demo_metadata\<lparr>um_tags := None\<rparr>\<rparr>;
       f' = fst (fleet_resume demo_env (FlUps (UdLoad ''n2'' ''u2'' False))
         (Settled (Inr [PDetail untagged, PHistory (Some []), PHistory (Some []), PHistory (Some [])])) f)
   in \<not> fl_crashed f \<and> fl_crashed f' \<and> fleet_handle demo_env Back f' = (f', [])"
proof -
  let ?f = "fst (fleet_mount (fleet_entry [(''upsNode'', ''n2''), (''ups'', ''u2'')]))"
  have "\<not> fl_crashed ?f" "ud_activeKey (fl_ups ?f) = ups_key (Some ''n2'') (Some ''u2'')"
    by (simp_all add: mount_simps)
  then show ?thesis by (simp add: Let_def null_detail_crashes_page [simplified Let_def])
qed

definition forget_run :: "fleet_event app_event list" where
  "forget_run =
     [Reply 0 [ok_reply (PNode demo_node), ok_reply (PHealth demo_health)],
      PageEvent (Click (NodeAct NdForgetClick))]"

definition before_consent :: "(fleet, fleet_task) app" where
  "before_consent = fold (fleet_handler demo_env) forget_run (start_fleet (fleet_entry [(''node'', ''n1'')]))"

lemma before_consent_state:
  "confirmRequest before_consent = Some (forget_question demo_node) \<and>
   ap_calls (fleet_handler demo_env (AnswerConfirm OnAccept) before_consent) =
     ap_calls before_consent @ [(ap_next before_consent, [forgetNode ''n1''], FlNode (NdForgetSent (formatNodeReference demo_node)))]"
  by code_simp

lemma destructive_requests_need_consent_witness:
  "new_guarded fleet_guarded before_consent (fleet_handler demo_env (AnswerConfirm OnAccept) before_consent)
     (forgetNode ''n1'') \<and>
   (\<exists>k. confirmResolver before_consent = Some k \<and> fleet_asks k (forget_question demo_node) \<and>
      fleet_promised k (forgetNode ''n1''))"
proof -
  have "new_guarded fleet_guarded before_consent
      (fleet_handler demo_env (AnswerConfirm OnAccept) before_consent) (forgetNode ''n1'')"
    unfolding new_guarded_def using before_consent_state by (force simp: guarded_simps)
  with destructive_requests_need_consent [OF before_consent_def, of "AnswerConfirm OnAccept" "forgetNode ''n1''"]
    before_consent_state
  show ?thesis by auto
qed

definition rename_run :: "node_event app_event list" where
  "rename_run =
     [Reply 0 [ok_reply (PNode demo_node), ok_reply (PHealth demo_health)],
      PageEvent (NdAct (NdTab 1)), PageEvent (NdType ''Site label'' '' north ''), PageEvent (NdAct NdSave)]"

lemma rename_sent:
  "updateNode ''n1'' (values_patch \<lparr>dv_display_name = ''Lab'', dv_location_label = [], dv_site_label = ''north''\<rparr>) \<in>
   set (ap_sent (fold (app_handler node_handle node_resume) rename_run (start_app (nd_mount (Some ''n1'')))))"
  by code_simp

lemma sent_labels_bounded_witness:
  "labels_ok (values_patch \<lparr>dv_display_name = ''Lab'', dv_location_label = [], dv_site_label = ''north''\<rparr>)"
  by (rule sent_labels_bounded [OF rename_sent])

end
