(* ===== verification/Ctl_Site.thy ===== *)
theory Ctl_Site
  imports Ctl_Fleet Ctl_Alerts Ctl_Settings Ctl_Menu Ctl_LiveRefresh
begin

text \<open>
  The whole application (\<open>App.tsx\<close>): the header with its menu, the page of the URL, and the three
  instances of \<open>useLiveRefresh\<close> on the fleet page.  A page is mounted when the URL comes to its route and
  unmounted when it leaves it; the tasks of a page carry the number of the mounting they were started by,
  so that a task that outlives its page is told from the tasks of the same page mounted again.
\<close>

section \<open>State\<close>

datatype hook = PageHook | NodeHook | UpsHook

datatype site_page = FleetPg fleet "hook \<Rightarrow> live" | AlertsPg alerts | SettingsPg settings_page | NoPg

datatype page_task = FleetK fleet_task | AlertsK alerts_task | SettingsK settings_task

type_synonym site_task = "nat \<times> page_task"

record site =
  st_header :: header
  st_page :: site_page
  st_mount :: nat
  st_hidden :: bool

type_synonym site_result = "site \<times> (site_task, unit) eff list"

definition st_router :: "site \<Rightarrow> router" where
  "st_router s = hd_router (st_header s)"

definition put_router :: "router \<Rightarrow> site \<Rightarrow> site" where
  "put_router r s = s\<lparr>st_header := (st_header s)\<lparr>hd_router := r\<rparr>\<rparr>"

lemma put_router_fields [simp]:
  "st_page (put_router r s) = st_page s" "st_hidden (put_router r s) = st_hidden s"
  "st_mount (put_router r s) = st_mount s" "st_router (put_router r s) = r"
  "st_router (s\<lparr>st_page := p\<rparr>) = st_router s" "st_router (s\<lparr>st_mount := n\<rparr>) = st_router s"
  "st_router (s\<lparr>st_hidden := b\<rparr>) = st_router s"
  by (simp_all add: put_router_def st_router_def)

definition site_route :: "site \<Rightarrow> route" where
  "site_route s = route_of (rt_here (st_router s))"

text \<open>After an exception while rendering nothing of the application is left.\<close>

definition site_crashed :: "site \<Rightarrow> bool" where
  "site_crashed s = (case st_page s of FleetPg f hooks \<Rightarrow> fl_crashed f | _ \<Rightarrow> False)"

definition own :: "nat \<Rightarrow> ('k \<Rightarrow> page_task) \<Rightarrow> ('k, unit) eff list \<Rightarrow> (site_task, unit) eff list" where
  "own n wrap es = map (map_eff (\<lambda>k. (n, wrap k)) id) es"

lemma own_simps [simp]:
  "own n wrap [] = []" "own n wrap (Call qs k # es) = Call qs (n, wrap k) # own n wrap es"
  "own n wrap (Ask c k # es) = Ask c (n, wrap k) # own n wrap es"
  "own n wrap (ShowToast m sev # es) = ShowToast m sev # own n wrap es"
  by (simp_all add: own_def)

definition after_that :: "(site \<Rightarrow> site_result) \<Rightarrow> site_result \<Rightarrow> site_result" where
  "after_that g r = (let (s, es) = r; (s', fs) = g s in (s', es @ fs))"

section \<open>Live refresh of the fleet page\<close>

definition DEFAULT_INTERVAL_MS :: nat where
  "DEFAULT_INTERVAL_MS = 10000"

fun hook_enabled :: "hook \<Rightarrow> fleet \<Rightarrow> bool" where
  "hook_enabled PageHook f = True"
| "hook_enabled NodeHook f = truthy (nd_nodeId (fl_node f))"
| "hook_enabled UpsHook f = ups_open (fl_ups f)"

definition fresh_hook :: "bool \<Rightarrow> live" where
  "fresh_hook hidden =
     \<lparr>lr_hidden = hidden, lr_deps = None, lr_listening = False, lr_intervalId = None, lr_intervals = [],
      lr_next = 0, lr_refreshed = 0\<rparr>"

text \<open>Each render of the page renders its hooks, and its unmounting ends their effects.\<close>

definition render_hooks :: "fleet \<Rightarrow> (hook \<Rightarrow> live) \<Rightarrow> hook \<Rightarrow> live" where
  "render_hooks f hooks h =
     live_handler (if fl_crashed f then Unmount else Render (hook_enabled h f) DEFAULT_INTERVAL_MS) (hooks h)"

section \<open>Routes\<close>

text \<open>The page of the URL is mounted.\<close>

definition enter :: "site \<Rightarrow> site_result" where
  "enter s =
     (let n = Suc (st_mount s); s = s\<lparr>st_mount := n\<rparr> in
      case site_route s of
        FleetRoute \<Rightarrow>
          (let (f, es) = fleet_mount (st_router s)
           in (s\<lparr>st_page := FleetPg f (render_hooks f (\<lambda>h. fresh_hook (st_hidden s)))\<rparr>, own n FleetK es))
      | AlertsRoute \<Rightarrow> (s\<lparr>st_page := AlertsPg (fst alerts_mount)\<rparr>, own n AlertsK (snd alerts_mount))
      | SettingsRoute \<Rightarrow> (s\<lparr>st_page := SettingsPg (fst settings_mount)\<rparr>, own n SettingsK (snd settings_mount))
      | NoRoute \<Rightarrow> (s\<lparr>st_page := NoPg\<rparr>, []))"

text \<open>What a step of the fleet page did, its changes of the URL included.\<close>

definition absorb :: "fleet_result \<Rightarrow> site \<Rightarrow> site_result" where
  "absorb r s =
     (case st_page s of
        FleetPg f0 hooks \<Rightarrow>
          (let f = fst r; s' = put_router (fl_router f) s; es = own (st_mount s) FleetK (snd r)
           in if fl_crashed f \<or> route_of (rt_here (fl_router f)) = FleetRoute
              then (s'\<lparr>st_page := FleetPg f (render_hooks f hooks)\<rparr>, es)
              else after_that enter (s', es))
      | _ \<Rightarrow> (s, []))"

text \<open>A change of the URL that does not come from the fleet page.\<close>

definition follow :: "page_env \<Rightarrow> router \<Rightarrow> site \<Rightarrow> site_result" where
  "follow env r s =
     (if r = st_router s then (s, [])
      else if site_crashed s then (put_router r s, [])
      else if route_of (rt_here r) = site_route s
      then (case st_page s of
              FleetPg f hooks \<Rightarrow> absorb (fleet_rendered env (set_router r f)) s
            | _ \<Rightarrow> (put_router r s, []))
      else enter (put_router r s))"

section \<open>Events\<close>

text \<open>
  \<open>Timer h\<close> lets the live intervals of a hook fire once; \<open>SystemDark\<close> is a change of the system's colour
  scheme.  The listeners of a change of visibility run in the order of the components.
\<close>

datatype site_event =
    FleetEv fleet_event
  | AlertsEv alerts_event
  | SettingsEv settings_event
  | MenuEv menu_action
  | SiteBack
  | SiteForward
  | SetHidden bool
  | Timer hook
  | SystemDark bool

fun from_user :: "fleet_event \<Rightarrow> bool" where
  "from_user (Click a) = True"
| "from_user (TypeNode label v) = True"
| "from_user (TypeUps label v) = True"
| "from_user _ = False"

fun refresh_event :: "hook \<Rightarrow> fleet_event" where
  "refresh_event PageHook = Tick"
| "refresh_event NodeHook = NodeTick"
| "refresh_event UpsHook = UpsTick"

definition run_fleet :: "page_env \<Rightarrow> fleet_event \<Rightarrow> site \<Rightarrow> site_result" where
  "run_fleet env e s =
     (case st_page s of
        FleetPg f hooks \<Rightarrow> if fl_crashed f then (s, []) else absorb (fleet_handle env e f) s
      | _ \<Rightarrow> (s, []))"

primrec refreshes :: "page_env \<Rightarrow> fleet_event \<Rightarrow> nat \<Rightarrow> site \<Rightarrow> site_result" where
  "refreshes env e 0 s = (s, [])"
| "refreshes env e (Suc n) s = after_that (refreshes env e n) (run_fleet env e s)"

text \<open>An event of one hook, which runs its callback as often as the hook asks for.\<close>

definition run_hook :: "page_env \<Rightarrow> live_event \<Rightarrow> hook \<Rightarrow> site \<Rightarrow> site_result" where
  "run_hook env e h s =
     (case st_page s of
        FleetPg f hooks \<Rightarrow>
          (let l = live_handler e (hooks h)
           in refreshes env (refresh_event h) (lr_refreshed l - lr_refreshed (hooks h))
                (s\<lparr>st_page := FleetPg f (hooks(h := l))\<rparr>))
      | _ \<Rightarrow> (s, []))"

definition set_hidden :: "page_env \<Rightarrow> bool \<Rightarrow> site \<Rightarrow> site_result" where
  "set_hidden env hidden s =
     (let run = run_hook env (Visibility hidden)
      in after_that (run PageHook) (after_that (run UpsHook) (run NodeHook (s\<lparr>st_hidden := hidden\<rparr>))))"

text \<open>
  The menu works on the header; the page then follows the URL and the \<open>reloadSignal\<close>.
\<close>

definition run_menu :: "page_env \<Rightarrow> menu_action \<Rightarrow> site \<Rightarrow> site_result" where
  "run_menu env a s =
     (if a \<notin> set (actions (HeaderMenu (st_header s))) then (s, [])
      else (let h = menu_handler a (st_header s);
                r = follow env (hd_router h) (s\<lparr>st_header := h\<lparr>hd_router := st_router s\<rparr>\<rparr>)
            in if hd_fleet_refresh h = hd_fleet_refresh (st_header s) then r
               else after_that (run_fleet env Reload) r))"

fun site_step :: "page_env \<Rightarrow> site_event \<Rightarrow> site \<Rightarrow> site_result" where
  "site_step env (FleetEv e) s = (if from_user e then run_fleet env e s else (s, []))"
| "site_step env (AlertsEv e) s =
     (case st_page s of
        AlertsPg a \<Rightarrow>
          (s\<lparr>st_page := AlertsPg (fst (alerts_handle env e a))\<rparr>, own (st_mount s) AlertsK (snd (alerts_handle env e a)))
      | _ \<Rightarrow> (s, []))"
| "site_step env (SettingsEv e) s =
     (case st_page s of
        SettingsPg p \<Rightarrow>
          (s\<lparr>st_page := SettingsPg (fst (settings_handle e p))\<rparr>, own (st_mount s) SettingsK (snd (settings_handle e p)))
      | _ \<Rightarrow> (s, []))"
| "site_step env (MenuEv a) s = run_menu env a s"
| "site_step env SiteBack s = follow env (go_back (st_router s)) s"
| "site_step env SiteForward s = follow env (go_forward (st_router s)) s"
| "site_step env (SetHidden hidden) s = set_hidden env hidden s"
| "site_step env (Timer h) s = run_hook env Period h s"
| "site_step env (SystemDark dark) s =
     (s\<lparr>st_header := (st_header s)\<lparr>hd_theme := theme_change_handler (MediaChange dark) (hd_theme (st_header s))\<rparr>\<rparr>, [])"

definition site_handle :: "page_env \<Rightarrow> site_event \<Rightarrow> site \<Rightarrow> site_result" where
  "site_handle env e s = (if site_crashed s then (s, []) else site_step env e s)"

section \<open>Tasks\<close>

text \<open>
  A task of the page that is mounted continues on its state; one of a page that is gone only with its
  effects.  The confirmation dialog is gone with the rest of a crashed application.
\<close>

definition page_resume :: "page_env \<Rightarrow> page_task \<Rightarrow> settled \<Rightarrow> site \<Rightarrow> site_result" where
  "page_resume env k x s =
     (case (k, st_page s) of
        (FleetK k, FleetPg f hooks) \<Rightarrow> absorb (fleet_resume env k x f) s
      | (AlertsK k, AlertsPg a) \<Rightarrow>
          (s\<lparr>st_page := AlertsPg (fst (alerts_resume k x a))\<rparr>, own (st_mount s) AlertsK (snd (alerts_resume k x a)))
      | (SettingsK k, SettingsPg p) \<Rightarrow>
          (s\<lparr>st_page := SettingsPg (fst (settings_resume k x p))\<rparr>,
           own (st_mount s) SettingsK (snd (settings_resume k x p)))
      | _ \<Rightarrow> (s, []))"

fun page_left :: "page_env \<Rightarrow> nat \<Rightarrow> page_task \<Rightarrow> settled \<Rightarrow> site \<Rightarrow> site_result" where
  "page_left env n (FleetK k) x s =
     (let (r, es) = fleet_left env k x (st_router s) in after_that (follow env r) (s, own n FleetK es))"
| "page_left env n (AlertsK k) x s = (s, own n AlertsK (snd (alerts_resume k x (fst alerts_mount))))"
| "page_left env n (SettingsK k) x s = (s, own n SettingsK (snd (settings_resume k x (fst settings_mount))))"

definition site_resume :: "page_env \<Rightarrow> site_task \<Rightarrow> settled \<Rightarrow> site \<Rightarrow> site_result" where
  "site_resume env t x s =
     (if site_crashed s
      then (case x of Confirmed b \<Rightarrow> (s, []) | Settled r \<Rightarrow> page_left env (fst t) (snd t) x s)
      else if fst t = st_mount s then page_resume env (snd t) x s
      else page_left env (fst t) (snd t) x s)"

lemma alerts_effects_captured: "snd (alerts_resume k x s) = snd (alerts_resume k x s')"
  by (cases k; cases x)
     (simp_all add: al_loaded_def al_created_def al_deleted_def al_tested_def al_done_def al_load_def
        delete_confirmed_def split: sum.split list.split payload.split)

lemma settings_effects_captured: "snd (settings_resume k x s) = snd (settings_resume k x s')"
  by (cases k; cases x)
     (simp_all add: se_loaded_def se_toggled_def se_listen_saved_def se_saved_def Let_def
        split: sum.split list.split payload.split)

section \<open>The application\<close>

definition site_handler :: "page_env \<Rightarrow> site_event app_event \<Rightarrow> (site, site_task) app \<Rightarrow> (site, site_task) app" where
  "site_handler env = app_handler (site_handle env) (site_resume env)"

definition first_site :: "bool \<Rightarrow> (string \<Rightarrow> string option) \<Rightarrow> bool \<Rightarrow> router \<Rightarrow> site" where
  "first_site dark storage hidden r =
     \<lparr>st_header = \<lparr>hd_open = False, hd_router = r, hd_fleet_refresh = 0, hd_theme = theme_mount dark storage\<rparr>,
      st_page = NoPg, st_mount = 0, st_hidden = hidden\<rparr>"

definition start_site ::
  "bool \<Rightarrow> (string \<Rightarrow> string option) \<Rightarrow> bool \<Rightarrow> router \<Rightarrow> (site, site_task) app" where
  "start_site dark storage hidden r = start_app (enter (first_site dark storage hidden r))"

section \<open>Rendering\<close>

datatype site_action =
    MenuUi menu_action
  | FleetUi fleet_action
  | AlertsUi alerts_action
  | SettingsUi settings_action
  | ToastUi close_reason
  | ConfirmUi confirm_answer

definition page_view :: "page_env \<Rightarrow> site_page \<Rightarrow> thrown + site_action ui list" where
  "page_view env p =
     (case p of
        FleetPg f hooks \<Rightarrow> map_sum id (\<lambda>u. [map_ui FleetUi u]) (fleet_view env f)
      | AlertsPg a \<Rightarrow> Inr [map_ui AlertsUi (alerts_view env a)]
      | SettingsPg p \<Rightarrow> Inr [map_ui SettingsUi (settings_view p)]
      | NoPg \<Rightarrow> Inr [])"

definition site_view :: "page_env \<Rightarrow> (site, site_task) app \<Rightarrow> thrown + site_action ui" where
  "site_view env a =
     map_sum id
       (\<lambda>page. Group
          ([Text ''Strom'', Text ''Controller'', map_ui MenuUi (HeaderMenu (st_header (ap_page a)))] @ page @
           [map_ui ToastUi (ToastSnackbar (ap_toast a))] @
           (case confirmRequest a of None \<Rightarrow> [] | Some c \<Rightarrow> [map_ui ConfirmUi (ConfirmDialog c)])))
       (page_view env (st_page (ap_page a)))"

text \<open>What the user can do is what the application shows.\<close>

fun event_of :: "site_action \<Rightarrow> site_event app_event" where
  "event_of (MenuUi a) = PageEvent (MenuEv a)"
| "event_of (FleetUi a) = PageEvent (FleetEv (Click a))"
| "event_of (AlertsUi a) = PageEvent (AlertsEv (AlAct a))"
| "event_of (SettingsUi a) = PageEvent (SettingsEv (SeAct a))"
| "event_of (ToastUi r) = CloseToast r"
| "event_of (ConfirmUi c) = AnswerConfirm c"

definition shown_actions :: "page_env \<Rightarrow> (site, site_task) app \<Rightarrow> site_action list" where
  "shown_actions env a = (case site_view env a of Inl e \<Rightarrow> [] | Inr u \<Rightarrow> actions u)"

lemma page_confirms: "page_view env p = Inr us \<Longrightarrow> ConfirmUi c \<notin> set (concat (map actions us))"
proof (cases p)
  case (FleetPg f hooks)
  then show "page_view env p = Inr us \<Longrightarrow> ?thesis"
    by (cases "fleet_view env f") (auto simp: page_view_def actions_map)
qed (auto simp: page_view_def actions_map)

lemma shown_confirm:
  assumes "ConfirmUi c \<in> set (shown_actions env a)"
  shows "confirmRequest a \<noteq> None"
proof (cases "page_view env (st_page (ap_page a))")
  case (Inr us)
  with assms page_confirms [OF Inr, of c] show ?thesis
    by (cases "confirmRequest a") (auto simp: shown_actions_def site_view_def actions_map)
qed (use assms in \<open>simp add: shown_actions_def site_view_def\<close>)

end
