(* ===== verification/Ctl_SiteInv.thy ===== *)
theory Ctl_SiteInv
  imports Ctl_Site Ctl_FleetProps
begin

text \<open>
  The invariant of the whole application: the page is the one of the URL, the dialogs are those of its
  parameters, and the browser's timers are those of the components that are mounted and enabled.
\<close>

section \<open>The fleet page keeps to its URL\<close>

text \<open>In a list of effects only the last one may navigate.\<close>

fun navigates_last :: "('p \<Rightarrow> bool) \<Rightarrow> ('k, 'p) eff list \<Rightarrow> bool" where
  "navigates_last quiet [] = True"
| "navigates_last quiet (Notify p # es) = (if quiet p then navigates_last quiet es else es = [])"
| "navigates_last quiet (_ # es) = navigates_last quiet es"

lemma lift_navigates:
  assumes "navigates_last quiet es" and "\<And>p f. quiet p \<Longrightarrow> fst (out p f) = f"
  shows "fst (lift_effs wrap out es f) = f \<or> (\<exists>p. fst (lift_effs wrap out es f) = fst (out p f))"
  using assms
proof (induction quiet es arbitrary: f rule: navigates_last.induct)
  case (2 quiet p es)
  then show ?case by (cases "quiet p") (auto simp: case_prod_beta Let_def)
qed (auto simp: case_prod_beta Let_def)

definition fleet_at_url :: "fleet \<Rightarrow> bool" where
  "fleet_at_url f \<longleftrightarrow> route_of (rt_here (fl_router f)) = FleetRoute \<and> fleet_synced f"

definition fleet_follows :: "fleet \<Rightarrow> bool" where
  "fleet_follows f \<longleftrightarrow> (route_of (rt_here (fl_router f)) = FleetRoute \<longrightarrow> fleet_synced f)"

lemma node_rendered_idem [simp]: "node_rendered (node_rendered d) = node_rendered d"
  by (simp add: node_rendered_def config_shown_def split: option.split)

lemma node_rendered_id [simp]: "nd_nodeId (node_rendered d) = nd_nodeId d"
  by (simp add: node_rendered_def split: option.split)

lemma node_rendered_handle [simp]:
  "node_rendered (fst (node_handle e d)) = fst (node_handle e d)"
  "node_rendered (fst (node_resume k x d)) = fst (node_resume k x d)"
  by (simp_all add: node_handle_def node_resume_def case_prod_beta Let_def)

lemma nd_load_fst [simp]: "fst (nd_load silent d) = d"
  by (simp add: nd_load_def Let_def)

lemma ud_load_fst [simp]: "fst (ud_load silent d) = d"
  by (simp add: ud_load_def Let_def)

lemma saving_id [simp]: "nd_nodeId (set_saving key b d) = nd_nodeId d"
  by (simp add: set_saving_def split: option.split)

lemmas node_fst_simps = nd_loaded_def policy_confirmed_def policy_updated_def release_confirmed_def
  release_updated_def edit_updated_def nd_forget_confirmed_def nd_forgotten_def
  handleToggleLocalUIPolicy_def handleReleaseLocalUIPolicy_def handleSave_def handleEdit_def
  nd_handleForget_def nd_load_def Let_def

lemmas ups_fst_simps = ud_loaded_def ud_apply_def command_confirmed_def command_failed_def command_ran_def
  command_refetched_def metadata_saved_def openMetadataEditor_def ud_handleCommand_def handleMetadataSave_def
  type_editor_def ud_load_def Let_def

lemma node_do_kept:
  "nd_nodeId (fst (node_do a d)) = nd_nodeId d \<and> navigates_last (\<lambda>p. p = NodeChanged) (snd (node_do a d))"
  by (cases a) (simp_all add: node_fst_simps split: option.split)

lemma node_event_kept:
  assumes "\<nexists>i. e = NdProp i"
  shows "nd_nodeId (fst (node_handle e d)) = nd_nodeId d \<and>
    navigates_last (\<lambda>p. p = NodeChanged) (snd (node_handle e d))"
  using assms node_do_kept
  by (cases e) (simp_all add: node_handle_def case_prod_beta Let_def nd_load_def)

lemma node_resume_kept:
  "nd_nodeId (fst (node_resume k x d)) = nd_nodeId d \<and>
    navigates_last (\<lambda>p. p = NodeChanged) (snd (node_resume k x d))"
  by (cases k; cases x)
     (simp_all add: node_resume_def node_fst_simps split: sum.split list.split payload.split)

lemma ups_do_kept:
  "ud_nodeId (fst (ups_do a d)) = ud_nodeId d \<and> ud_upsName (fst (ups_do a d)) = ud_upsName d \<and>
    navigates_last (\<lambda>p. False) (snd (ups_do a d))"
  by (cases a) (simp_all add: ups_fst_simps split: option.split)

lemma ups_event_kept:
  assumes "\<nexists>i u. e = UdProp i u"
  shows "ud_nodeId (fst (ups_handle env e d)) = ud_nodeId d \<and> ud_upsName (fst (ups_handle env e d)) = ud_upsName d \<and>
    navigates_last (\<lambda>p. False) (snd (ups_handle env e d))"
  using assms ups_do_kept by (cases e) (simp_all add: type_editor_def ud_load_def Let_def)

lemma ups_resume_kept:
  "ud_nodeId (fst (ups_resume env k x d)) = ud_nodeId d \<and> ud_upsName (fst (ups_resume env k x d)) = ud_upsName d \<and>
    navigates_last (\<lambda>p. False) (snd (ups_resume env k x d))"
  by (cases k; cases x) (simp_all add: ups_fst_simps split: sum.split list.split payload.split option.split)

lemma card_kept:
  "navigates_last (\<lambda>p. p = CardChanged) (card_do a)" "navigates_last (\<lambda>p. p = CardChanged) (card_resume k x)"
  by (cases a; simp add: handleAdopt_def card_handleForget_def)
     (cases k; cases x; simp add: adopted_def card_forget_confirmed_def card_forgotten_def split: sum.split)

lemma at_url_follows: "fleet_at_url f \<Longrightarrow> fleet_follows f"
  by (simp add: fleet_at_url_def fleet_follows_def)

lemma set_router_follows:
  assumes "route_of (rt_here (fl_router f)) = FleetRoute"
  shows "fleet_follows (fst (set_router r f))"
  using assms
  by (auto simp: fleet_follows_def fst_set_router fleet_synced_def node_prop_id ups_prop_id)

lemma out_follows:
  assumes "fleet_at_url f"
  shows "fleet_follows (fst (node_out_step p f))" "fleet_follows (fst (ups_out_step p' f))"
    "fleet_follows (fst (card_out_step p'' f))"
  using assms set_router_follows [of f] at_url_follows [OF assms]
  by (cases p, auto simp: loadNodes_def closeDetail_def openUPS_def fleet_at_url_def Let_def)
     ((cases p'; cases p''), auto simp: loadNodes_def closeUPS_def openUPS_def openDetail_def fleet_at_url_def Let_def)+

lemma run_follows:
  assumes "fleet_at_url f"
  shows "nd_nodeId (fst r) = nd_nodeId (fl_node f) \<and> node_rendered (fst r) = fst r \<and>
      navigates_last (\<lambda>p. p = NodeChanged) (snd r) \<Longrightarrow> fleet_follows (fst (run_node r f))"
    and "ud_nodeId (fst u) = ud_nodeId (fl_ups f) \<and> ud_upsName (fst u) = ud_upsName (fl_ups f) \<and>
      navigates_last (\<lambda>p. False) (snd u) \<Longrightarrow> fleet_follows (fst (run_ups u f))"
    and "navigates_last (\<lambda>p. p = CardChanged) es \<Longrightarrow> fleet_follows (fst (run_card es f))"
proof -
  assume r: "nd_nodeId (fst r) = nd_nodeId (fl_node f) \<and> node_rendered (fst r) = fst r \<and>
    navigates_last (\<lambda>p. p = NodeChanged) (snd r)"
  then have "fleet_at_url (f\<lparr>fl_node := fst r\<rparr>)"
    using assms by (simp add: fleet_at_url_def fleet_synced_def openNodeId_def openUpsNodeId_def openUpsName_def)
  with r show "fleet_follows (fst (run_node r f))"
    using lift_navigates [of "\<lambda>p. p = NodeChanged" "snd r" node_out_step FlNode "f\<lparr>fl_node := fst r\<rparr>"]
      out_follows(1) at_url_follows by (fastforce simp: run_node_def loadNodes_def)
next
  assume u: "ud_nodeId (fst u) = ud_nodeId (fl_ups f) \<and> ud_upsName (fst u) = ud_upsName (fl_ups f) \<and>
    navigates_last (\<lambda>p. False) (snd u)"
  then have "fleet_at_url (f\<lparr>fl_ups := fst u\<rparr>)"
    using assms by (simp add: fleet_at_url_def fleet_synced_def openNodeId_def openUpsNodeId_def openUpsName_def)
  with u show "fleet_follows (fst (run_ups u f))"
    using lift_navigates [of "\<lambda>p. False" "snd u" ups_out_step FlUps "f\<lparr>fl_ups := fst u\<rparr>"]
      out_follows(2) at_url_follows by (fastforce simp: run_ups_def)
next
  assume "navigates_last (\<lambda>p. p = CardChanged) es"
  then show "fleet_follows (fst (run_card es f))"
    using lift_navigates [of "\<lambda>p. p = CardChanged" es card_out_step FlCard f] assms
      out_follows(3) at_url_follows by (fastforce simp: run_card_def loadNodes_def)
qed

lemma fleet_step_follows:
  assumes "fleet_at_url f"
  shows "fleet_follows (fst (fleet_step env e f))"
proof (cases e)
  case (Click a)
  then show ?thesis
    using assms run_follows node_event_kept ups_event_kept card_kept at_url_follows [OF assms]
    by (cases a) (simp_all del: ups_handle.simps)
qed (use assms run_follows node_event_kept ups_event_kept at_url_follows [OF assms] in
  \<open>auto simp: loadNodes_def fleet_at_url_def set_router_follows simp del: ups_handle.simps\<close>,
  auto simp: fleet_follows_def fleet_synced_def openNodeId_def openUpsNodeId_def openUpsName_def)

lemma fleet_resume_step_follows:
  assumes "fleet_at_url f"
  shows "fleet_follows (fst (fleet_resume_step env k x f))"
  using assms run_follows node_resume_kept ups_resume_kept card_kept(2) at_url_follows [OF assms]
  by (cases k; cases x)
     (auto simp: nodes_loaded_def fleet_follows_def fleet_synced_def openNodeId_def openUpsNodeId_def
        openUpsName_def split: sum.split list.split payload.split simp del: ups_resume.simps)

lemma fleet_rendered_fields:
  "fleet_follows (fst (fleet_rendered env r)) = fleet_follows (fst r)"
  "snd (fleet_rendered env r) = snd r"
  "fl_router (fst (fleet_rendered env r)) = fl_router (fst r)"
  by (simp_all add: fleet_rendered_def fleet_follows_def fleet_synced_def openNodeId_def openUpsNodeId_def
      openUpsName_def split: sum.split)

lemma fleet_handle_follows: "fleet_at_url f \<Longrightarrow> fleet_follows (fst (fleet_handle env e f))"
  by (simp add: fleet_handle_def fleet_rendered_fields fleet_step_follows at_url_follows)

lemma fleet_resume_follows:
  "fleet_at_url f \<Longrightarrow> \<not> fl_crashed f \<Longrightarrow> fleet_follows (fst (fleet_resume env k x f))"
  by (simp add: fleet_resume_def fleet_rendered_fields fleet_resume_step_follows)

lemma fleet_mount_synced:
  "fleet_synced (fst (fleet_mount r))" "fl_router (fst (fleet_mount r)) = r" "\<not> fl_crashed (fst (fleet_mount r))"
  by (simp_all add: fleet_mount_def case_prod_beta Let_def lift_no_out loadNodes_def fleet_synced_def nd_mount_def
      ud_mount_def openNodeId_def openUpsNodeId_def openUpsName_def node_rendered_def config_shown_def)

section \<open>Timers\<close>

text \<open>The hooks of the page, as they are while the tab is hidden or not.\<close>

definition hook_sound :: "bool \<Rightarrow> live \<Rightarrow> bool" where
  "hook_sound hidden l \<longleftrightarrow> live_inv l \<and> lr_hidden l = hidden"

lemma live_abs_fields:
  "po_watch (live_abs l) = lr_deps l" "po_visible (live_abs l) = (\<not> lr_hidden l)"
  "po_refreshed (live_abs l) = lr_refreshed l"
  by (simp_all add: live_abs_def)

lemma fresh_hook_sound: "hook_sound hidden (fresh_hook hidden)"
  using lr.inv_initial [of "fresh_hook hidden"] by (simp add: hook_sound_def fresh_hook_def fresh_live_def)

lemma hook_event_abs:
  assumes "live_inv l"
  shows "lr_deps (live_handler e l) = po_watch (polling_spec e (live_abs l))"
    and "lr_hidden (live_handler e l) = (\<not> po_visible (polling_spec e (live_abs l)))"
    and "lr_refreshed (live_handler e l) = po_refreshed (polling_spec e (live_abs l))"
  using live_simulates [OF assms, of e] live_abs_fields [of "live_handler e l"] by (metis, metis, metis)

lemma hook_rendered:
  assumes "hook_sound hidden (hooks h)"
  shows "hook_sound hidden (render_hooks f hooks h) \<and>
    lr_deps (render_hooks f hooks h) =
      (if fl_crashed f then None else Some (hook_enabled h f, DEFAULT_INTERVAL_MS))"
  using assms live_inv_event hook_event_abs
  by (simp add: hook_sound_def render_hooks_def live_abs_fields)

text \<open>The live intervals of a hook, by its dependencies.\<close>

lemma hook_intervals:
  "hook_sound hidden l \<Longrightarrow> lr_deps l = Some (enabled, ms) \<Longrightarrow>
     map snd (lr_intervals l) = (if enabled \<and> \<not> hidden then [ms] else [])"
  "hook_sound hidden l \<Longrightarrow> lr_deps l = None \<Longrightarrow> lr_intervals l = []"
  by (auto simp: hook_sound_def live_inv_def live_abs_def po_active_def split: if_splits)

section \<open>The application\<close>

lemma page_run_page:
  fixes r :: "'s \<times> ('k, 'p) eff list"
  shows "ap_page (run_page r a) = fst r"
proof -
  have "ap_page (fold run_eff es b) = ap_page b" for es :: "('k, 'p) eff list" and b :: "('s, 'k) app"
  proof (induction es arbitrary: b)
    case (Cons e es)
    then show ?case by (cases e) (simp_all add: start_call_def requestConfirmation_def showToast_def)
  qed simp
  then show ?thesis by (simp add: run_page_def)
qed

definition hooks_sound :: "(hook \<Rightarrow> bool) \<Rightarrow> fleet \<Rightarrow> (hook \<Rightarrow> live) \<Rightarrow> bool" where
  "hooks_sound hidden f hooks \<longleftrightarrow>
     (\<forall>h. hook_sound (hidden h) (hooks h) \<and>
        lr_deps (hooks h) = (if fl_crashed f then None else Some (hook_enabled h f, DEFAULT_INTERVAL_MS)))"

definition site_sound :: "(hook \<Rightarrow> bool) \<Rightarrow> site \<Rightarrow> bool" where
  "site_sound hidden s \<longleftrightarrow>
     (case st_page s of
        FleetPg f hooks \<Rightarrow>
          hooks_sound hidden f hooks \<and> (\<not> fl_crashed f \<longrightarrow> fl_router f = st_router s \<and> fleet_at_url f)
      | AlertsPg a \<Rightarrow> site_route s = AlertsRoute
      | SettingsPg p \<Rightarrow> site_route s = SettingsRoute
      | NoPg \<Rightarrow> site_route s = NoRoute)"

definition site_inv :: "site \<Rightarrow> bool" where
  "site_inv s \<longleftrightarrow> site_sound (\<lambda>h. st_hidden s) s"

lemma render_hooks_sound:
  "(\<And>h. hook_sound (hidden h) (hooks h)) \<Longrightarrow> hooks_sound hidden f (render_hooks f hooks)"
  unfolding hooks_sound_def using hook_rendered by blast

lemma after_that_fst: "fst (after_that g r) = fst (g (fst r))"
  by (simp add: after_that_def case_prod_beta Let_def)

lemma after_that_snd: "snd (after_that g r) = snd r @ snd (g (fst r))"
  by (simp add: after_that_def case_prod_beta Let_def)

lemma enter_sound: "site_inv (fst (enter s))"
proof (cases "site_route s")
  case FleetRoute
  then show ?thesis
    by (simp add: enter_def site_route_def case_prod_beta Let_def site_inv_def site_sound_def fleet_at_url_def
        fleet_mount_synced render_hooks_sound fresh_hook_sound)
qed (simp_all add: enter_def site_route_def Let_def site_inv_def site_sound_def)

lemma enter_fields:
  "st_hidden (fst (enter s)) = st_hidden s" "st_router (fst (enter s)) = st_router s"
  by (simp_all add: enter_def site_route_def case_prod_beta Let_def split: route.split)

lemma absorb_sound:
  assumes "st_page s = FleetPg f hooks" and "\<And>h. hook_sound (hidden h) (hooks h)"
    and "\<not> fl_crashed (fst r) \<Longrightarrow> fleet_follows (fst r)"
    and "hidden = (\<lambda>h. st_hidden s) \<or> fl_crashed (fst r) \<or> route_of (rt_here (fl_router (fst r))) = FleetRoute"
  shows "site_sound hidden (fst (absorb r s))" and "st_hidden (fst (absorb r s)) = st_hidden s"
proof -
  let ?stay = "fl_crashed (fst r) \<or> route_of (rt_here (fl_router (fst r))) = FleetRoute"
  have "site_sound hidden (fst (absorb r s))" if ?stay
    using assms that render_hooks_sound [of hidden hooks]
    by (auto simp: absorb_def Let_def site_sound_def fleet_at_url_def fleet_follows_def)
  moreover have "site_sound hidden (fst (absorb r s))" if "\<not> ?stay"
    using assms(1,4) that enter_sound [of "put_router (fl_router (fst r)) s"]
    by (simp add: absorb_def Let_def after_that_fst site_inv_def enter_fields)
  ultimately show "site_sound hidden (fst (absorb r s))" by blast
  show "st_hidden (fst (absorb r s)) = st_hidden s"
    using assms(1) by (simp add: absorb_def Let_def after_that_fst enter_fields)
qed

lemma site_inv_fleet:
  assumes "site_inv s" and "st_page s = FleetPg f hooks"
  shows "hook_sound (st_hidden s) (hooks h)" and "\<not> fl_crashed f \<Longrightarrow> fleet_at_url f \<and> fl_router f = st_router s"
  using assms by (simp_all add: site_inv_def site_sound_def hooks_sound_def)

lemma absorb_inv:
  assumes "site_inv s" and "st_page s = FleetPg f hooks" and "\<not> fl_crashed (fst r) \<Longrightarrow> fleet_follows (fst r)"
  shows "site_inv (fst (absorb r s))"
  using absorb_sound [OF assms(2), of "\<lambda>h. st_hidden s" r] site_inv_fleet(1) [OF assms(1,2)] assms(3)
  by (simp add: site_inv_def)

lemma follow_inv: "site_inv s \<Longrightarrow> site_inv (fst (follow env r s))"
proof (cases "st_page s")
  case (FleetPg f hooks)
  assume i: "site_inv s"
  have "site_inv (put_router r s)" if "fl_crashed f"
    using i FleetPg that by (simp add: site_inv_def site_sound_def)
  moreover have "site_inv (fst (absorb (fleet_rendered env (set_router r f)) s))" if "\<not> fl_crashed f"
  proof (rule absorb_inv [OF i FleetPg])
    have "fleet_at_url f" using site_inv_fleet(2) [OF i FleetPg that] by blast
    then show "fleet_follows (fst (fleet_rendered env (set_router r f)))"
      by (simp add: fleet_rendered_fields set_router_follows fleet_at_url_def)
  qed
  ultimately show ?thesis
    using i FleetPg enter_sound by (simp add: follow_def site_crashed_def)
qed (simp_all add: follow_def site_crashed_def enter_sound,
     simp_all add: site_inv_def site_sound_def site_route_def)

lemma run_fleet_inv: "site_inv s \<Longrightarrow> site_inv (fst (run_fleet env e s))"
proof (cases "st_page s")
  case (FleetPg f hooks)
  assume i: "site_inv s"
  have "fleet_follows (fst (fleet_handle env e f))" if "\<not> fl_crashed (fst (fleet_handle env e f))"
  proof -
    have "\<not> fl_crashed f" using that by (auto simp: fleet_handle_def)
    then show ?thesis using site_inv_fleet(2) [OF i FleetPg] fleet_handle_follows by blast
  qed
  then show ?thesis using absorb_inv [OF i FleetPg] i FleetPg by (simp add: run_fleet_def)
qed (simp_all add: run_fleet_def)

text \<open>A refresh only sends requests.\<close>

lemma refresh_keeps:
  assumes "\<not> fl_crashed f" and "fleet_at_url f"
  shows "fst (fleet_step env (refresh_event h) f) = f"
    and "fl_router (fst (fleet_handle env (refresh_event h) f)) = fl_router f"
proof -
  have "node_rendered (fl_node f) = fl_node f" using assms(2) by (simp add: fleet_at_url_def fleet_synced_def)
  then show *: "fst (fleet_step env (refresh_event h) f) = f"
    by (cases h) (auto simp: loadNodes_def run_node_def run_ups_def node_handle_def nd_load_def ud_load_def
        case_prod_beta Let_def)
  show "fl_router (fst (fleet_handle env (refresh_event h) f)) = fl_router f"
    using assms(1) * by (simp add: fleet_handle_def fleet_rendered_fields)
qed

lemma run_refresh:
  assumes "st_page s = FleetPg f hooks" and "site_sound hidden s"
  shows "site_sound hidden (fst (run_fleet env (refresh_event h) s)) \<and>
    st_hidden (fst (run_fleet env (refresh_event h) s)) = st_hidden s \<and>
    (\<exists>f' hooks'. st_page (fst (run_fleet env (refresh_event h) s)) = FleetPg f' hooks')"
proof -
  let ?r = "fleet_handle env (refresh_event h) f"
  have hs: "hook_sound (hidden h) (hooks h)" for h
    using assms by (simp add: site_sound_def hooks_sound_def)
  have stay: "fl_crashed (fst ?r) \<or> fleet_at_url f \<and> fl_router (fst ?r) = fl_router f"
  proof (cases "fl_crashed f")
    case False
    then have "fleet_at_url f" using assms by (simp add: site_sound_def)
    with False refresh_keeps(2) show ?thesis by blast
  qed (simp add: fleet_handle_def)
  then have "route_of (rt_here (fl_router (fst ?r))) = FleetRoute \<or> fl_crashed (fst ?r)"
    and "fleet_follows (fst ?r)" if "\<not> fl_crashed (fst ?r)"
    using that fleet_handle_follows by (auto simp: fleet_at_url_def)
  then have a: "site_sound hidden (fst (absorb ?r s))" "st_hidden (fst (absorb ?r s)) = st_hidden s"
    using absorb_sound [where hidden = hidden and r = ?r, OF assms(1) hs] stay
    by (auto simp: fleet_at_url_def)
  moreover have "\<exists>f' hooks'. st_page (fst (absorb ?r s)) = FleetPg f' hooks'"
    using assms(1) stay by (auto simp: absorb_def Let_def fleet_at_url_def)
  ultimately show ?thesis using assms by (simp add: run_fleet_def)
qed

lemma refreshes_sound:
  assumes "st_page s = FleetPg f hooks" and "site_sound hidden s"
  shows "site_sound hidden (fst (refreshes env (refresh_event h) n s)) \<and>
    st_hidden (fst (refreshes env (refresh_event h) n s)) = st_hidden s"
  using assms
proof (induction n arbitrary: s f hooks)
  case (Suc n)
  note r = run_refresh [OF Suc.prems, of env h]
  then obtain f' hooks' where "st_page (fst (run_fleet env (refresh_event h) s)) = FleetPg f' hooks'" by blast
  with r Suc.IH show ?case by (simp add: after_that_fst)
qed simp

lemma hook_event_sound:
  assumes "hook_sound hidden l" and "e = Period \<or> e = Visibility b"
  shows "hook_sound (if e = Period then hidden else b) (live_handler e l)" and "lr_deps (live_handler e l) = lr_deps l"
  using assms live_inv_event hook_event_abs by (auto simp: hook_sound_def live_abs_fields)

lemma hook_moved_sound:
  assumes "site_sound hidden s" and "st_page s = FleetPg f hooks" and "e = Period \<or> e = Visibility b"
  shows "site_sound (if e = Period then hidden else hidden(h := b))
    (s\<lparr>st_page := FleetPg f (hooks(h := live_handler e (hooks h)))\<rparr>)"
proof -
  let ?l = "live_handler e (hooks h)"
  have "hook_sound (hidden h) (hooks h)" using assms(1,2) by (simp add: site_sound_def hooks_sound_def)
  then have l: "hook_sound (if e = Period then hidden h else b) ?l" "lr_deps ?l = lr_deps (hooks h)"
    using hook_event_sound [OF _ assms(3)] by blast+
  have "hooks_sound (if e = Period then hidden else hidden(h := b)) f (hooks(h := ?l))"
    using assms(1,2) l
    by (cases "e = Period") (simp_all add: site_sound_def hooks_sound_def del: live_handler.simps)
  then show ?thesis using assms(1,2) by (simp add: site_sound_def)
qed

lemma run_hook_sound:
  assumes "site_sound hidden s" and "e = Period \<or> e = Visibility b"
  shows "site_sound (if e = Period then hidden else hidden(h := b)) (fst (run_hook env e h s)) \<and>
    st_hidden (fst (run_hook env e h s)) = st_hidden s"
proof (cases "st_page s")
  case (FleetPg f hooks)
  let ?s = "s\<lparr>st_page := FleetPg f (hooks(h := live_handler e (hooks h)))\<rparr>"
  have "site_sound (if e = Period then hidden else hidden(h := b)) ?s"
    by (rule hook_moved_sound [OF assms(1) FleetPg assms(2)])
  then show ?thesis
    using FleetPg refreshes_sound [where s = ?s]
    by (simp add: run_hook_def Let_def del: live_handler.simps)
qed (use assms(1) in \<open>simp_all add: run_hook_def site_sound_def site_route_def\<close>)

lemma set_hidden_inv:
  assumes "site_inv s"
  shows "site_inv (fst (set_hidden env b s))"
proof -
  define hid where "hid = (\<lambda>h::hook. st_hidden s)"
  define s0 where "s0 = s\<lparr>st_hidden := b\<rparr>"
  define s1 where "s1 = fst (run_hook env (Visibility b) NodeHook s0)"
  define s2 where "s2 = fst (run_hook env (Visibility b) UpsHook s1)"
  define s3 where "s3 = fst (run_hook env (Visibility b) PageHook s2)"
  have "site_sound hid s0"
    using assms by (cases "st_page s") (simp_all add: site_inv_def site_sound_def site_route_def hid_def s0_def)
  moreover have "st_hidden s0 = b" by (simp add: s0_def)
  ultimately have "site_sound (hid(NodeHook := b)) s1 \<and> st_hidden s1 = b"
    using run_hook_sound [of hid s0 "Visibility b" b NodeHook env] by (simp add: s1_def)
  then have "site_sound (hid(NodeHook := b, UpsHook := b)) s2 \<and> st_hidden s2 = b"
    using run_hook_sound [of "hid(NodeHook := b)" s1 "Visibility b" b UpsHook env] by (simp add: s2_def)
  then have "site_sound (hid(NodeHook := b, UpsHook := b, PageHook := b)) s3 \<and> st_hidden s3 = b"
    using run_hook_sound [of "hid(NodeHook := b, UpsHook := b)" s2 "Visibility b" b PageHook env]
    by (simp add: s3_def)
  moreover have "hid(NodeHook := b, UpsHook := b, PageHook := b) = (\<lambda>h. b)"
  proof
    fix h
    show "(hid(NodeHook := b, UpsHook := b, PageHook := b)) h = b" by (cases h) simp_all
  qed
  ultimately have "site_inv s3" by (simp add: site_inv_def)
  then show ?thesis by (simp add: set_hidden_def after_that_fst Let_def s0_def s1_def s2_def s3_def)
qed

lemma header_inv: "hd_router h = st_router s \<Longrightarrow> site_inv (s\<lparr>st_header := h\<rparr>) = site_inv s"
  by (cases "st_page s") (simp_all add: site_inv_def site_sound_def site_route_def st_router_def)

lemma run_menu_inv: "site_inv s \<Longrightarrow> site_inv (fst (run_menu env a s))"
  using header_inv [of "(menu_handler a (st_header s))\<lparr>hd_router := st_router s\<rparr>" s]
  by (simp add: run_menu_def Let_def after_that_fst follow_inv run_fleet_inv)

lemma page_only_inv:
  assumes "site_inv s"
  shows "site_inv (fst (site_step env (AlertsEv e) s))" "site_inv (fst (site_step env (SettingsEv e') s))"
  using assms by (cases "st_page s"; simp add: site_inv_def site_sound_def site_route_def)+

lemma site_step_inv:
  assumes "site_inv s"
  shows "site_inv (fst (site_step env e s))"
proof (cases e)
  case (Timer h)
  with assms run_hook_sound [of "\<lambda>h. st_hidden s" s Period b h env for b] show ?thesis
    by (simp add: site_inv_def)
next
  case (SystemDark dark)
  with assms show ?thesis by (simp add: header_inv st_router_def)
qed (use assms page_only_inv in \<open>simp_all add: run_fleet_inv run_menu_inv follow_inv set_hidden_inv del: site_step.simps(2,3)\<close>)

lemma page_left_inv: "site_inv s \<Longrightarrow> site_inv (fst (page_left env n k x s))"
  by (cases k) (simp_all add: case_prod_beta Let_def after_that_fst follow_inv)

lemma page_resume_inv: "site_inv s \<Longrightarrow> \<not> site_crashed s \<Longrightarrow> site_inv (fst (page_resume env k x s))"
proof (cases "st_page s")
  case (FleetPg f hooks)
  assume i: "site_inv s" and c: "\<not> site_crashed s"
  then have "fleet_follows (fst (fleet_resume env k x f))" for k
    using site_inv_fleet(2) [OF i FleetPg] FleetPg fleet_resume_follows by (simp add: site_crashed_def)
  then show ?thesis using absorb_inv [OF i FleetPg] FleetPg i by (cases k) (simp_all add: page_resume_def)
qed (cases k; simp add: page_resume_def site_inv_def site_sound_def site_route_def)+

lemma site_handle_inv: "site_inv s \<Longrightarrow> site_inv (fst (site_handle env e s))"
  by (simp add: site_handle_def site_step_inv)

lemma site_resume_inv: "site_inv s \<Longrightarrow> site_inv (fst (site_resume env t x s))"
  by (simp add: site_resume_def page_left_inv page_resume_inv split: settled.split)

end
