(* ===== verification/Ctl_SiteProps.thy ===== *)
theory Ctl_SiteProps
  imports Ctl_SiteInv
begin

text \<open>What holds of the whole application after any events and answers, in any order.\<close>

section \<open>The page of the URL\<close>

interpretation site: sending_page "site_handle env" "site_resume env" site_inv "\<lambda>q. True"
  by unfold_locales (simp_all add: site_handle_inv site_resume_inv)

lemma site_inv_reached: "site_inv (ap_page (fold (site_handler env) es (start_site dark storage hidden r)))"
  unfolding site_handler_def start_site_def
  by (rule site.sent_start [THEN conjunct1]) (simp_all add: enter_sound)

text \<open>C5: Wherever the user goes, by the menu, a dialog or the browser's buttons, and in whatever order the
  answers come, the page that is mounted is the one of the URL; on the fleet page the dialogs are those
  of the URL's parameters, and the browser runs one interval of ten seconds for the page and for each
  open dialog while the tab is visible, and no other.  After a crash no interval is left.\<close>

theorem page_matches_url:
  "let s = ap_page (fold (site_handler env) es (start_site dark storage hidden r)) in
   case st_page s of
     FleetPg f hooks \<Rightarrow>
       if fl_crashed f then \<forall>h. lr_intervals (hooks h) = []
       else site_route s = FleetRoute \<and> fl_router f = st_router s \<and>
         nd_nodeId (fl_node f) = search_get ''node'' (lo_search (rt_here (st_router s))) \<and>
         ud_nodeId (fl_ups f) = search_get ''upsNode'' (lo_search (rt_here (st_router s))) \<and>
         ud_upsName (fl_ups f) = search_get ''ups'' (lo_search (rt_here (st_router s))) \<and>
         (\<forall>h. map snd (lr_intervals (hooks h)) =
            (if hook_enabled h f \<and> \<not> st_hidden s then [DEFAULT_INTERVAL_MS] else []))
   | AlertsPg a \<Rightarrow> site_route s = AlertsRoute
   | SettingsPg p \<Rightarrow> site_route s = SettingsRoute
   | NoPg \<Rightarrow> site_route s = NoRoute"
proof -
  let ?s = "ap_page (fold (site_handler env) es (start_site dark storage hidden r))"
  have i: "site_sound (\<lambda>h. st_hidden ?s) ?s" using site_inv_reached by (simp add: site_inv_def)
  show ?thesis
  proof (cases "st_page ?s")
    case (FleetPg f hooks)
    with i have h: "hook_sound (st_hidden ?s) (hooks h)"
      "lr_deps (hooks h) = (if fl_crashed f then None else Some (hook_enabled h f, DEFAULT_INTERVAL_MS))" for h
      by (simp_all add: site_sound_def hooks_sound_def)
    show ?thesis
    proof (cases "fl_crashed f")
      case True
      with h have "lr_intervals (hooks h) = []" for h using hook_intervals(2) [OF h(1)] by simp
      with True FleetPg show ?thesis by (simp add: Let_def)
    next
      case False
      with h have n: "map snd (lr_intervals (hooks h)) =
          (if hook_enabled h f \<and> \<not> st_hidden ?s then [DEFAULT_INTERVAL_MS] else [])" for h
        using hook_intervals(1) [OF h(1)] by simp
      from i FleetPg False have "fleet_at_url f" "fl_router f = st_router ?s" by (simp_all add: site_sound_def)
      with n FleetPg False show ?thesis
        by (simp add: Let_def fleet_at_url_def fleet_synced_def site_route_def openNodeId_def openUpsNodeId_def
            openUpsName_def)
    qed
  qed (use i in \<open>simp_all add: site_sound_def Let_def\<close>)
qed

section \<open>Live refresh\<close>

definition sent_by :: "('k, 'p) eff list \<Rightarrow> api_request list" where
  "sent_by es = concat (map (\<lambda>e. case e of Call qs k \<Rightarrow> qs | _ \<Rightarrow> []) es)"

lemma sent_by_simps [simp]:
  "sent_by [] = []" "sent_by (Call qs k # es) = qs @ sent_by es" "sent_by (Ask c k # es) = sent_by es"
  "sent_by (ShowToast m sev # es) = sent_by es" "sent_by (Notify p # es) = sent_by es"
  "sent_by (es @ es') = sent_by es @ sent_by es'"
  by (simp_all add: sent_by_def)

lemma sent_by_own [simp]: "sent_by (own n wrap es) = sent_by es"
proof (induction es)
  case (Cons e es)
  then show ?case by (cases e) (simp_all add: own_def)
qed (simp add: own_def)

lemma sent_run_page:
  fixes r :: "'s \<times> ('k, 'p) eff list"
  shows "ap_sent (run_page r a) = ap_sent a @ sent_by (snd r)"
proof -
  have "ap_sent (fold run_eff es b) = ap_sent b @ sent_by es" for es :: "('k, 'p) eff list" and b :: "('s, 'k) app"
  proof (induction es arbitrary: b)
    case (Cons e es)
    then show ?case
      by (cases e) (simp_all add: start_call_def requestConfirmation_def showToast_def)
  qed simp
  then show ?thesis by (simp add: run_page_def)
qed

text \<open>What the refresh of the page or of a dialog asks for.\<close>

fun refresh_requests :: "hook \<Rightarrow> fleet \<Rightarrow> api_request list" where
  "refresh_requests PageHook f = [fetchNodes]"
| "refresh_requests NodeHook f = (let n = the (openNodeId f) in [fetchNode n, fetchNodeHealth n])"
| "refresh_requests UpsHook f =
     (let n = the (openUpsNodeId f); u = the (openUpsName f)
      in [fetchUPSDetail n u, fetchUPSHistory n u ''battery.charge'', fetchUPSHistory n u ''ups.load'',
          fetchUPSHistory n u ''battery.runtime''])"

lemma refresh_sends:
  assumes "fleet_at_url f" and "hook_enabled h f" and "\<not> fl_crashed f"
  shows "sent_by (snd (fleet_handle env (refresh_event h) f)) = refresh_requests h f"
  using assms
  by (cases h)
     (simp_all add: fleet_handle_def fleet_rendered_fields loadNodes_def run_node_def run_ups_def node_handle_def
        nd_load_def ud_load_def fleet_at_url_def fleet_synced_def case_prod_beta Let_def)

lemma timer_sends:
  assumes "site_inv s" and "st_page s = FleetPg f hooks" and "\<not> fl_crashed f"
  shows "sent_by (snd (run_hook env Period h s)) =
    (if hook_enabled h f \<and> \<not> st_hidden s then refresh_requests h f else [])"
proof -
  let ?l = "live_handler Period (hooks h)"
  let ?s = "s\<lparr>st_page := FleetPg f (hooks(h := ?l))\<rparr>"
  have a: "fleet_at_url f" using site_inv_fleet(2) [OF assms] by blast
  have l: "live_inv (hooks h)" "lr_hidden (hooks h) = st_hidden s"
    "lr_deps (hooks h) = Some (hook_enabled h f, DEFAULT_INTERVAL_MS)"
    using assms by (simp_all add: site_inv_def site_sound_def hooks_sound_def hook_sound_def)
  have n: "lr_refreshed ?l = lr_refreshed (hooks h) + (if hook_enabled h f \<and> \<not> st_hidden s then 1 else 0)"
    unfolding hook_event_abs(3) [OF l(1)] using l(2,3) by (simp add: live_abs_def po_active_def)
  have "sent_by (snd (run_fleet env (refresh_event h) ?s)) = sent_by (snd (fleet_handle env (refresh_event h) f))"
    using refresh_keeps(2) [OF assms(3) a, of env h] a assms(3)
    by (simp add: run_fleet_def absorb_def Let_def fleet_at_url_def del: live_handler.simps)
  then show ?thesis
    using refresh_sends [OF a _ assms(3)] assms(2) n
    by (simp add: run_hook_def Let_def after_that_snd del: live_handler.simps)
qed

text \<open>C9: Whatever has happened before, when a period of ten seconds ends the application asks for what is on
  the screen, and for nothing else: for the inventory while the fleet page is shown, and for the node and
  the UPS that the URL names while their dialogs are open.  While the tab is hidden, on another page and
  after a crash a period sends nothing.\<close>

theorem periods_refresh_what_is_shown:
  "let a = fold (site_handler env) es (start_site dark storage hidden r) in
   ap_sent (site_handler env (PageEvent (Timer h)) a) = ap_sent a @
     (case st_page (ap_page a) of
        FleetPg f hooks \<Rightarrow>
          if \<not> fl_crashed f \<and> \<not> st_hidden (ap_page a) \<and> hook_enabled h f then refresh_requests h f else []
      | _ \<Rightarrow> [])"
proof -
  let ?a = "fold (site_handler env) es (start_site dark storage hidden r)"
  have i: "site_inv (ap_page ?a)" by (rule site_inv_reached)
  have s: "ap_sent (site_handler env (PageEvent (Timer h)) ?a) =
      ap_sent ?a @ sent_by (snd (site_handle env (Timer h) (ap_page ?a)))"
    by (simp add: site_handler_def sent_run_page)
  show ?thesis
  proof (cases "st_page (ap_page ?a)")
    case (FleetPg f hooks)
    then show ?thesis
      using s timer_sends [OF i FleetPg, of env h] by (simp add: site_handle_def site_crashed_def Let_def)
  qed (use s in \<open>simp_all add: site_handle_def site_crashed_def run_hook_def Let_def\<close>)
qed

section \<open>Tasks that outlive their page\<close>

lemma quiet_left:
  "(\<And>p r. p \<in> set (tells es) \<Longrightarrow> fst (out p r) = r) \<Longrightarrow> fst (lift_effs wrap out es r) = r"
proof (induction es arbitrary: r)
  case (Cons e es)
  then show ?case by (cases e) (simp_all add: case_prod_beta Let_def)
qed simp

lemma fleet_left_router:
  "fst (fleet_left env k x r) =
     (case (k, x) of
        (FlNode (NdForgetSent reference), Settled (Inr ps)) \<Rightarrow> go_back r
      | _ \<Rightarrow> r)"
proof (cases k)
  case (FlNode nk)
  have e: "node_out_left p r = (r, [Call [fetchNodes] (FlLoad True)])" if "p = NodeChanged" for p r
    using that by simp
  show ?thesis
    unfolding FlNode fleet_left.simps
    by (cases nk; cases x)
       (simp_all add: node_fst_simps split: sum.split list.split payload.split)
next
  case (FlUps uk)
  have "fst (lift_effs FlUps ups_out_left (snd (ups_resume env uk x d)) r) = r" for d
    by (rule quiet_left) (simp only: late_tasks_open_nothing(1) list.set empty_iff)
  with FlUps show ?thesis by simp
next
  case (FlCard ck)
  have "fst (card_out_left p r) = r" if "p \<in> set (tells (card_resume ck x))" for p r
    using that late_tasks_open_nothing(2) [of ck x] by auto
  with FlCard show ?thesis by (simp add: quiet_left)
qed simp

lemma late_answers:
  assumes "\<not> site_crashed s" and "fst t \<noteq> st_mount s"
  shows "fst (site_resume env t x s) =
    (case (snd t, x) of
       (FleetK (FlNode (NdForgetSent reference)), Settled (Inr ps)) \<Rightarrow> fst (follow env (go_back (st_router s)) s)
     | _ \<Rightarrow> s)"
proof (cases "snd t")
  case (FleetK k)
  have stay: "follow env (st_router s) s = (s, [])" by (simp add: follow_def)
  have "fst (site_resume env t x s) = fst (follow env (fst (fleet_left env k x (st_router s))) s)"
    using assms FleetK by (simp add: site_resume_def case_prod_beta Let_def after_that_fst)
  then show ?thesis
    using FleetK stay
    by (simp add: fleet_left_router split: fleet_task.split node_task.split settled.split sum.split)
qed (use assms in \<open>simp_all add: site_resume_def\<close>)

text \<open>C11: An answer to a page that the user has left, also when the same page has been mounted again in the
  meantime, changes nothing of the page that is shown, although what is left of its handlers runs on and may
  call what it was given to open and close dialogs, that is, to navigate.  There is one exception: a node
  that has been forgotten from its dialog makes the application go back one entry of the history from
  wherever the user is by then.\<close>

theorem late_answers_keep_page:
  assumes "\<not> site_crashed s" and "fst t \<noteq> st_mount s"
  shows "fst (site_resume env t x s) =
    (case (snd t, x) of
       (FleetK (FlNode (NdForgetSent reference)), Settled (Inr ps)) \<Rightarrow> fst (follow env (go_back (st_router s)) s)
     | _ \<Rightarrow> s)"
  using assms by (rule late_answers)

text \<open>
  So a user who has forgotten a node and gone on to another page is taken back to the fleet page, at the
  entry with the dialog of the node that is gone.
\<close>

lemma forgetting_takes_user_back:
  assumes "\<not> site_crashed s" and "n \<noteq> st_mount s" and "site_route s \<noteq> FleetRoute"
    and "rt_back (st_router s) = l # ls" and "route_of l = FleetRoute"
  shows "\<exists>f hooks. st_page (fst (site_resume env (n, FleetK (FlNode (NdForgetSent reference))) (Settled (Inr ps)) s)) =
      FleetPg f hooks \<and> rt_here (fl_router f) = l \<and> nd_nodeId (fl_node f) = search_get ''node'' (lo_search l)"
proof -
  have l: "rt_here (go_back (st_router s)) = l" using assms(4) by (simp add: go_back_def)
  then have "go_back (st_router s) \<noteq> st_router s" using assms(3,5) by (auto simp: site_route_def)
  moreover have "nd_nodeId (fl_node (fst (fleet_mount r))) = search_get ''node'' (lo_search (rt_here r))" for r
    using fleet_mount_synced(1,2) [of r] by (simp add: fleet_synced_def openNodeId_def)
  ultimately show ?thesis
    using assms l late_answers [of s "(n, FleetK (FlNode (NdForgetSent reference)))" env "Settled (Inr ps)"]
    by (auto simp: follow_def enter_def site_route_def case_prod_beta Let_def fleet_mount_synced)
qed

section \<open>Leaving a page\<close>

definition page_loads :: "site_page \<Rightarrow> api_request list" where
  "page_loads p =
     (case p of
        FleetPg f hooks \<Rightarrow>
          (if hook_enabled NodeHook f then refresh_requests NodeHook f else []) @
          (if hook_enabled UpsHook f then refresh_requests UpsHook f else []) @ refresh_requests PageHook f
      | AlertsPg a \<Rightarrow> [fetchAlertRules, fetchAlertEvents]
      | SettingsPg p \<Rightarrow> [fetchControllerSettings]
      | NoPg \<Rightarrow> [])"

lemma sent_by_lift: "(\<And>p f. snd (out p f) = []) \<Longrightarrow> sent_by (snd (lift_effs wrap out es f)) = sent_by es"
proof (induction es arbitrary: f)
  case (Cons e es)
  then show ?case by (cases e) (simp_all add: case_prod_beta Let_def)
qed simp

text \<open>A page that is mounted asks for everything it shows.\<close>

lemma enter_loads: "sent_by (snd (enter s)) = page_loads (st_page (fst (enter s)))"
proof (cases "site_route s")
  case FleetRoute
  have "sent_by (snd (fleet_mount r)) = page_loads (FleetPg (fst (fleet_mount r)) hooks)" for r hooks
    by (simp add: fleet_mount_def case_prod_beta Let_def lift_no_out loadNodes_def sent_by_lift no_out_def
        page_loads_def nd_mount_def nd_load_def ud_mount_def ud_load_def ups_open_def openNodeId_def openUpsNodeId_def
        openUpsName_def)
  then show ?thesis using FleetRoute by (simp add: enter_def site_route_def case_prod_beta Let_def)
qed (simp_all add: enter_def site_route_def Let_def page_loads_def alerts_mount_def al_load_def
       settings_mount_def se_load_def)

lemma enter_header: "st_header (fst (enter s)) = st_header s"
  by (simp add: enter_def site_route_def case_prod_beta Let_def split: route.split)

lemma fleet_mount_empty:
  "nd_node (fl_node (fst (fleet_mount r))) = None" "ud_detail (fl_ups (fst (fleet_mount r))) = None"
  "fl_nodes (fst (fleet_mount r)) = []"
  by (simp_all add: fleet_mount_def case_prod_beta Let_def lift_no_out loadNodes_def nd_mount_def ud_mount_def)

lemma enter_pages:
  "site_route s = AlertsRoute \<Longrightarrow> st_page (fst (enter s)) = AlertsPg (fst alerts_mount)"
  "site_route s = SettingsRoute \<Longrightarrow> st_page (fst (enter s)) = SettingsPg (fst settings_mount)"
  "site_route s = FleetRoute \<Longrightarrow> \<exists>hooks. st_page (fst (enter s)) = FleetPg (fst (fleet_mount (st_router s))) hooks"
  by (simp_all add: enter_def site_route_def case_prod_beta Let_def)

lemma menu_routes:
  "route_of \<lparr>lo_path = ''/alerts'', lo_search = ps\<rparr> = AlertsRoute"
  "route_of \<lparr>lo_path = ''/settings'', lo_search = ps\<rparr> = SettingsRoute"
  "route_of \<lparr>lo_path = ''/'', lo_search = ps\<rparr> = FleetRoute"
  by (simp_all add: route_of_def toLowerCase_def to_lower_char_def)

definition menu_pages :: "string list" where
  "menu_pages = [''/alerts'', ''/settings'']"

lemma follow_enters:
  "\<not> site_crashed s \<Longrightarrow> route_of (rt_here r) \<noteq> site_route s \<Longrightarrow> follow env r s = enter (put_router r s)"
  by (auto simp: follow_def site_route_def)

lemma remounted_dialogs:
  assumes "fleet_at_url f" and "rt_here r = rt_here (fl_router f)"
  shows "nd_nodeId (fl_node (fst (fleet_mount r))) = nd_nodeId (fl_node f)"
    "ud_nodeId (fl_ups (fst (fleet_mount r))) = ud_nodeId (fl_ups f)"
    "ud_upsName (fl_ups (fst (fleet_mount r))) = ud_upsName (fl_ups f)"
  using assms fleet_mount_synced(1,2) [of r]
  by (simp_all add: fleet_at_url_def fleet_synced_def openNodeId_def openUpsNodeId_def openUpsName_def)

lemma run_menu_link:
  assumes "p \<in> set menu_pages" and "hd_open (st_header s)" and "site_route s = FleetRoute" and "\<not> site_crashed s"
  shows "\<exists>s'. run_menu env (LinkItem p) s = enter s' \<and> st_router s' = navigate_to p (st_router s) \<and>
    \<not> hd_open (st_header s')"
proof -
  let ?h = "menu_handler (LinkItem p) (st_header s)"
  have r: "route_of \<lparr>lo_path = p, lo_search = []\<rparr> \<noteq> FleetRoute"
    using assms(1) menu_routes by (auto simp: menu_pages_def)
  then have here: "rt_here (st_router s) \<noteq> \<lparr>lo_path = p, lo_search = []\<rparr>" using assms(3) by (auto simp: site_route_def)
  then have h: "?h = (st_header s)\<lparr>hd_open := False, hd_router := navigate_to p (st_router s)\<rparr>"
    by (simp add: router_link_def handleClose_def st_router_def)
  have "LinkItem p \<in> set (actions (HeaderMenu (st_header s)))"
    using assms(1,2) by (auto simp: HeaderMenu_def menu_pages_def)
  moreover have "navigate_to p (st_router s) \<noteq> st_router s"
    using here by (metis back_after_push(4))
  ultimately show ?thesis
    using r assms(3,4)
    by (intro exI [of _ "put_router (navigate_to p (st_router s)) (s\<lparr>st_header := ?h\<lparr>hd_router := st_router s\<rparr>\<rparr>)"])
       (simp add: run_menu_def h follow_def site_crashed_def site_route_def st_router_def put_router_def
          del: menu_handler.simps)
qed

text \<open>C12: Leaving the fleet page by the menu, at any time, shows the other page as it is when nothing is
  loaded, closes the menu and sends exactly the loads of that page; the browser's Back button then mounts
  the fleet page again with the dialogs that were open before, empty, and asks again for the inventory
  and for what these dialogs show.\<close>

theorem leaving_and_coming_back:
  assumes "a = fold (site_handler env) es (start_site dark storage hidden r)"
    and "st_page (ap_page a) = FleetPg f hooks" and "\<not> fl_crashed f"
    and "hd_open (st_header (ap_page a))" and "p \<in> set menu_pages"
    and "b = site_handler env (PageEvent (MenuEv (LinkItem p))) a" and "c = site_handler env (PageEvent SiteBack) b"
  shows "st_page (ap_page b) =
      (if p = ''/alerts'' then AlertsPg (fst alerts_mount) else SettingsPg (fst settings_mount)) \<and>
    \<not> hd_open (st_header (ap_page b)) \<and> ap_sent b = ap_sent a @ page_loads (st_page (ap_page b)) \<and>
    (\<exists>f' hooks'. st_page (ap_page c) = FleetPg f' hooks' \<and>
       nd_nodeId (fl_node f') = nd_nodeId (fl_node f) \<and> nd_node (fl_node f') = None \<and>
       ud_nodeId (fl_ups f') = ud_nodeId (fl_ups f) \<and> ud_upsName (fl_ups f') = ud_upsName (fl_ups f) \<and>
       ud_detail (fl_ups f') = None \<and> fl_nodes f' = [] \<and> ap_sent c = ap_sent b @ page_loads (FleetPg f' hooks'))"
proof -
  have step: "ap_page (site_handler env (PageEvent e) x) = fst (site_handle env e (ap_page x))"
    "ap_sent (site_handler env (PageEvent e) x) = ap_sent x @ sent_by (snd (site_handle env e (ap_page x)))" for e x
    by (simp_all add: site_handler_def sent_run_page page_run_page)
  let ?s = "ap_page a"
  have i: "fleet_at_url f" "fl_router f = st_router ?s"
    using site_inv_fleet(2) [OF _ assms(2,3)] site_inv_reached [of env es dark storage hidden r] assms(1) by simp_all
  then have fl: "site_route ?s = FleetRoute" by (simp add: site_route_def fleet_at_url_def)
  have nc: "\<not> site_crashed ?s" using assms(2,3) by (simp add: site_crashed_def)
  obtain s' where s': "run_menu env (LinkItem p) ?s = enter s'" "st_router s' = navigate_to p (st_router ?s)"
    "\<not> hd_open (st_header s')" using run_menu_link [OF assms(5,4) fl nc] by blast
  then have b: "ap_page b = fst (enter s')" "ap_sent b = ap_sent a @ page_loads (st_page (ap_page b))"
    using nc by (simp_all add: assms(6) step site_handle_def enter_loads)
  have "site_route s' = (if p = ''/alerts'' then AlertsRoute else SettingsRoute)"
    using assms(5) s'(2) menu_routes by (auto simp: site_route_def menu_pages_def)
  then have t: "st_page (ap_page b) =
      (if p = ''/alerts'' then AlertsPg (fst alerts_mount) else SettingsPg (fst settings_mount))"
    "st_router (ap_page b) = navigate_to p (st_router ?s)" "\<not> hd_open (st_header (ap_page b))"
    "site_route (ap_page b) \<noteq> FleetRoute"
    using s'(2,3) enter_pages(1,2) [of s']
    by (simp_all add: b(1) site_route_def enter_fields enter_header split: if_splits)
  let ?r = "go_back (st_router (ap_page b))"
  have prev: "rt_here ?r = rt_here (st_router ?s)" using t(2) by (simp add: navigate_to_def)
  have nb: "\<not> site_crashed (ap_page b)" using t(1) by (simp add: site_crashed_def)
  have "follow env ?r (ap_page b) = enter (put_router ?r (ap_page b))"
    using t(4) fl prev by (intro follow_enters nb) (simp add: site_route_def)
  then have c: "ap_page c = fst (enter (put_router ?r (ap_page b)))"
    "ap_sent c = ap_sent b @ page_loads (st_page (ap_page c))"
    using nb by (simp_all add: assms(7) step site_handle_def enter_loads)
  obtain hooks' where "st_page (ap_page c) = FleetPg (fst (fleet_mount ?r)) hooks'"
    using enter_pages(3) [of "put_router ?r (ap_page b)"] c(1) fl prev by (auto simp: site_route_def)
  then show ?thesis
    using b(2) t(1,3) c(2) remounted_dialogs [OF i(1), of ?r] i(2) prev fleet_mount_empty [of ?r] by simp
qed

end
