(* ===== verification/Ctl_SiteDialogs.thy ===== *)
theory Ctl_SiteDialogs
  imports Ctl_SiteInv Ctl_Dialogs
begin

text \<open>
  The dialogs of the fleet page within the whole application: they show the node and the UPS of the URL,
  as long as the server answers with what was asked for, no answer to a change finds a dialog on another
  node or UPS, and the URL names a UPS by both of its parameters, the node id without a slash, or by none.
\<close>

definition url_ok :: "router \<Rightarrow> bool" where
  "url_ok r =
     ups_url_ok (search_get ''upsNode'' (lo_search (rt_here r))) (search_get ''ups'' (lo_search (rt_here r)))"

definition fleet_shown :: "fleet \<Rightarrow> bool" where
  "fleet_shown f \<longleftrightarrow> node_shown (fl_node f) \<and> ups_shown (fl_ups f)"

definition task_allowed :: "fleet_task \<Rightarrow> settled \<Rightarrow> fleet \<Rightarrow> bool" where
  "task_allowed k x f =
     (case k of
        FlNode nk \<Rightarrow> node_allowed (NodeResume nk x) (fl_node f)
      | FlUps uk \<Rightarrow> ups_allowed (UpsResume uk x) (fl_ups f)
      | _ \<Rightarrow> True)"

section \<open>The fleet page\<close>

lemma node_move_shown: "node_shown d \<Longrightarrow> node_allowed m d \<Longrightarrow> node_shown (node_move_step m d)"
  by (rule nd.inv_step)

lemma node_handle_shown: "node_shown d \<Longrightarrow> node_shown (fst (node_handle e d))"
  using node_move_shown [of d "NodeEvent e"] by simp

lemma fleet_shown_fields [simp]:
  "fleet_shown (f\<lparr>fl_nodes := a\<rparr>) = fleet_shown f" "fleet_shown (f\<lparr>fl_loading := b\<rparr>) = fleet_shown f"
  "fleet_shown (f\<lparr>fl_error := c\<rparr>) = fleet_shown f" "fleet_shown (f\<lparr>fl_router := r\<rparr>) = fleet_shown f"
  "fleet_shown (f\<lparr>fl_crashed := d\<rparr>) = fleet_shown f"
  by (simp_all add: fleet_shown_def)

lemma set_router_shown:
  assumes "fleet_shown f" and "url_ok r"
  shows "fleet_shown (fst (set_router r f))"
proof (cases "route_of (rt_here r) = route_of (rt_here (fl_router f))")
  case True
  have "ups_shown (fst (ups_handle env (UdProp i u) (fl_ups f)))" if "ups_url_ok i u" for env i u
    using assms(1) that by (intro ups_event_shown) (simp_all add: fleet_shown_def ups_url_ok_def)
  with True assms show ?thesis by (simp add: fst_set_router fleet_shown_def node_handle_shown url_ok_def)
qed (use assms(1) in \<open>simp add: set_router_def\<close>)

lemma out_shown:
  assumes "fleet_shown f"
  shows "url_ok (fl_router (fst (node_out_step p f))) \<Longrightarrow> fleet_shown (fst (node_out_step p f))"
    and "url_ok (fl_router (fst (ups_out_step p' f))) \<Longrightarrow> fleet_shown (fst (ups_out_step p' f))"
    and "url_ok (fl_router (fst (card_out_step p'' f))) \<Longrightarrow> fleet_shown (fst (card_out_step p'' f))"
  using assms set_router_shown
  by (cases p, simp_all add: loadNodes_def closeDetail_def openUPS_def Let_def)
     ((cases p'; cases p''), simp_all add: loadNodes_def closeUPS_def openUPS_def openDetail_def Let_def)+

lemma run_node_shown:
  assumes "fleet_shown f" and "node_shown (fst r)" and "navigates_last (\<lambda>p. p = NodeChanged) (snd r)"
    and "url_ok (fl_router (fst (run_node r f)))"
  shows "fleet_shown (fst (run_node r f))"
proof -
  have s: "fleet_shown (f\<lparr>fl_node := fst r\<rparr>)" using assms(1,2) by (simp add: fleet_shown_def)
  consider "fst (run_node r f) = f\<lparr>fl_node := fst r\<rparr>"
    | p where "fst (run_node r f) = fst (node_out_step p (f\<lparr>fl_node := fst r\<rparr>))"
    using lift_navigates [OF assms(3), of node_out_step FlNode "f\<lparr>fl_node := fst r\<rparr>"]
    by (auto simp: run_node_def loadNodes_def)
  then show ?thesis using s out_shown(1) [OF s] assms(4) by cases simp_all
qed

lemma run_ups_shown:
  assumes "fleet_shown f" and "ups_shown (fst r)" and "navigates_last (\<lambda>p. False) (snd r)"
    and "url_ok (fl_router (fst (run_ups r f)))"
  shows "fleet_shown (fst (run_ups r f))"
proof -
  have s: "fleet_shown (f\<lparr>fl_ups := fst r\<rparr>)" using assms(1,2) by (simp add: fleet_shown_def)
  consider "fst (run_ups r f) = f\<lparr>fl_ups := fst r\<rparr>"
    | p where "fst (run_ups r f) = fst (ups_out_step p (f\<lparr>fl_ups := fst r\<rparr>))"
    using lift_navigates [OF assms(3), of ups_out_step FlUps "f\<lparr>fl_ups := fst r\<rparr>"]
    by (auto simp: run_ups_def)
  then show ?thesis using s out_shown(2) [OF s] assms(4) by cases simp_all
qed

lemma run_card_shown:
  assumes "fleet_shown f" and "navigates_last (\<lambda>p. p = CardChanged) es"
    and "url_ok (fl_router (fst (run_card es f)))"
  shows "fleet_shown (fst (run_card es f))"
proof -
  consider "fst (run_card es f) = f" | p where "fst (run_card es f) = fst (card_out_step p f)"
    using lift_navigates [OF assms(2), of card_out_step FlCard f] by (auto simp: run_card_def loadNodes_def)
  then show ?thesis using assms(1,3) out_shown(3) [OF assms(1)] by cases simp_all
qed

lemma fleet_step_shown:
  assumes "fleet_shown f" and "url_ok (fl_router (fst (fleet_step env e f)))"
  shows "fleet_shown (fst (fleet_step env e f))"
proof -
  have n: "node_shown (fst (node_handle e' (fl_node f)))" for e'
    using assms(1) by (simp add: fleet_shown_def node_handle_shown)
  have u: "ups_shown (fst (ups_handle env e' (fl_ups f)))" if "\<nexists>i v. e' = UdProp i v" for e'
    using assms(1) that by (cases e') (auto simp: fleet_shown_def intro!: ups_event_shown simp del: ups_handle.simps)
  show ?thesis
  proof (cases e)
    case (Click a)
    then show ?thesis
      using assms node_event_kept [of "NdAct x" for x] ups_event_kept [of "UdAct x" for x] card_kept(1) n u
      by (cases a) (auto intro!: run_node_shown run_ups_shown run_card_shown simp del: ups_handle.simps split: if_splits)
  qed (use assms node_event_kept ups_event_kept n u in
    \<open>auto intro!: run_node_shown run_ups_shown set_router_shown simp: loadNodes_def simp del: ups_handle.simps\<close>)
qed

lemma fleet_resume_step_shown:
  assumes "fleet_shown f" and "task_allowed k x f" and "url_ok (fl_router (fst (fleet_resume_step env k x f)))"
  shows "fleet_shown (fst (fleet_resume_step env k x f))"
proof (cases k)
  case (FlLoad silent)
  with assms(1) show ?thesis
    by (cases x) (auto simp: nodes_loaded_def split: sum.split list.split payload.split)
next
  case (FlNode nk)
  have "node_shown (fst (node_resume nk x (fl_node f)))"
    using assms(1,2) FlNode node_move_shown [of "fl_node f" "NodeResume nk x"]
    by (simp add: fleet_shown_def task_allowed_def)
  with assms FlNode node_resume_kept show ?thesis by (auto intro!: run_node_shown)
next
  case (FlUps uk)
  have "ups_shown (fst (ups_resume env uk x (fl_ups f)))"
    using assms(1,2) FlUps by (intro ups_resume_shown) (simp_all add: fleet_shown_def task_allowed_def)
  with assms FlUps ups_resume_kept show ?thesis by (auto intro!: run_ups_shown simp del: ups_resume.simps)
next
  case (FlCard ck)
  with assms card_kept(2) show ?thesis by (auto intro!: run_card_shown)
qed

lemma rendered_shown: "fleet_shown (fst (fleet_rendered env r)) = fleet_shown (fst r)"
  by (simp add: fleet_rendered_def split: sum.split)

lemma fleet_mount_shown: "url_ok r \<Longrightarrow> fleet_shown (fst (fleet_mount r))"
  by (simp add: fleet_mount_def case_prod_beta Let_def lift_no_out loadNodes_def fleet_shown_def nd_mount_def
      ud_mount_def node_shown_def ups_shown_def url_ok_def)

section \<open>The application\<close>

definition dialogs_inv :: "site \<Rightarrow> bool" where
  "dialogs_inv s \<longleftrightarrow>
     url_ok (st_router s) \<and> (case st_page s of FleetPg f hooks \<Rightarrow> fleet_shown f | _ \<Rightarrow> True)"

lemma enter_dialogs: "url_ok (st_router s) \<Longrightarrow> dialogs_inv (fst (enter s))"
  by (simp add: dialogs_inv_def enter_fields)
     (simp add: enter_def site_route_def case_prod_beta Let_def fleet_mount_shown split: route.split)

lemma absorb_router: "st_page s = FleetPg f hooks \<Longrightarrow> st_router (fst (absorb r s)) = fl_router (fst r)"
  by (simp add: absorb_def Let_def after_that_fst enter_fields)

lemma absorb_dialogs:
  assumes "st_page s = FleetPg f hooks" and "url_ok (st_router (fst (absorb r s)))" and "fleet_shown (fst r)"
  shows "dialogs_inv (fst (absorb r s))"
  using assms absorb_router [OF assms(1), of r] enter_dialogs [of "put_router (fl_router (fst r)) s"]
  by (auto simp: absorb_def Let_def after_that_fst dialogs_inv_def)

lemma follow_router: "st_router (fst (follow env r s)) = r"
  by (simp add: follow_def absorb_router fleet_rendered_fields enter_fields split: site_page.split)

lemma follow_dialogs: "dialogs_inv s \<Longrightarrow> url_ok r \<Longrightarrow> dialogs_inv (fst (follow env r s))"
proof (cases "st_page s")
  case (FleetPg f hooks)
  assume d: "dialogs_inv s" and u: "url_ok r"
  have "dialogs_inv (fst (absorb (fleet_rendered env (set_router r f)) s))"
    using d u FleetPg by (intro absorb_dialogs [OF FleetPg])
      (simp_all add: absorb_router [OF FleetPg] fleet_rendered_fields rendered_shown set_router_shown dialogs_inv_def)
  with d u FleetPg show ?thesis by (simp add: follow_def enter_dialogs) (simp add: dialogs_inv_def)
qed (simp_all add: follow_def enter_dialogs, simp_all add: dialogs_inv_def)

lemma run_fleet_dialogs:
  assumes "dialogs_inv s" and "url_ok (st_router (fst (run_fleet env e s)))"
  shows "dialogs_inv (fst (run_fleet env e s))"
proof (cases "st_page s")
  case (FleetPg f hooks)
  let ?r = "fleet_handle env e f"
  have "fleet_shown f" using assms(1) FleetPg by (simp add: dialogs_inv_def)
  then have "fleet_shown (fst ?r)" if "url_ok (fl_router (fst ?r))"
    using that by (auto simp: fleet_handle_def rendered_shown fleet_rendered_fields intro!: fleet_step_shown)
  then show ?thesis
    using absorb_dialogs [OF FleetPg, of ?r] assms by (auto simp: run_fleet_def FleetPg absorb_router)
qed (use assms(1) in \<open>simp_all add: run_fleet_def\<close>)

text \<open>Refreshes and loads stay at their URL.\<close>

lemma refresh_router: "e = Reload \<or> e = refresh_event h \<Longrightarrow> fl_router (fst (fleet_handle env e f)) = fl_router f"
  by (cases h)
     (auto simp: fleet_handle_def fleet_rendered_fields loadNodes_def run_node_def run_ups_def node_handle_def
        nd_load_def ud_load_def case_prod_beta Let_def)

lemma run_refresh_dialogs:
  assumes "dialogs_inv s" and "e = Reload \<or> e = refresh_event h"
    and "\<And>f hooks. st_page s = FleetPg f hooks \<Longrightarrow> \<not> fl_crashed f \<Longrightarrow> fl_router f = st_router s"
  shows "dialogs_inv (fst (run_fleet env e s))"
proof (cases "st_page s")
  case (FleetPg f hooks)
  show ?thesis
  proof (cases "fl_crashed f")
    case False
    then have "st_router (fst (run_fleet env e s)) = st_router s"
      using FleetPg assms(2,3) refresh_router by (simp add: run_fleet_def absorb_router)
    with assms(1) show ?thesis by (intro run_fleet_dialogs) (simp_all add: dialogs_inv_def)
  next
    case True
    with assms(1) FleetPg show ?thesis by (simp add: run_fleet_def)
  qed
qed (use assms(1) in \<open>simp_all add: run_fleet_def\<close>)

text \<open>While the page is not crashed its router is the one of the URL.\<close>

definition router_agrees :: "site \<Rightarrow> bool" where
  "router_agrees s \<longleftrightarrow>
     (case st_page s of FleetPg f hooks \<Rightarrow> \<not> fl_crashed f \<longrightarrow> fl_router f = st_router s | _ \<Rightarrow> True)"

lemma sound_agrees: "site_sound hidden s \<Longrightarrow> router_agrees s"
  by (simp add: site_sound_def router_agrees_def split: site_page.splits)

lemma refreshes_dialogs:
  assumes "dialogs_inv s" and "st_page s = FleetPg f hooks" and "site_sound hidden s"
  shows "dialogs_inv (fst (refreshes env (refresh_event h) n s))"
  using assms
proof (induction n arbitrary: s f hooks)
  case (Suc n)
  note r = run_refresh [OF Suc.prems(2,3), of env h]
  have "dialogs_inv (fst (run_fleet env (refresh_event h) s))"
    using Suc.prems(1) sound_agrees [OF Suc.prems(3)]
    by (intro run_refresh_dialogs) (auto simp: router_agrees_def)
  with r Suc.IH show ?case by (auto simp: after_that_fst)
qed simp

lemma run_hook_dialogs:
  assumes "dialogs_inv s" and "site_sound hidden s" and "e = Period \<or> e = Visibility b"
  shows "dialogs_inv (fst (run_hook env e h s))"
proof (cases "st_page s")
  case (FleetPg f hooks)
  let ?s = "s\<lparr>st_page := FleetPg f (hooks(h := live_handler e (hooks h)))\<rparr>"
  have "site_sound (if e = Period then hidden else hidden(h := b)) ?s"
    by (rule hook_moved_sound [OF assms(2) FleetPg assms(3)])
  moreover have "dialogs_inv ?s" using assms(1) FleetPg by (simp add: dialogs_inv_def)
  ultimately show ?thesis
    using FleetPg refreshes_dialogs [where s = ?s] by (simp add: run_hook_def Let_def del: live_handler.simps)
qed (use assms(1) in \<open>simp_all add: run_hook_def\<close>)

lemma set_hidden_dialogs:
  assumes "dialogs_inv s" and "site_inv s"
  shows "dialogs_inv (fst (set_hidden env b s))"
proof -
  define s0 where "s0 = s\<lparr>st_hidden := b\<rparr>"
  define s1 where "s1 = fst (run_hook env (Visibility b) NodeHook s0)"
  define s2 where "s2 = fst (run_hook env (Visibility b) UpsHook s1)"
  have step: "dialogs_inv (fst (run_hook env (Visibility b) h t)) \<and> (\<exists>hid. site_sound hid (fst (run_hook env (Visibility b) h t)))"
    if "dialogs_inv t \<and> (\<exists>hid. site_sound hid t)" for h t
    using that run_hook_dialogs run_hook_sound by fastforce
  have "site_sound (\<lambda>h. st_hidden s) s0"
    using assms(2) by (cases "st_page s") (simp_all add: site_inv_def site_sound_def site_route_def s0_def)
  moreover have "dialogs_inv s0" using assms(1) by (simp add: dialogs_inv_def s0_def)
  ultimately have "dialogs_inv s0 \<and> (\<exists>hid. site_sound hid s0)" by blast
  then have "dialogs_inv s2 \<and> (\<exists>hid. site_sound hid s2)" unfolding s1_def s2_def by (intro step)
  then have "dialogs_inv (fst (run_hook env (Visibility b) PageHook s2))" using step by blast
  then show ?thesis by (simp add: set_hidden_def after_that_fst Let_def s0_def s1_def s2_def)
qed

lemma run_menu_dialogs:
  assumes "dialogs_inv s" and "site_inv s" and "url_ok (st_router (fst (run_menu env a s)))"
  shows "dialogs_inv (fst (run_menu env a s))"
proof -
  let ?h = "menu_handler a (st_header s)"
  let ?s = "s\<lparr>st_header := ?h\<lparr>hd_router := st_router s\<rparr>\<rparr>"
  let ?t = "fst (follow env (hd_router ?h) ?s)"
  have d: "dialogs_inv ?s" "site_inv ?s"
    using assms(1,2) header_inv [of "?h\<lparr>hd_router := st_router s\<rparr>" s] by (simp_all add: dialogs_inv_def st_router_def)
  have agrees: "fl_router f = st_router ?t" if "st_page ?t = FleetPg f hooks" "\<not> fl_crashed f" for f hooks
    using site_inv_fleet(2) [OF follow_inv [OF d(2)] that] by blast
  have same: "st_router (fst (run_fleet env Reload ?t)) = st_router ?t"
    using agrees by (auto simp: run_fleet_def absorb_router refresh_router split: site_page.split)
  show ?thesis
  proof (cases "a \<in> set (actions (HeaderMenu (st_header s)))")
    case True
    with assms(3) same have "url_ok (st_router ?t)"
      by (auto simp: run_menu_def Let_def after_that_fst split: if_splits)
    then have "dialogs_inv ?t" using d(1) by (simp add: follow_router follow_dialogs)
    then have "dialogs_inv (fst (run_fleet env Reload ?t))" using agrees by (intro run_refresh_dialogs) auto
    with \<open>dialogs_inv ?t\<close> True show ?thesis by (simp add: run_menu_def Let_def after_that_fst)
  qed (use assms(1) in \<open>simp add: run_menu_def\<close>)
qed

lemma site_handle_dialogs:
  assumes "dialogs_inv s" and "site_inv s" and "url_ok (st_router (fst (site_handle env e s)))"
  shows "dialogs_inv (fst (site_handle env e s))"
proof (cases "site_crashed s")
  case False
  note u = assms(3) [unfolded site_handle_def if_not_P [OF False]]
  have "dialogs_inv (fst (site_step env e s))"
  proof (cases e)
    case (FleetEv e')
    with u assms(1) run_fleet_dialogs show ?thesis by (cases "from_user e'") simp_all
  next
    case (MenuEv a)
    with u run_menu_dialogs [OF assms(1,2)] show ?thesis by simp
  next
    case (Timer h)
    with assms run_hook_dialogs [of s _ Period] show ?thesis by (simp add: site_inv_def)
  next
    case (SetHidden b)
    with set_hidden_dialogs [OF assms(1,2)] show ?thesis by simp
  next
    case (SystemDark dark)
    with assms(1) show ?thesis by (simp add: dialogs_inv_def st_router_def)
  qed (use u assms(1) follow_dialogs in \<open>simp_all add: follow_router\<close>, cases "st_page s",
       simp_all add: dialogs_inv_def, cases "st_page s", simp_all add: dialogs_inv_def)
  with False show ?thesis by (simp add: site_handle_def)
qed (use assms(1) in \<open>simp add: site_handle_def\<close>)

definition answer_matches :: "site_task \<Rightarrow> settled \<Rightarrow> site \<Rightarrow> bool" where
  "answer_matches t x s =
     (case (snd t, st_page s) of
        (FleetK k, FleetPg f hooks) \<Rightarrow> if fst t = st_mount s then task_allowed k x f else True
      | _ \<Rightarrow> True)"

lemma page_left_dialogs:
  assumes "dialogs_inv s" and "url_ok (st_router (fst (page_left env n k x s)))"
  shows "dialogs_inv (fst (page_left env n k x s))"
  using assms by (cases k) (simp_all add: case_prod_beta Let_def after_that_fst follow_router follow_dialogs)

lemma site_resume_dialogs:
  assumes "dialogs_inv s" and "answer_matches t x s" and "url_ok (st_router (fst (site_resume env t x s)))"
  shows "dialogs_inv (fst (site_resume env t x s))"
proof (cases "site_crashed s \<or> fst t \<noteq> st_mount s")
  case True
  with assms page_left_dialogs show ?thesis by (auto simp: site_resume_def split: settled.splits if_splits)
next
  case False
  then have r: "site_resume env t x s = page_resume env (snd t) x s" by (simp add: site_resume_def)
  show ?thesis
  proof (cases "snd t")
    case (FleetK k)
    show ?thesis
    proof (cases "st_page s")
      case (FleetPg f hooks)
      let ?r = "fleet_resume env k x f"
      have a: "fleet_shown f" "task_allowed k x f" "\<not> fl_crashed f"
        using assms(1,2) False FleetK FleetPg by (simp_all add: dialogs_inv_def answer_matches_def site_crashed_def)
      have u: "url_ok (st_router (fst (absorb ?r s)))" using assms(3) r FleetK FleetPg by (simp add: page_resume_def)
      then have "url_ok (fl_router (fst ?r))" by (simp add: absorb_router [OF FleetPg])
      with a have "fleet_shown (fst ?r)"
        by (simp add: fleet_resume_def rendered_shown fleet_rendered_fields fleet_resume_step_shown)
      then show ?thesis using absorb_dialogs [OF FleetPg u] r FleetK FleetPg by (simp add: page_resume_def)
    qed (use assms(1) r FleetK in \<open>simp_all add: page_resume_def\<close>)
  qed (cases "st_page s"; use assms(1) r in \<open>simp add: page_resume_def dialogs_inv_def\<close>)+
qed

text \<open>What the server and the addresses have to keep to.\<close>

definition site_allowed ::
  "page_env \<Rightarrow> site_event app_event \<Rightarrow> (site, site_task) app \<Rightarrow> bool" where
  "site_allowed env e a \<longleftrightarrow>
     url_ok (st_router (ap_page (site_handler env e a))) \<and>
     (case e of
        Reply n rs \<Rightarrow>
          (case call_of n a of Some (qs, t) \<Rightarrow> answer_matches t (Settled (settle rs)) (ap_page a) | None \<Rightarrow> True)
      | _ \<Rightarrow> True)"

definition site_started :: "(site, site_task) app \<Rightarrow> bool" where
  "site_started a \<longleftrightarrow> (\<exists>dark storage hidden r. a = start_site dark storage hidden r \<and> url_ok r)"

interpretation sd: guarded_system site_started "site_handler env" "site_allowed env"
  "\<lambda>a. dialogs_inv (ap_page a) \<and> site_inv (ap_page a)"
proof
  fix a
  assume "site_started a"
  then obtain dark storage hidden r where "a = start_site dark storage hidden r" "url_ok r"
    unfolding site_started_def by blast
  then show "dialogs_inv (ap_page a) \<and> site_inv (ap_page a)"
    by (simp add: start_site_def start_app_def page_run_page enter_sound enter_dialogs first_site_def st_router_def)
next
  fix a e
  assume i: "dialogs_inv (ap_page a) \<and> site_inv (ap_page a)" and al: "site_allowed env e a"
  show "dialogs_inv (ap_page (site_handler env e a)) \<and> site_inv (ap_page (site_handler env e a))"
  proof (cases e)
    case (PageEvent p)
    with i al show ?thesis
      by (simp add: site_handler_def page_run_page site_handle_dialogs site_handle_inv site_allowed_def)
  next
    case (Reply n rs)
    with i al show ?thesis
      by (auto simp: site_handler_def page_run_page site_resume_dialogs site_resume_inv site_allowed_def
          split: option.splits)
  next
    case (AnswerConfirm b)
    have m: "answer_matches t (Confirmed c) s" for t c s
      by (simp add: answer_matches_def task_allowed_def answered_node_def answered_detail_def
          split: page_task.split site_page.split fleet_task.split)
    with AnswerConfirm i al show ?thesis
      by (auto simp: site_handler_def closeConfirmation_def page_run_page site_resume_dialogs site_resume_inv
          site_allowed_def Let_def split: option.splits)
  next
    case (CloseToast reason)
    with i show ?thesis by (simp add: site_handler_def)
  qed
qed

text \<open>C4: The dialogs on the fleet page never show a node or UPS other than those that the URL names: the guards on
  their loads work for every order of clicks, navigations and answers.  This is so as long as the server
  answers with what was asked for, no answer to a change finds a dialog on another node or UPS, and every
  address the application comes to names a UPS by both parameters or by none, with a node id that holds no
  slash and is not \<open>null\<close>.  (The key by which the UPS dialog tells its answers apart, the node id, a slash
  and the name, is ambiguous otherwise: \<open>ambiguous_key\<close>.)\<close>

theorem dialogs_show_url:
  assumes "site_started a" and "allowed_run (site_allowed env) (site_handler env) es a"
    and "st_page (ap_page (fold (site_handler env) es a)) = FleetPg f hooks" and "\<not> fl_crashed f"
  shows "let ps = lo_search (rt_here (st_router (ap_page (fold (site_handler env) es a)))) in
    (case nd_node (fl_node f) of None \<Rightarrow> True | Some n \<Rightarrow> search_get ''node'' ps = Some (nr_id n)) \<and>
    (case ud_detail (fl_ups f) of
       None \<Rightarrow> True
     | Some u \<Rightarrow> search_get ''upsNode'' ps = Some (dr_node_id u) \<and> search_get ''ups'' ps = Some (dr_name u))"
proof -
  let ?s = "ap_page (fold (site_handler env) es a)"
  have i: "dialogs_inv ?s" "site_inv ?s" using sd.inv_reached [OF assms(1,2)] by blast+
  have "fleet_at_url f" "fl_router f = st_router ?s" using site_inv_fleet(2) [OF i(2) assms(3,4)] by blast+
  moreover have "fleet_shown f" using i(1) assms(3) by (simp add: dialogs_inv_def)
  ultimately show ?thesis
    by (auto simp: fleet_shown_def node_shown_def ups_shown_def fleet_at_url_def fleet_synced_def openNodeId_def
        openUpsNodeId_def openUpsName_def Let_def split: option.split)
qed

end
