(* ===== verification/Ctl_SiteEffects.thy ===== *)
theory Ctl_SiteEffects
  imports Ctl_Site Ctl_FleetEffects
begin

text \<open>
  What the whole application sends and asks is what its pages send and ask: a contract of the pages on
  their calls and questions, with an invariant of the alerts page, gives one of the application.
\<close>

locale site_effects =
  fleet_effects "\<lambda>qs k. page_call qs (FleetK k)" "\<lambda>c k. page_ask c (FleetK k)"
    "\<lambda>k x qs k'. page_resumed (FleetK k) x qs (FleetK k')" bound
  for page_call :: "api_request list \<Rightarrow> page_task \<Rightarrow> bool"
    and page_ask :: "confirm_request \<Rightarrow> page_task \<Rightarrow> bool"
    and page_resumed :: "page_task \<Rightarrow> settled \<Rightarrow> api_request list \<Rightarrow> page_task \<Rightarrow> bool"
    and bound :: "ups_action \<Rightarrow> bool" +
  fixes alerts_inv :: "alerts \<Rightarrow> bool"
  assumes page_call_resumed: "page_call qs k \<Longrightarrow> page_resumed k' x qs k"
    and alerts_mounted: "alerts_inv (fst alerts_mount)"
      "effs_keep (\<lambda>qs k. page_call qs (AlertsK k)) (\<lambda>c k. page_ask c (AlertsK k)) (snd alerts_mount)"
    and alerts_event: "alerts_inv a \<Longrightarrow> alerts_inv (fst (alerts_handle env ae a))"
      "alerts_inv a \<Longrightarrow> effs_keep (\<lambda>qs k. page_call qs (AlertsK k)) (\<lambda>c k. page_ask c (AlertsK k))
         (snd (alerts_handle env ae a))"
    and alerts_resumed: "alerts_inv a \<Longrightarrow> alerts_inv (fst (alerts_resume ak x a))"
      "effs_keep (\<lambda>qs k. page_resumed (AlertsK ak) x qs (AlertsK k)) (\<lambda>c k. page_ask c (AlertsK k))
         (snd (alerts_resume ak x a))"
    and settings_mounted:
      "effs_keep (\<lambda>qs k. page_call qs (SettingsK k)) (\<lambda>c k. page_ask c (SettingsK k)) (snd settings_mount)"
    and settings_event:
      "effs_keep (\<lambda>qs k. page_call qs (SettingsK k)) (\<lambda>c k. page_ask c (SettingsK k)) (snd (settings_handle se p))"
    and settings_resumed:
      "effs_keep (\<lambda>qs k. page_resumed (SettingsK sk) x qs (SettingsK k)) (\<lambda>c k. page_ask c (SettingsK k))
         (snd (settings_resume sk x p))"
begin

definition fine :: "site_result \<Rightarrow> bool" where
  "fine r \<longleftrightarrow>
     (case st_page (fst r) of AlertsPg a \<Rightarrow> alerts_inv a | _ \<Rightarrow> True) \<and>
     effs_keep (\<lambda>qs t. page_call qs (snd t)) (\<lambda>c t. page_ask c (snd t)) (snd r)"

definition fine_after :: "page_task \<Rightarrow> settled \<Rightarrow> site_result \<Rightarrow> bool" where
  "fine_after k x r \<longleftrightarrow>
     (case st_page (fst r) of AlertsPg a \<Rightarrow> alerts_inv a | _ \<Rightarrow> True) \<and>
     effs_keep (\<lambda>qs t. page_resumed k x qs (snd t)) (\<lambda>c t. page_ask c (snd t)) (snd r)"

abbreviation page_ok :: "site \<Rightarrow> bool" where
  "page_ok s \<equiv> fine (s, [])"

lemma fine_weaken: "fine r \<Longrightarrow> fine_after k x r"
  by (auto simp: fine_def fine_after_def intro: effs_keep_mono page_call_resumed)

lemma fine_then: "fine r \<Longrightarrow> (\<And>s. page_ok s \<Longrightarrow> fine (g s)) \<Longrightarrow> fine (after_that g r)"
  by (simp add: fine_def after_that_def case_prod_beta Let_def)

lemma fine_after_then: "fine_after k x r \<Longrightarrow> (\<And>s. page_ok s \<Longrightarrow> fine (g s)) \<Longrightarrow> fine_after k x (after_that g r)"
  using fine_weaken [of "g (fst r)" k x]
  by (simp add: fine_def fine_after_def after_that_def case_prod_beta Let_def)

lemma entered: "fine (enter s)"
  using mounted alerts_mounted settings_mounted
  by (simp add: fine_def enter_def case_prod_beta Let_def own_def effs_keep_map split: route.split)

lemma absorbed:
  "page_ok s \<Longrightarrow> effs_keep (\<lambda>qs k. page_call qs (FleetK k)) (\<lambda>c k. page_ask c (FleetK k)) (snd r) \<Longrightarrow> fine (absorb r s)"
  by (cases "st_page s")
     (auto simp: absorb_def Let_def intro!: fine_then entered, auto simp: fine_def own_def effs_keep_map)

lemma absorbed_after:
  "page_ok s \<Longrightarrow> effs_keep (\<lambda>qs k'. page_resumed (FleetK k) x qs (FleetK k')) (\<lambda>c k. page_ask c (FleetK k)) (snd r) \<Longrightarrow>
     fine_after (FleetK k) x (absorb r s)"
  by (cases "st_page s")
     (auto simp: absorb_def Let_def intro!: fine_after_then entered,
      auto simp: fine_def fine_after_def own_def effs_keep_map)

lemma put_router_ok: "page_ok (put_router r s) = page_ok s"
  by (simp add: fine_def put_router_def)

lemma followed: "page_ok s \<Longrightarrow> fine (follow env r s)"
  using routed
  by (auto simp: follow_def entered put_router_ok fleet_rendered_def intro!: absorbed split: site_page.split sum.split)

lemma fleet_ran: "page_ok s \<Longrightarrow> bound_event e \<Longrightarrow> fine (run_fleet env e s)"
  by (auto simp: run_fleet_def handled intro!: absorbed split: site_page.split)

lemma hook_ran: "page_ok s \<Longrightarrow> fine (run_hook env e h s)"
proof -
  have "page_ok t \<Longrightarrow> bound_event ev \<Longrightarrow> fine (refreshes env ev n t)" for ev n t
    by (induction n arbitrary: t) (simp_all add: fine_then fleet_ran)
  moreover have "bound_event (refresh_event h)" by (cases h) (simp_all add: bound_event_def)
  moreover have "page_ok (s\<lparr>st_page := FleetPg f hooks\<rparr>)" for f hooks by (simp add: fine_def)
  ultimately show "page_ok s \<Longrightarrow> fine (run_hook env e h s)"
    by (simp add: run_hook_def Let_def del: live_handler.simps split: site_page.split)
qed

lemma menu_ran: "page_ok s \<Longrightarrow> fine (run_menu env a s)"
proof -
  have "page_ok (s\<lparr>st_header := h\<rparr>) = page_ok s" for h by (simp add: fine_def)
  then show "page_ok s \<Longrightarrow> fine (run_menu env a s)"
    by (simp add: run_menu_def Let_def fine_then followed fleet_ran bound_event_def)
qed

definition bound_site_event :: "site_event \<Rightarrow> bool" where
  "bound_site_event e \<longleftrightarrow> (case e of FleetEv e \<Rightarrow> bound_event e | _ \<Rightarrow> True)"

lemma site_stepped: "page_ok s \<Longrightarrow> bound_site_event e \<Longrightarrow> fine (site_step env e s)"
proof (cases e)
  case (AlertsEv e')
  assume "page_ok s"
  with AlertsEv alerts_event show ?thesis
    by (cases "st_page s") (simp_all add: fine_def own_def effs_keep_map del: alerts_handle.simps)
next
  case (SettingsEv e')
  assume "page_ok s"
  with SettingsEv settings_event show ?thesis
    by (cases "st_page s") (simp_all add: fine_def own_def effs_keep_map del: settings_handle.simps)
next
  case (SetHidden b)
  assume "page_ok s"
  then have "page_ok (s\<lparr>st_hidden := b\<rparr>)" by (simp add: fine_def)
  with SetHidden show ?thesis by (simp add: set_hidden_def Let_def fine_then hook_ran)
next
  case (SystemDark b)
  assume "page_ok s"
  with SystemDark show ?thesis by (simp add: fine_def)
qed (simp_all add: fleet_ran menu_ran followed hook_ran bound_site_event_def)

lemma site_handled: "page_ok s \<Longrightarrow> bound_site_event e \<Longrightarrow> fine (site_handle env e s)"
  by (simp add: site_handle_def site_stepped)

lemma page_left_fine: "page_ok s \<Longrightarrow> fine_after k x (page_left env n k x s)"
  using left [of _ x env] alerts_resumed(2) settings_resumed
  by (cases k) (auto simp: case_prod_beta Let_def intro!: fine_after_then followed,
      auto simp: fine_def fine_after_def own_def effs_keep_map)

lemma page_resumed_fine: "page_ok s \<Longrightarrow> fine_after k x (page_resume env k x s)"
proof (cases k)
  case (FleetK fk)
  assume "page_ok s"
  with FleetK show ?thesis
    by (cases "st_page s") (auto simp: page_resume_def fine_weaken intro!: absorbed_after resumes)
next
  case (AlertsK ak)
  assume "page_ok s"
  with AlertsK alerts_resumed show ?thesis
    by (cases "st_page s")
       (simp_all add: page_resume_def fine_weaken, simp add: fine_def fine_after_def own_def effs_keep_map)
next
  case (SettingsK sk)
  assume "page_ok s"
  with SettingsK settings_resumed show ?thesis
    by (cases "st_page s")
       (simp_all add: page_resume_def fine_weaken, simp add: fine_def fine_after_def own_def effs_keep_map)
qed

lemma site_resumed: "page_ok s \<Longrightarrow> fine_after (snd t) x (site_resume env t x s)"
  by (simp add: site_resume_def page_left_fine page_resumed_fine fine_weaken split: settled.split)

end

end
