(* ===== verification/Ctl_SiteRequests.thy ===== *)
theory Ctl_SiteRequests
  imports Ctl_SiteEffects Ctl_Consent Ctl_Answers
begin

text \<open>
  The requests of the whole application: which need the user's consent, and that those that change data
  are well-formed.
\<close>

section \<open>Consent\<close>

fun page_promised :: "page_task \<Rightarrow> api_request \<Rightarrow> bool" where
  "page_promised (FleetK k) q = fleet_promised k q"
| "page_promised (AlertsK (AlDelete i)) q = (q = deleteAlertRule i)"
| "page_promised _ q = False"

definition site_promised :: "site_task \<Rightarrow> api_request \<Rightarrow> bool" where
  "site_promised t q = page_promised (snd t) q"

fun page_asks :: "page_task \<Rightarrow> confirm_request \<Rightarrow> bool" where
  "page_asks (FleetK k) c = fleet_asks k c"
| "page_asks (AlertsK (AlDelete i)) c = (c = delete_question i)"
| "page_asks _ c = False"

definition site_asks :: "site_task \<Rightarrow> confirm_request \<Rightarrow> bool" where
  "site_asks t c = page_asks (snd t) c"

definition site_harmless :: "site_event \<Rightarrow> site \<Rightarrow> api_request \<Rightarrow> bool" where
  "site_harmless e s q \<longleftrightarrow>
     (\<exists>f hooks a. st_page s = FleetPg f hooks \<and> e = FleetEv (Click (UpsAct a)) \<and> runs_harmless a (fl_ups f) q)"

text \<open>The alerts page deletes a rule with consent only, and the settings page has nothing to guard.\<close>

lemma alert_requests:
  "rq_method fetchAlertRules = ''GET''" "rq_method fetchAlertEvents = ''GET''"
  "rq_method (createAlertRule p) = ''POST''" "rq_method (testAlertRule i) = ''POST''"
  "rq_method fetchControllerSettings = ''GET''" "rq_type (updateControllerSettings b l) \<noteq> TNode"
  "rq_method (updateControllerSettings b l) = ''PATCH''"
  by (simp_all add: api_calls api_get_def api_send_def Let_def)

lemma more_unguarded [simp]:
  "\<not> fleet_guarded fetchAlertRules" "\<not> fleet_guarded fetchAlertEvents" "\<not> fleet_guarded (createAlertRule p)"
  "\<not> fleet_guarded (testAlertRule i)" "\<not> fleet_guarded fetchControllerSettings"
  "\<not> fleet_guarded (updateControllerSettings b l)"
  by (rule unguarded_request; simp add: api_calls api_get_def api_send_def Let_def)+

definition page_confirmed_with :: "page_task \<Rightarrow> settled \<Rightarrow> api_request \<Rightarrow> bool" where
  "page_confirmed_with k x q \<longleftrightarrow> x = Confirmed True \<and> page_promised k q"

lemma fleet_confirmed_with: "page_confirmed_with (FleetK k) x = confirmed_with k x"
  by (simp add: fun_eq_iff page_confirmed_with_def confirmed_with_def)

lemmas alerts_ops = al_loaded_def al_created_def al_deleted_def al_tested_def al_done_def al_load_def
  alerts_mount_def delete_confirmed_def handleCreate_def handleTest_def handleDelete_def

lemmas settings_ops = se_loaded_def se_toggled_def se_listen_saved_def se_saved_def se_handleToggle_def
  handleListenSave_def settings_mount_def se_load_def Let_def

interpretation site_consent: site_effects "\<lambda>qs k. guarded_only (\<lambda>_. False) qs" "\<lambda>c k. page_asks k c"
  "\<lambda>k x qs k'. guarded_only (page_confirmed_with k x) qs" asks_first "\<lambda>a. True"
proof
  fix qs :: "api_request list" and k k' and x :: settled
  show "guarded_only (\<lambda>_. False) qs \<Longrightarrow> guarded_only (page_confirmed_with k x) qs" for k
    by (simp add: guarded_only_def)
  show "guarded_only (\<lambda>_. False) qs \<Longrightarrow> guarded_only (page_confirmed_with k x) qs" for k
    by (simp add: guarded_only_def)
  show "guarded_only (\<lambda>_. False) [fetchNodes]" by simp
next
  fix nk uk ck x env e d e' u a
  show "effs_keep (\<lambda>qs k. guarded_only (\<lambda>_. False) qs) (\<lambda>c k. page_asks (FleetK (FlNode k)) c) (snd (node_handle e d))"
    using consent.node_event by simp
  show "effs_keep (\<lambda>qs k. guarded_only (page_confirmed_with (FleetK (FlNode nk)) x) qs)
      (\<lambda>c k. page_asks (FleetK (FlNode k)) c) (snd (node_resume nk x d))"
    unfolding fleet_confirmed_with using consent.node_resumed by simp
  show "\<forall>a. e' = UdAct a \<longrightarrow> asks_first a \<Longrightarrow>
      effs_keep (\<lambda>qs k. guarded_only (\<lambda>_. False) qs) (\<lambda>c k. page_asks (FleetK (FlUps k)) c) (snd (ups_handle env e' u))"
    using consent.ups_event by simp
  show "effs_keep (\<lambda>qs k. guarded_only (page_confirmed_with (FleetK (FlUps uk)) x) qs)
      (\<lambda>c k. page_asks (FleetK (FlUps k)) c) (snd (ups_resume env uk x u))"
    unfolding fleet_confirmed_with using consent.ups_resumed by simp
  show "effs_keep (\<lambda>qs k. guarded_only (\<lambda>_. False) qs) (\<lambda>c k. page_asks (FleetK (FlCard k)) c) (card_do a)"
    using consent.card_event by simp
  show "effs_keep (\<lambda>qs k. guarded_only (page_confirmed_with (FleetK (FlCard ck)) x) qs)
      (\<lambda>c k. page_asks (FleetK (FlCard k)) c) (card_resume ck x)"
    unfolding fleet_confirmed_with using consent.card_resumed by simp
next
  fix env ae a ak x
  have "effs_keep (\<lambda>qs k. guarded_only (\<lambda>_. False) qs) (\<lambda>c k. page_asks (AlertsK k) c) (snd (alerts_do b a))" for b
    by (cases b) (simp_all add: alerts_ops)
  then show "effs_keep (\<lambda>qs k. guarded_only (\<lambda>_. False) qs) (\<lambda>c k. page_asks (AlertsK k) c)
      (snd (alerts_handle env ae a))" by (cases ae) simp_all
  show "effs_keep (\<lambda>qs k. guarded_only (\<lambda>_. False) qs) (\<lambda>c k. page_asks (AlertsK k) c) (snd alerts_mount)"
    by (simp add: alerts_ops)
  show "effs_keep (\<lambda>qs k. guarded_only (page_confirmed_with (AlertsK ak) x) qs) (\<lambda>c k. page_asks (AlertsK k) c)
      (snd (alerts_resume ak x a))"
    by (cases ak; cases x) (simp_all add: alerts_ops page_confirmed_with_def split: outcome_splits)
next
  fix se p sk x
  show "effs_keep (\<lambda>qs k. guarded_only (\<lambda>_. False) qs) (\<lambda>c k. page_asks (SettingsK k) c) (snd settings_mount)"
    by (simp add: settings_ops)
  show "effs_keep (\<lambda>qs k. guarded_only (\<lambda>_. False) qs) (\<lambda>c k. page_asks (SettingsK k) c) (snd (settings_handle se p))"
    by (cases se) (simp_all add: settings_ops split: settings_action.split option.split)
  show "effs_keep (\<lambda>qs k. guarded_only (page_confirmed_with (SettingsK sk) x) qs) (\<lambda>c k. page_asks (SettingsK k) c)
      (snd (settings_resume sk x p))"
    by (cases sk; cases x) (simp_all add: settings_ops split: outcome_splits)
qed simp_all

lemma site_consent_effects:
  "site_consent.bound_site_event e \<Longrightarrow> effs_keep (\<lambda>qs t. guarded_only (\<lambda>_. False) qs) (\<lambda>c t. page_asks (snd t) c)
     (snd (site_handle env e s))"
  "effs_keep (\<lambda>qs t'. guarded_only (page_confirmed_with (snd t) x) qs) (\<lambda>c t. page_asks (snd t) c)
     (snd (site_resume env t x s))"
  "effs_keep (\<lambda>qs t. guarded_only (\<lambda>_. False) qs) (\<lambda>c t. page_asks (snd t) c) (snd (enter s))"
proof -
  have ok: "site_consent.page_ok s" by (simp add: site_consent.fine_def split: site_page.split)
  show "site_consent.bound_site_event e \<Longrightarrow> effs_keep (\<lambda>qs t. guarded_only (\<lambda>_. False) qs) (\<lambda>c t. page_asks (snd t) c)
     (snd (site_handle env e s))" using site_consent.site_handled [OF ok, of e env] by (simp add: site_consent.fine_def)
  show "effs_keep (\<lambda>qs t'. guarded_only (page_confirmed_with (snd t) x) qs) (\<lambda>c t. page_asks (snd t) c)
     (snd (site_resume env t x s))"
    using site_consent.site_resumed [OF ok, of t x env] by (simp add: site_consent.fine_after_def)
  show "effs_keep (\<lambda>qs t. guarded_only (\<lambda>_. False) qs) (\<lambda>c t. page_asks (snd t) c) (snd (enter s))"
    using site_consent.entered [of s] by (simp add: site_consent.fine_def)
qed

text \<open>A step of the fleet page sends and asks what the page does, and what a page entered after it does.\<close>

lemma own_effects:
  "Call qs t \<in> set (own n w es) \<Longrightarrow> \<exists>k. t = (n, w k) \<and> Call qs k \<in> set es"
  "Ask c t \<in> set (own n w es) \<Longrightarrow> \<exists>k. t = (n, w k) \<and> Ask c k \<in> set es"
proof -
  show "Call qs t \<in> set (own n w es) \<Longrightarrow> \<exists>k. t = (n, w k) \<and> Call qs k \<in> set es"
  proof (induction es)
    case (Cons e es)
    then show ?case by (cases e) (auto simp: own_def)
  qed simp
  show "Ask c t \<in> set (own n w es) \<Longrightarrow> \<exists>k. t = (n, w k) \<and> Ask c k \<in> set es"
  proof (induction es)
    case (Cons e es)
    then show ?case by (cases e) (auto simp: own_def)
  qed simp
qed

lemma absorb_effects:
  assumes "st_page s = FleetPg f hooks"
  shows "Call qs t \<in> set (snd (absorb r s)) \<Longrightarrow> q \<in> set qs \<Longrightarrow> fleet_guarded q \<Longrightarrow> \<exists>k. Call qs k \<in> set (snd r)"
    and "Ask c t \<in> set (snd (absorb r s)) \<Longrightarrow> page_asks (snd t) c \<or> (\<exists>k. snd t = FleetK k \<and> Ask c k \<in> set (snd r))"
proof -
  obtain es where a: "snd (absorb r s) = own (st_mount s) FleetK (snd r) @ es"
    "es = [] \<or> (\<exists>s'. es = snd (enter s'))"
    using assms that by (cases "fl_crashed (fst r) \<or> route_of (rt_here (fl_router (fst r))) = FleetRoute")
      (simp_all add: absorb_def after_that_def Let_def case_prod_beta, blast)
  then have e: "effs_keep (\<lambda>qs t. guarded_only (\<lambda>_. False) qs) (\<lambda>c t. page_asks (snd t) c) es"
    using site_consent_effects(3) by auto
  show "\<exists>k. Call qs k \<in> set (snd r)"
    if "Call qs t \<in> set (snd (absorb r s))" "q \<in> set qs" "fleet_guarded q"
    using that a(1) effs_keepD(1) [OF e, of qs t] by (auto simp: guarded_only_def dest: own_effects(1))
  show "page_asks (snd t) c \<or> (\<exists>k. snd t = FleetK k \<and> Ask c k \<in> set (snd r))"
    if "Ask c t \<in> set (snd (absorb r s))"
    using that a(1) effs_keepD(2) [OF e, of c t] by (auto dest: own_effects(2))
qed

lemma not_bound:
  assumes "\<not> site_consent.bound_site_event e"
  shows "\<exists>name. e = FleetEv (Click (UpsAct (UdRun name False)))"
  using assms
  by (auto simp: site_consent.bound_site_event_def site_consent.bound_event_def asks_first_def
      split: site_event.splits fleet_event.splits fleet_action.splits)

lemma site_handle_effects:
  "Call qs t \<in> set (snd (site_handle env e s)) \<Longrightarrow> q \<in> set qs \<Longrightarrow> fleet_guarded q \<Longrightarrow> site_harmless e s q"
  "Ask c t \<in> set (snd (site_handle env e s)) \<Longrightarrow> page_asks (snd t) c"
proof -
  have direct: "\<exists>f hooks. st_page s = FleetPg f hooks \<and>
      site_handle env e s = absorb (fleet_handle env (Click (UpsAct (UdRun name False))) f) s"
    if "e = FleetEv (Click (UpsAct (UdRun name False)))" "snd (site_handle env e s) \<noteq> []" for name
    using that by (simp add: site_handle_def run_fleet_def split: if_splits site_page.splits)
  show "site_harmless e s q" if c: "Call qs t \<in> set (snd (site_handle env e s))" "q \<in> set qs" "fleet_guarded q"
  proof (cases "site_consent.bound_site_event e")
    case True
    then show ?thesis using effs_keepD(1) [OF site_consent_effects(1) [OF True] c(1)] c(2,3)
      by (simp add: guarded_only_def)
  next
    case False
    then obtain name where e: "e = FleetEv (Click (UpsAct (UdRun name False)))" using not_bound by blast
    from c(1) have "snd (site_handle env e s) \<noteq> []" by auto
    with direct [OF e] obtain f hooks where s: "st_page s = FleetPg f hooks"
      "site_handle env e s = absorb (fleet_handle env (Click (UpsAct (UdRun name False))) f) s" by blast
    with c absorb_effects(1) [OF s(1)] obtain k
      where "Call qs k \<in> set (snd (fleet_handle env (Click (UpsAct (UdRun name False))) f))" by fastforce
    from fleet.handle_calls [OF this c(2,3)] s(1) e show ?thesis
      by (auto simp: site_harmless_def fleet_harmless_def)
  qed
  show "page_asks (snd t) c" if c: "Ask c t \<in> set (snd (site_handle env e s))"
  proof (cases "site_consent.bound_site_event e")
    case True
    then show ?thesis using effs_keepD(2) [OF site_consent_effects(1) [OF True] c] by simp
  next
    case False
    then obtain name where e: "e = FleetEv (Click (UpsAct (UdRun name False)))" using not_bound by blast
    from c have "snd (site_handle env e s) \<noteq> []" by auto
    with direct [OF e] obtain f hooks where s: "st_page s = FleetPg f hooks"
      "site_handle env e s = absorb (fleet_handle env (Click (UpsAct (UdRun name False))) f) s" by blast
    with c absorb_effects(2) [OF s(1)] show ?thesis using fleet.handle_asks by fastforce
  qed
qed

interpretation site_confirm: confirmed_page "site_handle env" "site_resume env" fleet_guarded site_harmless
  site_promised site_asks
proof
  fix e s qs t q x t' c
  show "site_harmless e s q" if "Call qs t \<in> set (snd (site_handle env e s))" "q \<in> set qs" "fleet_guarded q"
    using site_handle_effects(1) that by blast
  show "x = Confirmed True \<and> site_promised t q"
    if "Call qs t' \<in> set (snd (site_resume env t x s))" "q \<in> set qs" "fleet_guarded q"
    using effs_keepD(1) [OF site_consent_effects(2) that(1)] that(2,3)
    by (simp add: guarded_only_def page_confirmed_with_def site_promised_def)
  show "site_asks t c" if "Ask c t \<in> set (snd (site_handle env e s))"
    using site_handle_effects(2) that by (simp add: site_asks_def)
  show "site_asks t' c" if "Ask c t' \<in> set (snd (site_resume env t x s))"
    using effs_keepD(2) [OF site_consent_effects(2) that] by (simp add: site_asks_def)
qed

text \<open>C2: Whatever the user does on any page, wherever the URL leads and in whatever order the server answers:
  a request that deletes a node or an alert rule, takes or releases the policy of a node's local UI or runs a
  command of a UPS is sent in one of two ways only.  Either the user clicks, in the UPS dialog, the button of a
  command that the detail on display does not call destructive, and this is the command that is run.  Or the
  user accepts the confirmation dialog, which shows the question of the task that waits for it: about the
  very node record, rule or command that the request is for.  This also holds for a dialog that stays
  open while the user leaves the page it was opened on.\<close>

theorem guarded_requests_need_consent:
  assumes "a = fold (site_handler env) es (start_site dark storage hidden r)"
    and "new_guarded fleet_guarded a (site_handler env e a) q"
  shows "(\<exists>f hooks detail command.
      e = PageEvent (FleetEv (Click (UpsAct (UdRun (ci_name command) False)))) \<and>
      st_page (ap_page a) = FleetPg f hooks \<and> ud_detail (fl_ups f) = Some detail \<and>
      command \<in> set (commands_of detail) \<and> \<not> ci_destructive command \<and>
      q = runUPSCommand (the (ud_nodeId (fl_ups f))) (the (ud_upsName (fl_ups f))) (ci_name command)) \<or>
    e = AnswerConfirm OnAccept \<and>
    (\<exists>c t. confirmRequest a = Some c \<and> confirmResolver a = Some t \<and> site_asks t c \<and> site_promised t q)"
proof -
  have i: "confirm_inv site_asks (start_site dark storage hidden r)"
    unfolding start_site_def by (rule site_confirm.start_inv)
      (use effs_keepD(2) [OF site_consent_effects(3)] in \<open>auto simp: site_asks_def\<close>)
  have "site_confirm.consented e a q"
    using site_confirm.guarded_needs_consent [OF i] assms by (simp add: site_handler_def)
  then show ?thesis unfolding site_confirm.consented_def site_harmless_def runs_harmless_def by fastforce
qed

section \<open>Well-formed changes\<close>

definition tidy :: "string \<Rightarrow> bool" where
  "tidy s \<longleftrightarrow> trim s = s"

definition metadata_request_ok :: "api_request \<Rightarrow> bool" where
  "metadata_request_ok q \<longleftrightarrow>
     (\<forall>n u d ts. q = updateUPSMetadata n u d ts \<longrightarrow> tidy d \<and> list_all (\<lambda>t. t \<noteq> [] \<and> tidy t) ts)"

definition request_ok :: "api_request \<Rightarrow> bool" where
  "request_ok q \<longleftrightarrow> alert_request_ok q \<and> label_request_ok q \<and> metadata_request_ok q"

lemma change_fields:
  "rq_type (createAlertRule r) = TRule" "rq_method (createAlertRule r) = ''POST''"
  "rq_type (updateNode n p) = TNode" "rq_method (updateNode n p) = ''PATCH''"
  "rq_type (updateUPSMetadata n u d ts) = TMetadata" "rq_method (updateUPSMetadata n u d ts) = ''PATCH''"
  by (simp_all add: createAlertRule_def updateNode_def updateUPSMetadata_def api_send_def)

lemma request_ok_other:
  "rq_type q \<noteq> TRule \<Longrightarrow> rq_method q \<noteq> ''PATCH'' \<or> rq_type q \<noteq> TNode \<and> rq_type q \<noteq> TMetadata \<Longrightarrow> request_ok q"
  unfolding request_ok_def alert_request_ok_def label_request_ok_def metadata_request_ok_def
  using change_fields by metis

lemma other_fields:
  "rq_type fetchNodes = TNodes" "rq_method fetchNodes = ''GET''" "rq_method (fetchNode n) = ''GET''"
  "rq_type (fetchNode n) = TNode" "rq_type (fetchNodeHealth n) = THealth" "rq_method (fetchNodeHealth n) = ''GET''"
  "rq_type (fetchUPSDetail n u) = TDetail" "rq_method (fetchUPSDetail n u) = ''GET''"
  "rq_type (fetchUPSHistory n u v) = THistory" "rq_method (fetchUPSHistory n u v) = ''GET''"
  "rq_type (runUPSCommand n u c) = TCommand" "rq_method (runUPSCommand n u c) = ''POST''"
  "rq_type (adoptNode n) = TUnknown" "rq_method (adoptNode n) = ''POST''"
  "rq_type (forgetNode n) = TUnknown" "rq_method (forgetNode n) = ''DELETE''"
  "rq_type fetchAlertRules = TRules" "rq_method fetchAlertRules = ''GET''"
  "rq_type fetchAlertEvents = TEvents" "rq_method fetchAlertEvents = ''GET''"
  "rq_type (deleteAlertRule i) = TUnknown" "rq_method (deleteAlertRule i) = ''DELETE''"
  "rq_type (testAlertRule i) = TEvent" "rq_method (testAlertRule i) = ''POST''"
  "rq_type fetchControllerSettings = TSettings" "rq_method fetchControllerSettings = ''GET''"
  "rq_type (updateControllerSettings b l) = TSettings" "rq_method (updateControllerSettings b l) = ''PATCH''"
  by (simp_all add: api_calls api_get_def api_send_def Let_def)

lemma map_JText_inj: "map JText ts = map JText ts' \<longleftrightarrow> ts = ts'"
  by (rule inj_map_eq_map) (simp add: inj_def)

lemma request_ok_simps [simp]:
  "request_ok fetchNodes" "request_ok (fetchNode n)" "request_ok (fetchNodeHealth n)" "request_ok (fetchUPSDetail n u)"
  "request_ok (fetchUPSHistory n u v)" "request_ok (runUPSCommand n u c)" "request_ok (adoptNode n)"
  "request_ok (forgetNode n)" "request_ok fetchAlertRules" "request_ok fetchAlertEvents"
  "request_ok (deleteAlertRule i)" "request_ok (testAlertRule i)" "request_ok fetchControllerSettings"
  "request_ok (updateControllerSettings b l)"
  by (rule request_ok_other; simp add: other_fields)+

lemma request_ok_changes:
  "labels_ok p \<Longrightarrow> request_ok (updateNode n p)"
  "form_ok form \<Longrightarrow> request_ok (createAlertRule (rule_of_form form))"
  "tidy d \<Longrightarrow> list_all (\<lambda>t. t \<noteq> [] \<and> tidy t) ts \<Longrightarrow> request_ok (updateUPSMetadata n u d ts)"
proof -
  have types: "updateNode n p \<noteq> createAlertRule r" "updateNode n p \<noteq> updateUPSMetadata m u d ts"
    "createAlertRule r \<noteq> updateUPSMetadata m u d ts" for n p r m u d ts
    by (rule notI, drule arg_cong [where f = rq_type], simp add: change_fields)+
  show "labels_ok p \<Longrightarrow> request_ok (updateNode n p)"
    using types by (auto simp: request_ok_def alert_request_ok_def metadata_request_ok_def)
  show "form_ok form \<Longrightarrow> request_ok (createAlertRule (rule_of_form form))"
    using types(1) [symmetric] types(3) rule_of_form_ok [of form]
    by (auto simp: request_ok_def label_request_ok_def metadata_request_ok_def)
  show "tidy d \<Longrightarrow> list_all (\<lambda>t. t \<noteq> [] \<and> tidy t) ts \<Longrightarrow> request_ok (updateUPSMetadata n u d ts)"
    using types(2,3) [symmetric]
    by (auto simp: request_ok_def alert_request_ok_def label_request_ok_def metadata_request_ok_def)
       (auto simp: updateUPSMetadata_def api_send_def map_JText_inj)
qed

lemma tidy_trim [simp]: "tidy (trim s)"
  by (simp add: tidy_def)

lemma tags_tidy: "list_all (\<lambda>t. t \<noteq> [] \<and> tidy t) (parse_tags text)"
  by (auto simp: parse_tags_def list_all_iff)

interpretation site_changes: site_effects "\<lambda>qs k. list_all request_ok qs" "\<lambda>c k. True"
  "\<lambda>k x qs k'. list_all request_ok qs" "\<lambda>a. True" "\<lambda>a. form_ok (al_form a)"
proof
  fix e d nk x
  have "effs_keep (\<lambda>qs k. list_all request_ok qs) (\<lambda>c k. True) (snd (node_do a d))" for a
    by (cases a) (simp_all add: node_ops request_ok_changes saved_labels_ok split: option.split)
  then have "effs_keep (\<lambda>qs k. list_all request_ok qs) (\<lambda>c k. True) (snd (node_event_step e d))"
    by (cases e) (simp_all add: nd_load_def nd_set_nodeId_def Let_def)
  then show "effs_keep (\<lambda>qs k. list_all request_ok qs) (\<lambda>c k. True) (snd (node_handle e d))"
    by (simp add: node_handle_def case_prod_beta Let_def)
  have "effs_keep (\<lambda>qs k. list_all request_ok qs) (\<lambda>c k. True) (snd (node_resume_step nk x d))"
    by (cases nk; cases x) (simp_all add: node_ops request_ok_changes split: sum.split list.split payload.split)
  then show "effs_keep (\<lambda>qs k. list_all request_ok qs) (\<lambda>c k. True) (snd (node_resume nk x d))"
    by (simp add: node_resume_def case_prod_beta Let_def)
next
  fix env e u uk x
  have "effs_keep (\<lambda>qs k. list_all request_ok qs) (\<lambda>c k. True) (snd (ups_do a u))" for a
    by (cases a) (simp_all add: ups_simps request_ok_changes(3) tags_tidy split: option.split)
  then show "effs_keep (\<lambda>qs k. list_all request_ok qs) (\<lambda>c k. True) (snd (ups_handle env e u))"
    by (cases e) (simp_all add: ud_load_def ud_set_ups_def Let_def)
  show "effs_keep (\<lambda>qs k. list_all request_ok qs) (\<lambda>c k. True) (snd (ups_resume env uk x u))"
    by (cases uk; cases x) (simp_all add: ups_simps case_prod_beta split: outcome_splits)
next
  fix a ck x
  show "effs_keep (\<lambda>qs k. list_all request_ok qs) (\<lambda>c k. True) (card_do a)"
    by (cases a) (simp_all add: handleAdopt_def card_handleForget_def)
  show "effs_keep (\<lambda>qs k. list_all request_ok qs) (\<lambda>c k. True) (card_resume ck x)"
    by (cases ck; cases x)
       (simp_all add: adopted_def card_forget_confirmed_def card_forgotten_def split: outcome_splits)
next
  fix env ae a ak x
  show "effs_keep (\<lambda>qs k. list_all request_ok qs) (\<lambda>c k. True) (snd (alerts_resume ak x a))"
    by (cases ak; cases x) (simp_all add: alerts_ops split: outcome_splits)
  assume f: "form_ok (al_form a)"
  then show "form_ok (al_form (fst (alerts_handle env ae a)))" by (rule al.handle_inv)
  show "form_ok (al_form (fst (alerts_resume ak x a)))" using f by (rule al.resume_inv)
  have "effs_keep (\<lambda>qs k. list_all request_ok qs) (\<lambda>c k. True) (snd (alerts_do b a))" for b
    using f by (cases b) (simp_all add: alerts_ops request_ok_changes(2))
  then show "effs_keep (\<lambda>qs k. list_all request_ok qs) (\<lambda>c k. True) (snd (alerts_handle env ae a))"
    by (cases ae) simp_all
next
  fix se p sk x
  show "effs_keep (\<lambda>qs k. list_all request_ok qs) (\<lambda>c k. True) (snd (settings_handle se p))"
    by (cases se) (simp_all add: settings_ops split: settings_action.split option.split)
  show "effs_keep (\<lambda>qs k. list_all request_ok qs) (\<lambda>c k. True) (snd (settings_resume sk x p))"
    by (cases sk; cases x) (simp_all add: settings_ops split: outcome_splits)
qed (simp_all add: alerts_ops settings_ops form_ok_def initial_form_def ALERT_KINDS_def num_truthy_def)

definition form_inv :: "site \<Rightarrow> bool" where
  "form_inv s \<longleftrightarrow> (case st_page s of AlertsPg a \<Rightarrow> form_ok (al_form a) | _ \<Rightarrow> True)"

lemma fine_changes:
  "site_changes.fine r \<longleftrightarrow> form_inv (fst r) \<and> (\<forall>qs t. Call qs t \<in> set (snd r) \<longrightarrow> list_all request_ok qs)"
proof -
  have "effs_keep (\<lambda>qs t. list_all request_ok qs) (\<lambda>c t. True) es \<longleftrightarrow>
      (\<forall>qs t. Call qs t \<in> set es \<longrightarrow> list_all request_ok qs)" for es :: "(site_task, unit) eff list"
  proof (induction es)
    case (Cons e es)
    then show ?case by (cases e) auto
  qed simp
  then show ?thesis by (simp add: site_changes.fine_def form_inv_def)
qed

lemma fineD:
  "site_changes.fine r \<Longrightarrow> form_inv (fst r)"
  "site_changes.fine r \<Longrightarrow> Call qs t \<in> set (snd r) \<Longrightarrow> q \<in> set qs \<Longrightarrow> request_ok q"
  unfolding fine_changes by (blast, metis list_all_iff)

lemma changes_after: "site_changes.fine_after k x r = site_changes.fine r"
  by (simp add: site_changes.fine_def site_changes.fine_after_def)

interpretation site_sends: sending_page "site_handle env" "site_resume env" form_inv request_ok
proof -
  have h: "form_inv s \<Longrightarrow> site_changes.fine (site_handle env e s)" for e s
    by (rule site_changes.site_handled)
      (simp_all add: fine_changes site_changes.bound_site_event_def site_changes.bound_event_def
        split: site_event.split fleet_event.split fleet_action.split)
  have r: "form_inv s \<Longrightarrow> site_changes.fine (site_resume env t x s)" for t x s
    using site_changes.site_resumed [of s t x env] by (simp add: changes_after fine_changes)
  show "sending_page (site_handle env) (site_resume env) form_inv request_ok"
    by unfold_locales (blast intro: fineD h r)+
qed

text \<open>C10: Everything the application ever asks the controller to change is well-formed, whatever is typed, clicked
  and answered on any page: a rule it creates is of one of the four kinds, with a debounce that is neither
  zero nor not-a-number and a threshold exactly for a low-battery rule; the labels it gives a node have no
  surrounding white space and at most 120 characters; and the name and the tags it gives a UPS have no
  surrounding white space, and no tag is empty.\<close>

theorem changes_well_formed:
  assumes "q \<in> set (ap_sent (fold (site_handler env) es (start_site dark storage hidden r)))"
  shows "(\<forall>p. q = createAlertRule p \<longrightarrow> rule_ok p) \<and> (\<forall>n p. q = updateNode n p \<longrightarrow> labels_ok p) \<and>
    (\<forall>n u d ts. q = updateUPSMetadata n u d ts \<longrightarrow> trim d = d \<and> list_all (\<lambda>t. t \<noteq> [] \<and> trim t = t) ts)"
proof -
  have e: "site_changes.fine (enter s)" for s by (rule site_changes.entered)
  have "\<forall>q\<in>set (ap_sent (fold (site_handler env) es (start_site dark storage hidden r))). request_ok q"
    unfolding site_handler_def start_site_def
    by (rule site_sends.sent_start [THEN conjunct2]) (blast intro: fineD e)+
  with assms show ?thesis
    by (auto simp: request_ok_def alert_request_ok_def label_request_ok_def metadata_request_ok_def tidy_def)
qed

end
