(* ===== verification/Ctl_SiteExamples.thy ===== *)
theory Ctl_SiteExamples
  imports Ctl_SiteProps Ctl_SiteDialogs Ctl_SiteRequests Ctl_Examples
begin

text \<open>Concrete runs of the whole application, over several pages.\<close>

definition at_path :: "string \<Rightarrow> search \<Rightarrow> router" where
  "at_path p ps = \<lparr>rt_back = [], rt_here = \<lparr>lo_path = p, lo_search = ps\<rparr>, rt_forward = []\<rparr>"

definition seven :: jsnum where
  "seven = NInt 7"

definition rule7 :: alert_rule where
  "rule7 = \<lparr>ar_id = seven, ar_kind = ''node_offline'', ar_ups_var = None, ar_threshold = None,
     ar_webhook_url = [], ar_debounce_seconds = NInt 300, ar_enabled = True, ar_created_at = []\<rparr>"

definition good_reply :: "payload \<Rightarrow> api_reply" where
  "good_reply p = HttpReply True 200 ''OK'' None p"

definition good_replies :: "payload list \<Rightarrow> api_reply list" where
  "good_replies ps = map good_reply ps"

lemma settle_good [simp]: "settle (good_replies ps) = Inr ps"
  by (induction ps) (simp_all add: good_replies_def good_reply_def requestJSON_def)

lemma run_menu_open: "run_menu env OpenMenu s = (s\<lparr>st_header := (st_header s)\<lparr>hd_open := True\<rparr>\<rparr>, [])"
  by (simp add: run_menu_def follow_def HeaderMenu_def st_router_def)

text \<open>A rule's deletion is asked for on the alerts page, and confirmed on the settings page.\<close>

definition alerts_page :: alerts where
  "alerts_page = (fst alerts_mount)\<lparr>al_rules := [rule7]\<rparr>"

lemma alerts_page_loaded:
  "alerts_resume AlLoad (Settled (Inr [PRules (Some [rule7]), PEvents None])) (fst alerts_mount) = (alerts_page, [])"
  by (simp add: al_loaded_def alerts_page_def alerts_mount_def al_load_def)

lemma alerts_page_delete:
  "alerts_handle env (AlAct (AlDeleteClick seven)) alerts_page =
     (alerts_page, [Ask (delete_question seven) (AlDelete seven)])"
  by (simp add: alerts_page_def alerts_view_def rule_row_def rule7_def handleDelete_def)

definition on_alerts :: site where
  "on_alerts = (first_site True (\<lambda>_. None) False (at_path ''/alerts'' []))
     \<lparr>st_page := AlertsPg alerts_page, st_mount := 1\<rparr>"

definition asked :: "(site, site_task) app" where
  "asked = \<lparr>ap_page = on_alerts, ap_toast = None, confirmRequest = Some (delete_question seven),
     confirmResolver = Some (1, AlertsK (AlDelete seven)), ap_calls = [],
     ap_sent = [fetchAlertRules, fetchAlertEvents], ap_next = 1\<rparr>"

definition asking_run :: "site_event app_event list" where
  "asking_run =
     [Reply 0 (good_replies [PRules (Some [rule7]), PEvents None]),
      PageEvent (AlertsEv (AlAct (AlDeleteClick seven)))]"

lemma alert_types: "rq_type fetchAlertRules = TRules" "rq_type fetchAlertEvents = TEvents"
  by (simp_all add: fetchAlertRules_def fetchAlertEvents_def api_get_def)

lemma asked_state:
  "fold (site_handler env) asking_run (start_site True (\<lambda>_. None) False (at_path ''/alerts'' [])) = asked"
proof -
  have "start_site True (\<lambda>_. None) False (at_path ''/alerts'' []) =
    asked\<lparr>ap_page := on_alerts\<lparr>st_page := AlertsPg (fst alerts_mount)\<rparr>, confirmRequest := None,
      confirmResolver := None, ap_calls := [(0, [fetchAlertRules, fetchAlertEvents], (1, AlertsK AlLoad))]\<rparr>"
    by (simp add: start_site_def start_app_def run_page_def enter_def site_route_def st_router_def at_path_def
        menu_routes first_site_def Let_def alerts_mount_def al_load_def start_call_def asked_def on_alerts_def)
  then show ?thesis
    using alerts_page_loaded
    by (simp add: asking_run_def site_handler_def asked_def on_alerts_def call_of_def replies_fit_def
        alert_types run_page_def site_resume_def site_handle_def
        site_crashed_def page_resume_def alerts_page_delete requestConfirmation_def
        del: alerts_resume.simps alerts_handle.simps)
qed

definition before_deletion :: "(site, site_task) app" where
  "before_deletion =
     fold (site_handler demo_env) (asking_run @ [PageEvent (MenuEv OpenMenu), PageEvent (MenuEv (LinkItem ''/settings''))])
       (start_site True (\<lambda>_. None) False (at_path ''/alerts'' []))"

definition menu_open :: site where
  "menu_open = on_alerts\<lparr>st_header := (st_header on_alerts)\<lparr>hd_open := True\<rparr>\<rparr>"

definition on_settings :: site where
  "on_settings = on_alerts\<lparr>st_page := SettingsPg (fst settings_mount), st_mount := 2, st_header :=
       (st_header on_alerts)\<lparr>hd_router := navigate_to ''/settings'' (at_path ''/alerts'' [])\<rparr>\<rparr>"

lemma menu_opened: "site_handle env (MenuEv OpenMenu) on_alerts = (menu_open, [])"
  by (simp add: site_handle_def site_crashed_def run_menu_open menu_open_def on_alerts_def)

lemma settings_entered:
  "site_handle env (MenuEv (LinkItem ''/settings'')) menu_open =
     (on_settings, [Call [fetchControllerSettings] (2, SettingsK SeLoad)])"
proof -
  have h: "menu_handler (LinkItem ''/settings'') (st_header menu_open) = st_header on_settings"
    by (simp add: menu_open_def on_settings_def on_alerts_def first_site_def router_link_def handleClose_def at_path_def)
  have "LinkItem ''/settings'' \<in> set (actions (HeaderMenu (st_header menu_open)))"
    by (simp add: HeaderMenu_def menu_open_def)
  moreover have "hd_fleet_refresh (st_header on_settings) = hd_fleet_refresh (st_header menu_open)"
    by (simp add: menu_open_def on_settings_def)
  moreover have "follow env (hd_router (st_header on_settings))
      (menu_open\<lparr>st_header := (st_header on_settings)\<lparr>hd_router := st_router menu_open\<rparr>\<rparr>) =
      (on_settings, [Call [fetchControllerSettings] (2, SettingsK SeLoad)])"
    by (subst follow_enters)
       (simp_all add: menu_open_def on_settings_def on_alerts_def first_site_def site_crashed_def site_route_def
          st_router_def put_router_def menu_routes at_path_def enter_def settings_mount_def se_load_def)
  moreover have "\<not> site_crashed menu_open" by (simp add: site_crashed_def menu_open_def on_alerts_def)
  ultimately show ?thesis by (simp add: site_handle_def run_menu_def h Let_def del: menu_handler.simps)
qed

lemma before_deletion_state:
  "before_deletion = asked\<lparr>ap_page := on_settings, ap_calls := [(1, [fetchControllerSettings], (2, SettingsK SeLoad))],
     ap_sent := [fetchAlertRules, fetchAlertEvents, fetchControllerSettings], ap_next := 2\<rparr>"
  unfolding before_deletion_def fold_append comp_apply asked_state
  by (simp add: site_handler_def asked_def menu_opened settings_entered run_page_def start_call_def)

lemma deletion_sent:
  "ap_calls (site_handler demo_env (AnswerConfirm OnAccept) before_deletion) =
     [(1, [fetchControllerSettings], 2, SettingsK SeLoad),
      (2, [deleteAlertRule seven], 1, AlertsK (AlDeleted seven))]"
  by (simp add: before_deletion_state asked_def site_handler_def closeConfirmation_def site_resume_def
      site_crashed_def delete_confirmed_def run_page_def start_call_def on_settings_def)

lemma guarded_requests_need_consent_witness:
  "new_guarded fleet_guarded before_deletion (site_handler demo_env (AnswerConfirm OnAccept) before_deletion)
     (deleteAlertRule seven) \<and>
   (\<exists>t. confirmResolver before_deletion = Some t \<and> site_asks t (delete_question seven) \<and>
      site_promised t (deleteAlertRule seven))"
proof -
  have "new_guarded fleet_guarded before_deletion
      (site_handler demo_env (AnswerConfirm OnAccept) before_deletion) (deleteAlertRule seven)"
    unfolding new_guarded_def deletion_sent
    by (intro conjI, simp add: fleet_guarded_def deleteAlertRule_def api_send_def, rule exI [of _ 2],
        rule exI [of _ "[deleteAlertRule seven]"], rule exI [of _ "(1, AlertsK (AlDeleted seven))"])
       (simp add: before_deletion_state asked_def fleet_guarded_def deleteAlertRule_def api_send_def)
  with guarded_requests_need_consent [OF before_deletion_def, of "AnswerConfirm OnAccept" "deleteAlertRule seven"]
  show ?thesis by (auto simp: before_deletion_state asked_def)
qed

text \<open>The fleet page with the dialog of a node is left for the alerts page, and found again.\<close>

definition at_menu :: "(site, site_task) app" where
  "at_menu =
     fold (site_handler demo_env) [PageEvent (MenuEv OpenMenu)]
       (start_site True (\<lambda>_. None) False (at_path ''/'' [(''node'', ''n1'')]))"

lemma at_menu_state:
  "\<exists>hooks. st_page (ap_page at_menu) = FleetPg (fst (fleet_mount (at_path ''/'' [(''node'', ''n1'')]))) hooks \<and>
     hd_open (st_header (ap_page at_menu))"
proof -
  let ?r = "at_path ''/'' [(''node'', ''n1'')]"
  let ?s = "ap_page (start_site True (\<lambda>_. None) False ?r)"
  have s: "?s = fst (enter (first_site True (\<lambda>_. None) False ?r))"
    by (simp add: start_site_def start_app_def page_run_page)
  have "st_router (first_site True (\<lambda>_. None) False ?r) = ?r" by (simp add: first_site_def st_router_def)
  moreover have "route_of (rt_here ?r) = FleetRoute" by (simp add: at_path_def menu_routes)
  ultimately obtain hooks where p: "st_page ?s = FleetPg (fst (fleet_mount ?r)) hooks"
    using enter_pages(3) [of "first_site True (\<lambda>_. None) False ?r"] by (auto simp only: s site_route_def)
  then have "\<not> site_crashed ?s" by (simp add: site_crashed_def fleet_mount_synced(3))
  with p show ?thesis
    by (simp add: at_menu_def site_handler_def site_handle_def page_run_page run_menu_open)
qed

lemma leaving_and_coming_back_witness:
  "let b = site_handler demo_env (PageEvent (MenuEv (LinkItem ''/alerts''))) at_menu;
       c = site_handler demo_env (PageEvent SiteBack) b
   in st_page (ap_page b) = AlertsPg (fst alerts_mount) \<and>
      ap_sent b = ap_sent at_menu @ [fetchAlertRules, fetchAlertEvents] \<and>
      (\<exists>f hooks. st_page (ap_page c) = FleetPg f hooks \<and> nd_nodeId (fl_node f) = Some ''n1'')"
proof -
  let ?r = "at_path ''/'' [(''node'', ''n1'')]"
  let ?f = "fst (fleet_mount ?r)"
  have s: "at_menu = fold (site_handler demo_env) [PageEvent (MenuEv OpenMenu)] (start_site True (\<lambda>_. None) False ?r)"
    by (rule at_menu_def)
  obtain hooks where p: "st_page (ap_page at_menu) = FleetPg ?f hooks" "hd_open (st_header (ap_page at_menu))"
    using at_menu_state by blast
  have "nd_nodeId (fl_node ?f) = Some ''n1''"
    using fleet_mount_synced(1,2) [of ?r] by (simp add: fleet_synced_def openNodeId_def at_path_def search_get_def)
  moreover have "''/alerts'' \<in> set menu_pages" by (simp add: menu_pages_def)
  note back_again = leaving_and_coming_back [OF s p(1) fleet_mount_synced(3) p(2) this refl refl]
  have "page_loads (AlertsPg (fst alerts_mount)) = [fetchAlertRules, fetchAlertEvents]" by (simp add: page_loads_def)
  ultimately show ?thesis using back_again unfolding Let_def if_True simp_thms(6) by metis
qed

text \<open>The answer to the first mounting of the alerts page finds the second one.\<close>

lemma late_answers_keep_page_witness:
  "let s = on_alerts\<lparr>st_mount := 3\<rparr>
   in fst (site_resume demo_env (1, AlertsK AlLoad) (Settled (Inr [PRules None, PEvents None])) s) = s"
proof -
  have "\<not> site_crashed (on_alerts\<lparr>st_mount := 3\<rparr>)" by (simp add: site_crashed_def on_alerts_def)
  from late_answers_keep_page [OF this, of "(1, AlertsK AlLoad)"] show ?thesis by (simp add: Let_def)
qed

text \<open>The answer to the load of the node dialog, which shows the node of the URL.\<close>

definition node_url :: router where
  "node_url = at_path ''/'' [(''node'', ''n1'')]"

definition node_reply :: "site_event app_event" where
  "node_reply = Reply 0 (good_replies [PNode demo_node, PHealth demo_health])"

lemma node_url_ok: "url_ok node_url"
  by (simp add: url_ok_def ups_url_ok_def node_url_def at_path_def search_get_def)

lemma first_site_router [simp]: "st_router (first_site dark storage hidden r) = r"
  by (simp add: first_site_def st_router_def)

lemma started_page:
  assumes "route_of (rt_here r) = FleetRoute"
  shows "\<exists>hooks. st_page (ap_page (start_site dark storage hidden r)) = FleetPg (fst (fleet_mount r)) hooks"
    and "st_mount (ap_page (start_site dark storage hidden r)) = 1"
    and "st_router (ap_page (start_site dark storage hidden r)) = r"
  using assms enter_pages(3) [of "first_site dark storage hidden r"]
  by (simp_all add: start_site_def start_app_def page_run_page site_route_def enter_fields)
     (simp add: enter_def site_route_def first_site_def st_router_def case_prod_beta Let_def)

lemma node_call:
  "call_of 0 (start_site dark storage hidden node_url) =
     Some ([fetchNode ''n1'', fetchNodeHealth ''n1''], (1, FleetK (FlNode (NdLoad ''n1'' False))))"
proof -
  have r: "route_of (rt_here node_url) = FleetRoute" by (simp add: node_url_def at_path_def menu_routes)
  have "snd (fleet_mount node_url) =
      [Call [fetchNode ''n1'', fetchNodeHealth ''n1''] (FlNode (NdLoad ''n1'' False)), Call [fetchNodes] (FlLoad False)]"
    by (simp add: fleet_mount_def nd_mount_def nd_load_def ud_mount_def ud_load_def ups_open_def loadNodes_def
        node_url_def at_path_def search_get_def Let_def)
  then have "snd (enter (first_site dark storage hidden node_url)) =
      [Call [fetchNode ''n1'', fetchNodeHealth ''n1''] (1, FleetK (FlNode (NdLoad ''n1'' False))),
       Call [fetchNodes] (1, FleetK (FlLoad False))]"
    using r by (simp add: enter_def site_route_def first_site_def st_router_def case_prod_beta Let_def)
  then show ?thesis by (simp add: start_site_def start_app_def run_page_def start_call_def call_of_def)
qed

definition first_fleet :: fleet where
  "first_fleet = fst (fleet_mount node_url)"

definition loaded_node :: node_dialog where
  "loaded_node = node_rendered ((fl_node first_fleet)\<lparr>nd_node := Some demo_node, nd_health := Some demo_health\<rparr>)"

lemma node_answered:
  "fleet_resume demo_env (FlNode (NdLoad ''n1'' False)) (Settled (Inr [PNode demo_node, PHealth demo_health])) first_fleet =
     (first_fleet\<lparr>fl_node := loaded_node\<rparr>, [])"
proof -
  have f: "fl_node first_fleet = \<lparr>nd_nodeId = Some ''n1'', nd_node = None, nd_health = None, nd_error = None, nd_tab = 0,
      nd_activeRef = Some ''n1'', nd_config = None, nd_mounts = 0\<rparr>"
    "fl_ups first_fleet = fst (ud_mount None None)" "\<not> fl_crashed first_fleet"
    by (simp_all add: first_fleet_def fleet_mount_def nd_mount_def nd_load_def ud_mount_def ud_load_def ups_open_def
        loadNodes_def node_url_def at_path_def search_get_def Let_def)
  have r: "fleet_resume_step demo_env (FlNode (NdLoad ''n1'' False))
      (Settled (Inr [PNode demo_node, PHealth demo_health])) first_fleet = (first_fleet\<lparr>fl_node := loaded_node\<rparr>, [])"
    by (simp add: run_node_def node_resume_def nd_loaded_def f loaded_node_def)
  have "\<not> isl (ups_view demo_env (fst (ud_mount None None)))" by code_simp
  then have "fleet_rendered demo_env (first_fleet\<lparr>fl_node := loaded_node\<rparr>, []) = (first_fleet\<lparr>fl_node := loaded_node\<rparr>, [])"
    by (auto simp: fleet_rendered_def fleet_view_def f split: sum.split)
  with r f(3) show ?thesis by (simp add: fleet_resume_def)
qed

lemma dialogs_show_url_witness:
  "let a = fold (site_handler demo_env) [node_reply] (start_site True (\<lambda>_. None) False node_url)
   in \<exists>f hooks. st_page (ap_page a) = FleetPg f hooks \<and> nd_node (fl_node f) = Some demo_node \<and>
        search_get ''node'' (lo_search (rt_here (st_router (ap_page a)))) = Some (nr_id demo_node)"
proof -
  let ?a = "start_site True (\<lambda>_. None) False node_url"
  have route: "route_of (rt_here node_url) = FleetRoute" by (simp add: node_url_def at_path_def menu_routes)
  obtain hooks where p: "st_page (ap_page ?a) = FleetPg first_fleet hooks" "st_mount (ap_page ?a) = 1"
    "st_router (ap_page ?a) = node_url"
    using started_page [OF route] unfolding first_fleet_def by blast
  have router: "fl_router first_fleet = node_url" "\<not> fl_crashed first_fleet"
    by (simp_all add: first_fleet_def fleet_mount_synced)
  have h: "ap_page (site_handler demo_env node_reply ?a) = fst (absorb (first_fleet\<lparr>fl_node := loaded_node\<rparr>, []) (ap_page ?a))"
    using p router
    by (simp add: site_handler_def node_reply_def node_call replies_fit_def fetchNode_def fetchNodeHealth_def api_get_def
        page_run_page site_resume_def site_crashed_def page_resume_def node_answered)
  have pg: "\<exists>hooks'. st_page (ap_page (site_handler demo_env node_reply ?a)) =
      FleetPg (first_fleet\<lparr>fl_node := loaded_node\<rparr>) hooks'"
    "st_router (ap_page (site_handler demo_env node_reply ?a)) = node_url"
    using p router route by (simp_all add: h absorb_def Let_def)
  have al: "allowed_run (site_allowed demo_env) (site_handler demo_env) [node_reply] ?a"
    using pg(2) node_url_ok p
    by (simp add: site_allowed_def node_reply_def [symmetric])
       (simp add: node_reply_def node_call answer_matches_def task_allowed_def demo_node_def)
  have "site_started ?a" unfolding site_started_def using node_url_ok by blast
  note shown = dialogs_show_url [OF this al]
  have "nd_node loaded_node = Some demo_node"
    by (simp add: loaded_node_def node_rendered_def split: option.split)
  with pg(1) shown router(2) show ?thesis by (fastforce simp: Let_def)
qed

text \<open>The form of the alerts page is sent as it is first shown.\<close>

lemma form_submitted:
  "createAlertRule (rule_of_form initial_form) \<in> set (ap_sent (fold (site_handler demo_env)
     [PageEvent (AlertsEv (AlAct AlSubmit))] (start_site True (\<lambda>_. None) False (at_path ''/alerts'' []))))"
proof -
  have "site_route (first_site True (\<lambda>_. None) False (at_path ''/alerts'' [])) = AlertsRoute"
    by (simp add: site_route_def at_path_def menu_routes)
  then have p: "st_page (ap_page (start_site True (\<lambda>_. None) False (at_path ''/alerts'' []))) =
      AlertsPg (fst alerts_mount)"
    by (simp add: start_site_def start_app_def page_run_page enter_pages)
  have a: "alerts_handle demo_env (AlAct AlSubmit) (fst alerts_mount) =
      (fst alerts_mount, [Call [createAlertRule (rule_of_form initial_form)] (AlCreated ''node_offline'')])"
    by (simp add: alerts_mount_def al_load_def alerts_view_def alert_form_view_def handleCreate_def initial_form_def)
  show ?thesis
    by (simp add: site_handler_def sent_run_page site_handle_def site_crashed_def p a del: alerts_handle.simps)
qed

lemma changes_well_formed_witness: "rule_ok (rule_of_form initial_form)"
  using changes_well_formed [OF form_submitted] by blast

end
