(* ===== verification/Spec2Isabelle.thy ===== *)
theory Spec2Isabelle
  imports Agent_Examples Agent_Hover Agent_Theme Agent_About Agent_Json Clients_Agree Ctl_LiveRefresh Ctl_Menu
    Ctl_Routes Ctl_Settings Ctl_Examples Ctl_SiteExamples
begin

text \<open>
  Verification of the JavaScript and TypeScript of strom: the dashboard that a node serves
  (\<open>src/agent/internal/api/web/\<close>) and the web UI of the controller (\<open>src/controller/web/src/\<close>).

  \<^bold>\<open>The program.\<close>  A node runs Network UPS Tools behind an HTTP API, and its dashboard shows its UPSes, runs
  their commands and changes their settings.  A controller adopts nodes, polls them, and offers a React UI
  with a fleet page, whose dialogs show one node or one UPS, an alerts page and a settings page.  Both clients
  talk to their servers by JSON over HTTP; the servers are written in Go, and what they answer is an
  input of the models: a reply is any value of its type, a failure included, and comes in any order.

  \<^bold>\<open>Foundations.\<close>  \<open>Js_Prelude\<close>, \<open>Js_Number\<close>, \<open>Js_ToNumber\<close> and \<open>Js_Url\<close> model what the code uses of
  JavaScript: strings, truthiness, splitting and trimming, numbers with NaN, infinities and rounding to 53
  bits, \<open>toFixed\<close>, \<open>Number(text)\<close>, percent-encoding.  \<open>Html\<close> models escaping and what a browser makes of markup;
  its locale \<open>sanitiser\<close> is the contract between the escaping functions and the templates.  \<open>Event_System\<close>
  holds the contracts of the state machines: an initial state, a handler and an invariant
  (\<open>event_system\<close>), runs whose events satisfy a guard (\<open>guarded_system\<close>), and a handler that refines a
  specification (\<open>refined_system\<close>).  Each is interpreted on the model of the component that provides it.

  \<^bold>\<open>The node dashboard\<close> (\<open>app.js\<close>, \<open>about.js\<close>).
  \<^item> \<open>Agent_Format\<close>: \<open>formatBytes\<close>, \<open>formatDuration\<close>, \<open>statusClass\<close>, labels and variable groups.
  \<^item> \<open>Agent_Chart\<close>: \<open>buildSparkline\<close>, \<open>buildTimeSeriesChart\<close>, \<open>computeTimeTicks\<close> and the hover.
  \<^item> \<open>Agent_Render\<close>: the HTML templates, whose markup does not depend on the data.
  \<^item> \<open>Agent_State\<close> and \<open>Agent_Dashboard\<close>: the object \<open>state\<close> with the requests in flight (\<open>dash\<close>), one
    definition per function, and \<open>dash_handler\<close>, one event of the browser at a time.  An \<open>async\<close> function is cut at
    its \<open>await\<close>s; the rest of it is a \<open>task\<close> that the numbered reply resumes.
  \<^item> \<open>Agent_Safety\<close> and \<open>Agent_Sessions\<close>: what holds after all events (the view fits the state, commands need a
    click or a confirmation), what holds when answers arrive in order, edits that survive live updates,
    and the runs in which a command reaches another UPS than the one shown.
  \<^item> \<open>Agent_Hover\<close>: the elements the pointer draws over the metric dialog's chart, with what an assignment to
    \<open>hidden\<close> does on HTML and on SVG elements.
  \<^item> \<open>Agent_Json\<close>: \<open>highlightJSON\<close> with its token pattern as a matcher.
  \<^item> \<open>Agent_Theme\<close>: the theme and the profile menu; \<open>Agent_About\<close>: the About and acknowledgements dialogs.
  \<^item> \<open>Agent_Examples\<close>: concrete runs.

  \<^bold>\<open>The controller UI.\<close>
  \<^item> \<open>Ctl_Types\<close> (\<open>types.ts\<close> and the types of \<open>api.ts\<close>), \<open>Ctl_Format\<close> (\<open>lib/format.ts\<close> and the tables and
    summaries of the small components), \<open>Ctl_Api\<close> (the calls of \<open>api.ts\<close>), \<open>Ctl_Ui\<close> (what a component
    shows, as a tree from which the actions a user can trigger are read off).
  \<^item> \<open>Ctl_Routes\<close>: the part of the controller's Go server (\<open>handleNodes\<close>, \<open>handleNodeUPS\<close> in
    \<open>cmd/controller/main.go\<close>) that takes a decoded path to an operation, and that the calls of \<open>api.ts\<close> reach theirs.
  \<^item> \<open>Ctl_LiveRefresh\<close> (\<open>hooks/useLiveRefresh.ts\<close>), which refines a specification of the polling.
  \<^item> \<open>Ctl_App\<close> (\<open>App.tsx\<close>): the toast, the confirmation and its promise, the requests in flight.  A component's
    operation gives its new state and its effects (\<open>eff\<close>: requests, questions, toasts, callbacks), each with the
    task that continues it.  The locales \<open>confirmed_page\<close> and \<open>sending_page\<close> are what a page promises the
    application: that guarded requests are sent only by the events that are allowed to or by accepting the
    question of the task that sends them, and that all it sends satisfies a property.
  \<^item> \<open>Ctl_Node\<close>, \<open>Ctl_Ups\<close> (the two dialogs), \<open>Ctl_Fleet\<close> (\<open>FleetPage.tsx\<close> and \<open>NodeCard.tsx\<close>, which composes the
    dialogs with the URL of \<open>Ctl_Router\<close>), \<open>Ctl_Alerts\<close>, \<open>Ctl_Settings\<close>, \<open>Ctl_Menu\<close> (theme and header menu).
  \<^item> \<open>Ctl_Site\<close> (the rest of \<open>App.tsx\<close>): the routes, the page mounted for the URL, the header menu, the timers of the
    fleet page and what a user sees; tasks carry the number of the mounting they belong to, so that one that
    outlives its page keeps its effects only, the navigation of the callbacks it has captured included
    (\<open>fleet_left\<close>, \<open>page_left\<close>).  \<open>Ctl_SiteInv\<close>: its invariant;
    \<open>Ctl_SiteProps\<close>: the page and its timers follow the URL, late answers, leaving and coming back;
    \<open>Ctl_SiteDialogs\<close>: the dialogs show what the URL names; \<open>Ctl_SiteRequests\<close>: consent and well-formed
    changes on all pages.  The locales \<open>fleet_effects\<close> (\<open>Ctl_FleetEffects\<close>) and \<open>site_effects\<close> (\<open>Ctl_SiteEffects\<close>),
    which extends it, are the contract of the components on what they send and ask; each is interpreted
    for consent and for well-formed changes.  \<open>Ctl_SiteExamples\<close>: concrete runs.
  \<^item> \<open>Ctl_Consent\<close>: the questions and guarded requests of the fleet page; \<open>Ctl_Dialogs\<close>: the guards on late answers work;
    \<open>Ctl_Answers\<close>: answers the code does not expect, and the labels it sends; \<open>Ctl_FleetProps\<close>: counts,
    history and inventory of the fleet page; \<open>Ctl_Examples\<close>: concrete runs.
  \<^item> \<open>Clients_Agree\<close> compares the two clients: the same durations and sizes, but not the same severities.

  \<^bold>\<open>Bounds and abstractions.\<close>  A string is a list of bytes, read as UTF-8 where the code counts UTF-16 units;
  white space and case are those of ASCII.  Numbers are rationals rounded to 53 bits, without bounds on
  the exponent except in \<open>Number(text)\<close>; functions terminate by measures, and the two loops whose end
  depends on rounding (\<open>partial_function\<close>) are proved to end.  A handler runs to its next \<open>await\<close> without
  interruption; React's render and the effects after it are one step with the change of state that
  causes them; the answers of one \<open>Promise.all\<close> come together or fail together.  The listeners of a
  change of visibility run in the order of the components.  Timers may fire at any time, and a click may reach any
  shown action also beneath an open dialog, which only adds runs.  An exception while the controller UI
  renders unmounts it, and then nothing happens any more.  Formats of dates, collation and the text of the browser's type errors
  are parameters (\<open>page_env\<close>, \<open>browser\<close>).

  \<^bold>\<open>Not modelled.\<close>  The Go services, but for the routing in \<open>Ctl_Routes\<close>; the generated bundle of the controller UI; \<open>main.tsx\<close>, \<open>theme.ts\<close> and the
  build configuration, which hold no logic; the inside of React, MUI, recharts and the router beyond what is said
  above; layout, styles and focus outside the menu; the clipboard; going back from the first entry of the
  history, and reloading the document other than for the theme.
\<close>

end
